(* ===== verification/Prelude.thy ===== *)
theory Prelude
  imports Main "HOL-Library.Word"
begin

text \<open>
  Shared vocabulary of the development: the names of the model's basic types, the
  theorem collections the component theories feed, and the few list, option and word
  facts more than one component needs.

  \<^item> A Go \<open>uuid.UUID\<close> is an opaque identifier; only equality and the nil value are used,
    so it is a natural number with \<open>uuid_nil\<close> as the zero UUID.
  \<^item> A Go \<open>time.Time\<close> is the number of nanoseconds since the Unix epoch; the zero
    \<open>time.Time\<close> is \<open>time_zero\<close>.
  \<^item> A Go \<open>int64\<close> (and \<open>int\<close>, which is 64 bits wide on the build target) is a
    \<open>64 word\<close>: addition, subtraction and multiplication wrap, comparisons are the signed
    ones (\<open>sint\<close>).
  \<^item> A Go string is the list of its bytes.
\<close>

type_synonym uuid = nat
type_synonym time = int
type_synonym int64 = "64 word"

definition uuid_nil :: uuid where
  "uuid_nil = 0"

text \<open>The zero \<open>time.Time\<close> is January 1, year 1, which is before the Unix epoch.\<close>

definition time_zero :: time where
  "time_zero = -62135596800 * 1000000000"

text \<open>The literal for pieces, U+0448 U+0442, in UTF-8.\<close>

definition unit_pieces :: string where
  "unit_pieces = [CHR 0xD1, CHR 0x88, CHR 0xD1, CHR 0x82]"

named_theorems model_defs \<open>definitions of the model's record-building helpers\<close>
named_theorems tx_simps \<open>how a transaction and its statements evaluate\<close>

text \<open>Signed comparisons of Go, read through \<open>sint\<close>.\<close>

definition slt :: "int64 \<Rightarrow> int64 \<Rightarrow> bool" where
  "slt a b \<longleftrightarrow> sint a < sint b"

definition sle :: "int64 \<Rightarrow> int64 \<Rightarrow> bool" where
  "sle a b \<longleftrightarrow> sint a \<le> sint b"

lemma sint64_range: "- (2 ^ 63) \<le> sint (a::int64)" "sint (a::int64) < 2 ^ 63"
  using sint_ge [of a] sint_lt [of a] by simp_all

lemma sint64_plus:
  assumes "- (2 ^ 63) \<le> sint a + sint b" and "sint a + sint b < 2 ^ 63"
  shows "sint (a + b :: int64) = sint a + sint b"
  using assms by (simp add: sint_word_ariths signed_take_bit_int_eq_self)

lemma sint64_minus:
  assumes "- (2 ^ 63) \<le> sint a - sint b" and "sint a - sint b < 2 ^ 63"
  shows "sint (a - b :: int64) = sint a - sint b"
  using assms by (simp add: sint_word_ariths signed_take_bit_int_eq_self)

lemma sint64_mult:
  assumes "- (2 ^ 63) \<le> sint a * sint b" and "sint a * sint b < 2 ^ 63"
  shows "sint (a * b :: int64) = sint a * sint b"
  using assms by (simp add: sint_word_ariths signed_take_bit_int_eq_self)

lemma sint64_of_int:
  assumes "- (2 ^ 63) \<le> n" and "n < 2 ^ 63"
  shows "sint (word_of_int n :: int64) = n"
  using assms by (simp add: sint_sbintrunc' signed_take_bit_int_eq_self)

text \<open>The mathematical value of a sum of 64-bit values whose signed sum stays in range.\<close>

lemma sint64_sum_list:
  fixes f :: "'a \<Rightarrow> int64"
  assumes "\<And>x. x \<in> set xs \<Longrightarrow> 0 \<le> sint (f x)"
    and "(\<Sum>x\<leftarrow>xs. sint (f x)) < 2 ^ 63"
  shows "sint (\<Sum>x\<leftarrow>xs. f x) = (\<Sum>x\<leftarrow>xs. sint (f x))"
  using assms
proof (induction xs)
  case Nil
  then show ?case by simp
next
  case (Cons x xs)
  have nn: "0 \<le> (\<Sum>x\<leftarrow>xs. sint (f x))"
    using Cons.prems(1) by (auto intro!: sum_list_nonneg)
  have hd: "0 \<le> sint (f x)"
    using Cons.prems(1) by simp
  have "(\<Sum>x\<leftarrow>xs. sint (f x)) < 2 ^ 63"
    using Cons.prems(2) hd by (simp only: list.map sum_list.Cons)
  with Cons.prems(1) have IH: "sint (\<Sum>x\<leftarrow>xs. f x) = (\<Sum>x\<leftarrow>xs. sint (f x))"
    by (intro Cons.IH) simp_all
  show ?case
    using Cons.prems(2) nn hd IH by (simp only: list.map sum_list.Cons) (subst sint64_plus; simp)
qed

end
