(* ===== verification/Rbac.thy ===== *)
theory Rbac
  imports Prelude
begin

text \<open>
  \<open>internal/core/auth/rbac.go\<close>: the permission table of the roles, \<open>HasPermission\<close> and the
  decision of the \<open>RequirePermission\<close> middleware.
\<close>

definition perms_owner :: "string list" where
  "perms_owner =
    [''entity.create'', ''entity.read'', ''entity.update'', ''entity.delete'',
     ''catalog.view'', ''catalog.manage'',
     ''warehouse.receive'', ''warehouse.ship'', ''warehouse.transfer'', ''warehouse.adjust'',
     ''order.create'', ''order.update'', ''order.cancel'', ''order.view'',
     ''hr.manage'', ''hr.view'',
     ''finance.manage'', ''finance.view'',
     ''logistics.manage'', ''logistics.view'',
     ''crm.view'', ''crm.manage'',
     ''import.manage'', ''process.manage'', ''settings.manage'', ''members.manage'',
     ''banking.manage'', ''messenger.view'', ''messenger.send'']"

definition perms_admin :: "string list" where
  "perms_admin =
    [''entity.create'', ''entity.read'', ''entity.update'', ''entity.delete'',
     ''catalog.view'', ''catalog.manage'',
     ''warehouse.receive'', ''warehouse.ship'', ''warehouse.transfer'', ''warehouse.adjust'',
     ''order.create'', ''order.update'', ''order.cancel'', ''order.view'',
     ''hr.manage'', ''hr.view'',
     ''finance.manage'', ''finance.view'',
     ''logistics.manage'', ''logistics.view'',
     ''crm.view'', ''crm.manage'',
     ''import.manage'', ''process.manage'', ''settings.manage'', ''members.manage'',
     ''banking.manage'', ''messenger.view'', ''messenger.send'']"

definition perms_manager :: "string list" where
  "perms_manager =
    [''entity.create'', ''entity.read'', ''entity.update'',
     ''catalog.view'', ''catalog.manage'',
     ''warehouse.receive'', ''warehouse.ship'', ''warehouse.transfer'', ''warehouse.adjust'',
     ''order.create'', ''order.update'', ''order.cancel'', ''order.view'',
     ''finance.view'',
     ''logistics.manage'', ''logistics.view'',
     ''crm.view'', ''crm.manage'',
     ''messenger.view'', ''messenger.send'']"

definition perms_operator :: "string list" where
  "perms_operator =
    [''entity.read'', ''catalog.view'', ''warehouse.receive'', ''warehouse.ship'',
     ''order.view'', ''messenger.view'', ''messenger.send'']"

definition perms_viewer :: "string list" where
  "perms_viewer = [''entity.read'', ''catalog.view'', ''order.view'', ''messenger.view'']"

definition rolePermissions :: "string \<Rightarrow> string list option" where
  "rolePermissions role =
    (if role = ''owner'' then Some perms_owner
     else if role = ''admin'' then Some perms_admin
     else if role = ''manager'' then Some perms_manager
     else if role = ''operator'' then Some perms_operator
     else if role = ''viewer'' then Some perms_viewer
     else None)"

text \<open>\<open>strings.SplitN(required, ".", 2)\<close>: the part before the first dot, when there is one.\<close>

fun before_dot :: "string \<Rightarrow> string option" where
  "before_dot [] = None"
| "before_dot (c # cs) =
     (if c = CHR ''.'' then Some [] else (case before_dot cs of None \<Rightarrow> None | Some p \<Rightarrow> Some (c # p)))"

definition HasPermission :: "string \<Rightarrow> string list \<Rightarrow> string \<Rightarrow> bool" where
  "HasPermission role customPerms required =
    (if required \<in> set customPerms then True
     else (case rolePermissions role of
         None \<Rightarrow> False
       | Some perms \<Rightarrow>
           if required \<in> set perms then True
           else (case before_dot required of
               None \<Rightarrow> False
             | Some p \<Rightarrow> p @ ''.*'' \<in> set perms)))"

datatype decision = Pass | Reject int

text \<open>The middleware: 401 without a role in the context, 403 without the permission.\<close>

definition RequirePermission :: "string \<Rightarrow> string \<Rightarrow> string list \<Rightarrow> decision" where
  "RequirePermission required role customPerms =
    (if role = '''' then Reject 401
     else if \<not> HasPermission role customPerms required then Reject 403
     else Pass)"

text \<open>No role of the table holds a wildcard, so the wildcard branch grants nothing.\<close>

lemma no_wildcards:
  assumes "rolePermissions role = Some perms" and "p @ ''.*'' \<in> set perms"
  shows False
proof -
  have "\<forall>q \<in> set perms. last q \<noteq> CHR ''*''"
    using assms(1) by (auto simp: rolePermissions_def perms_owner_def perms_admin_def
        perms_manager_def perms_operator_def perms_viewer_def split: if_splits)
  with assms(2) show False by fastforce
qed

lemma HasPermission_iff:
  "HasPermission role customPerms required \<longleftrightarrow>
     required \<in> set customPerms
     \<or> (\<exists>perms. rolePermissions role = Some perms \<and> required \<in> set perms)"
  by (auto simp: HasPermission_def split: option.splits dest: no_wildcards)

lemma role_perms_mono:
  "set perms_viewer \<subseteq> set perms_operator \<and> set perms_operator \<subseteq> set perms_manager
    \<and> set perms_manager \<subseteq> set perms_admin \<and> set perms_admin = set perms_owner"
  by (simp add: perms_viewer_def perms_operator_def perms_manager_def perms_admin_def perms_owner_def)

text \<open>A custom permission only adds: the roles are never narrowed by it.\<close>

lemma HasPermission_custom_mono:
  "set cs \<subseteq> set cs' \<Longrightarrow> HasPermission role cs required \<Longrightarrow> HasPermission role cs' required"
  by (auto simp: HasPermission_iff)

section \<open>Properties\<close>

text \<open>C14: A request passes the permission check exactly when a role is known and the permission is
  one of the member's own or of the role's table; every role has the permissions of the roles
  below it, so the owner passes wherever any role of the table does.\<close>

theorem RequirePermission_decides:
  "(RequirePermission required role custom = Pass \<longleftrightarrow>
      role \<noteq> '''' \<and> (required \<in> set custom
        \<or> (\<exists>perms. rolePermissions role = Some perms \<and> required \<in> set perms)))
   \<and> (RequirePermission required role custom = Pass \<and> rolePermissions role \<noteq> None
        \<longrightarrow> RequirePermission required ''owner'' custom = Pass)"
  using role_perms_mono
  by (fastforce simp: RequirePermission_def HasPermission_iff rolePermissions_def split: if_splits)

theorem RequirePermission_decides_witness:
  "RequirePermission ''order.create'' ''owner'' [] = Pass"
proof -
  have "RequirePermission ''order.create'' ''manager'' [] = Pass \<and> rolePermissions ''manager'' \<noteq> None"
    by (simp add: RequirePermission_def HasPermission_def rolePermissions_def perms_manager_def)
  then show ?thesis
    using RequirePermission_decides [of "''order.create''" "''manager''" "[]"] by blast
qed

end
