(* ===== verification/Float64.thy ===== *)
theory Float64
  imports Complex_Main Prelude "HOL-Library.Log_Nat"
begin

text \<open>
  Go's \<open>float64\<close>: IEEE 754 binary64, as far as the program uses it. A value is a finite
  rational, an infinity or NaN; an operation is the exact rational operation followed by
  rounding to nearest, ties to even (\<open>rnd\<close>), with overflow to an infinity. The two zeros
  are one value here: no operation of the program tells them apart.

  \<open>rnd\<close> computes: \<open>expo x\<close> is the binary exponent of \<open>x\<close>, found from the bit lengths of
  numerator and denominator, \<open>quantum x\<close> the spacing of the doubles around \<open>x\<close> (never
  below \<open>2 powi -1074\<close>, which gives gradual underflow). The lemmas are the ones the
  components rest on: rounding is monotone, exact on integers below \<open>2 ^ 53\<close>, idempotent,
  and off by at most half a quantum.
\<close>

section \<open>Rounding to an integer\<close>

definition rhe :: "rat \<Rightarrow> int" where
  "rhe x = (let f = \<lfloor>x\<rfloor>; d = x - of_int f
    in if d < 1 / 2 then f else if d > 1 / 2 then f + 1 else if even f then f else f + 1)"

text \<open>Go's \<open>math.Round\<close> on a finite value: halves away from zero.\<close>

definition rha :: "rat \<Rightarrow> int" where
  "rha x = (if 0 \<le> x then \<lfloor>x + 1 / 2\<rfloor> else - \<lfloor>- x + 1 / 2\<rfloor>)"

lemma rhe_of_int [simp]: "rhe (of_int n) = n"
  by (simp add: rhe_def)

lemma rha_of_int [simp]: "rha (of_int n) = n"
  by (simp add: rha_def floor_add_int [symmetric]) (simp add: floor_eq_iff)

lemma rhe_error: "\<bar>of_int (rhe x) - x\<bar> \<le> 1 / 2"
proof -
  have "of_int \<lfloor>x\<rfloor> \<le> x" "x < of_int \<lfloor>x\<rfloor> + 1" by linarith+
  then show ?thesis
    unfolding rhe_def Let_def by (auto simp: abs_le_iff)
qed

lemma rha_error: "\<bar>of_int (rha x) - x\<bar> \<le> 1 / 2"
proof -
  have "of_int \<lfloor>x + 1 / 2\<rfloor> \<le> x + 1 / 2" "x + 1 / 2 < of_int \<lfloor>x + 1 / 2\<rfloor> + 1"
    "of_int \<lfloor>- x + 1 / 2\<rfloor> \<le> - x + 1 / 2" "- x + 1 / 2 < of_int \<lfloor>- x + 1 / 2\<rfloor> + 1"
    by linarith+
  then show ?thesis
    unfolding rha_def by (auto simp only: abs_le_iff of_int_minus split: if_splits)
qed

lemma rhe_mono: "x \<le> y \<Longrightarrow> rhe x \<le> rhe y"
proof -
  assume xy: "x \<le> y"
  then have fl: "\<lfloor>x\<rfloor> \<le> \<lfloor>y\<rfloor>" by (rule floor_mono)
  show ?thesis
  proof (cases "\<lfloor>x\<rfloor> = \<lfloor>y\<rfloor>")
    case True
    with xy show ?thesis unfolding rhe_def Let_def by auto
  next
    case False
    with fl show ?thesis unfolding rhe_def Let_def by auto
  qed
qed

lemma rha_mono: "x \<le> y \<Longrightarrow> rha x \<le> rha y"
proof -
  assume xy: "x \<le> y"
  consider "0 \<le> x" | "x < 0" "0 \<le> y" | "y < 0" using xy by linarith
  then show ?thesis
  proof cases
    case 1
    with xy show ?thesis by (simp add: rha_def floor_mono)
  next
    case 2
    then have "rha x \<le> 0" "0 \<le> rha y" by (simp_all add: rha_def)
    then show ?thesis by (rule order_trans)
  next
    case 3
    with xy show ?thesis by (simp add: rha_def floor_mono)
  qed
qed

lemma rhe_minus [simp]: "rhe (- x) = - rhe x"
proof (cases "of_int \<lfloor>x\<rfloor> = x")
  case True
  then obtain n where "x = of_int n" by metis
  then show ?thesis using rhe_of_int [of "- n"] by simp
next
  case False
  then have lt: "of_int \<lfloor>x\<rfloor> < x"
    using of_int_floor_le [of x] by linarith
  have "x < of_int \<lfloor>x\<rfloor> + 1" by linarith
  with lt have fl: "\<lfloor>- x\<rfloor> = - \<lfloor>x\<rfloor> - 1"
    by (intro floor_unique) simp_all
  have "even (- \<lfloor>x\<rfloor> - 1) \<longleftrightarrow> odd \<lfloor>x\<rfloor>" by simp
  with False show ?thesis
    unfolding rhe_def Let_def fl by (auto simp del: minus_diff_eq)
qed

lemma rhe_le_int: "x \<le> of_int n \<Longrightarrow> rhe x \<le> n"
  using rhe_mono [of x "of_int n"] by simp

lemma rhe_ge_int: "of_int n \<le> x \<Longrightarrow> n \<le> rhe x"
  using rhe_mono [of "of_int n" x] by simp

section \<open>The binary exponent\<close>

definition expo :: "rat \<Rightarrow> int" where
  "expo x = (let (p, q) = quotient_of \<bar>x\<bar>; e = bitlen p - bitlen q
    in if 2 powi e \<le> \<bar>x\<bar> then e else e - 1)"

lemma bitlen_powi:
  assumes "0 < n"
  shows "2 powi (bitlen n - 1) \<le> (of_int n :: rat)" and "(of_int n :: rat) < 2 powi bitlen n"
proof -
  have b: "0 < bitlen n"
    using assms bitlen_nonneg [of n] by (simp add: bitlen_eq_zero_iff order_less_le)
  have "of_int (2 ^ nat (bitlen n - 1)) \<le> (of_int n :: rat)"
    and "(of_int n :: rat) < of_int (2 ^ nat (bitlen n))"
    using bitlen_bounds [OF assms] by (simp_all only: of_int_le_iff of_int_less_iff)
  then show "2 powi (bitlen n - 1) \<le> (of_int n :: rat)" "(of_int n :: rat) < 2 powi bitlen n"
    using b by (simp_all add: power_int_def)
qed

lemma expo_bounds:
  assumes "x \<noteq> 0"
  shows "2 powi expo x \<le> \<bar>x\<bar>" and "\<bar>x\<bar> < 2 powi (expo x + 1)"
proof -
  obtain p q where pq: "quotient_of \<bar>x\<bar> = (p, q)" by fastforce
  have q: "0 < q" using quotient_of_denom_pos [OF pq] .
  have x: "\<bar>x\<bar> = of_int p / of_int q" using quotient_of_div [OF pq] .
  have "0 < \<bar>x\<bar>" using assms by simp
  then have p: "0 < p" using q by (simp add: x zero_less_divide_iff)
  let ?e = "bitlen p - bitlen q"
  note P = bitlen_powi [OF p] and Q = bitlen_powi [OF q]
  have q': "(0::rat) < of_int q" using q by simp
  have lo: "2 powi (?e - 1) \<le> \<bar>x\<bar>"
  proof -
    have "2 powi (?e - 1) * of_int q \<le> (2 powi (?e - 1) * 2 powi bitlen q :: rat)"
      using Q(2) by (intro mult_left_mono) auto
    also have "\<dots> = 2 powi (bitlen p - 1)"
      by (simp flip: power_int_add)
    finally show ?thesis using P(1) q' by (simp add: x pos_le_divide_eq)
  qed
  have hi: "\<bar>x\<bar> < 2 powi (?e + 1)"
  proof -
    have "(2 powi bitlen p :: rat) = 2 powi (?e + 1) * 2 powi (bitlen q - 1)"
      by (simp flip: power_int_add)
    also have "\<dots> \<le> 2 powi (?e + 1) * of_int q"
      using Q(1) by (intro mult_left_mono) auto
    finally show ?thesis using P(2) q' by (simp add: x pos_divide_less_eq)
  qed
  show "2 powi expo x \<le> \<bar>x\<bar>" "\<bar>x\<bar> < 2 powi (expo x + 1)"
    using lo hi by (auto simp: expo_def pq Let_def)
qed

lemma powi2_less_iff: "(2::rat) powi a < 2 powi b \<longleftrightarrow> a < b"
  using power_int_strict_increasing [of a b "2::rat"] power_int_increasing [of b a "2::rat"]
  by (metis less_le_not_le not_le one_less_numeral_iff one_le_numeral semiring_norm(76))

lemma expo_less: "x \<noteq> 0 \<Longrightarrow> \<bar>x\<bar> < 2 powi k \<Longrightarrow> expo x < k"
  using expo_bounds(1) [of x] powi2_less_iff [of "expo x" k] by linarith

lemma expo_mono: "x \<noteq> 0 \<Longrightarrow> \<bar>x\<bar> \<le> \<bar>y\<bar> \<Longrightarrow> expo x \<le> expo y"
proof -
  assume x: "x \<noteq> 0" and xy: "\<bar>x\<bar> \<le> \<bar>y\<bar>"
  then have "y \<noteq> 0" by auto
  from expo_bounds(2) [OF this] xy have "\<bar>x\<bar> < 2 powi (expo y + 1)" by linarith
  with x have "expo x < expo y + 1" by (rule expo_less)
  then show ?thesis by simp
qed

lemma expo_minus [simp]: "expo (- x) = expo x"
  by (simp add: expo_def)

section \<open>Rounding to binary64\<close>

definition qexp :: "rat \<Rightarrow> int" where
  "qexp x = max (expo x - 52) (- 1074)"

definition quantum :: "rat \<Rightarrow> rat" where
  "quantum x = 2 powi qexp x"

definition rnd :: "rat \<Rightarrow> rat" where
  "rnd x = (if x = 0 then 0 else of_int (rhe (x / quantum x)) * quantum x)"

lemma quantum_pos [simp]: "0 < quantum x"
  by (simp add: quantum_def)

lemma quantum_nonneg [simp]: "0 \<le> quantum x"
  by (simp add: less_imp_le)

lemma quantum_neq_0 [simp]: "quantum x \<noteq> 0"
  using quantum_pos [of x] by linarith

lemma rnd_0 [simp]: "rnd 0 = 0"
  by (simp add: rnd_def)

lemma rnd_minus [simp]: "rnd (- x) = - rnd x"
  by (simp add: rnd_def quantum_def qexp_def)

lemma rnd_error: "\<bar>rnd x - x\<bar> \<le> quantum x / 2"
proof (cases "x = 0")
  case True
  then show ?thesis using quantum_pos [of x] by (simp add: less_imp_le)
next
  case False
  have "\<bar>of_int (rhe (x / quantum x)) - x / quantum x\<bar> * quantum x \<le> 1 / 2 * quantum x"
    using rhe_error [of "x / quantum x"] by (intro mult_right_mono) auto
  moreover have "\<bar>of_int (rhe (x / quantum x)) - x / quantum x\<bar> * quantum x
      = \<bar>(of_int (rhe (x / quantum x)) - x / quantum x) * quantum x\<bar>"
    by (simp add: abs_mult)
  moreover have "(of_int (rhe (x / quantum x)) - x / quantum x) * quantum x = rnd x - x"
    using False quantum_pos [of x] by (simp add: rnd_def left_diff_distrib)
  ultimately show ?thesis by simp
qed

lemma powi2_of_int:
  assumes "b \<le> a"
  shows "(2::rat) powi a / 2 powi b = of_int (2 ^ nat (a - b))"
proof -
  have "(2::rat) powi a / 2 powi b = 2 powi (a - b)"
    by (simp add: power_int_diff)
  then show ?thesis using assms by (simp add: power_int_def)
qed

text \<open>A power of two no smaller than the quantum stays between its neighbours.\<close>

lemma rnd_le_powi:
  assumes "0 < x" and "x \<le> 2 powi k" and "qexp x \<le> k"
  shows "rnd x \<le> 2 powi k"
proof -
  let ?n = "2 ^ nat (k - qexp x) :: int"
  have k: "2 powi k = of_int ?n * quantum x"
    using powi2_of_int [OF assms(3)] by (simp add: quantum_def field_simps)
  have "x / quantum x \<le> of_int ?n"
    using assms(2) by (simp add: k divide_le_eq)
  then have "rhe (x / quantum x) \<le> ?n" by (rule rhe_le_int)
  then have "(of_int (rhe (x / quantum x)) :: rat) \<le> of_int ?n" by (simp only: of_int_le_iff)
  then have "of_int (rhe (x / quantum x)) * quantum x \<le> of_int ?n * quantum x"
    by (rule mult_right_mono) (simp add: less_imp_le)
  with assms(1) k show ?thesis by (simp add: rnd_def)
qed

lemma rnd_ge_powi:
  assumes "0 < x" and "2 powi k \<le> x" and "qexp x \<le> k"
  shows "2 powi k \<le> rnd x"
proof -
  let ?n = "2 ^ nat (k - qexp x) :: int"
  have k: "2 powi k = of_int ?n * quantum x"
    using powi2_of_int [OF assms(3)] by (simp add: quantum_def field_simps)
  have "of_int ?n \<le> x / quantum x"
    using assms(2) by (simp add: k pos_le_divide_eq)
  then have "?n \<le> rhe (x / quantum x)" by (rule rhe_ge_int)
  then have "(of_int ?n :: rat) \<le> of_int (rhe (x / quantum x))" by (simp only: of_int_le_iff)
  then have "of_int ?n * quantum x \<le> of_int (rhe (x / quantum x)) * quantum x"
    by (rule mult_right_mono) (simp add: less_imp_le)
  with assms(1) k show ?thesis by (simp add: rnd_def)
qed

lemma rnd_nonneg: "0 \<le> x \<Longrightarrow> 0 \<le> rnd x"
  using rhe_ge_int [of 0 "x / quantum x"] by (simp add: rnd_def less_imp_le)

lemma rnd_mono_pos:
  assumes "0 < x" and "x \<le> y"
  shows "rnd x \<le> rnd y"
proof (cases "qexp x = qexp y")
  case True
  then have "quantum x = quantum y" by (simp add: quantum_def)
  with assms have "rhe (x / quantum x) \<le> rhe (y / quantum y)"
    by (intro rhe_mono) (simp add: divide_right_mono)
  with assms \<open>quantum x = quantum y\<close> show ?thesis
    by (auto simp: rnd_def intro!: mult_right_mono less_imp_le)
next
  case False
  have e: "expo x \<le> expo y" using assms by (intro expo_mono) auto
  with False have lt: "expo x < expo y" "- 1074 < expo y - 52" "qexp y = expo y - 52"
    by (auto simp: qexp_def max_def split: if_splits)
  have y0: "y \<noteq> 0" and y: "0 < y" using assms by auto
  have "x < 2 powi (expo x + 1)" using expo_bounds(2) [of x] assms by simp
  also have "\<dots> \<le> (2::rat) powi expo y" using lt by (intro power_int_increasing) auto
  finally have "rnd x \<le> 2 powi expo y"
    using assms lt by (intro rnd_le_powi) (auto simp: qexp_def)
  also have "\<dots> \<le> rnd y"
    using expo_bounds(1) [OF y0] y lt by (intro rnd_ge_powi) auto
  finally show ?thesis .
qed

lemma rnd_mono: "x \<le> y \<Longrightarrow> rnd x \<le> rnd y"
proof -
  assume xy: "x \<le> y"
  consider "0 < x" | "x \<le> 0" "0 \<le> y" | "y < 0" using xy by linarith
  then show ?thesis
  proof cases
    case 1
    with xy show ?thesis by (rule rnd_mono_pos [rotated])
  next
    case 2
    then show ?thesis using rnd_nonneg [of "- x"] rnd_nonneg [of y] by simp
  next
    case 3
    with xy have "rnd (- y) \<le> rnd (- x)" by (intro rnd_mono_pos) auto
    then show ?thesis by simp
  qed
qed

text \<open>A dyadic with a significand of at most 53 bits is a double, and rounding leaves it alone.\<close>

lemma rnd_exact:
  assumes "\<bar>m\<bar> < 2 ^ 53" and "- 1074 \<le> k"
  shows "rnd (of_int m * 2 powi k) = of_int m * 2 powi k"
proof (cases "m = 0")
  case True
  then show ?thesis by simp
next
  case False
  let ?x = "of_int m * 2 powi k :: rat"
  have "\<bar>?x\<bar> = of_int \<bar>m\<bar> * 2 powi k" by (simp add: abs_mult)
  also have "\<dots> < of_int (2 ^ 53) * 2 powi k"
    using assms(1) by (intro mult_strict_right_mono) (simp_all only: of_int_less_iff, simp)
  also have "\<dots> = (2::rat) powi (53 + k)"
    by (simp add: power_int_add)
  finally have "expo ?x < 53 + k"
    using False by (intro expo_less) auto
  then have le: "qexp ?x \<le> k" using assms(2) by (simp add: qexp_def)
  have "?x / quantum ?x = of_int m * (2 powi k / 2 powi qexp ?x)"
    by (simp add: quantum_def)
  also have "\<dots> = of_int (m * 2 ^ nat (k - qexp ?x))"
    by (simp add: powi2_of_int [OF le])
  finally have q: "?x / quantum ?x = of_int (m * 2 ^ nat (k - qexp ?x))" .
  have "rnd ?x = of_int (rhe (?x / quantum ?x)) * quantum ?x"
    using False by (simp add: rnd_def)
  also have "\<dots> = ?x / quantum ?x * quantum ?x"
    by (simp only: q rhe_of_int)
  also have "\<dots> = ?x"
    using quantum_pos [of ?x] by simp
  finally show ?thesis .
qed

lemma rnd_of_int [simp]: "\<bar>n\<bar> < 2 ^ 53 \<Longrightarrow> rnd (of_int n) = of_int n"
  using rnd_exact [of n 0] by simp

text \<open>The error below a magnitude bound: half the spacing of the doubles there.\<close>

lemma rnd_error_below:
  assumes "\<bar>x\<bar> < 2 powi k" and "- 1021 \<le> k"
  shows "\<bar>rnd x - x\<bar> \<le> 2 powi (k - 54)"
proof (cases "x = 0")
  case True
  then show ?thesis by simp
next
  case False
  then have "expo x < k" using assms(1) by (rule expo_less)
  then have "qexp x \<le> k - 53" using assms(2) by (simp add: qexp_def)
  then have "quantum x \<le> 2 powi (k - 53)"
    unfolding quantum_def by (intro power_int_increasing) auto
  moreover have "(2::rat) powi (k - 53) = 2 * 2 powi (k - 54)"
    using power_int_add [of "2::rat" 1 "k - 54"] by simp
  ultimately show ?thesis using rnd_error [of x] by linarith
qed

section \<open>Values and operations\<close>

datatype f64 = Fin rat | Inf bool | NaN

text \<open>\<open>Inf True\<close> is the negative infinity.\<close>

definition f64_round :: "rat \<Rightarrow> f64" where
  "f64_round x = (let y = rnd x in if 2 ^ 1024 \<le> \<bar>y\<bar> then Inf (y < 0) else Fin y)"

fun fneg :: "f64 \<Rightarrow> f64" where
  "fneg (Fin a) = Fin (- a)"
| "fneg (Inf s) = Inf (\<not> s)"
| "fneg NaN = NaN"

fun fadd :: "f64 \<Rightarrow> f64 \<Rightarrow> f64" where
  "fadd (Fin a) (Fin b) = f64_round (a + b)"
| "fadd NaN _ = NaN"
| "fadd _ NaN = NaN"
| "fadd (Inf s) (Inf t) = (if s = t then Inf s else NaN)"
| "fadd (Inf s) (Fin _) = Inf s"
| "fadd (Fin _) (Inf s) = Inf s"

definition fsub :: "f64 \<Rightarrow> f64 \<Rightarrow> f64" where
  "fsub a b = fadd a (fneg b)"

fun fmul :: "f64 \<Rightarrow> f64 \<Rightarrow> f64" where
  "fmul (Fin a) (Fin b) = f64_round (a * b)"
| "fmul NaN _ = NaN"
| "fmul _ NaN = NaN"
| "fmul (Inf s) (Inf t) = Inf (s \<noteq> t)"
| "fmul (Inf s) (Fin b) = (if b = 0 then NaN else Inf (s \<noteq> (b < 0)))"
| "fmul (Fin a) (Inf t) = (if a = 0 then NaN else Inf ((a < 0) \<noteq> t))"

text \<open>Division by zero takes the divisor for the positive zero.\<close>

fun fdiv :: "f64 \<Rightarrow> f64 \<Rightarrow> f64" where
  "fdiv (Fin a) (Fin b) =
     (if b = 0 then (if a = 0 then NaN else Inf (a < 0)) else f64_round (a / b))"
| "fdiv NaN _ = NaN"
| "fdiv _ NaN = NaN"
| "fdiv (Inf _) (Inf _) = NaN"
| "fdiv (Inf s) (Fin b) = Inf (s \<noteq> (b < 0))"
| "fdiv (Fin _) (Inf _) = Fin 0"

fun fless :: "f64 \<Rightarrow> f64 \<Rightarrow> bool" where
  "fless (Fin a) (Fin b) = (a < b)"
| "fless NaN _ = False"
| "fless _ NaN = False"
| "fless (Inf s) (Inf t) = (s \<and> \<not> t)"
| "fless (Inf s) (Fin _) = s"
| "fless (Fin _) (Inf t) = (\<not> t)"

definition feq :: "f64 \<Rightarrow> f64 \<Rightarrow> bool" where
  "feq a b \<longleftrightarrow> a \<noteq> NaN \<and> a = b"

definition fle :: "f64 \<Rightarrow> f64 \<Rightarrow> bool" where
  "fle a b \<longleftrightarrow> fless a b \<or> feq a b"

text \<open>\<open>math.Round\<close>; the result of rounding a double to an integer is a double.\<close>

fun f64_Round :: "f64 \<Rightarrow> f64" where
  "f64_Round (Fin a) = Fin (of_int (rha a))"
| "f64_Round x = x"

text \<open>The conversion \<open>float64(n)\<close> of an integer.\<close>

definition f64_of_int :: "int \<Rightarrow> f64" where
  "f64_of_int n = f64_round (of_int n)"

definition f64_of_int64 :: "int64 \<Rightarrow> f64" where
  "f64_of_int64 w = f64_of_int (sint w)"

text \<open>
  The conversion \<open>int64(x)\<close>: truncation towards zero. Out of range the language leaves the
  result to the implementation; on amd64 it is the smallest \<open>int64\<close>.
\<close>

definition trunc_rat :: "rat \<Rightarrow> int" where
  "trunc_rat x = (if 0 \<le> x then \<lfloor>x\<rfloor> else - \<lfloor>- x\<rfloor>)"

fun int64_of_f64 :: "f64 \<Rightarrow> int64" where
  "int64_of_f64 (Fin a) =
     (let n = trunc_rat a
      in if - (2 ^ 63) \<le> n \<and> n < 2 ^ 63 then word_of_int n else word_of_int (- (2 ^ 63)))"
| "int64_of_f64 _ = word_of_int (- (2 ^ 63))"

definition f64_zero :: f64 where
  "f64_zero = Fin 0"

lemma trunc_rat_of_int [simp]: "trunc_rat (of_int n) = n"
  by (simp add: trunc_rat_def)

lemma f64_round_small: "\<bar>rnd x\<bar> < 2 ^ 1024 \<Longrightarrow> f64_round x = Fin (rnd x)"
  by (simp add: f64_round_def)

lemma f64_round_0 [simp]: "f64_round 0 = Fin 0"
  by (simp add: f64_round_def)

lemma fsub_Fin [simp]: "fsub (Fin a) (Fin b) = f64_round (a - b)"
  by (simp add: fsub_def)

lemma feq_Fin [simp]: "feq (Fin a) (Fin b) \<longleftrightarrow> a = b"
  by (simp add: feq_def)

lemma fle_Fin [simp]: "fle (Fin a) (Fin b) \<longleftrightarrow> a \<le> b"
  by (auto simp: fle_def)

lemma two_pow_53_1024: "(2::rat) ^ 53 < 2 ^ 1024"
  by (rule power_strict_increasing) simp_all

text \<open>A value below \<open>2 powi k\<close> with \<open>k < 1024\<close> rounds to a finite double.\<close>

lemma f64_round_bounded:
  assumes "\<bar>x\<bar> \<le> 2 powi k" and "k < 1024"
  shows "f64_round x = Fin (rnd x)"
proof (cases "x = 0")
  case True
  then show ?thesis by simp
next
  case False
  have "\<bar>rnd x\<bar> = rnd \<bar>x\<bar>"
    using rnd_nonneg [of x] rnd_nonneg [of "- x"] by (cases "0 \<le> x") simp_all
  also have "\<dots> \<le> rnd (2 powi max k 0)"
    using assms(1) power_int_increasing [of k "max k 0" "2::rat"] by (intro rnd_mono) simp
  also have "\<dots> = 2 powi max k 0"
    using rnd_exact [of 1 "max k 0"] by simp
  also have "\<dots> < (2::rat) powi 1024"
    using assms(2) by (intro power_int_strict_increasing) auto
  also have "\<dots> = 2 ^ 1024"
    by (simp add: power_int_def)
  finally show ?thesis by (rule f64_round_small)
qed

lemma f64_of_int_small:
  assumes "\<bar>n\<bar> < 2 ^ 53"
  shows "f64_of_int n = Fin (of_int n)"
proof -
  have "\<bar>of_int n :: rat\<bar> < of_int (2 ^ 53)"
    using assms by (simp only: flip: of_int_abs)
  then have "\<bar>rnd (of_int n)\<bar> < 2 ^ 1024"
    using assms two_pow_53_1024 by simp
  then show ?thesis using assms by (simp add: f64_of_int_def f64_round_small)
qed

lemma f64_round_of_int: "\<bar>n\<bar> < 2 ^ 53 \<Longrightarrow> f64_round (of_int n) = Fin (of_int n)"
  using f64_of_int_small [of n] by (simp add: f64_of_int_def)

lemma f64_round_numeral [simp]:
  "(numeral k :: int) < 2 ^ 53 \<Longrightarrow> f64_round (numeral k) = Fin (numeral k)"
  using f64_round_of_int [of "numeral k"] by simp

lemma f64_round_1 [simp]: "f64_round 1 = Fin 1"
  using f64_round_of_int [of 1] by simp

lemma f64_round_neg_numeral [simp]:
  "(numeral k :: int) < 2 ^ 53 \<Longrightarrow> f64_round (- numeral k) = Fin (- numeral k)"
  using f64_round_of_int [of "- numeral k"] by simp

lemma powi2_minus_numeral: "(2::rat) powi (- numeral k) = 1 / 2 ^ numeral k"
  by (simp add: power_int_def power_divide)

lemma int64_of_f64_of_int:
  "- (2 ^ 63) \<le> n \<Longrightarrow> n < 2 ^ 63 \<Longrightarrow> int64_of_f64 (Fin (of_int n)) = word_of_int n"
  by simp

end
