(* ===== verification/Types.thy ===== *)
theory Types
  imports Prelude Float64
begin

text \<open>
  \<open>pkg/types\<close>: the shared domain records and the page request, and the JSON values the
  records carry (\<open>json.RawMessage\<close>).

  A JSON document is a tree. An integer number is kept apart from a floating one because Go
  writes an \<open>int64\<close> digit by digit; \<open>as_float\<close> is what decoding into \<open>any\<close> makes of a number
  (a \<open>float64\<close>). A UUID is written as its canonical string: it is a string to every reader,
  and \<open>uuid.Parse\<close> gives it back.
\<close>

datatype json =
    JNull
  | JBool bool
  | JInt int
  | JFloat f64
  | JStr string
  | JUuid uuid
  | JArr "json list"
  | JObj "(string \<times> json) list"

text \<open>The value of a member of an object, and the type assertions the code makes on it.\<close>

definition jget :: "string \<Rightarrow> json \<Rightarrow> json option" where
  "jget k j = (case j of JObj kvs \<Rightarrow> map_of kvs k | _ \<Rightarrow> None)"

fun as_float :: "json \<Rightarrow> f64 option" where
  "as_float (JInt n) = Some (f64_of_int n)"
| "as_float (JFloat x) = Some x"
| "as_float _ = None"

fun as_str :: "json \<Rightarrow> string option" where
  "as_str (JStr s) = Some s"
| "as_str _ = None"

fun as_arr :: "json \<Rightarrow> json list option" where
  "as_arr (JArr xs) = Some xs"
| "as_arr _ = None"

definition jnull_or :: "('a \<Rightarrow> json) \<Rightarrow> 'a option \<Rightarrow> json" where
  "jnull_or f x = (case x of None \<Rightarrow> JNull | Some v \<Rightarrow> f v)"

definition jint64 :: "int64 \<Rightarrow> json" where
  "jint64 w = JInt (sint w)"

text \<open>
  \<open>json.Marshal\<close> refuses a value with an infinity or a NaN in it; the callers drop the error
  and keep the nil bytes, which every reader takes for null.
\<close>

fun json_finite :: "json \<Rightarrow> bool" where
  "json_finite (JFloat x) = (case x of Fin _ \<Rightarrow> True | _ \<Rightarrow> False)"
| "json_finite (JArr xs) = (\<forall>x \<in> set xs. json_finite x)"
| "json_finite (JObj kvs) = (\<forall>kv \<in> set kvs. json_finite (snd kv))"
| "json_finite _ = True"

definition marshal :: "json \<Rightarrow> json" where
  "marshal j = (if json_finite j then j else JNull)"

text \<open>\<open>uuid.UUID.String\<close>: 32 hexadecimal digits in groups of 8, 4, 4, 4 and 12.\<close>

fun hex_digits :: "nat \<Rightarrow> nat \<Rightarrow> string" where
  "hex_digits 0 n = []"
| "hex_digits (Suc k) n = hex_digits k (n div 16) @
     [char_of (if n mod 16 < 10 then 48 + n mod 16 else 87 + n mod 16)]"

definition uuid_string :: "uuid \<Rightarrow> string" where
  "uuid_string u =
    (let s = hex_digits 32 u
     in take 8 s @ ''-'' @ take 4 (drop 8 s) @ ''-'' @ take 4 (drop 12 s) @ ''-''
        @ take 4 (drop 16 s) @ ''-'' @ drop 20 s)"

record event =
  ev_ID :: uuid
  ev_OrganizationID :: uuid
  ev_EntityID :: "uuid option"
  ev_Type :: string
  ev_Data :: json
  ev_ActorID :: "uuid option"
  ev_Timestamp :: time
  ev_Version :: int

record component =
  c_ID :: uuid
  c_EntityID :: uuid
  c_OrganizationID :: uuid
  c_Type :: string
  c_Data :: json
  c_Version :: int
  c_CreatedAt :: time
  c_UpdatedAt :: time

record entity =
  e_ID :: uuid
  e_OrganizationID :: uuid
  e_Kind :: string
  e_Name :: string
  e_Status :: string
  e_ParentID :: "uuid option"
  e_Meta :: "json option"
  e_SortOrder :: int
  e_CreatedAt :: time
  e_UpdatedAt :: time
  e_DeletedAt :: "time option"
  e_Components :: "component list"

record page_request =
  pr_Limit :: int
  pr_Offset :: int
  pr_Sort :: string
  pr_Order :: string

definition DefaultPageRequest :: page_request where
  "DefaultPageRequest = \<lparr>pr_Limit = 50, pr_Offset = 0, pr_Sort = ''created_at'', pr_Order = ''desc''\<rparr>"

text \<open>The five statements of \<open>Normalize\<close>, each on the result of the one before.\<close>

definition Normalize :: "page_request \<Rightarrow> page_request" where
  "Normalize p =
    (let p = (if pr_Limit p \<le> 0 then p\<lparr>pr_Limit := 50\<rparr> else p);
         p = (if pr_Limit p > 200 then p\<lparr>pr_Limit := 200\<rparr> else p);
         p = (if pr_Offset p < 0 then p\<lparr>pr_Offset := 0\<rparr> else p);
         p = (if pr_Sort p = '''' then p\<lparr>pr_Sort := ''created_at''\<rparr> else p)
     in (if pr_Order p \<noteq> ''asc'' then p\<lparr>pr_Order := ''desc''\<rparr> else p))"

lemma Normalize_eq:
  "Normalize p = p\<lparr>
     pr_Limit := (if pr_Limit p \<le> 0 then 50 else if 200 < pr_Limit p then 200 else pr_Limit p),
     pr_Offset := (if pr_Offset p < 0 then 0 else pr_Offset p),
     pr_Sort := (if pr_Sort p = '''' then ''created_at'' else pr_Sort p),
     pr_Order := (if pr_Order p \<noteq> ''asc'' then ''desc'' else pr_Order p)\<rparr>"
proof (cases p)
  case (fields l f s d)
  show ?thesis
    unfolding Normalize_def fields
    by (cases "l \<le> 0"; cases "200 < l"; cases "f < 0"; cases "s = ''''"; cases "d = ''asc''") simp_all
qed

lemma Normalize_bounds:
  "1 \<le> pr_Limit (Normalize p) \<and> pr_Limit (Normalize p) \<le> 200 \<and> 0 \<le> pr_Offset (Normalize p)
    \<and> pr_Sort (Normalize p) \<noteq> '''' \<and> pr_Order (Normalize p) \<in> {''asc'', ''desc''}"
  by (simp add: Normalize_eq)

lemma Normalize_idem: "Normalize (Normalize p) = Normalize p"
  by (cases p) (simp add: Normalize_eq)

section \<open>Properties\<close>

text \<open>Whatever page a client asks for, the normalized request is within bounds: between 1 and 200
  rows, no negative offset, a sort column and one of the two orders; normalizing again changes
  nothing.\<close>

lemma Normalize_in_bounds:
  "1 \<le> pr_Limit (Normalize p) \<and> pr_Limit (Normalize p) \<le> 200 \<and> 0 \<le> pr_Offset (Normalize p)
    \<and> pr_Sort (Normalize p) \<noteq> '''' \<and> pr_Order (Normalize p) \<in> {''asc'', ''desc''}
    \<and> Normalize (Normalize p) = Normalize p"
  using Normalize_bounds Normalize_idem by blast

end
