(* ===== verification/Errs.thy ===== *)
theory Errs
  imports Prelude
begin

text \<open>
  \<open>pkg/errs\<close>: typed application errors, the walk down an error's \<open>Unwrap\<close> chain, and the
  HTTP status an error is answered with; and the field errors of \<open>validation.go\<close>.

  An \<open>error\<close> value of the program is either an application error \<open>*errs.Error\<close> (its code,
  message and cause) or any other error, of which only the text and the wrapped error
  (\<open>fmt.Errorf\<close> with \<open>%w\<close>) are kept.
\<close>

datatype code =
    CodeBadRequest
  | CodeUnauthorized
  | CodeForbidden
  | CodeNotFound
  | CodeConflict
  | CodeUnprocessable
  | CodeLocked
  | CodeRateLimited
  | CodeInternal
  | CodeMaintenance
  | CodeGatewayTimeout

definition code_string :: "code \<Rightarrow> string" where
  "code_string c = (case c of
      CodeBadRequest \<Rightarrow> ''BAD_REQUEST''
    | CodeUnauthorized \<Rightarrow> ''UNAUTHORIZED''
    | CodeForbidden \<Rightarrow> ''FORBIDDEN''
    | CodeNotFound \<Rightarrow> ''NOT_FOUND''
    | CodeConflict \<Rightarrow> ''CONFLICT''
    | CodeUnprocessable \<Rightarrow> ''UNPROCESSABLE''
    | CodeLocked \<Rightarrow> ''LOCKED''
    | CodeRateLimited \<Rightarrow> ''RATE_LIMITED''
    | CodeInternal \<Rightarrow> ''INTERNAL_ERROR''
    | CodeMaintenance \<Rightarrow> ''MAINTENANCE''
    | CodeGatewayTimeout \<Rightarrow> ''GATEWAY_TIMEOUT'')"

datatype go_error =
    AppError code string "go_error option"
  | PlainError string "go_error option"

definition NewBadRequest :: "string \<Rightarrow> go_error" where
  "NewBadRequest m = AppError CodeBadRequest m None"

definition NewUnauthorized :: "string \<Rightarrow> go_error" where
  "NewUnauthorized m = AppError CodeUnauthorized m None"

definition NewForbidden :: "string \<Rightarrow> go_error" where
  "NewForbidden m = AppError CodeForbidden m None"

definition NewNotFound :: "string \<Rightarrow> go_error" where
  "NewNotFound m = AppError CodeNotFound m None"

definition NewConflict :: "string \<Rightarrow> go_error" where
  "NewConflict m = AppError CodeConflict m None"

definition NewInternal :: "string \<Rightarrow> go_error" where
  "NewInternal m = AppError CodeInternal m None"

definition NewUnprocessable :: "string \<Rightarrow> go_error" where
  "NewUnprocessable m = AppError CodeUnprocessable m None"

definition NewLocked :: "string \<Rightarrow> go_error" where
  "NewLocked m = AppError CodeLocked m None"

definition NewRateLimited :: "string \<Rightarrow> go_error" where
  "NewRateLimited m = AppError CodeRateLimited m None"

definition NewGatewayTimeout :: "string \<Rightarrow> go_error" where
  "NewGatewayTimeout m = AppError CodeGatewayTimeout m None"

definition Wrap :: "go_error \<Rightarrow> code \<Rightarrow> string \<Rightarrow> go_error" where
  "Wrap err c m = AppError c m (Some err)"

fun error_string :: "go_error \<Rightarrow> string" where
  "error_string (AppError c m (Some cause)) =
     code_string c @ '': '' @ m @ '': '' @ error_string cause"
| "error_string (AppError c m None) = code_string c @ '': '' @ m"
| "error_string (PlainError m _) = m"

fun unwrap :: "go_error \<Rightarrow> go_error option" where
  "unwrap (AppError _ _ cause) = cause"
| "unwrap (PlainError _ cause) = cause"

text \<open>\<open>errors.As(err, &appErr)\<close>: the first application error of the chain.\<close>

fun as_app :: "go_error \<Rightarrow> (code \<times> string) option" where
  "as_app (AppError c m _) = Some (c, m)"
| "as_app (PlainError _ (Some e)) = as_app e"
| "as_app (PlainError _ None) = None"

definition GetCode :: "go_error \<Rightarrow> code" where
  "GetCode err = (case as_app err of Some (c, _) \<Rightarrow> c | None \<Rightarrow> CodeInternal)"

definition GetMessage :: "go_error \<Rightarrow> string" where
  "GetMessage err = (case as_app err of Some (_, m) \<Rightarrow> m | None \<Rightarrow> ''internal error'')"

definition HTTPStatus :: "go_error \<Rightarrow> int" where
  "HTTPStatus err = (case GetCode err of
      CodeBadRequest \<Rightarrow> 400
    | CodeUnauthorized \<Rightarrow> 401
    | CodeForbidden \<Rightarrow> 403
    | CodeNotFound \<Rightarrow> 404
    | CodeConflict \<Rightarrow> 409
    | CodeUnprocessable \<Rightarrow> 422
    | CodeLocked \<Rightarrow> 423
    | CodeRateLimited \<Rightarrow> 429
    | CodeMaintenance \<Rightarrow> 503
    | CodeGatewayTimeout \<Rightarrow> 504
    | CodeInternal \<Rightarrow> 500)"

section \<open>Field errors\<close>

text \<open>A field maps to an error code, to nested errors, or to one entry per array element.\<close>

datatype verror =
    VCode string
  | VNested "(string \<times> verror) list"
  | VArray "verror option list"

type_synonym ValidationErrors = "string \<rightharpoonup> verror"

definition verr_Set :: "ValidationErrors \<Rightarrow> string \<Rightarrow> string \<Rightarrow> ValidationErrors" where
  "verr_Set v field c = v(field \<mapsto> VCode c)"

definition verr_SetNested :: "ValidationErrors \<Rightarrow> string \<Rightarrow> (string \<times> verror) list \<Rightarrow> ValidationErrors" where
  "verr_SetNested v field nested = v(field \<mapsto> VNested nested)"

definition verr_SetArray :: "ValidationErrors \<Rightarrow> string \<Rightarrow> verror option list \<Rightarrow> ValidationErrors" where
  "verr_SetArray v field items = v(field \<mapsto> VArray items)"

definition verr_HasErrors :: "ValidationErrors \<Rightarrow> bool" where
  "verr_HasErrors v \<longleftrightarrow> v \<noteq> Map.empty"

section \<open>Lemmas\<close>

lemmas new_error_defs = NewBadRequest_def NewUnauthorized_def NewForbidden_def NewNotFound_def
  NewConflict_def NewInternal_def NewUnprocessable_def NewLocked_def NewRateLimited_def
  NewGatewayTimeout_def

lemma as_app_Some_iff:
  "as_app e = Some p \<longleftrightarrow>
     (case e of AppError c m _ \<Rightarrow> p = (c, m)
      | PlainError _ (Some e') \<Rightarrow> as_app e' = Some p | PlainError _ None \<Rightarrow> False)"
  by (cases e rule: as_app.cases) auto

text \<open>The error constructors differ in their codes.\<close>

lemma new_error_codes [simp]:
  "GetCode (NewBadRequest m) = CodeBadRequest"
  "GetCode (NewForbidden m) = CodeForbidden"
  "GetCode (NewNotFound m) = CodeNotFound"
  "GetCode (NewConflict m) = CodeConflict"
  "GetCode (NewInternal m) = CodeInternal"
  "GetCode (NewUnprocessable m) = CodeUnprocessable"
  by (simp_all add: new_error_defs GetCode_def)

lemma wrap_code [simp]: "GetCode (Wrap e c m) = c" "GetMessage (Wrap e c m) = m"
  by (simp_all add: Wrap_def GetCode_def GetMessage_def)

text \<open>
  Wrapping with \<open>fmt.Errorf("...: %w", err)\<close>, any number of times, keeps the code and the
  message an error is answered with.
\<close>

fun wrap_plain :: "string list \<Rightarrow> go_error \<Rightarrow> go_error" where
  "wrap_plain [] e = e"
| "wrap_plain (s # ss) e = PlainError s (Some (wrap_plain ss e))"

lemma as_app_wrap_plain [simp]: "as_app (wrap_plain ss e) = as_app e"
  by (induction ss) simp_all

lemma HTTPStatus_range: "400 \<le> HTTPStatus e \<and> HTTPStatus e \<le> 504"
  by (simp add: HTTPStatus_def split: code.splits)

lemma HTTPStatus_inj: "HTTPStatus e = HTTPStatus e' \<longleftrightarrow> GetCode e = GetCode e'"
  by (simp add: HTTPStatus_def split: code.splits)

section \<open>Properties\<close>

text \<open>The answer to an error is decided by the innermost typed error and survives any number of
  \<open>fmt.Errorf\<close> wrappings: status and message stay the same, the status is between 400 and
  504, and two errors share a status only when they share the code.\<close>

lemma errors_keep_status:
  "HTTPStatus (wrap_plain ss e) = HTTPStatus e \<and> GetMessage (wrap_plain ss e) = GetMessage e
   \<and> 400 \<le> HTTPStatus e \<and> HTTPStatus e \<le> 504
   \<and> (HTTPStatus e = HTTPStatus e' \<longleftrightarrow> GetCode e = GetCode e')"
  using HTTPStatus_range HTTPStatus_inj by (simp add: HTTPStatus_def GetCode_def GetMessage_def)

end
