(* ===== verification/EventBus.thy ===== *)
theory EventBus
  imports Types Errs "HOL-Library.Multiset"
begin

text \<open>
  \<open>internal/core/event\<close>: the in-process bus. \<open>Publish\<close> computes the matching handlers under
  the read lock and starts one goroutine per handler; a goroutine runs at any later moment.
  The state is the subscription list, the deliveries that have been started and not run yet,
  and the deliveries run so far; \<open>bus_step\<close> interleaves subscriptions, publications and
  deliveries freely. A handler is named by a value of any type.
\<close>

record 'h subscription =
  sub_eventType :: string
  sub_pattern :: string
  sub_all :: bool
  sub_handler :: 'h

text \<open>\<open>strings.TrimSuffix(pattern, "*")\<close> and \<open>strings.HasPrefix\<close>.\<close>

definition trim_star :: "string \<Rightarrow> string" where
  "trim_star p = (if p \<noteq> [] \<and> last p = CHR ''*'' then butlast p else p)"

fun has_prefix :: "string \<Rightarrow> string \<Rightarrow> bool" where
  "has_prefix [] _ = True"
| "has_prefix (p # ps) (c # cs) = (p = c \<and> has_prefix ps cs)"
| "has_prefix (p # ps) [] = False"

definition Subscribe :: "string \<Rightarrow> 'h \<Rightarrow> 'h subscription list \<Rightarrow> 'h subscription list" where
  "Subscribe eventType h subs = subs @
    [\<lparr>sub_eventType = eventType, sub_pattern = '''', sub_all = False, sub_handler = h\<rparr>]"

definition SubscribePattern :: "string \<Rightarrow> 'h \<Rightarrow> 'h subscription list \<Rightarrow> 'h subscription list" where
  "SubscribePattern pattern h subs = subs @
    [\<lparr>sub_eventType = '''', sub_pattern = trim_star pattern, sub_all = False, sub_handler = h\<rparr>]"

definition SubscribeAll :: "'h \<Rightarrow> 'h subscription list \<Rightarrow> 'h subscription list" where
  "SubscribeAll h subs = subs @
    [\<lparr>sub_eventType = '''', sub_pattern = '''', sub_all = True, sub_handler = h\<rparr>]"

definition sub_matches :: "string \<Rightarrow> 'h subscription \<Rightarrow> bool" where
  "sub_matches ty sub \<longleftrightarrow>
     sub_all sub \<or> sub_eventType sub = ty \<or> (sub_pattern sub \<noteq> '''' \<and> has_prefix (sub_pattern sub) ty)"

text \<open>The handlers \<open>Publish\<close> starts, in subscription order.\<close>

definition matching :: "'h subscription list \<Rightarrow> event \<Rightarrow> 'h list" where
  "matching subs ev = map sub_handler (filter (sub_matches (ev_Type ev)) subs)"

record 'h bus =
  subs :: "'h subscription list"
  inflight :: "('h \<times> event) multiset"
  delivered :: "('h \<times> event) list"

definition bus_publish :: "event \<Rightarrow> 'h bus \<Rightarrow> 'h bus" where
  "bus_publish ev b = b\<lparr>inflight := inflight b + mset (map (\<lambda>h. (h, ev)) (matching (subs b) ev))\<rparr>"

text \<open>
  What a subscriber asks for, and which events that is: those of one type; those whose type begins
  with the pattern without its final star (a bare star asks for nothing); or all.
\<close>

datatype interest = Exactly string | Pattern string | Everything

fun wants :: "interest \<Rightarrow> string \<Rightarrow> bool" where
  "wants (Exactly ty') ty = (ty = ty')"
| "wants (Pattern p) ty = (let pre = rev (if take 1 (rev p) = ''*'' then drop 1 (rev p) else rev p)
     in pre \<noteq> [] \<and> take (length pre) ty = pre)"
| "wants Everything ty = True"

text \<open>
  What the program and its scheduler may do with the bus. Beside the bus stand the requests of the
  subscribers so far, and the publications, each with the requests made before it.
\<close>

record 'h bus_log =
  requests :: "('h \<times> interest) list"
  publications :: "(('h \<times> interest) list \<times> event) list"

definition requested :: "'h \<Rightarrow> interest \<Rightarrow> 'h bus_log \<Rightarrow> 'h bus_log" where
  "requested h i l = l\<lparr>requests := requests l @ [(h, i)]\<rparr>"

inductive bus_step :: "'h bus \<times> 'h bus_log \<Rightarrow> 'h bus \<times> 'h bus_log \<Rightarrow> bool" where
  step_subscribe: "bus_step (b, l) (b\<lparr>subs := Subscribe ty h (subs b)\<rparr>, requested h (Exactly ty) l)"
| step_pattern: "bus_step (b, l) (b\<lparr>subs := SubscribePattern pat h (subs b)\<rparr>, requested h (Pattern pat) l)"
| step_all: "bus_step (b, l) (b\<lparr>subs := SubscribeAll h (subs b)\<rparr>, requested h Everything l)"
| step_publish: "bus_step (b, l) (bus_publish ev b, l\<lparr>publications := publications l @ [(requests l, ev)]\<rparr>)"
| step_deliver: "d \<in># inflight b \<Longrightarrow>
    bus_step (b, l) (b\<lparr>inflight := inflight b - {#d#}, delivered := delivered b @ [d]\<rparr>, l)"

definition bus_init :: "'h bus" where
  "bus_init = \<lparr>subs = [], inflight = {#}, delivered = []\<rparr>"

definition empty_log :: "'h bus_log" where
  "empty_log = \<lparr>requests = [], publications = []\<rparr>"

inductive bus_reachable :: "'h bus \<times> 'h bus_log \<Rightarrow> bool" where
  reach_init: "bus_reachable (bus_init, empty_log)"
| reach_step: "bus_reachable s \<Longrightarrow> bus_step s s' \<Longrightarrow> bus_reachable s'"

text \<open>The persistent bus: the store's verdict is logged and the event is dispatched anyway.\<close>

definition persistent_publish ::
  "(event \<Rightarrow> go_error + event list) \<Rightarrow> event \<Rightarrow> event list \<times> 'h bus \<Rightarrow> event list \<times> 'h bus" where
  "persistent_publish store_append ev sb =
     (case store_append ev of
        Inl _ \<Rightarrow> (fst sb, bus_publish ev (snd sb))
      | Inr stored \<Rightarrow> (stored, bus_publish ev (snd sb)))"

section \<open>Lemmas\<close>

lemmas subscribe_defs = Subscribe_def SubscribePattern_def SubscribeAll_def

lemma has_prefix_iff: "has_prefix p s \<longleftrightarrow> (\<exists>t. s = p @ t)"
  by (induction p s rule: has_prefix.induct) auto

lemma has_prefix_take: "has_prefix p s \<longleftrightarrow> take (length p) s = p"
  by (induction p s rule: has_prefix.induct) auto

lemma trim_star_rev: "trim_star p = rev (if take 1 (rev p) = ''*'' then drop 1 (rev p) else rev p)"
  by (cases p rule: rev_cases) (simp_all add: trim_star_def)

text \<open>What each kind of subscription adds to the handlers of an event.\<close>

lemma matching_Subscribe:
  "matching (Subscribe ty h ss) ev = matching ss ev @ (if wants (Exactly ty) (ev_Type ev) then [h] else [])"
  by (auto simp: matching_def Subscribe_def sub_matches_def)

lemma matching_SubscribeAll:
  "matching (SubscribeAll h ss) ev = matching ss ev @ (if wants Everything (ev_Type ev) then [h] else [])"
  by (simp add: matching_def SubscribeAll_def sub_matches_def)

lemma matching_SubscribePattern:
  assumes "ev_Type ev \<noteq> []"
  shows "matching (SubscribePattern pat h ss) ev
     = matching ss ev @ (if wants (Pattern pat) (ev_Type ev) then [h] else [])"
proof -
  have "wants (Pattern pat) ty \<longleftrightarrow> trim_star pat \<noteq> [] \<and> has_prefix (trim_star pat) ty" for ty
    by (simp only: wants.simps trim_star_rev has_prefix_take Let_def)
  then show ?thesis
    using assms by (simp add: matching_def SubscribePattern_def sub_matches_def del: wants.simps)
qed

text \<open>The handlers that asked for an event, and the deliveries a list of publications owes.\<close>

definition askers :: "('h \<times> interest) list \<Rightarrow> event \<Rightarrow> 'h list" where
  "askers rs ev = map fst (filter (\<lambda>(h, i). wants i (ev_Type ev)) rs)"

lemma askers_simps [simp]:
  "askers [] ev = []" "askers (rs @ [(h, i)]) ev = askers rs ev @ (if wants i (ev_Type ev) then [h] else [])"
  by (simp_all add: askers_def)

definition owed :: "(('h \<times> interest) list \<times> event) list \<Rightarrow> ('h \<times> event) multiset" where
  "owed ps = (\<Sum>(rs, ev)\<leftarrow>ps. mset (map (\<lambda>h. (h, ev)) (askers rs ev)))"

lemma owed_simps [simp]:
  "owed [] = {#}"
  "owed (ps @ [(rs, ev)]) = owed ps + mset (map (\<lambda>h. (h, ev)) (askers rs ev))"
  by (simp_all add: owed_def)

definition typed :: "'h bus_log \<Rightarrow> bool" where
  "typed l \<longleftrightarrow> (\<forall>(_, ev) \<in> set (publications l). ev_Type ev \<noteq> [])"

lemma bus_subscribers:
  "bus_reachable s \<Longrightarrow> ev_Type ev \<noteq> [] \<Longrightarrow> matching (subs (fst s)) ev = askers (requests (snd s)) ev"
proof (induction rule: bus_reachable.induct)
  case reach_init
  then show ?case by (simp add: bus_init_def empty_log_def matching_def)
next
  case (reach_step s s')
  from reach_step.hyps(2) show ?case
    by (cases rule: bus_step.cases)
      (use reach_step.IH reach_step.prems in \<open>simp_all add: requested_def bus_publish_def matching_Subscribe
        matching_SubscribePattern matching_SubscribeAll del: wants.simps\<close>)
qed

lemma bus_conservation:
  "bus_reachable s \<Longrightarrow> typed (snd s) \<Longrightarrow> mset (delivered (fst s)) + inflight (fst s) = owed (publications (snd s))"
proof (induction rule: bus_reachable.induct)
  case reach_init
  then show ?case by (simp add: bus_init_def empty_log_def)
next
  case (reach_step s s')
  from reach_step.hyps(2) show ?case
  proof (cases rule: bus_step.cases)
    case (step_publish b l ev)
    then have "ev_Type ev \<noteq> []" "typed l" using reach_step.prems by (simp_all add: typed_def)
    then show ?thesis
      using reach_step.IH step_publish bus_subscribers [OF reach_step.hyps(1), of ev]
      by (simp add: bus_publish_def add.assoc [symmetric])
  next
    case (step_deliver d b l)
    then obtain A where "inflight b = add_mset d A"
      by (auto dest: multi_member_split)
    then show ?thesis
      using reach_step.IH reach_step.prems step_deliver by simp
  qed (use reach_step.IH reach_step.prems in \<open>simp_all add: requested_def typed_def\<close>)
qed

section \<open>Properties\<close>

text \<open>C13: Every subscriber gets what it asked for, once: in every state the bus can reach, the deliveries
  made and the deliveries still on their way are together exactly one for each published event and
  each request, made before it, that wants the event's type: its very type, a prefix of it, or
  everything. No event is lost, none is delivered twice, and none goes to who did not ask. (The
  types of the events published are not empty.)\<close>

theorem bus_exactly_once:
  assumes "bus_reachable (b, l)" and "\<forall>(_, ev) \<in> set (publications l). ev_Type ev \<noteq> []"
  shows "mset (delivered b) + inflight b
     = (\<Sum>(rs, ev)\<leftarrow>publications l. {#(h, ev). (h, i) \<in># filter_mset (\<lambda>(h, i). wants i (ev_Type ev)) (mset rs)#})"
proof -
  have "{#(h, ev). (h, i) \<in># filter_mset (\<lambda>(h, i). wants i (ev_Type ev)) (mset rs)#}
      = mset (map (\<lambda>h. (h, ev)) (askers rs ev))" for rs :: "('a \<times> interest) list" and ev
    by (simp add: askers_def comp_def case_prod_unfold flip: mset_filter mset_map)
  then show ?thesis using bus_conservation [OF assms(1)] assms(2) by (simp add: owed_def typed_def)
qed

text \<open>The theorem at a bus with four subscriptions, three of which ask for what is published.\<close>

definition sample_event :: event where
  "sample_event = \<lparr>ev_ID = 1, ev_OrganizationID = 1, ev_EntityID = None, ev_Type = ''order.paid'',
     ev_Data = JNull, ev_ActorID = None, ev_Timestamp = 0, ev_Version = 1\<rparr>"

definition sample_subs :: "nat subscription list" where
  "sample_subs = SubscribeAll 9 (Subscribe ''order.paid'' 6 (SubscribePattern ''order.*'' 8 (Subscribe ''hr.hired'' 7 [])))"

theorem bus_exactly_once_witness:
  "mset (delivered (bus_publish sample_event (bus_init\<lparr>subs := sample_subs\<rparr>)))
     + inflight (bus_publish sample_event (bus_init\<lparr>subs := sample_subs\<rparr>))
     = {#(8, sample_event), (6, sample_event), (9, sample_event)#}"
proof -
  let ?rs = "[(7::nat, Exactly ''hr.hired''), (8, Pattern ''order.*''), (6, Exactly ''order.paid''), (9, Everything)]"
  note s1 = reach_step [OF reach_init step_subscribe [where ty = "''hr.hired''" and h = "7::nat"]]
  note s2 = reach_step [OF s1 step_pattern [where pat = "''order.*''" and h = 8]]
  note s3 = reach_step [OF s2 step_subscribe [where ty = "''order.paid''" and h = 6]]
  note s4 = reach_step [OF s3 step_all [where h = 9]]
  have "bus_reachable (bus_init\<lparr>subs := sample_subs\<rparr>, \<lparr>requests = ?rs, publications = []\<rparr>)"
    using s4 by (simp add: sample_subs_def bus_init_def requested_def empty_log_def)
  from bus_exactly_once [OF reach_step [OF this step_publish [where ev = sample_event]]]
  show ?thesis by (simp add: sample_event_def)
qed

end
