(* ===== verification/Money.thy ===== *)
theory Money
  imports Float64 "HOL-Library.Signed_Division"
begin

text \<open>
  \<open>pkg/money\<close>: amounts are \<open>int64\<close> kopecks. \<open>Add\<close> and \<open>Sub\<close> wrap, \<open>MulQty\<close> goes through a
  double and \<open>math.Round\<close>, \<open>Format\<close> renders an amount with grouped digits.
\<close>

definition Add :: "int64 \<Rightarrow> int64 \<Rightarrow> int64" where
  "Add a b = a + b"

definition Sub :: "int64 \<Rightarrow> int64 \<Rightarrow> int64" where
  "Sub a b = a - b"

definition MulQty :: "int64 \<Rightarrow> f64 \<Rightarrow> int64" where
  "MulQty amount qty = int64_of_f64 (f64_Round (fmul (f64_of_int64 amount) qty))"

definition FromFloat :: "f64 \<Rightarrow> int64" where
  "FromFloat f = int64_of_f64 (f64_Round (fmul f (Fin 100)))"

definition ToFloat :: "int64 \<Rightarrow> f64" where
  "ToFloat amount = fdiv (f64_of_int64 amount) (Fin 100)"

section \<open>Rendering\<close>

text \<open>The decimal digits of a natural number, as \<open>%d\<close> writes them.\<close>

function dec_nat :: "nat \<Rightarrow> string" where
  "dec_nat n = (if n < 10 then [char_of (48 + n)] else dec_nat (n div 10) @ [char_of (48 + n mod 10)])"
  by pat_completeness auto

termination by (relation "measure id") auto

declare dec_nat.simps [simp del]

definition dec :: "int \<Rightarrow> string" where
  "dec n = (if n < 0 then CHR ''-'' # dec_nat (nat (- n)) else dec_nat (nat n))"

text \<open>\<open>%02d\<close>: at least two characters, padded with zeros after the sign.\<close>

definition dec02 :: "int \<Rightarrow> string" where
  "dec02 n = (if n < 0 then CHR ''-'' # dec_nat (nat (- n))
              else if n < 10 then CHR ''0'' # dec_nat (nat n) else dec_nat (nat n))"

text \<open>The loop of \<open>formatWithSpaces\<close>: groups of three from the right, the rest in front.\<close>

function group3 :: "string \<Rightarrow> string list \<Rightarrow> string list" where
  "group3 s parts =
     (if 3 < length s then group3 (take (length s - 3) s) (drop (length s - 3) s # parts) else s # parts)"
  by pat_completeness auto

termination by (relation "measure (length \<circ> fst)") auto

declare group3.simps [simp del]

fun join_spaces :: "string list \<Rightarrow> string" where
  "join_spaces [] = []"
| "join_spaces [s] = s"
| "join_spaces (s # t # ss) = s @ '' '' @ join_spaces (t # ss)"

definition formatWithSpaces :: "int64 \<Rightarrow> string" where
  "formatWithSpaces n =
     (let s = dec (sint n) in if length s \<le> 3 then s else join_spaces (group3 s []))"

text \<open>The rouble and euro signs are the UTF-8 bytes of U+20BD and U+20AC.\<close>

definition currency_symbol :: "string \<Rightarrow> string" where
  "currency_symbol currency =
     (if currency = ''RUB'' then [CHR 0xE2, CHR 0x82, CHR 0xBD]
      else if currency = ''USD'' then ''$''
      else if currency = ''EUR'' then [CHR 0xE2, CHR 0x82, CHR 0xAC]
      else currency)"

definition Format :: "int64 \<Rightarrow> string \<Rightarrow> string" where
  "Format amount currency =
    (let negative = slt amount 0;
         amount = (if negative then - amount else amount);
         rubles = word_of_int (sint amount sdiv 100) :: int64;
         kopecks = word_of_int (sint amount smod 100) :: int64;
         result = formatWithSpaces rubles @ '','' @ dec02 (sint kopecks) @ '' '' @ currency_symbol currency
     in if negative then ''-'' @ result else result)"

section \<open>Arithmetic\<close>

lemma rha_eqI: "\<bar>x - of_int n\<bar> < 1 / 2 \<Longrightarrow> rha x = n"
proof -
  assume a: "\<bar>x - of_int n\<bar> < 1 / 2"
  then have "\<bar>of_int (rha x) - of_int n :: rat\<bar> < 1"
    using rha_error [of x] by linarith
  then have "\<bar>of_int (rha x - n) :: rat\<bar> < of_int 1" by simp
  then have "\<bar>rha x - n\<bar> < 1" by (simp only: of_int_less_iff flip: of_int_abs)
  then show ?thesis by simp
qed

lemma powi_2_nat: "(2::rat) powi int k = 2 ^ k"
  by (simp add: power_int_def)

lemma of_int_abs_less: "\<bar>n\<bar> < (k::int) \<Longrightarrow> \<bar>of_int n :: rat\<bar> < of_int k"
  by (simp only: of_int_less_iff flip: of_int_abs)

lemma MulQty_integral:
  assumes "\<bar>sint amount\<bar> < 2 ^ 53" and "\<bar>q\<bar> < 2 ^ 53" and "\<bar>sint amount * q\<bar> < 2 ^ 53"
  shows "sint (MulQty amount (f64_of_int q)) = sint amount * q"
proof -
  have "fmul (f64_of_int64 amount) (f64_of_int q) = f64_round (of_int (sint amount * q))"
    using assms by (simp add: f64_of_int64_def f64_of_int_small)
  also have "\<dots> = Fin (of_int (sint amount * q))"
    using assms(3) by (rule f64_round_of_int)
  finally have "MulQty amount (f64_of_int q) = int64_of_f64 (Fin (of_int (sint amount * q)))"
    by (simp only: MulQty_def f64_Round.simps rha_of_int)
  then have "MulQty amount (f64_of_int q) = word_of_int (sint amount * q)"
    using assms(3) by (subst (asm) int64_of_f64_of_int) simp_all
  moreover have "sint (word_of_int (sint amount * q) :: int64) = sint amount * q"
    using assms(3) by (intro sint64_of_int) auto
  ultimately show ?thesis by (simp only:)
qed

text \<open>Kopecks survive the way through a double in roubles below \<open>2 ^ 51\<close>.\<close>

lemma kopecks_through_double:
  assumes "\<bar>sint a\<bar> < 2 ^ 51"
  shows "FromFloat (ToFloat a) = a"
proof -
  let ?a = "of_int (sint a) :: rat" and ?k = "2 ^ 51 :: rat"
  have a: "\<bar>?a\<bar> < ?k" using of_int_abs_less [OF assms] by simp
  let ?x = "?a / 100" and ?r = "rnd (?a / 100)"
  have x: "\<bar>?x\<bar> < 2 powi 45" using a by (simp add: power_int_def)
  have r: "\<bar>?r - ?x\<bar> \<le> 2 powi (45 - 54)" using rnd_error_below [OF x] by simp
  have e9: "(2::rat) powi (45 - 54) = 1 / 512" by (simp add: powi2_minus_numeral)
  have p: "\<bar>?r * 100 - ?a\<bar> \<le> 100 / 512" using r unfolding e9 by linarith
  have "\<bar>?a\<bar> < 2251799813685248" using a by simp
  then have "\<bar>?r * 100\<bar> < 4503599627370496" using p by linarith
  then have p': "\<bar>?r * 100\<bar> < 2 powi 52" by (simp add: power_int_def)
  have q: "\<bar>rnd (?r * 100) - ?r * 100\<bar> \<le> 2 powi (52 - 54)" using rnd_error_below [OF p'] by simp
  have e2: "(2::rat) powi (52 - 54) = 1 / 4" by (simp add: powi2_minus_numeral)
  have "\<bar>rnd (?r * 100) - ?a\<bar> < 1 / 2" using p q unfolding e2 by linarith
  then have rha: "rha (rnd (?r * 100)) = sint a" by (rule rha_eqI)
  have "f64_of_int64 a = Fin ?a"
    using assms by (simp add: f64_of_int64_def f64_of_int_small del: of_int_sint)
  moreover have "f64_round ?x = Fin ?r" using x by (intro f64_round_bounded [of _ 45]) auto
  moreover have "f64_round (?r * 100) = Fin (rnd (?r * 100))"
    using p' by (intro f64_round_bounded [of _ 52]) auto
  ultimately have "FromFloat (ToFloat a) = int64_of_f64 (Fin (of_int (sint a)))"
    by (simp add: FromFloat_def ToFloat_def rha del: of_int_sint int64_of_f64.simps)
  also have "\<dots> = word_of_int (sint a)"
    using sint64_range [of a] by (rule int64_of_f64_of_int)
  finally show ?thesis by simp
qed

section \<open>Digits\<close>

lemma group3_more:
  "3 < length s \<Longrightarrow> group3 s parts = group3 (take (length s - 3) s) (drop (length s - 3) s # parts)"
  by (subst group3.simps) simp

lemma group3_done: "length s \<le> 3 \<Longrightarrow> group3 s parts = s # parts"
  by (subst group3.simps) simp

lemma group3_concat: "concat (group3 s parts) = s @ concat parts"
proof (induction s parts rule: group3.induct)
  case (1 s parts)
  show ?case
  proof (cases "3 < length s")
    case True
    with 1 have "concat (group3 s parts) = take (length s - 3) s @ drop (length s - 3) s @ concat parts"
      by (simp only: group3_more concat.simps)
    also have "\<dots> = s @ concat parts" by (simp only: append_take_drop_id flip: append_assoc)
    finally show ?thesis .
  next
    case False
    then show ?thesis by (simp add: group3_done)
  qed
qed

definition groups_ok :: "string list \<Rightarrow> bool" where
  "groups_ok ps \<longleftrightarrow> (\<forall>p \<in> set (tl ps). length p = 3) \<and> 1 \<le> length (hd ps) \<and> length (hd ps) \<le> 3"

lemma group3_lengths:
  "s \<noteq> [] \<Longrightarrow> \<forall>p \<in> set parts. length p = 3 \<Longrightarrow> groups_ok (group3 s parts)"
proof (induction s parts rule: group3.induct)
  case (1 s parts)
  show ?case
  proof (cases "3 < length s")
    case True
    then have "take (length s - 3) s \<noteq> []" by auto
    moreover have "\<forall>p \<in> set (drop (length s - 3) s # parts). length p = 3"
      using "1.prems"(2) True by simp
    ultimately show ?thesis
      unfolding group3_more [OF True] by (rule "1.IH" [OF True])
  next
    case False
    with "1.prems" show ?thesis by (cases s) (simp_all add: group3_done groups_ok_def)
  qed
qed

lemma filter_absent: "a \<notin> set s \<Longrightarrow> filter (\<lambda>c. c \<noteq> a) s = s"
  by (induction s) auto

lemma filter_join_spaces:
  "(\<forall>p \<in> set ps. CHR '' '' \<notin> set p) \<Longrightarrow> filter (\<lambda>c. c \<noteq> CHR '' '') (join_spaces ps) = concat ps"
proof (induction ps rule: join_spaces.induct)
  case 1
  then show ?case by simp
next
  case (2 s)
  then have "CHR '' '' \<notin> set s" by (metis list.set_intros(1))
  then show ?case
    unfolding join_spaces.simps concat.simps append_Nil2 by (rule filter_absent)
next
  case (3 s t ss)
  then have "filter (\<lambda>c. c \<noteq> CHR '' '') (join_spaces (t # ss)) = concat (t # ss)"
    by (metis list.set_intros(2))
  moreover have "filter (\<lambda>c. c \<noteq> CHR '' '') s = s"
    using 3 by (intro filter_absent) simp
  ultimately show ?case
    by (simp only: join_spaces.simps filter_append filter.simps concat.simps append.simps
        simp_thms if_False)
qed

definition is_digit :: "char \<Rightarrow> bool" where
  "is_digit c \<longleftrightarrow> (48::nat) \<le> of_char c \<and> of_char c < (58::nat)"

lemma dec_nat_digits: "c \<in> set (dec_nat n) \<Longrightarrow> is_digit c"
proof (induction n rule: dec_nat.induct)
  case (1 n)
  then show ?case
    by (subst (asm) (2) dec_nat.simps) (auto simp: is_digit_def split: if_splits)
qed

lemma digit_not_space: "is_digit c \<Longrightarrow> c \<noteq> CHR '' ''"
  by (auto simp: is_digit_def)

text \<open>Reading the digits back.\<close>

fun undec :: "nat \<Rightarrow> string \<Rightarrow> nat" where
  "undec acc [] = acc"
| "undec acc (c # cs) = undec (10 * acc + (of_char c - 48)) cs"

lemma undec_append: "undec acc (s @ [c]) = 10 * undec acc s + (of_char c - 48)"
  by (induction acc s rule: undec.induct) simp_all

lemma undec_dec_nat: "undec 0 (dec_nat n) = n"
proof (induction n rule: dec_nat.induct)
  case (1 n)
  then show ?case by (subst dec_nat.simps) (auto simp: undec_append)
qed

lemma dec_nat_nonempty [simp]: "dec_nat n \<noteq> []"
  by (subst dec_nat.simps) simp

lemma formatWithSpaces_digits:
  assumes "0 \<le> sint n"
  shows "filter (\<lambda>c. c \<noteq> CHR '' '') (formatWithSpaces n) = dec_nat (nat (sint n))"
proof -
  let ?s = "dec_nat (nat (sint n))"
  have sp: "CHR '' '' \<notin> set ?s" using dec_nat_digits digit_not_space by blast
  then have "\<forall>p \<in> set (group3 ?s []). CHR '' '' \<notin> set p"
    using group3_concat [of ?s "[]"] by (metis UN_iff append.right_neutral concat.simps(1) set_concat)
  then have "filter (\<lambda>c. c \<noteq> CHR '' '') (join_spaces (group3 ?s [])) = ?s"
    by (simp add: filter_join_spaces group3_concat)
  moreover have "filter (\<lambda>c. c \<noteq> CHR '' '') ?s = ?s"
    using sp by (rule filter_absent)
  ultimately show ?thesis using assms by (simp add: formatWithSpaces_def dec_def Let_def)
qed

section \<open>Properties\<close>

text \<open>An amount of less than \<open>2 ^ 51\<close> kopecks in either direction, shown as roubles in a double
  and converted back, is the same amount: the two roundings of the division and of the
  multiplication never move it to a neighbouring kopeck.\<close>

lemma FromFloat_ToFloat:
  assumes "\<bar>sint a\<bar> < 2 ^ 51"
  shows "FromFloat (ToFloat a) = a"
  using assms by (rule kopecks_through_double)

theorem FromFloat_ToFloat_witness: "FromFloat (ToFloat 1999) = 1999"
  by (rule FromFloat_ToFloat) simp

text \<open>The printed rouble part reads back as the number: dropping the spaces of
  \<open>formatWithSpaces\<close> leaves its decimal digits, and every group but the first has three.\<close>

lemma formatWithSpaces_reads_back:
  assumes "0 \<le> sint n"
  shows "undec 0 (filter (\<lambda>c. c \<noteq> CHR '' '') (formatWithSpaces n)) = nat (sint n)
    \<and> groups_ok (group3 (dec_nat (nat (sint n))) [])"
  using formatWithSpaces_digits [OF assms] by (simp add: undec_dec_nat group3_lengths)

theorem formatWithSpaces_reads_back_witness:
  "undec 0 (filter (\<lambda>c. c \<noteq> CHR '' '') (formatWithSpaces 1500250)) = 1500250
    \<and> groups_ok (group3 (dec_nat 1500250) [])"
  using formatWithSpaces_reads_back [of 1500250] by simp

end
