(* ===== verification/Tx.thy ===== *)
theory Tx
  imports Types Errs
begin

text \<open>
  The effects of a service method: reads and writes through the connection pool, a
  transaction (\<open>WithTx\<close>), publication on the event bus, fresh identifiers and the clock.

  An operation takes the environment of the call and the world and returns an error or a
  value, and the world. The environment decides what the code does not: which database
  statements fail (\<open>fault\<close>; a connection that is lost, a constraint that is violated), what
  \<open>uuid.New\<close> and \<open>time.Now\<close> return, what a \<open>NUMERIC(15,4)\<close> column hands back for a double
  written to it (\<open>column\<close>; \<open>None\<close> when it refuses the value). \<open>tick\<close> numbers the calls to the
  environment, so each has an answer of its own.

  The database has a committed state, which every statement of the pool reads and writes, and
  within \<open>WithTx\<close> a pending change, which the statements of the transaction see on top of the
  committed state and \<open>Commit\<close> makes part of it. A method that reads through the pool inside
  \<open>WithTx\<close> does not see the transaction's own writes: the model keeps that.
\<close>

record 'd world =
  committed :: 'd
  pending :: "'d \<Rightarrow> 'd"
  published :: "event list"
  tick :: nat

record env =
  fault :: "nat \<Rightarrow> go_error option"
  uuids :: "nat \<Rightarrow> uuid"
  clock :: "nat \<Rightarrow> time"
  column :: "f64 \<Rightarrow> f64 option"

type_synonym ('d, 'a) op = "env \<Rightarrow> 'd world \<Rightarrow> (go_error + 'a) \<times> 'd world"

definition ret :: "'a \<Rightarrow> ('d, 'a) op" where
  "ret x env w = (Inr x, w)"

definition fail :: "go_error \<Rightarrow> ('d, 'a) op" where
  "fail e env w = (Inl e, w)"

text \<open>\<open>x, err := m; if err != nil { return err }; f x\<close>.\<close>

definition bnd :: "('d, 'a) op \<Rightarrow> ('a \<Rightarrow> ('d, 'b) op) \<Rightarrow> ('d, 'b) op" where
  "bnd m f env w = (case m env w of (Inl e, w') \<Rightarrow> (Inl e, w') | (Inr x, w') \<Rightarrow> f x env w')"

text \<open>\<open>x, err := m\<close> where the code goes on with the error in hand.\<close>

definition try_op :: "('d, 'a) op \<Rightarrow> ('d, go_error + 'a) op" where
  "try_op m env w = (case m env w of (r, w') \<Rightarrow> (Inr r, w'))"

text \<open>\<open>if c { return err }\<close>.\<close>

definition guard :: "bool \<Rightarrow> go_error \<Rightarrow> ('d, unit) op" where
  "guard c e = (if c then fail e else ret ())"

text \<open>\<open>for _, x := range xs\<close> with a body that may return an error.\<close>

fun for_each :: "'a list \<Rightarrow> ('a \<Rightarrow> ('d, unit) op) \<Rightarrow> ('d, unit) op" where
  "for_each [] f = ret ()"
| "for_each (x # xs) f = bnd (f x) (\<lambda>_. for_each xs f)"

text \<open>The same loop, appending a result per element.\<close>

fun map_op :: "('a \<Rightarrow> ('d, 'b) op) \<Rightarrow> 'a list \<Rightarrow> ('d, 'b list) op" where
  "map_op f [] = ret []"
| "map_op f (x # xs) = bnd (f x) (\<lambda>y. bnd (map_op f xs) (\<lambda>ys. ret (y # ys)))"

definition new_uuid :: "('d, uuid) op" where
  "new_uuid env w = (Inr (uuids env (tick w)), w\<lparr>tick := Suc (tick w)\<rparr>)"

definition now :: "('d, time) op" where
  "now env w = (Inr (clock env (tick w)), w\<lparr>tick := Suc (tick w)\<rparr>)"

text \<open>
  A statement: it may fail; otherwise it returns a value computed from the state it sees and
  may change that state, or is refused by a constraint (\<open>Inl\<close>).
\<close>

type_synonym ('d, 'a) stmt = "'d \<Rightarrow> go_error + ('a \<times> 'd)"

definition pool_stmt :: "('d, 'a) stmt \<Rightarrow> ('d, 'a) op" where
  "pool_stmt s env w =
    (let w' = w\<lparr>tick := Suc (tick w)\<rparr>
     in case fault env (tick w) of
          Some e \<Rightarrow> (Inl e, w')
        | None \<Rightarrow> (case s (committed w) of
              Inl e \<Rightarrow> (Inl e, w')
            | Inr (x, d) \<Rightarrow> (Inr x, w'\<lparr>committed := d\<rparr>)))"

definition stmt_effect :: "('d, 'a) stmt \<Rightarrow> 'd \<Rightarrow> 'd" where
  "stmt_effect s d = (case s d of Inl _ \<Rightarrow> d | Inr (_, d') \<Rightarrow> d')"

definition tx_stmt :: "('d, 'a) stmt \<Rightarrow> ('d, 'a) op" where
  "tx_stmt s env w =
    (let w' = w\<lparr>tick := Suc (tick w)\<rparr>
     in case fault env (tick w) of
          Some e \<Rightarrow> (Inl e, w')
        | None \<Rightarrow> (case s (pending w (committed w)) of
              Inl e \<Rightarrow> (Inl e, w')
            | Inr (x, _) \<Rightarrow> (Inr x, w'\<lparr>pending := stmt_effect s \<circ> pending w\<rparr>)))"

definition query :: "('d \<Rightarrow> 'a) \<Rightarrow> ('d, 'a) stmt" where
  "query g d = Inr (g d, d)"

definition exec :: "('d \<Rightarrow> 'd) \<Rightarrow> ('d, unit) stmt" where
  "exec u d = Inr ((), u d)"

text \<open>A query for at most one row; \<open>pgx.ErrNoRows\<close> becomes the given error.\<close>

definition pool_find :: "('d \<Rightarrow> 'a option) \<Rightarrow> go_error \<Rightarrow> ('d, 'a) op" where
  "pool_find g e = bnd (pool_stmt (query g)) (\<lambda>r. case r of None \<Rightarrow> fail e | Some x \<Rightarrow> ret x)"

text \<open>
  \<open>WithTx\<close>: begin, run the closure, commit; an error of any of the three leaves the pending
  change behind, and what the closure has published stays published.
\<close>

definition with_tx :: "('d, 'a) op \<Rightarrow> ('d, 'a) op" where
  "with_tx fn env w =
    (let w0 = w\<lparr>tick := Suc (tick w)\<rparr>
     in case fault env (tick w) of
          Some e \<Rightarrow> (Inl e, w0)
        | None \<Rightarrow>
           (case fn env (w0\<lparr>pending := id\<rparr>) of
              (Inl e, w1) \<Rightarrow> (Inl e, w1\<lparr>pending := id\<rparr>)
            | (Inr x, w1) \<Rightarrow>
               (let w2 = w1\<lparr>tick := Suc (tick w1), pending := id\<rparr>
                in case fault env (tick w1) of
                     Some e \<Rightarrow> (Inl e, w2)
                   | None \<Rightarrow> (Inr x, w2\<lparr>committed := pending w1 (committed w1)\<rparr>))))"

section \<open>The event store and publication\<close>

record core_db =
  t_events :: "event list"

text \<open>
  \<open>EventStore.Append\<close>: \<open>ON CONFLICT (id, timestamp) DO NOTHING\<close>. \<open>AppendTx\<close> has no such
  clause, so a duplicate key is an error there.
\<close>

definition event_stored :: "event \<Rightarrow> 'a core_db_scheme \<Rightarrow> bool" where
  "event_stored ev d \<longleftrightarrow>
     (\<exists>x \<in> set (t_events d). ev_ID x = ev_ID ev \<and> ev_Timestamp x = ev_Timestamp ev)"

definition Append :: "event \<Rightarrow> ('a core_db_scheme, unit) stmt" where
  "Append ev = exec (\<lambda>d. if event_stored ev d then d else d\<lparr>t_events := t_events d @ [ev]\<rparr>)"

definition AppendTx :: "event \<Rightarrow> ('a core_db_scheme, unit) op" where
  "AppendTx ev = tx_stmt (\<lambda>d. if event_stored ev d
       then Inl (PlainError ''duplicate key value violates unique constraint'' None)
       else Inr ((), d\<lparr>t_events := t_events d @ [ev]\<rparr>))"

text \<open>
  \<open>PersistentBus.Publish\<close>: append through the pool, log a failure, dispatch in any case. The
  callers ignore the (always nil) result.
\<close>

definition publish :: "event \<Rightarrow> ('a core_db_scheme, unit) op" where
  "publish ev env w =
    (let w' = snd (pool_stmt (Append ev) env w) in (Inr (), w'\<lparr>published := published w' @ [ev]\<rparr>))"

text \<open>The begin of a call: nothing pending, nothing published yet.\<close>

definition start :: "'d \<Rightarrow> 'd world" where
  "start d = \<lparr>committed = d, pending = id, published = [], tick = 0\<rparr>"

text \<open>An environment in which every statement succeeds.\<close>

definition reliable :: "env \<Rightarrow> bool" where
  "reliable env \<longleftrightarrow> (\<forall>n. fault env n = None)"

definition env_ok :: "(f64 \<Rightarrow> f64 option) \<Rightarrow> env" where
  "env_ok col = \<lparr>fault = \<lambda>_. None, uuids = \<lambda>n. 1000 + n, clock = \<lambda>n. int n, column = col\<rparr>"

section \<open>Weakest preconditions\<close>

text \<open>
  \<open>wp env m Q E w\<close>: run from \<open>w\<close>, the operation either returns a value with \<open>Q\<close> or an error
  with \<open>E\<close>. The equations of \<open>wp_simps\<close> compute it through every construct above, so a
  property of a method is proved by simplification and what remains of the arithmetic.
\<close>

definition wp :: "env \<Rightarrow> ('d, 'a) op \<Rightarrow> ('a \<Rightarrow> 'd world \<Rightarrow> bool) \<Rightarrow> (go_error \<Rightarrow> 'd world \<Rightarrow> bool)
    \<Rightarrow> 'd world \<Rightarrow> bool" where
  "wp env m Q E w = (case m env w of (Inl e, w') \<Rightarrow> E e w' | (Inr x, w') \<Rightarrow> Q x w')"

named_theorems wp_simps \<open>equations of the weakest precondition\<close>

lemma wp_ret [wp_simps]: "wp env (ret x) Q E w = Q x w"
  by (simp add: wp_def ret_def)

lemma wp_ret_fun: "wp env (ret x) Q E = Q x"
  by (simp add: fun_eq_iff wp_ret)

lemma wp_fail [wp_simps]: "wp env (fail e) Q E w = E e w"
  by (simp add: wp_def fail_def)

lemma wp_bnd [wp_simps]: "wp env (bnd m f) Q E w = wp env m (\<lambda>x. wp env (f x) Q E) E w"
  by (simp add: wp_def bnd_def split: prod.splits sum.splits)

lemma wp_try [wp_simps]: "wp env (try_op m) Q E w = wp env m (\<lambda>x. Q (Inr x)) (\<lambda>e. Q (Inl e)) w"
  by (simp add: wp_def try_op_def split: prod.splits sum.splits)

lemma wp_guard [wp_simps]: "wp env (guard c e) Q E w = (if c then E e w else Q () w)"
  by (simp add: guard_def wp_simps)

lemma wp_if [wp_simps]:
  "wp env (if c then m else m') Q E w = (if c then wp env m Q E w else wp env m' Q E w)"
  by simp

lemma wp_new_uuid [wp_simps]:
  "wp env new_uuid Q E w = Q (uuids env (tick w)) (w\<lparr>tick := Suc (tick w)\<rparr>)"
  by (simp add: wp_def new_uuid_def)

lemma wp_now [wp_simps]:
  "wp env now Q E w = Q (clock env (tick w)) (w\<lparr>tick := Suc (tick w)\<rparr>)"
  by (simp add: wp_def now_def)

lemma wp_conseq:
  assumes "wp env m Q E w"
    and "\<And>x w'. Q x w' \<Longrightarrow> Q' x w'" and "\<And>e w'. E e w' \<Longrightarrow> E' e w'"
  shows "wp env m Q' E' w"
  using assms by (auto simp: wp_def split: prod.splits sum.splits)

lemma wp_split:
  "wp env m Q (\<lambda>_ _. True) w \<Longrightarrow> wp env m (\<lambda>_ _. True) E w \<Longrightarrow> wp env m Q E w"
  by (simp add: wp_def split: prod.splits sum.splits)

lemma wp_conj:
  "wp env m Q E w \<Longrightarrow> wp env m Q' E' w \<Longrightarrow> wp env m (\<lambda>x w. Q x w \<and> Q' x w) (\<lambda>e w. E e w \<and> E' e w) w"
  by (auto simp: wp_def split: prod.splits sum.splits)

text \<open>From a weakest precondition to the value the method returns.\<close>

lemma wp_resultD:
  "wp env m Q E w \<Longrightarrow> m env w = (Inr x, w') \<Longrightarrow> Q x w'"
  "wp env m Q E w \<Longrightarrow> m env w = (Inl e, w') \<Longrightarrow> E e w'"
  by (simp_all add: wp_def)

lemma wpI:
  assumes "\<And>x w'. m env w = (Inr x, w') \<Longrightarrow> Q x w'" and "\<And>e w'. m env w = (Inl e, w') \<Longrightarrow> E e w'"
  shows "wp env m Q E w"
  using assms by (auto simp: wp_def split: prod.splits sum.splits)

lemma wp_pool_stmt [wp_simps]:
  "wp env (pool_stmt s) Q E w =
    (case fault env (tick w) of
       Some e \<Rightarrow> E e (w\<lparr>tick := Suc (tick w)\<rparr>)
     | None \<Rightarrow> (case s (committed w) of
          Inl e \<Rightarrow> E e (w\<lparr>tick := Suc (tick w)\<rparr>)
        | Inr (x, d) \<Rightarrow> Q x (w\<lparr>tick := Suc (tick w), committed := d\<rparr>)))"
  by (simp add: wp_def pool_stmt_def Let_def split: option.splits sum.splits)

lemma wp_tx_stmt [wp_simps]:
  "wp env (tx_stmt s) Q E w =
    (case fault env (tick w) of
       Some e \<Rightarrow> E e (w\<lparr>tick := Suc (tick w)\<rparr>)
     | None \<Rightarrow> (case s (pending w (committed w)) of
          Inl e \<Rightarrow> E e (w\<lparr>tick := Suc (tick w)\<rparr>)
        | Inr (x, _) \<Rightarrow> Q x (w\<lparr>tick := Suc (tick w), pending := stmt_effect s \<circ> pending w\<rparr>)))"
  by (simp add: wp_def tx_stmt_def Let_def split: option.splits sum.splits)

lemma wp_with_tx [wp_simps]:
  "wp env (with_tx fn) Q E w =
    (case fault env (tick w) of
       Some e \<Rightarrow> E e (w\<lparr>tick := Suc (tick w)\<rparr>)
     | None \<Rightarrow> wp env fn
         (\<lambda>x w1. case fault env (tick w1) of
            Some e \<Rightarrow> E e (w1\<lparr>tick := Suc (tick w1), pending := id\<rparr>)
          | None \<Rightarrow> Q x (w1\<lparr>tick := Suc (tick w1), pending := id,
                              committed := pending w1 (committed w1)\<rparr>))
         (\<lambda>e w1. E e (w1\<lparr>pending := id\<rparr>))
         (w\<lparr>tick := Suc (tick w), pending := id\<rparr>))"
  by (simp add: wp_def with_tx_def Let_def split: option.splits sum.splits prod.splits)

lemma wp_publish [wp_simps]:
  "wp env (publish ev) Q E w =
    (let d = (if fault env (tick w) \<noteq> None \<or> event_stored ev (committed w) then committed w
              else (committed w)\<lparr>t_events := t_events (committed w) @ [ev]\<rparr>)
     in Q () (w\<lparr>tick := Suc (tick w), committed := d, published := published w @ [ev]\<rparr>))"
  by (simp add: wp_def publish_def pool_stmt_def Append_def exec_def Let_def split: option.splits)

lemma wp_pool_find [wp_simps]:
  "wp env (pool_find g e) Q E w =
    (case fault env (tick w) of
       Some e' \<Rightarrow> E e' (w\<lparr>tick := Suc (tick w)\<rparr>)
     | None \<Rightarrow> (case g (committed w) of
          None \<Rightarrow> E e (w\<lparr>tick := Suc (tick w)\<rparr>)
        | Some x \<Rightarrow> Q x (w\<lparr>tick := Suc (tick w)\<rparr>)))"
  by (simp add: pool_find_def wp_simps query_def split: option.splits)

lemma query_simps [simp]: "query g d = Inr (g d, d)" "stmt_effect (query g) = id"
  by (simp_all add: query_def stmt_effect_def fun_eq_iff)

lemma exec_simps [simp]: "exec u d = Inr ((), u d)" "stmt_effect (exec u) = u"
  by (simp_all add: exec_def stmt_effect_def fun_eq_iff)

lemma reliable_fault [simp]: "reliable env \<Longrightarrow> fault env n = None"
  by (simp add: reliable_def)

lemma env_ok_simps [simp]:
  "fault (env_ok col) n = None" "uuids (env_ok col) n = 1000 + n" "clock (env_ok col) n = int n"
  "column (env_ok col) = col" "reliable (env_ok col)"
  by (simp_all add: env_ok_def reliable_def)

section \<open>Verification conditions\<close>

text \<open>
  The same calculus as introduction rules: \<open>intro wp_intros\<close> walks through a method and leaves
  one goal per way out, with what the way tells (which statement failed, what a query found) as
  its premises.
\<close>

named_theorems wp_intros \<open>introduction rules of the weakest precondition\<close>

lemma wpI_ret [wp_intros]: "Q x w \<Longrightarrow> wp env (ret x) Q E w"
  by (simp add: wp_simps)

lemma wpI_fail [wp_intros]: "E e w \<Longrightarrow> wp env (fail e) Q E w"
  by (simp add: wp_simps)

lemma wpI_bnd [wp_intros]: "wp env m (\<lambda>x. wp env (f x) Q E) E w \<Longrightarrow> wp env (bnd m f) Q E w"
  by (simp add: wp_simps)

lemma wpI_try [wp_intros]:
  "wp env m (\<lambda>x. Q (Inr x)) (\<lambda>e. Q (Inl e)) w \<Longrightarrow> wp env (try_op m) Q E w"
  by (simp add: wp_simps)

lemma wpI_guard [wp_intros]:
  "(c \<Longrightarrow> E e w) \<Longrightarrow> (\<not> c \<Longrightarrow> Q () w) \<Longrightarrow> wp env (guard c e) Q E w"
  by (simp add: wp_simps)

lemma wpI_if [wp_intros]:
  "(c \<Longrightarrow> wp env m Q E w) \<Longrightarrow> (\<not> c \<Longrightarrow> wp env m' Q E w) \<Longrightarrow> wp env (if c then m else m') Q E w"
  by simp

lemma wpI_case_option [wp_intros]:
  "(r = None \<Longrightarrow> wp env m Q E w) \<Longrightarrow> (\<And>x. r = Some x \<Longrightarrow> wp env (f x) Q E w)
   \<Longrightarrow> wp env (case r of None \<Rightarrow> m | Some x \<Rightarrow> f x) Q E w"
  by (cases r) simp_all

lemma wpI_case_sum [wp_intros]:
  "(\<And>x. r = Inl x \<Longrightarrow> wp env (f x) Q E w) \<Longrightarrow> (\<And>x. r = Inr x \<Longrightarrow> wp env (h x) Q E w)
   \<Longrightarrow> wp env (case r of Inl x \<Rightarrow> f x | Inr x \<Rightarrow> h x) Q E w"
  by (cases r) simp_all

lemma wpI_case_prod [wp_intros]:
  "(\<And>x y. r = (x, y) \<Longrightarrow> wp env (f x y) Q E w) \<Longrightarrow> wp env (case r of (x, y) \<Rightarrow> f x y) Q E w"
  by (cases r) simp_all

lemma wpI_new_uuid [wp_intros]:
  "Q (uuids env (tick w)) (w\<lparr>tick := Suc (tick w)\<rparr>) \<Longrightarrow> wp env new_uuid Q E w"
  by (simp add: wp_simps)

lemma wpI_now [wp_intros]:
  "Q (clock env (tick w)) (w\<lparr>tick := Suc (tick w)\<rparr>) \<Longrightarrow> wp env now Q E w"
  by (simp add: wp_simps)

lemma wpI_pool_stmt [wp_intros]:
  "(\<And>e. fault env (tick w) = Some e \<Longrightarrow> E e (w\<lparr>tick := Suc (tick w)\<rparr>)) \<Longrightarrow>
   (\<And>e. fault env (tick w) = None \<Longrightarrow> s (committed w) = Inl e \<Longrightarrow> E e (w\<lparr>tick := Suc (tick w)\<rparr>)) \<Longrightarrow>
   (\<And>x d. fault env (tick w) = None \<Longrightarrow> s (committed w) = Inr (x, d) \<Longrightarrow>
      Q x (w\<lparr>tick := Suc (tick w), committed := d\<rparr>)) \<Longrightarrow> wp env (pool_stmt s) Q E w"
  by (simp add: wp_simps split: option.split sum.split)

lemma wpI_tx_stmt [wp_intros]:
  "(\<And>e. fault env (tick w) = Some e \<Longrightarrow> E e (w\<lparr>tick := Suc (tick w)\<rparr>)) \<Longrightarrow>
   (\<And>e. fault env (tick w) = None \<Longrightarrow> s (pending w (committed w)) = Inl e \<Longrightarrow>
      E e (w\<lparr>tick := Suc (tick w)\<rparr>)) \<Longrightarrow>
   (\<And>x d. fault env (tick w) = None \<Longrightarrow> s (pending w (committed w)) = Inr (x, d) \<Longrightarrow>
      Q x (w\<lparr>tick := Suc (tick w), pending := stmt_effect s \<circ> pending w\<rparr>)) \<Longrightarrow>
   wp env (tx_stmt s) Q E w"
  by (simp add: wp_simps split: option.split sum.split)

lemma wpI_find [wp_intros]:
  "(\<And>e'. fault env (tick w) = Some e' \<Longrightarrow> E e' (w\<lparr>tick := Suc (tick w)\<rparr>)) \<Longrightarrow>
   (fault env (tick w) = None \<Longrightarrow> g (committed w) = None \<Longrightarrow> E e (w\<lparr>tick := Suc (tick w)\<rparr>)) \<Longrightarrow>
   (\<And>x. fault env (tick w) = None \<Longrightarrow> g (committed w) = Some x \<Longrightarrow> Q x (w\<lparr>tick := Suc (tick w)\<rparr>)) \<Longrightarrow>
   wp env (pool_find g e) Q E w"
  by (simp add: wp_simps split: option.split)

lemma wpI_with_tx [wp_intros]:
  "(\<And>e. fault env (tick w) = Some e \<Longrightarrow> E e (w\<lparr>tick := Suc (tick w)\<rparr>)) \<Longrightarrow>
   (fault env (tick w) = None \<Longrightarrow> wp env fn
      (\<lambda>x w1. (\<forall>e. fault env (tick w1) = Some e \<longrightarrow> E e (w1\<lparr>tick := Suc (tick w1), pending := id\<rparr>))
        \<and> (fault env (tick w1) = None \<longrightarrow>
             Q x (w1\<lparr>tick := Suc (tick w1), pending := id, committed := pending w1 (committed w1)\<rparr>)))
      (\<lambda>e w1. E e (w1\<lparr>pending := id\<rparr>)) (w\<lparr>tick := Suc (tick w), pending := id\<rparr>)) \<Longrightarrow>
   wp env (with_tx fn) Q E w"
proof (cases "fault env (tick w)")
  case None
  assume "fault env (tick w) = None \<Longrightarrow> wp env fn
      (\<lambda>x w1. (\<forall>e. fault env (tick w1) = Some e \<longrightarrow> E e (w1\<lparr>tick := Suc (tick w1), pending := id\<rparr>))
        \<and> (fault env (tick w1) = None \<longrightarrow>
             Q x (w1\<lparr>tick := Suc (tick w1), pending := id, committed := pending w1 (committed w1)\<rparr>)))
      (\<lambda>e w1. E e (w1\<lparr>pending := id\<rparr>)) (w\<lparr>tick := Suc (tick w), pending := id\<rparr>)"
  from this [OF None] show ?thesis
    unfolding wp_with_tx None option.case by (rule wp_conseq) (auto split: option.split)
qed (simp add: wp_with_tx)

lemma wpI_publish [wp_intros]:
  assumes "\<And>es. Q () (w\<lparr>tick := Suc (tick w), committed := (committed w)\<lparr>t_events := es\<rparr>,
             published := published w @ [ev]\<rparr>)"
  shows "wp env (publish ev) Q E w"
  using assms [of "t_events (committed w)"] assms [of "t_events (committed w) @ [ev]"]
  by (simp add: wp_publish Let_def)

section \<open>Atomicity\<close>

text \<open>
  \<open>quiet g m\<close>: the operation leaves the part \<open>g\<close> of the committed state alone, whatever it
  adds to the pending change. A closure that is quiet on \<open>g\<close> makes \<open>with_tx\<close> atomic there:
  an error leaves \<open>g\<close> as it was. The rules of \<open>quiet_intros\<close> follow the code.
\<close>

definition quiet :: "('d \<Rightarrow> 'b) \<Rightarrow> ('d, 'a) op \<Rightarrow> bool" where
  "quiet g m \<longleftrightarrow> (\<forall>env w. g (committed (snd (m env w))) = g (committed w))"

definition atomic :: "('d \<Rightarrow> 'b) \<Rightarrow> ('d, 'a) op \<Rightarrow> bool" where
  "atomic g m \<longleftrightarrow>
     (\<forall>env w e w'. m env w = (Inl e, w') \<longrightarrow> g (committed w') = g (committed w))"

named_theorems quiet_intros \<open>operations that write nothing through the pool\<close>
named_theorems atomic_intros \<open>operations whose errors change nothing\<close>

lemma quiet_ret [quiet_intros]: "quiet g (ret x)"
  by (simp add: quiet_def ret_def)

lemma quiet_fail [quiet_intros]: "quiet g (fail x)"
  by (simp add: quiet_def fail_def)

lemma quiet_guard [quiet_intros]: "quiet g (guard c x)"
  by (simp add: quiet_def fail_def ret_def guard_def)

lemma quiet_bnd [quiet_intros]: "quiet g m \<Longrightarrow> (\<And>x. quiet g (f x)) \<Longrightarrow> quiet g (bnd m f)"
  unfolding quiet_def bnd_def by (auto split: prod.split sum.split) (metis snd_conv)+

lemma quiet_try [quiet_intros]: "quiet g m \<Longrightarrow> quiet g (try_op m)"
  unfolding quiet_def try_op_def by (auto split: prod.split) (metis snd_conv)

lemma quiet_new_uuid [quiet_intros]: "quiet g new_uuid"
  by (simp add: quiet_def new_uuid_def)

lemma quiet_now [quiet_intros]: "quiet g now"
  by (simp add: quiet_def now_def)

lemma quiet_tx_stmt [quiet_intros]: "quiet g (tx_stmt s)"
  by (auto simp: quiet_def tx_stmt_def Let_def split: option.splits sum.splits)

lemma quiet_query [quiet_intros]: "quiet g (pool_stmt (query q))"
  by (auto simp: quiet_def pool_stmt_def Let_def split: option.splits)

lemma quiet_pool_stmt:
  "(\<And>d x d'. s d = Inr (x, d') \<Longrightarrow> g d' = g d) \<Longrightarrow> quiet g (pool_stmt s)"
  by (auto simp: quiet_def pool_stmt_def Let_def split: option.splits sum.splits)

lemma quiet_find [quiet_intros]: "quiet g (pool_find q e)"
  unfolding pool_find_def by (intro quiet_intros) (auto intro: quiet_intros split: option.split)

lemma quiet_publish [quiet_intros]:
  "(\<And>d es. g (d\<lparr>t_events := es\<rparr>) = g d) \<Longrightarrow> quiet g (publish ev)"
  by (auto simp: quiet_def publish_def pool_stmt_def Append_def Let_def split: option.splits)

lemma quiet_for_each [quiet_intros]: "(\<And>x. quiet g (f x)) \<Longrightarrow> quiet g (for_each xs f)"
  by (induction xs) (auto intro: quiet_intros)

lemma quiet_map_op [quiet_intros]: "(\<And>x. quiet g (f x)) \<Longrightarrow> quiet g (map_op f xs)"
  by (induction xs) (auto intro!: quiet_intros)

lemma quiet_if [quiet_intros]: "quiet g m \<Longrightarrow> quiet g m' \<Longrightarrow> quiet g (if c then m else m')"
  by simp

lemma quiet_case_option [quiet_intros]:
  "quiet g m \<Longrightarrow> (\<And>x. quiet g (f x)) \<Longrightarrow> quiet g (case r of None \<Rightarrow> m | Some x \<Rightarrow> f x)"
  by (cases r) simp_all

lemma quiet_case_sum [quiet_intros]:
  "(\<And>x. quiet g (f x)) \<Longrightarrow> (\<And>x. quiet g (h x)) \<Longrightarrow> quiet g (case r of Inl x \<Rightarrow> f x | Inr x \<Rightarrow> h x)"
  by (cases r) simp_all

lemma quiet_case_prod [quiet_intros]:
  "(\<And>x y. quiet g (f x y)) \<Longrightarrow> quiet g (case r of (x, y) \<Rightarrow> f x y)"
  by (cases r) simp

lemma atomic_with_tx [atomic_intros]:
  assumes "quiet g fn"
  shows "atomic g (with_tx fn)"
  unfolding atomic_def
proof (intro allI impI)
  fix env w e w'
  assume run: "with_tx fn env w = (Inl e, w')"
  show "g (committed w') = g (committed w)"
  proof (cases "fault env (tick w)")
    case None
    let ?w = "w\<lparr>tick := Suc (tick w), pending := id\<rparr>"
    obtain r w1 where fn: "fn env ?w = (r, w1)" by fastforce
    have "g (committed w1) = g (committed ?w)"
      using assms fn unfolding quiet_def by (metis snd_conv)
    with run fn None show ?thesis
      by (auto simp: with_tx_def Let_def split: sum.splits option.splits)
  next
    case Some
    with run show ?thesis by (auto simp: with_tx_def Let_def)
  qed
qed

lemma quiet_atomic: "quiet g m \<Longrightarrow> atomic g m"
  unfolding quiet_def atomic_def by (metis snd_conv)

text \<open>What runs before the last effect is quiet, what runs after it does not fail.\<close>

lemma atomic_bnd: "quiet g m \<Longrightarrow> (\<And>x. atomic g (f x)) \<Longrightarrow> atomic g (bnd m f)"
  unfolding quiet_def atomic_def bnd_def
  by (auto split: prod.splits sum.splits) (metis snd_conv)+

definition total :: "('d, 'a) op \<Rightarrow> bool" where
  "total m \<longleftrightarrow> (\<forall>env w. isl (fst (m env w)) = False)"

lemma total_ret [atomic_intros]: "total (ret x)"
  by (simp add: total_def ret_def)

lemma total_publish [atomic_intros]: "total (publish ev)"
  by (simp add: total_def publish_def Let_def)

lemma total_now [atomic_intros]: "total now"
  by (simp add: total_def now_def)

lemma total_new_uuid [atomic_intros]: "total new_uuid"
  by (simp add: total_def new_uuid_def)

lemma total_try [atomic_intros]: "total (try_op m)"
  by (simp add: total_def try_op_def split: prod.splits)

lemma total_bnd [atomic_intros]: "total m \<Longrightarrow> (\<And>x. total (f x)) \<Longrightarrow> total (bnd m f)"
  unfolding total_def bnd_def by (auto split: prod.splits sum.splits) (metis fst_conv sum.disc(1))

lemma atomic_bnd_total:
  "atomic g m \<Longrightarrow> (\<And>x. total (f x)) \<Longrightarrow> atomic g (bnd m f)"
  unfolding atomic_def total_def bnd_def
  by (auto split: prod.splits sum.splits) (metis fst_conv sum.disc(1))

lemma atomic_tx_then: "quiet g fn \<Longrightarrow> (\<And>x. total (f x)) \<Longrightarrow> atomic g (bnd (with_tx fn) f)"
  by (intro atomic_bnd_total atomic_with_tx)

lemma atomic_ret: "atomic g (ret x)"
  by (intro quiet_atomic quiet_ret)

lemma atomic_if: "atomic g m \<Longrightarrow> atomic g m' \<Longrightarrow> atomic g (if c then m else m')"
  by simp

lemma atomic_case_prod: "(\<And>x y. atomic g (f x y)) \<Longrightarrow> atomic g (case r of (x, y) \<Rightarrow> f x y)"
  by (cases r) simp

lemma total_for_each: "(\<And>x. total (f x)) \<Longrightarrow> total (for_each xs f)"
  by (induction xs) (auto intro: atomic_intros)

lemma total_if: "total m \<Longrightarrow> total m' \<Longrightarrow> total (if c then m else m')"
  by simp

lemma total_case_prod: "(\<And>x y. total (f x y)) \<Longrightarrow> total (case r of (x, y) \<Rightarrow> f x y)"
  by (cases r) simp

lemma total_case_option:
  "total m \<Longrightarrow> (\<And>x. total (f x)) \<Longrightarrow> total (case r of None \<Rightarrow> m | Some x \<Rightarrow> f x)"
  by (cases r) simp_all

lemma total_case_sum:
  "(\<And>x. total (f x)) \<Longrightarrow> (\<And>x. total (h x)) \<Longrightarrow> total (case r of Inl x \<Rightarrow> f x | Inr x \<Rightarrow> h x)"
  by (cases r) simp_all

lemma atomic_wp:
  "atomic g m \<Longrightarrow> wp env m (\<lambda>_ _. True) (\<lambda>_ w'. g (committed w') = g d) (start d)"
  by (auto simp: atomic_def wp_def start_def split: prod.splits sum.splits)

text \<open>
  The rules in the order to try them on the body of a service method: a transaction followed
  by steps that cannot fail, a quiet step before, then the closures.
\<close>

lemmas atomic_rules = atomic_tx_then atomic_bnd atomic_if atomic_case_prod atomic_with_tx atomic_ret
  quiet_atomic total_bnd total_ret total_publish total_now total_new_uuid total_try total_if
  total_for_each total_case_prod total_case_option total_case_sum

section \<open>Frames\<close>

text \<open>
  \<open>frame g m\<close>: whatever happens, the operation leaves the part \<open>g\<close> of the database alone,
  in the committed state and in the change it has pending. The rules of \<open>frame_intros\<close> ask of
  every statement of the code that it leaves \<open>g\<close> alone.
\<close>

definition keeps_pending :: "('d \<Rightarrow> 'b) \<Rightarrow> 'd world \<Rightarrow> bool" where
  "keeps_pending g w \<longleftrightarrow> (\<forall>d. g (pending w d) = g d)"

definition frame :: "('d \<Rightarrow> 'b) \<Rightarrow> ('d, 'a) op \<Rightarrow> bool" where
  "frame g m \<longleftrightarrow> (\<forall>env w. keeps_pending g w \<longrightarrow>
     g (committed (snd (m env w))) = g (committed w) \<and> keeps_pending g (snd (m env w)))"

named_theorems frame_intros \<open>operations that leave a part of the database alone\<close>

lemma frame_ret [frame_intros]: "frame g (ret x)"
  by (simp add: frame_def ret_def)

lemma frame_fail [frame_intros]: "frame g (fail x)"
  by (simp add: frame_def fail_def)

lemma frame_guard [frame_intros]: "frame g (guard c x)"
  by (simp add: frame_def fail_def ret_def guard_def)

lemma frame_bnd [frame_intros]:
  assumes "frame g m" and "\<And>x. frame g (f x)"
  shows "frame g (bnd m f)"
  unfolding frame_def
proof (intro allI impI)
  fix env w
  assume w: "keeps_pending g w"
  obtain r w1 where m: "m env w = (r, w1)" by fastforce
  with assms(1) w have w1: "g (committed w1) = g (committed w)" "keeps_pending g w1"
    unfolding frame_def by (metis snd_conv)+
  show "g (committed (snd (bnd m f env w))) = g (committed w)
      \<and> keeps_pending g (snd (bnd m f env w))"
  proof (cases r)
    case (Inr x)
    then show ?thesis using assms(2) [of x] w1 by (simp add: bnd_def m frame_def)
  qed (simp add: bnd_def m w1)
qed

lemma frame_try [frame_intros]: "frame g m \<Longrightarrow> frame g (try_op m)"
  unfolding frame_def try_op_def by (auto split: prod.split) (metis snd_conv)+

lemma frame_new_uuid [frame_intros]: "frame g new_uuid"
  by (simp add: frame_def new_uuid_def keeps_pending_def)

lemma frame_now [frame_intros]: "frame g now"
  by (simp add: frame_def now_def keeps_pending_def)

lemma frame_pool_stmt [frame_intros]:
  "(\<And>d x d'. s d = Inr (x, d') \<Longrightarrow> g d' = g d) \<Longrightarrow> frame g (pool_stmt s)"
  by (auto simp: frame_def pool_stmt_def keeps_pending_def Let_def split: option.splits sum.splits)

lemma frame_tx_stmt [frame_intros]:
  "(\<And>d x d'. s d = Inr (x, d') \<Longrightarrow> g d' = g d) \<Longrightarrow> frame g (tx_stmt s)"
  by (auto simp: frame_def tx_stmt_def keeps_pending_def stmt_effect_def Let_def
      split: option.splits sum.splits)

lemma frame_find [frame_intros]: "frame g (pool_find q e)"
  unfolding pool_find_def
  by (intro frame_intros) (auto intro: frame_intros split: option.split)

lemma frame_AppendTx [frame_intros]:
  "(\<And>d es. g (d\<lparr>t_events := es\<rparr>) = g d) \<Longrightarrow> frame g (AppendTx ev)"
  unfolding AppendTx_def by (rule frame_tx_stmt) (auto split: if_splits)

lemma frame_publish [frame_intros]:
  assumes "\<And>d es. g (d\<lparr>t_events := es\<rparr>) = g d"
  shows "frame g (publish ev)"
proof -
  have "frame g (pool_stmt (Append ev))"
    by (rule frame_pool_stmt) (auto simp: Append_def assms)
  then show ?thesis by (auto simp: frame_def publish_def keeps_pending_def Let_def)
qed

text \<open>What is found has the property the query asks for.\<close>

lemma frame_bnd_find:
  assumes "\<And>x d. q d = Some x \<Longrightarrow> frame g (f x)"
  shows "frame g (bnd (pool_find q e) f)"
  unfolding frame_def bnd_def pool_find_def pool_stmt_def
  using assms
  by (auto simp: ret_def fail_def keeps_pending_def frame_def Let_def split: option.splits)

lemma frame_for_each [frame_intros]: "(\<And>x. frame g (f x)) \<Longrightarrow> frame g (for_each xs f)"
  by (induction xs) (auto intro: frame_intros)

lemma frame_map_op [frame_intros]: "(\<And>x. frame g (f x)) \<Longrightarrow> frame g (map_op f xs)"
  by (induction xs) (auto intro!: frame_intros)

lemma frame_if [frame_intros]: "frame g m \<Longrightarrow> frame g m' \<Longrightarrow> frame g (if c then m else m')"
  by simp

lemma frame_case_option [frame_intros]:
  "frame g m \<Longrightarrow> (\<And>x. frame g (f x)) \<Longrightarrow> frame g (case r of None \<Rightarrow> m | Some x \<Rightarrow> f x)"
  by (cases r) simp_all

lemma frame_case_sum [frame_intros]:
  "(\<And>x. frame g (f x)) \<Longrightarrow> (\<And>x. frame g (h x)) \<Longrightarrow> frame g (case r of Inl x \<Rightarrow> f x | Inr x \<Rightarrow> h x)"
  by (cases r) simp_all

lemma frame_case_prod [frame_intros]:
  "(\<And>x y. frame g (f x y)) \<Longrightarrow> frame g (case r of (x, y) \<Rightarrow> f x y)"
  by (cases r) simp

lemma frame_with_tx [frame_intros]:
  assumes "frame g fn"
  shows "frame g (with_tx fn)"
  unfolding frame_def
proof (intro allI impI)
  fix env w
  assume w: "keeps_pending g w"
  show "g (committed (snd (with_tx fn env w))) = g (committed w)
      \<and> keeps_pending g (snd (with_tx fn env w))"
  proof (cases "fault env (tick w)")
    case None
    let ?w = "w\<lparr>tick := Suc (tick w), pending := id\<rparr>"
    obtain r w1 where fn: "fn env ?w = (r, w1)" by fastforce
    have "keeps_pending g ?w" by (simp add: keeps_pending_def)
    with assms have "g (committed (snd (fn env ?w))) = g (committed ?w)
        \<and> keeps_pending g (snd (fn env ?w))"
      unfolding frame_def by blast
    then have "g (committed w1) = g (committed w) \<and> keeps_pending g w1"
      by (simp add: fn)
    with fn None show ?thesis
      by (auto simp: with_tx_def Let_def keeps_pending_def split: sum.splits option.splits)
  next
    case Some
    with w show ?thesis by (auto simp: with_tx_def Let_def keeps_pending_def)
  qed
qed

lemma frame_run: "frame g m \<Longrightarrow> g (committed (snd (m env (start d)))) = g d"
  by (simp add: frame_def keeps_pending_def start_def)

text \<open>Evaluation of a method on a concrete world.\<close>

lemmas run_simps = start_def bnd_def ret_def fail_def guard_def try_op_def with_tx_def
  tx_stmt_def pool_stmt_def pool_find_def new_uuid_def now_def publish_def Append_def stmt_effect_def
  event_stored_def Let_def comp_def

end
