(* ===== verification/Store.thy ===== *)
theory Store
  imports Tx
begin

text \<open>
  Tables. A table is the list of its rows; a key function picks the columns of its primary
  key. \<open>row_get\<close> is the \<open>SELECT\<close> by key, \<open>row_put\<close> the \<open>INSERT ... ON CONFLICT (key) DO UPDATE\<close>
  of a whole row, \<open>row_update\<close> an \<open>UPDATE ... WHERE\<close>.

  The locale \<open>keyed_store\<close> is what the services rely on of a repository: what a read returns
  after a write. Each component interprets it on its own tables.
\<close>

definition row_get :: "('r \<Rightarrow> 'k) \<Rightarrow> 'k \<Rightarrow> 'r list \<Rightarrow> 'r option" where
  "row_get key k rs = find (\<lambda>r. key r = k) rs"

definition row_put :: "('r \<Rightarrow> 'k) \<Rightarrow> 'r \<Rightarrow> 'r list \<Rightarrow> 'r list" where
  "row_put key r rs =
     (if key r \<in> key ` set rs then map (\<lambda>x. if key x = key r then r else x) rs else rs @ [r])"

definition row_update :: "('r \<Rightarrow> bool) \<Rightarrow> ('r \<Rightarrow> 'r) \<Rightarrow> 'r list \<Rightarrow> 'r list" where
  "row_update p f rs = map (\<lambda>x. if p x then f x else x) rs"

definition row_count :: "('r \<Rightarrow> bool) \<Rightarrow> 'r list \<Rightarrow> nat" where
  "row_count p rs = length (filter p rs)"

definition duplicate_key :: go_error where
  "duplicate_key = PlainError ''duplicate key value violates unique constraint'' None"

text \<open>An \<open>INSERT\<close> without a conflict clause, into a table keyed by \<open>key\<close>.\<close>

definition row_insert ::
  "('d \<Rightarrow> 'r list) \<Rightarrow> ('r list \<Rightarrow> 'd \<Rightarrow> 'd) \<Rightarrow> ('r \<Rightarrow> 'k) \<Rightarrow> 'r \<Rightarrow> ('d, unit) stmt" where
  "row_insert sel upd key r d =
     (if key r \<in> key ` set (sel d) then Inl duplicate_key else Inr ((), upd (sel d @ [r]) d))"

lemma row_insert_Inr [simp]:
  "row_insert sel upd key r d = Inr (x, d') \<longleftrightarrow> key r \<notin> key ` set (sel d) \<and> d' = upd (sel d @ [r]) d"
  by (auto simp: row_insert_def)

lemma row_get_Some: "row_get key k rs = Some r \<Longrightarrow> r \<in> set rs \<and> key r = k"
  by (auto simp: row_get_def find_Some_iff)

lemma row_get_None: "row_get key k rs = None \<longleftrightarrow> k \<notin> key ` set rs"
  by (auto simp: row_get_def find_None_iff)

lemma row_get_map:
  "row_get key k (map (\<lambda>x. if key x = key r then r else x) rs)
     = (if k = key r \<and> k \<in> key ` set rs then Some r else if k = key r then None else row_get key k rs)"
  by (induction rs) (auto simp: row_get_def)

lemma row_get_append:
  "row_get key k (rs @ rs') = (case row_get key k rs of None \<Rightarrow> row_get key k rs' | Some r \<Rightarrow> Some r)"
  by (induction rs) (auto simp: row_get_def)

lemma row_get_put: "row_get key k (row_put key r rs) = (if k = key r then Some r else row_get key k rs)"
proof (cases "key r \<in> key ` set rs")
  case True
  then show ?thesis by (auto simp: row_put_def row_get_map)
next
  case False
  then have "row_get key (key r) rs = None" by (simp add: row_get_None)
  with False show ?thesis
    by (auto simp: row_put_def row_get_append split: option.split) (auto simp: row_get_def)
qed

lemma row_put_keys: "distinct (map key rs) \<Longrightarrow> distinct (map key (row_put key r rs))"
proof (cases "key r \<in> key ` set rs")
  case True
  have "map key (map (\<lambda>x. if key x = key r then r else x) rs) = map key rs" by auto
  then show "distinct (map key rs) \<Longrightarrow> distinct (map key (row_put key r rs))"
    using True by (simp only: row_put_def if_True)
next
  case False
  then show "distinct (map key rs) \<Longrightarrow> distinct (map key (row_put key r rs))"
    by (auto simp: row_put_def)
qed

lemma row_put_set: "x \<in> set (row_put key r rs) \<Longrightarrow> x = r \<or> x \<in> set rs"
  by (auto simp: row_put_def split: if_splits)

lemma row_update_set: "x \<in> set (row_update p f rs) \<Longrightarrow> \<exists>y \<in> set rs. x = (if p y then f y else y)"
  by (auto simp: row_update_def)

lemma filter_row_update:
  "(\<And>x. p x \<Longrightarrow> \<not> q x \<and> \<not> q (f x)) \<Longrightarrow> filter q (row_update p f rs) = filter q rs"
  by (induction rs) (auto simp: row_update_def)

lemma find_row_update:
  "(\<And>x. p x \<Longrightarrow> q (f x) = q x) \<Longrightarrow>
   find q (row_update p f rs) = map_option (\<lambda>x. if p x then f x else x) (find q rs)"
  by (induction rs) (auto simp: row_update_def)

lemma find_row_update_none:
  "(\<And>x. p x \<Longrightarrow> \<not> p (f x)) \<Longrightarrow> find p (row_update p f rs) = None"
  by (induction rs) (auto simp: row_update_def)

lemma row_count_find: "row_count p rs = 0 \<longleftrightarrow> find p rs = None"
  by (induction rs) (auto simp: row_count_def)

lemma find_SomeD: "find p xs = Some x \<Longrightarrow> p x \<and> x \<in> set xs"
  by (auto simp: find_Some_iff)

lemma find_append: "find p (xs @ ys) = (case find p xs of None \<Rightarrow> find p ys | Some x \<Rightarrow> Some x)"
  by (induction xs) auto

section \<open>The interface of a repository\<close>

locale keyed_store =
  fixes get :: "'k \<Rightarrow> 'd \<Rightarrow> 'r option"
    and put :: "'r \<Rightarrow> 'd \<Rightarrow> 'd"
    and key :: "'r \<Rightarrow> 'k"
  assumes get_put: "get k (put r d) = (if k = key r then Some r else get k d)"
    and get_key: "get k d = Some r \<Longrightarrow> key r = k"
begin

text \<open>A property of every row survives a write of a row that has it.\<close>

definition all_rows :: "('r \<Rightarrow> bool) \<Rightarrow> 'd \<Rightarrow> bool" where
  "all_rows p d \<longleftrightarrow> (\<forall>k r. get k d = Some r \<longrightarrow> p r)"

lemma all_rows_put: "all_rows p d \<Longrightarrow> p r \<Longrightarrow> all_rows p (put r d)"
  by (auto simp: all_rows_def get_put split: if_splits)

lemma all_rowsD: "all_rows p d \<Longrightarrow> get k d = Some r \<Longrightarrow> p r"
  by (auto simp: all_rows_def)

lemma get_put_same [simp]: "get (key r) (put r d) = Some r"
  by (simp add: get_put)

lemma get_put_other: "k \<noteq> key r \<Longrightarrow> get k (put r d) = get k d"
  by (simp add: get_put)

text \<open>Writes of different rows are seen in either order.\<close>

lemma put_commute: "key r \<noteq> key s \<Longrightarrow> get k (put r (put s d)) = get k (put s (put r d))"
  by (auto simp: get_put)

text \<open>A sum over the rows of a set of keys, before and after a write.\<close>

definition total_of :: "('r \<Rightarrow> 'n::comm_monoid_add) \<Rightarrow> 'k set \<Rightarrow> 'd \<Rightarrow> 'n" where
  "total_of f ks d = (\<Sum>k\<in>ks. case get k d of None \<Rightarrow> 0 | Some r \<Rightarrow> f r)"

lemma total_of_put_outside: "key r \<notin> ks \<Longrightarrow> total_of f ks (put r d) = total_of f ks d"
  by (auto simp: total_of_def get_put intro!: sum.cong)

lemma total_of_put:
  "finite ks \<Longrightarrow> key r \<in> ks \<Longrightarrow> total_of f ks (put r d) = f r + total_of f (ks - {key r}) d"
  by (simp add: total_of_def sum.remove get_put)

end

lemma row_store: "keyed_store (row_get key) (row_put key) key"
  by unfold_locales (auto simp: row_get_put dest: row_get_Some)

end
