(* ===== verification/Entities.thy ===== *)
theory Entities
  imports Store
begin

text \<open>
  \<open>internal/core/entity/service.go\<close> over \<open>internal/storage/postgres/entity_repo.go\<close>: entities
  and their components. The tables hold one row per entity (its \<open>e_Components\<close> empty) and one
  component per entity and type.

  \<open>Update\<close> and \<open>Delete\<close> open a transaction for the event and write the entity through the
  pool, so the two are not one transaction; \<open>DeleteComponent\<close> appends no event in its own
  transaction. The model keeps each write where the code has it.
\<close>

record entity_db = core_db +
  t_entities :: "entity list"
  t_components :: "component list"

record create_input =
  ci_Kind :: string
  ci_Name :: string
  ci_ParentID :: "uuid option"
  ci_Meta :: "json option"

record update_input =
  ui_Name :: "string option"
  ui_Status :: "string option"
  ui_ParentID :: "uuid option"
  ui_Meta :: "json option"
  ui_SortOrder :: "int option"

section \<open>The repository\<close>

definition entity_row :: "uuid \<Rightarrow> uuid \<Rightarrow> entity \<Rightarrow> bool" where
  "entity_row org eid e \<longleftrightarrow> e_OrganizationID e = org \<and> e_ID e = eid \<and> e_DeletedAt e = None"

definition find_entity :: "uuid \<Rightarrow> uuid \<Rightarrow> 'a entity_db_scheme \<Rightarrow> entity option" where
  "find_entity org eid d = find (entity_row org eid) (t_entities d)"

definition CreateTx :: "entity \<Rightarrow> ('a entity_db_scheme, entity) op" where
  "CreateTx e =
    bnd (if e_ID e = uuid_nil then new_uuid else ret (e_ID e)) (\<lambda>eid.
    bnd now (\<lambda>t.
    let e = e\<lparr>e_ID := eid, e_Meta := (case e_Meta e of None \<Rightarrow> Some (JObj []) | m \<Rightarrow> m),
              e_CreatedAt := t, e_UpdatedAt := t, e_Status := ''active''\<rparr>
    in bnd (tx_stmt (\<lambda>d. if eid \<in> e_ID ` set (t_entities d) then Inl duplicate_key
              else Inr ((), d\<lparr>t_entities := t_entities d @ [e]\<rparr>))) (\<lambda>_.
       ret e)))"

definition GetByID :: "uuid \<Rightarrow> uuid \<Rightarrow> ('a entity_db_scheme, entity) op" where
  "GetByID org eid = pool_find (find_entity org eid) (NewNotFound ''entity not found'')"

definition repo_Update :: "entity \<Rightarrow> ('a entity_db_scheme, entity) op" where
  "repo_Update e =
    bnd now (\<lambda>t.
    let e = e\<lparr>e_UpdatedAt := t\<rparr>; p = entity_row (e_OrganizationID e) (e_ID e)
    in bnd (pool_stmt (\<lambda>d. Inr (row_count p (t_entities d),
         d\<lparr>t_entities := row_update p (\<lambda>r. r\<lparr>e_Name := e_Name e, e_Status := e_Status e,
              e_ParentID := e_ParentID e, e_Meta := e_Meta e, e_SortOrder := e_SortOrder e,
              e_UpdatedAt := e_UpdatedAt e\<rparr>) (t_entities d)\<rparr>))) (\<lambda>n.
       bnd (guard (n = 0) (NewNotFound ''entity not found'')) (\<lambda>_. ret e)))"

definition SoftDelete :: "uuid \<Rightarrow> uuid \<Rightarrow> ('a entity_db_scheme, unit) op" where
  "SoftDelete org eid =
    bnd now (\<lambda>t.
    bnd (pool_stmt (\<lambda>d. Inr (row_count (entity_row org eid) (t_entities d),
         d\<lparr>t_entities := row_update (entity_row org eid)
              (\<lambda>r. r\<lparr>e_DeletedAt := Some t, e_UpdatedAt := t\<rparr>) (t_entities d)\<rparr>))) (\<lambda>n.
    guard (n = 0) (NewNotFound ''entity not found'')))"

definition comp_key :: "component \<Rightarrow> uuid \<times> string" where
  "comp_key c = (c_EntityID c, c_Type c)"

text \<open>The row \<open>ON CONFLICT (entity_id, type)\<close> leaves: the old identity, the next version.\<close>

definition upsert_component :: "component \<Rightarrow> 'a entity_db_scheme \<Rightarrow> component" where
  "upsert_component c d =
    (case row_get comp_key (comp_key c) (t_components d) of
       None \<Rightarrow> c\<lparr>c_Version := 1\<rparr>
     | Some old \<Rightarrow> old\<lparr>c_Data := c_Data c, c_Version := c_Version old + 1, c_UpdatedAt := c_UpdatedAt c\<rparr>)"

text \<open>\<open>RETURNING id, version, created_at, updated_at\<close> is scanned back into the component.\<close>

definition SetComponentTx :: "component \<Rightarrow> ('a entity_db_scheme, component) op" where
  "SetComponentTx c =
    bnd (if c_ID c = uuid_nil then new_uuid else ret (c_ID c)) (\<lambda>cid.
    bnd now (\<lambda>t.
    let c = c\<lparr>c_ID := cid, c_CreatedAt := t, c_UpdatedAt := t\<rparr>
    in bnd (tx_stmt (\<lambda>d. let r = upsert_component c d
              in Inr (r, d\<lparr>t_components := row_put comp_key r (t_components d)\<rparr>))) (\<lambda>r.
       ret (c\<lparr>c_ID := c_ID r, c_Version := c_Version r, c_CreatedAt := c_CreatedAt r,
              c_UpdatedAt := c_UpdatedAt r\<rparr>))))"

definition find_component :: "uuid \<Rightarrow> uuid \<Rightarrow> string \<Rightarrow> 'a entity_db_scheme \<Rightarrow> component option" where
  "find_component org eid ty d =
     find (\<lambda>c. c_OrganizationID c = org \<and> c_EntityID c = eid \<and> c_Type c = ty) (t_components d)"

definition GetComponent :: "uuid \<Rightarrow> uuid \<Rightarrow> string \<Rightarrow> ('a entity_db_scheme, component) op" where
  "GetComponent org eid ty = pool_find (find_component org eid ty) (NewNotFound ''component not found'')"

text \<open>\<open>ORDER BY type\<close>: insertion into a list sorted by type.\<close>

fun str_le :: "string \<Rightarrow> string \<Rightarrow> bool" where
  "str_le [] _ = True"
| "str_le (a # as) [] = False"
| "str_le (a # as) (b # bs) =
     ((of_char a :: nat) < of_char b \<or> a = b \<and> str_le as bs)"

fun insert_by_type :: "component \<Rightarrow> component list \<Rightarrow> component list" where
  "insert_by_type c [] = [c]"
| "insert_by_type c (x # xs) =
     (if str_le (c_Type c) (c_Type x) then c # x # xs else x # insert_by_type c xs)"

definition ListComponents :: "uuid \<Rightarrow> uuid \<Rightarrow> ('a entity_db_scheme, component list) op" where
  "ListComponents org eid = pool_stmt (query (\<lambda>d.
     foldr insert_by_type (filter (\<lambda>c. c_OrganizationID c = org \<and> c_EntityID c = eid) (t_components d)) []))"

definition repo_DeleteComponent :: "uuid \<Rightarrow> uuid \<Rightarrow> string \<Rightarrow> ('a entity_db_scheme, unit) op" where
  "repo_DeleteComponent org eid ty =
    (let p = (\<lambda>c. c_OrganizationID c = org \<and> c_EntityID c = eid \<and> c_Type c = ty)
     in bnd (pool_stmt (\<lambda>d. Inr (row_count p (t_components d),
              d\<lparr>t_components := filter (\<lambda>c. \<not> p c) (t_components d)\<rparr>))) (\<lambda>n.
        guard (n = 0) (NewNotFound ''component not found'')))"

section \<open>The service\<close>

definition blank_entity :: "uuid \<Rightarrow> uuid \<Rightarrow> create_input \<Rightarrow> entity" where
  "blank_entity org eid inp =
    \<lparr>e_ID = eid, e_OrganizationID = org, e_Kind = ci_Kind inp, e_Name = ci_Name inp,
     e_Status = '''', e_ParentID = ci_ParentID inp,
     e_Meta = (case ci_Meta inp of None \<Rightarrow> Some (JObj []) | m \<Rightarrow> m),
     e_SortOrder = 0, e_CreatedAt = time_zero, e_UpdatedAt = time_zero, e_DeletedAt = None,
     e_Components = []\<rparr>"

definition entity_event ::
  "uuid \<Rightarrow> uuid \<Rightarrow> uuid \<Rightarrow> string \<Rightarrow> uuid option \<Rightarrow> time \<Rightarrow> json \<Rightarrow> event" where
  "entity_event evid org eid ty actor t data =
    \<lparr>ev_ID = evid, ev_OrganizationID = org, ev_EntityID = Some eid, ev_Type = ty, ev_Data = data,
     ev_ActorID = actor, ev_Timestamp = t, ev_Version = 1\<rparr>"

definition created_data :: "entity \<Rightarrow> json" where
  "created_data e = JObj [(''id'', JUuid (e_ID e)), (''kind'', JStr (e_Kind e)),
     (''name'', JStr (e_Name e)), (''status'', JStr ''active'')]"

definition Create :: "uuid \<Rightarrow> create_input \<Rightarrow> uuid option \<Rightarrow> ('a entity_db_scheme, entity) op" where
  "Create org inp actor =
    bnd (guard (ci_Kind inp = '''') (NewBadRequest ''kind is required'')) (\<lambda>_.
    bnd (guard (ci_Name inp = '''') (NewBadRequest ''name is required'')) (\<lambda>_.
    bnd new_uuid (\<lambda>eid.
    let e = blank_entity org eid inp in
    bnd new_uuid (\<lambda>evid.
    bnd now (\<lambda>t.
    let ev = entity_event evid org eid ''entity.created'' actor t (created_data e) in
    bnd (with_tx (bnd (CreateTx e) (\<lambda>e. bnd (AppendTx ev) (\<lambda>_. ret e)))) (\<lambda>e.
    bnd (publish ev) (\<lambda>_.
    ret e)))))))"

text \<open>One round of the loop over the components: the component, its event.\<close>

definition set_one ::
  "uuid \<Rightarrow> uuid \<Rightarrow> uuid option \<Rightarrow> string \<times> json \<Rightarrow> ('a entity_db_scheme, component \<times> event) op" where
  "set_one org eid actor = (\<lambda>(compType, data).
    bnd new_uuid (\<lambda>cid.
    let c = \<lparr>c_ID = cid, c_EntityID = eid, c_OrganizationID = org, c_Type = compType, c_Data = data,
             c_Version = 0, c_CreatedAt = time_zero, c_UpdatedAt = time_zero\<rparr> in
    bnd (SetComponentTx c) (\<lambda>c.
    bnd new_uuid (\<lambda>evid.
    bnd now (\<lambda>t.
    let ev = entity_event evid org eid ''component.set'' actor t
               (JObj [(''entity_id'', JUuid eid), (''type'', JStr compType), (''data'', data)]) in
    bnd (AppendTx ev) (\<lambda>_.
    ret (c, ev)))))))"

text \<open>The components come as the pairs of a Go map, in the order its iteration takes.\<close>

definition CreateWithComponents ::
  "uuid \<Rightarrow> create_input \<Rightarrow> (string \<times> json) list \<Rightarrow> uuid option \<Rightarrow> ('a entity_db_scheme, entity) op" where
  "CreateWithComponents org inp comps actor =
    bnd (guard (ci_Kind inp = '''') (NewBadRequest ''kind is required'')) (\<lambda>_.
    bnd (guard (ci_Name inp = '''') (NewBadRequest ''name is required'')) (\<lambda>_.
    bnd new_uuid (\<lambda>eid.
    let e = blank_entity org eid inp in
    bnd new_uuid (\<lambda>evid.
    bnd now (\<lambda>t.
    let entityEv = entity_event evid org eid ''entity.created'' actor t (created_data e) in
    bnd (with_tx (
      bnd (CreateTx e) (\<lambda>e.
      bnd (AppendTx entityEv) (\<lambda>_.
      bnd (map_op (set_one org eid actor) comps) (\<lambda>cevs.
      ret (e, cevs)))))) (\<lambda>(e, cevs).
    bnd (publish entityEv) (\<lambda>_.
    bnd (for_each cevs (\<lambda>(_, ev). publish ev)) (\<lambda>_.
    ret (e\<lparr>e_Components := map fst cevs\<rparr>)))))))))"

definition Get :: "uuid \<Rightarrow> uuid \<Rightarrow> bool \<Rightarrow> ('a entity_db_scheme, entity) op" where
  "Get org eid includeComponents =
    bnd (GetByID org eid) (\<lambda>e.
    if includeComponents
    then bnd (ListComponents org eid) (\<lambda>comps. ret (e\<lparr>e_Components := comps\<rparr>))
    else ret e)"

text \<open>The five tests of \<open>Update\<close>: the entity so far and the recorded changes.\<close>

definition old_new :: "json \<Rightarrow> json \<Rightarrow> json" where
  "old_new a b = JObj [(''old'', a), (''new'', b)]"

definition apply_name :: "update_input \<Rightarrow> entity \<times> (string \<times> json) list \<Rightarrow> entity \<times> (string \<times> json) list" where
  "apply_name inp = (\<lambda>(e, ch). case ui_Name inp of
     Some v \<Rightarrow> if v \<noteq> e_Name e then (e\<lparr>e_Name := v\<rparr>, ch @ [(''name'', old_new (JStr (e_Name e)) (JStr v))])
               else (e, ch)
   | None \<Rightarrow> (e, ch))"

definition apply_status :: "update_input \<Rightarrow> entity \<times> (string \<times> json) list \<Rightarrow> entity \<times> (string \<times> json) list" where
  "apply_status inp = (\<lambda>(e, ch). case ui_Status inp of
     Some v \<Rightarrow> if v \<noteq> e_Status e then (e\<lparr>e_Status := v\<rparr>, ch @ [(''status'', old_new (JStr (e_Status e)) (JStr v))])
               else (e, ch)
   | None \<Rightarrow> (e, ch))"

definition apply_parent :: "update_input \<Rightarrow> entity \<times> (string \<times> json) list \<Rightarrow> entity \<times> (string \<times> json) list" where
  "apply_parent inp = (\<lambda>(e, ch). case ui_ParentID inp of
     Some v \<Rightarrow> (e\<lparr>e_ParentID := Some v\<rparr>,
                ch @ [(''parent_id'', old_new (jnull_or JUuid (e_ParentID e)) (JUuid v))])
   | None \<Rightarrow> (e, ch))"

definition apply_meta :: "update_input \<Rightarrow> entity \<times> (string \<times> json) list \<Rightarrow> entity \<times> (string \<times> json) list" where
  "apply_meta inp = (\<lambda>(e, ch). case ui_Meta inp of
     Some v \<Rightarrow> (e\<lparr>e_Meta := Some v\<rparr>, ch @ [(''meta'', old_new (jnull_or id (e_Meta e)) v)])
   | None \<Rightarrow> (e, ch))"

definition apply_sort :: "update_input \<Rightarrow> entity \<times> (string \<times> json) list \<Rightarrow> entity \<times> (string \<times> json) list" where
  "apply_sort inp = (\<lambda>(e, ch). case ui_SortOrder inp of
     Some v \<Rightarrow> if v \<noteq> e_SortOrder e
               then (e\<lparr>e_SortOrder := v\<rparr>, ch @ [(''sort_order'', old_new (JInt (e_SortOrder e)) (JInt v))])
               else (e, ch)
   | None \<Rightarrow> (e, ch))"

definition apply_update :: "update_input \<Rightarrow> entity \<Rightarrow> entity \<times> (string \<times> json) list" where
  "apply_update inp e =
     apply_sort inp (apply_meta inp (apply_parent inp (apply_status inp (apply_name inp (e, [])))))"

definition Update :: "uuid \<Rightarrow> uuid \<Rightarrow> update_input \<Rightarrow> uuid option \<Rightarrow> ('a entity_db_scheme, entity) op" where
  "Update org eid inp actor =
    bnd (GetByID org eid) (\<lambda>e.
    case apply_update inp e of (e, changes) \<Rightarrow>
    if changes = [] then ret e
    else
      bnd new_uuid (\<lambda>evid.
      bnd now (\<lambda>t.
      let ev = entity_event evid org eid ''entity.updated'' actor t
                 (JObj [(''id'', JUuid eid), (''changes'', JObj changes)]) in
      bnd (with_tx (bnd (repo_Update e) (\<lambda>e. bnd (AppendTx ev) (\<lambda>_. ret e)))) (\<lambda>e.
      bnd (publish ev) (\<lambda>_.
      ret e)))))"

definition Delete :: "uuid \<Rightarrow> uuid \<Rightarrow> uuid option \<Rightarrow> ('a entity_db_scheme, unit) op" where
  "Delete org eid actor =
    bnd (GetByID org eid) (\<lambda>e.
    bnd new_uuid (\<lambda>evid.
    bnd now (\<lambda>t.
    let ev = entity_event evid org eid ''entity.deleted'' actor t
               (JObj [(''id'', JUuid eid), (''kind'', JStr (e_Kind e))]) in
    bnd (with_tx (bnd (SoftDelete org eid) (\<lambda>_. AppendTx ev))) (\<lambda>_.
    publish ev))))"

definition SetComponent ::
  "uuid \<Rightarrow> uuid \<Rightarrow> string \<Rightarrow> json \<Rightarrow> uuid option \<Rightarrow> ('a entity_db_scheme, component) op" where
  "SetComponent org eid compType data actor =
    bnd (GetByID org eid) (\<lambda>_.
    bnd new_uuid (\<lambda>cid.
    let c = \<lparr>c_ID = cid, c_EntityID = eid, c_OrganizationID = org, c_Type = compType, c_Data = data,
             c_Version = 0, c_CreatedAt = time_zero, c_UpdatedAt = time_zero\<rparr> in
    bnd new_uuid (\<lambda>evid.
    bnd now (\<lambda>t.
    let ev = entity_event evid org eid ''component.set'' actor t
               (JObj [(''entity_id'', JUuid eid), (''type'', JStr compType), (''data'', data)]) in
    bnd (with_tx (bnd (SetComponentTx c) (\<lambda>c. bnd (AppendTx ev) (\<lambda>_. ret c)))) (\<lambda>c.
    let ev = ev\<lparr>ev_Data := JObj [(''entity_id'', JUuid eid), (''type'', JStr compType),
               (''data'', data), (''version'', JInt (c_Version c))]\<rparr> in
    bnd (publish ev) (\<lambda>_.
    ret c))))))"

definition DeleteComponent ::
  "uuid \<Rightarrow> uuid \<Rightarrow> string \<Rightarrow> uuid option \<Rightarrow> ('a entity_db_scheme, unit) op" where
  "DeleteComponent org eid compType actor =
    bnd (GetByID org eid) (\<lambda>_.
    bnd new_uuid (\<lambda>evid.
    bnd now (\<lambda>t.
    let ev = entity_event evid org eid ''component.removed'' actor t
               (JObj [(''entity_id'', JUuid eid), (''type'', JStr compType)]) in
    bnd (repo_DeleteComponent org eid compType) (\<lambda>_.
    publish ev))))"

section \<open>Lemmas\<close>

interpretation components: keyed_store
  "\<lambda>k d. row_get comp_key k (t_components d)"
  "\<lambda>c d. d\<lparr>t_components := row_put comp_key c (t_components d)\<rparr>"
  comp_key
  for dummy :: "'a entity_db_scheme"
  by unfold_locales (auto simp: row_get_put dest: row_get_Some)

text \<open>The two tables of the component.\<close>

definition entity_tables :: "'a entity_db_scheme \<Rightarrow> entity list \<times> component list" where
  "entity_tables d = (t_entities d, t_components d)"

lemma entity_tables_events [simp]: "entity_tables (d\<lparr>t_events := es\<rparr>) = entity_tables d"
  by (simp add: entity_tables_def)

lemma quiet_CreateTx [quiet_intros]: "quiet g (CreateTx e)"
  unfolding CreateTx_def Let_def by (intro quiet_intros)

lemma quiet_SetComponentTx [quiet_intros]: "quiet g (SetComponentTx c)"
  unfolding SetComponentTx_def Let_def by (intro quiet_intros)

lemma quiet_AppendTx [quiet_intros]: "quiet g (AppendTx ev)"
  unfolding AppendTx_def by (intro quiet_intros)

lemma quiet_GetByID [quiet_intros]: "quiet g (GetByID org eid)"
  unfolding GetByID_def by (intro quiet_intros)

lemma quiet_set_one [quiet_intros]: "quiet g (set_one org eid actor p)"
  unfolding set_one_def Let_def by (intro quiet_intros)

lemma Create_atomic: "atomic entity_tables (Create org inp actor)"
  unfolding Create_def Let_def by (rule atomic_rules quiet_intros)+

lemma CreateWithComponents_atomic: "atomic entity_tables (CreateWithComponents org inp comps actor)"
  unfolding CreateWithComponents_def Let_def by (rule atomic_rules quiet_intros)+

lemma SetComponent_atomic: "atomic entity_tables (SetComponent org eid ty data actor)"
  unfolding SetComponent_def Let_def by (rule atomic_rules quiet_intros)+

text \<open>The rows of the other organizations.\<close>

definition others :: "uuid \<Rightarrow> 'a entity_db_scheme \<Rightarrow> entity list" where
  "others org d = filter (\<lambda>e. e_OrganizationID e \<noteq> org) (t_entities d)"

lemma others_simps [simp]:
  "others org (d\<lparr>t_events := es\<rparr>) = others org d"
  "others org (d\<lparr>t_components := cs\<rparr>) = others org d"
  by (simp_all add: others_def)

lemma frame_CreateTx [frame_intros]: "e_OrganizationID e = org \<Longrightarrow> frame (others org) (CreateTx e)"
  unfolding CreateTx_def Let_def
  by (intro frame_intros) (auto simp: others_def split: if_splits)

lemma frame_SetComponentTx [frame_intros]: "frame (others org) (SetComponentTx c)"
  unfolding SetComponentTx_def by (auto simp: Let_def intro!: frame_intros)

lemma frame_GetByID [frame_intros]: "frame g (GetByID org eid)"
  unfolding GetByID_def by (intro frame_intros)

lemma frame_repo_Update [frame_intros]: "e_OrganizationID e = org \<Longrightarrow> frame (others org) (repo_Update e)"
  unfolding repo_Update_def Let_def
  by (intro frame_intros) (auto simp: others_def entity_row_def intro!: filter_row_update)

lemma frame_SoftDelete [frame_intros]: "frame (others org) (SoftDelete org eid)"
  unfolding SoftDelete_def Let_def
  by (intro frame_intros) (auto simp: others_def entity_row_def intro!: filter_row_update)

lemma frame_repo_DeleteComponent [frame_intros]: "frame (others org) (repo_DeleteComponent org eid ty)"
  unfolding repo_DeleteComponent_def Let_def by (intro frame_intros) auto

lemma frame_set_one [frame_intros]: "frame (others org) (set_one org' eid actor p)"
  unfolding set_one_def Let_def by (intro frame_intros) simp_all

lemma find_entity_org: "find_entity org eid d = Some e \<Longrightarrow> e_OrganizationID e = org \<and> e_ID e = eid"
  by (auto simp: find_entity_def entity_row_def dest: find_SomeD)

lemmas apply_update_defs = apply_update_def apply_name_def apply_status_def apply_parent_def
  apply_meta_def apply_sort_def

lemma apply_update_key:
  "apply_update inp e = (e', ch) \<Longrightarrow> e_OrganizationID e' = e_OrganizationID e \<and> e_ID e' = e_ID e
     \<and> e_DeletedAt e' = e_DeletedAt e"
  unfolding apply_update_defs by (auto split: option.splits if_splits)

lemma Create_frame: "frame (others org) (Create org inp actor)"
  unfolding Create_def Let_def by (intro frame_intros) (simp_all add: blank_entity_def)

lemma CreateWithComponents_frame: "frame (others org) (CreateWithComponents org inp comps actor)"
  unfolding CreateWithComponents_def Let_def by (intro frame_intros) (simp_all add: blank_entity_def)

lemma SetComponent_frame: "frame (others org) (SetComponent org eid ty data actor)"
  unfolding SetComponent_def Let_def by (intro frame_intros) simp_all

lemma DeleteComponent_frame: "frame (others org) (DeleteComponent org eid ty actor)"
  unfolding DeleteComponent_def Let_def by (intro frame_intros) simp_all

lemma Delete_frame: "frame (others org) (Delete org eid actor)"
  unfolding Delete_def Let_def by (intro frame_intros) simp_all

lemma Update_frame: "frame (others org) (Update org eid inp actor)"
  unfolding Update_def Let_def GetByID_def
proof (rule frame_bnd_find)
  fix e and d :: "'a entity_db_scheme"
  assume "find_entity org eid d = Some e"
  then have "\<And>e' ch. apply_update inp e = (e', ch) \<Longrightarrow> e_OrganizationID e' = org"
    using find_entity_org apply_update_key by metis
  then show "frame (others org) (case apply_update inp e of (e, changes) \<Rightarrow>
      if changes = [] then ret e else bnd new_uuid (\<lambda>evid. bnd now (\<lambda>t.
        bnd (with_tx (bnd (repo_Update e) (\<lambda>e. bnd (AppendTx (entity_event evid org eid
          ''entity.updated'' actor t (JObj [(''id'', JUuid eid), (''changes'', JObj changes)])))
          (\<lambda>_. ret e)))) (\<lambda>e. bnd (publish (entity_event evid org eid ''entity.updated'' actor t
            (JObj [(''id'', JUuid eid), (''changes'', JObj changes)]))) (\<lambda>_. ret e)))))"
    by (cases "apply_update inp e") (auto intro!: frame_intros)
qed

lemma comp_key_record:
  "comp_key \<lparr>c_ID = i, c_EntityID = eid, c_OrganizationID = og, c_Type = ty, c_Data = da, c_Version = v,
     c_CreatedAt = ca, c_UpdatedAt = ua\<rparr> = (eid, ty)"
  by (simp add: comp_key_def)

definition next_version :: "uuid \<Rightarrow> string \<Rightarrow> 'a entity_db_scheme \<Rightarrow> int" where
  "next_version eid ty d =
    (case row_get comp_key (eid, ty) (t_components d) of None \<Rightarrow> 1 | Some old \<Rightarrow> c_Version old + 1)"

lemma comp_key_components [simp]: "next_version eid ty (d\<lparr>t_events := es\<rparr>) = next_version eid ty d"
  by (simp add: next_version_def)

lemma upsert_simps:
  "comp_key (upsert_component c d) = comp_key c"
  "c_Data (upsert_component c d) = c_Data c"
  "c_Version (upsert_component c d) = next_version (c_EntityID c) (c_Type c) d"
  by (auto simp: next_version_def upsert_component_def comp_key_def split: option.splits dest!: row_get_Some)

lemma soft_delete_find:
  "find (entity_row org eid) (row_update (entity_row org eid)
     (\<lambda>r. r\<lparr>e_DeletedAt := Some t, e_UpdatedAt := t'\<rparr>) es) = None"
  by (rule find_row_update_none) (simp add: entity_row_def)

lemma row_update_ids:
  "(\<And>x. e_ID (f x) = e_ID x) \<Longrightarrow> map e_ID (row_update p f es) = map e_ID es"
  by (simp add: row_update_def)

lemma update_find:
  "find_entity org eid (d\<lparr>t_entities := row_update (entity_row org eid) (\<lambda>r. r\<lparr>e_Name := n,
     e_Status := s, e_ParentID := p, e_Meta := m, e_SortOrder := so, e_UpdatedAt := t\<rparr>) (t_entities d)\<rparr>)
   = map_option (\<lambda>r. r\<lparr>e_Name := n, e_Status := s, e_ParentID := p, e_Meta := m, e_SortOrder := so,
       e_UpdatedAt := t\<rparr>) (find_entity org eid d)"
  unfolding find_entity_def
  by (auto simp: find_row_update entity_row_def option.map_comp dest!: find_SomeD
      intro!: map_option_cong)

lemma find_entity_events [simp]: "find_entity org eid (d\<lparr>t_events := es\<rparr>) = find_entity org eid d"
  by (simp add: find_entity_def)

lemma apply_update_fields:
  "apply_update inp e = (e', ch) \<Longrightarrow>
     e_Name e' = (case ui_Name inp of None \<Rightarrow> e_Name e | Some v \<Rightarrow> v)
   \<and> e_Status e' = (case ui_Status inp of None \<Rightarrow> e_Status e | Some v \<Rightarrow> v)
   \<and> e_Kind e' = e_Kind e \<and> e_OrganizationID e' = e_OrganizationID e \<and> e_ID e' = e_ID e
   \<and> (ch = [] \<longrightarrow> e' = e)"
  unfolding apply_update_defs by (auto split: option.splits if_splits)

text \<open>What \<open>SetComponent\<close> leaves in the table.\<close>

lemma SetComponent_row:
  "wp env (SetComponent org eid ty data actor)
     (\<lambda>c w'. \<exists>r. row_get comp_key (eid, ty) (t_components (committed w')) = Some r
        \<and> c_Data r = data \<and> c_Version r = c_Version c
        \<and> c_Version c = next_version eid ty d
        \<and> (\<forall>k. k \<noteq> (eid, ty) \<longrightarrow> row_get comp_key k (t_components (committed w'))
             = row_get comp_key k (t_components d)))
     (\<lambda>_ _. True) (start d)"
  unfolding SetComponent_def SetComponentTx_def GetByID_def AppendTx_def Let_def
  by (intro wp_intros)
      (auto simp: start_def stmt_effect_def row_get_put upsert_simps comp_key_record intro!: wp_intros)


section \<open>Properties\<close>

text \<open>C10: An entity is created together with its components and its event, or not at all: when
  \<open>Create\<close>, \<open>CreateWithComponents\<close> or \<open>SetComponent\<close> returns an error, whichever statement
  failed, the entity and component tables are as they were.\<close>

theorem entity_writes_atomic:
  "wp env (Create org inp actor) (\<lambda>_ _. True) (\<lambda>_ w'. entity_tables (committed w') = entity_tables d) (start d)
   \<and> wp env (CreateWithComponents org inp comps actor) (\<lambda>_ _. True)
       (\<lambda>_ w'. entity_tables (committed w') = entity_tables d) (start d)
   \<and> wp env (SetComponent org eid ty data actor) (\<lambda>_ _. True)
       (\<lambda>_ w'. entity_tables (committed w') = entity_tables d) (start d)"
  by (intro conjI atomic_wp Create_atomic CreateWithComponents_atomic SetComponent_atomic)

text \<open>C11: Tenant isolation: no operation called for one organization changes, adds or removes an
  entity of another one, on success and on every error.\<close>

theorem entity_tenant_isolation:
  "others org (committed (snd (Create org inp actor env (start d)))) = others org d
   \<and> others org (committed (snd (CreateWithComponents org inp comps actor env (start d)))) = others org d
   \<and> others org (committed (snd (Update org eid upd actor env (start d)))) = others org d
   \<and> others org (committed (snd (Delete org eid actor env (start d)))) = others org d
   \<and> others org (committed (snd (SetComponent org eid ty data actor env (start d)))) = others org d
   \<and> others org (committed (snd (DeleteComponent org eid ty actor env (start d)))) = others org d"
  by (intro conjI frame_run Create_frame CreateWithComponents_frame Update_frame Delete_frame
      SetComponent_frame DeleteComponent_frame)

text \<open>A component that was set is read back with the data given, at the version after the
  stored one (1 when there was none); no other component changes, and a failure changes none.\<close>

lemma SetComponent_get:
  "wp env (SetComponent org eid ty data actor)
     (\<lambda>c w'. \<exists>r. c_Data r = data \<and> c_Version r = c_Version c
        \<and> c_Version c = next_version eid ty d
        \<and> (\<forall>k. row_get comp_key k (t_components (committed w'))
             = (if k = (eid, ty) then Some r else row_get comp_key k (t_components d))))
     (\<lambda>_ w'. t_components (committed w') = t_components d)
     (start d)"
proof (rule wp_split)
  show "wp env (SetComponent org eid ty data actor) (\<lambda>_ _. True)
      (\<lambda>_ w'. t_components (committed w') = t_components d) (start d)"
    using atomic_wp [OF SetComponent_atomic, of env org eid ty data actor d]
    by (rule wp_conseq) (simp_all add: entity_tables_def)
  show "wp env (SetComponent org eid ty data actor)
     (\<lambda>c w'. \<exists>r. c_Data r = data \<and> c_Version r = c_Version c
        \<and> c_Version c = next_version eid ty d
        \<and> (\<forall>k. row_get comp_key k (t_components (committed w'))
             = (if k = (eid, ty) then Some r else row_get comp_key k (t_components d))))
     (\<lambda>_ _. True) (start d)"
    by (rule wp_conseq [OF SetComponent_row]) auto
qed

text \<open>A deleted entity is gone for every reader: after \<open>Delete\<close> succeeds the lookup of
  \<open>GetByID\<close> finds nothing, the deletion is announced once, and the row itself is kept.\<close>

lemma Delete_then_not_found:
  "wp env (Delete org eid actor)
     (\<lambda>_ w'. find_entity org eid (committed w') = None
        \<and> map e_ID (t_entities (committed w')) = map e_ID (t_entities d)
        \<and> map ev_Type (published w') = [''entity.deleted''])
     (\<lambda>_ w'. published w' = []) (start d)"
  unfolding Delete_def SoftDelete_def GetByID_def AppendTx_def Let_def
  by (intro wp_intros)
    (auto simp: start_def stmt_effect_def find_entity_def soft_delete_find row_update_ids
       entity_event_def intro!: wp_intros)

text \<open>What \<open>Update\<close> writes: after a success the stored row has the requested name and status
  where the request has them and the old ones elsewhere, and keeps its kind; when the request
  changes nothing, nothing is written and nothing is published.\<close>

lemma Update_writes:
  "wp env (Update org eid inp actor)
     (\<lambda>_ w'. \<exists>old r. find_entity org eid d = Some old
        \<and> find_entity org eid (committed w') = Some r
        \<and> e_Name r = (case ui_Name inp of None \<Rightarrow> e_Name old | Some v \<Rightarrow> v)
        \<and> e_Status r = (case ui_Status inp of None \<Rightarrow> e_Status old | Some v \<Rightarrow> v)
        \<and> e_Kind r = e_Kind old
        \<and> (if snd (apply_update inp old) = [] then published w' = [] \<and> committed w' = d
           else map ev_Type (published w') = [''entity.updated'']))
     (\<lambda>_ _. True) (start d)"
proof (cases "find_entity org eid d")
  case None
  then show ?thesis
    unfolding Update_def GetByID_def by (intro wp_intros) (auto simp: start_def)
next
  case (Some old)
  obtain e' ch where up: "apply_update inp old = (e', ch)" by fastforce
  note f = apply_update_fields [OF up] and o = find_entity_org [OF Some]
  show ?thesis
    unfolding Update_def repo_Update_def GetByID_def AppendTx_def Let_def
    by (intro wp_intros)
      (use f o Some up in \<open>auto simp: start_def stmt_effect_def update_find entity_event_def intro!: wp_intros\<close>)
qed

definition fail_at :: "nat \<Rightarrow> go_error \<Rightarrow> env \<Rightarrow> env" where
  "fail_at k err env = env\<lparr>fault := (\<lambda>n. if n = k then Some err else None)\<rparr>"

text \<open>\<open>Update\<close> is not atomic: \<open>repo.Update\<close> writes through the pool inside \<open>WithTx\<close>, so when
  the append of the event fails after it, the caller gets the error, nothing is announced, and
  the new name is in the database all the same.\<close>

lemma Update_error_leaves_write:
  assumes "find_entity org eid d = Some old" and "n \<noteq> e_Name old"
  shows "wp (fail_at 6 err env)
     (Update org eid \<lparr>ui_Name = Some n, ui_Status = None, ui_ParentID = None, ui_Meta = None,
        ui_SortOrder = None\<rparr> actor)
     (\<lambda>_ _. False)
     (\<lambda>e w'. e = err \<and> published w' = []
        \<and> map_option e_Name (find_entity org eid (committed w')) = Some n) (start d)"
  using assms find_entity_org [OF assms(1)]
  unfolding Update_def repo_Update_def GetByID_def AppendTx_def Let_def
  by (intro wp_intros)
    (auto simp: start_def fail_at_def stmt_effect_def update_find apply_update_defs row_count_find
       find_entity_def [symmetric] intro!: wp_intros)

text \<open>The theorem at an entity named \<open>a\<close> that is renamed to \<open>b\<close>.\<close>

definition sample_entity :: entity where
  "sample_entity = (blank_entity 1 7 \<lparr>ci_Kind = ''product'', ci_Name = ''a'', ci_ParentID = None,
      ci_Meta = None\<rparr>)\<lparr>e_Status := ''active''\<rparr>"

definition sample_entity_db :: entity_db where
  "sample_entity_db = \<lparr>t_events = [], t_entities = [sample_entity], t_components = []\<rparr>"

theorem Update_error_leaves_write_witness:
  "wp (fail_at 6 (NewInternal ''connection lost'') (env_ok Some))
     (Update 1 7 \<lparr>ui_Name = Some ''b'', ui_Status = None, ui_ParentID = None, ui_Meta = None,
        ui_SortOrder = None\<rparr> None)
     (\<lambda>_ _. False)
     (\<lambda>e w'. e = NewInternal ''connection lost'' \<and> published w' = []
        \<and> map_option e_Name (find_entity 1 7 (committed w')) = Some ''b'') (start sample_entity_db)"
  by (rule Update_error_leaves_write [of 1 7 sample_entity_db sample_entity])
    (simp_all add: find_entity_def entity_row_def sample_entity_db_def sample_entity_def blank_entity_def)

end
