(* ===== verification/Column.thy ===== *)
theory Column
  imports Float64
begin

text \<open>
  What the database does to a double written to a \<open>NUMERIC(15,4)\<close> column and read back. The
  database is not part of the sources: its behaviour is a function from the value written to
  the value read (\<open>None\<close> when the statement fails), and the locale \<open>numeric_column\<close> states what
  the model relies on: the value stored is a whole number \<open>k\<close> of ten-thousandths with at most
  fifteen digits, within three fifths of one of the value written (rounding to the scale is at
  most one half; the driver writes the shortest decimal that reads back as the same double,
  which below \<open>2 ^ 37\<close> moves the value by less than a tenth), and it is read back as the double
  nearest to \<open>k / 10 ^ 4\<close>. An infinity is refused.

  \<open>numeric_15_4\<close> is one such function, computed, for the examples.
\<close>

definition gv :: "int \<Rightarrow> rat" where
  "gv k = rnd (of_int k / 10 ^ 4)"

definition numeric_digits :: "int \<Rightarrow> bool" where
  "numeric_digits k \<longleftrightarrow> \<bar>k\<bar> < 10 ^ 15"

fun numeric_15_4 :: "f64 \<Rightarrow> f64 option" where
  "numeric_15_4 (Fin x) = (let k = rha (x * 10 ^ 4) in if numeric_digits k then Some (Fin (gv k)) else None)"
| "numeric_15_4 (Inf s) = None"
| "numeric_15_4 NaN = Some NaN"

locale numeric_column =
  fixes col :: "f64 \<Rightarrow> f64 option"
  assumes col_Fin: "col (Fin x) = Some y \<Longrightarrow>
      \<exists>k. numeric_digits k \<and> y = Fin (gv k) \<and> \<bar>x * 10 ^ 4 - of_int k\<bar> \<le> 3 / 5"
    and col_Inf: "col (Inf s) = None"

text \<open>The distance from \<open>k / 10 ^ 4\<close> to the double that stands for it, in ten-thousandths.\<close>

lemma gv_bound:
  assumes "numeric_digits k"
  shows "\<bar>of_int k / 10 ^ 4 :: rat\<bar> < 2 powi 37"
proof -
  have "\<bar>of_int k :: rat\<bar> < of_int (10 ^ 15)"
    using assms unfolding numeric_digits_def by (simp only: of_int_less_iff flip: of_int_abs)
  then have "\<bar>of_int k / 10 ^ 4 :: rat\<bar> < 100000000000" by simp
  also have "\<dots> < 2 powi 37" by (simp add: power_int_def)
  finally show ?thesis .
qed

lemma two_powi_m17: "(2::rat) powi (37 - 54) = 1 / 131072"
  by (simp add: powi2_minus_numeral)

lemma rnd_near:
  assumes "\<bar>x\<bar> < 137438953472"
  shows "\<bar>rnd x - x\<bar> \<le> 1 / 131072"
proof -
  have "\<bar>x\<bar> < 2 powi 37" using assms by (simp add: power_int_def)
  from rnd_error_below [OF this] show ?thesis by (simp add: powi2_minus_numeral)
qed

lemma gv_range:
  assumes "numeric_digits k"
  shows "\<bar>of_int k / 10 ^ 4 :: rat\<bar> < 100000000000" and "\<bar>gv k - of_int k / 10 ^ 4\<bar> \<le> 1 / 131072"
proof -
  have "\<bar>of_int k :: rat\<bar> < of_int (10 ^ 15)"
    using assms unfolding numeric_digits_def by (simp only: of_int_less_iff flip: of_int_abs)
  then show "\<bar>of_int k / 10 ^ 4 :: rat\<bar> < 100000000000" by simp
  then show "\<bar>gv k - of_int k / 10 ^ 4\<bar> \<le> 1 / 131072"
    unfolding gv_def by (intro rnd_near) linarith
qed

lemma gv_mono: "k \<le> m \<Longrightarrow> gv k \<le> gv m"
  unfolding gv_def by (intro rnd_mono divide_right_mono) simp_all

lemma gv_0 [simp]: "gv 0 = 0"
  by (simp add: gv_def)

lemma gv_nonneg: "0 \<le> k \<Longrightarrow> 0 \<le> gv k"
  using gv_mono [of 0 k] by simp

text \<open>Whole quantities are themselves.\<close>

lemma gv_units: "\<bar>n\<bar> < 2 ^ 53 \<Longrightarrow> gv (10 ^ 4 * n) = of_int n"
  by (simp add: gv_def)

text \<open>Bounds on a rational give bounds on the integer within three fifths of it.\<close>

lemma int_between:
  assumes "\<bar>y - of_int k :: rat\<bar> \<le> 3 / 5"
  shows "of_int m - 3 / 10 \<le> y \<Longrightarrow> m \<le> k" and "y \<le> of_int m + 3 / 10 \<Longrightarrow> k \<le> m"
proof -
  show "m \<le> k" if "of_int m - 3 / 10 \<le> y"
  proof -
    have "of_int m - 1 < (of_int k :: rat)" using assms that by linarith
    then have "(of_int (m - 1) :: rat) < of_int k" by simp
    then show ?thesis by (simp only: of_int_less_iff)
  qed
  show "k \<le> m" if "y \<le> of_int m + 3 / 10"
  proof -
    have "(of_int k :: rat) < of_int m + 1" using assms that by linarith
    then have "(of_int k :: rat) < of_int (m + 1)" by simp
    then show ?thesis by (simp only: of_int_less_iff)
  qed
qed

lemma scale_lower: "v / 10 ^ 4 - 4 / 131072 \<le> (r::rat) \<Longrightarrow> v - 40000 / 131072 \<le> r * 10 ^ 4"
  by simp

lemma scale_upper: "(r::rat) \<le> v / 10 ^ 4 + 4 / 131072 \<Longrightarrow> r * 10 ^ 4 \<le> v + 40000 / 131072"
  by simp

context numeric_column
begin

lemma col_SomeE:
  assumes "col (f64_round x) = Some y"
  obtains k where "numeric_digits k" "y = Fin (gv k)" "\<bar>rnd x * 10 ^ 4 - of_int k\<bar> \<le> 3 / 5"
proof -
  have "f64_round x = Fin (rnd x)"
    using assms col_Inf by (auto simp: f64_round_def Let_def split: if_splits)
  with assms col_Fin that show thesis by auto
qed

text \<open>A stored value written back is the same value.\<close>

lemma col_stored:
  assumes "col (Fin (gv k)) = Some y" and "numeric_digits k"
  shows "y = Fin (gv k)"
proof -
  obtain m where m: "y = Fin (gv m)" "\<bar>gv k * 10 ^ 4 - of_int m\<bar> \<le> 3 / 5"
    using col_Fin [OF assms(1)] by auto
  have "of_int k / 10 ^ 4 - 1 / 131072 \<le> gv k" "gv k \<le> of_int k / 10 ^ 4 + 1 / 131072"
    using gv_range(2) [OF assms(2)] by linarith+
  then have "of_int k - 3 / 10 \<le> gv k * 10 ^ 4" "gv k * 10 ^ 4 \<le> of_int k + 3 / 10"
    by simp_all
  with int_between [OF m(2)] have "m = k" by (simp add: order_antisym)
  with m show ?thesis by simp
qed

text \<open>
  The arithmetic of the stock operations, in ten-thousandths. \<open>q\<close> and \<open>r\<close> are what is stored
  as quantity and reserve, \<open>i > 0\<close> the quantity of the request.
\<close>

lemma col_add:
  assumes "col (f64_round (gv q + i)) = Some y" and "numeric_digits q" and "0 \<le> i"
  obtains k where "numeric_digits k" "y = Fin (gv k)" "q \<le> k"
proof -
  obtain k where k: "numeric_digits k" "y = Fin (gv k)" "\<bar>rnd (gv q + i) * 10 ^ 4 - of_int k\<bar> \<le> 3 / 5"
    by (rule col_SomeE [OF assms(1)])
  note g = gv_range [OF assms(2)]
  have "\<bar>rnd (gv q) - gv q\<bar> \<le> 1 / 131072" using g by (intro rnd_near) linarith
  moreover have "rnd (gv q) \<le> rnd (gv q + i)" using assms(3) by (intro rnd_mono) simp
  ultimately have "of_int q / 10 ^ 4 - 2 / 131072 \<le> rnd (gv q + i)" using g by linarith
  then have "of_int q - 3 / 10 \<le> rnd (gv q + i) * 10 ^ 4" by simp
  with k int_between(1) [OF k(3)] that show thesis by blast
qed

lemma available_bound:
  assumes "numeric_digits q" and "numeric_digits r" and "0 \<le> r" and "r \<le> q"
    and "fle (Fin i) (f64_round (gv q - gv r))"
  shows "i \<le> gv q - gv r + 1 / 131072"
proof -
  have gm: "0 \<le> gv r" "gv r \<le> gv q" using assms(3,4) by (auto intro: gv_mono gv_nonneg)
  note g = gv_range [OF assms(1)] gv_range [OF assms(2)]
  have lt: "\<bar>gv q - gv r\<bar> < 137438953472" using g gm by linarith
  then have "\<bar>gv q - gv r\<bar> \<le> 2 powi 37" by (simp add: power_int_def)
  then have "f64_round (gv q - gv r) = Fin (rnd (gv q - gv r))" by (rule f64_round_bounded) simp
  then have "i \<le> rnd (gv q - gv r)" using assms(5) by simp
  with rnd_near [OF lt] show ?thesis by linarith
qed

lemma col_reserve:
  assumes "numeric_digits q" and "numeric_digits r" and "0 \<le> r" and "r \<le> q" and "0 \<le> i"
    and "i \<le> gv q - gv r + 1 / 131072" and "col (f64_round (gv r + i)) = Some y"
  obtains k where "numeric_digits k" "y = Fin (gv k)" "r \<le> k" "k \<le> q"
proof -
  obtain k where k: "numeric_digits k" "y = Fin (gv k)" "\<bar>rnd (gv r + i) * 10 ^ 4 - of_int k\<bar> \<le> 3 / 5"
    by (rule col_SomeE [OF assms(7)])
  note g = gv_range [OF assms(1)] gv_range [OF assms(2)]
  have r0: "0 \<le> gv r" using assms(3) by (rule gv_nonneg)
  have "\<bar>gv r + i\<bar> < 137438953472" using r0 assms(5,6) g by linarith
  from rnd_near [OF this] have "rnd (gv r + i) \<le> of_int q / 10 ^ 4 + 3 / 131072"
    "of_int r / 10 ^ 4 - 2 / 131072 \<le> rnd (gv r + i)"
    using assms(5,6) g by linarith+
  then have "rnd (gv r + i) * 10 ^ 4 \<le> of_int q + 3 / 10" "of_int r - 3 / 10 \<le> rnd (gv r + i) * 10 ^ 4"
    by simp_all
  with k int_between [OF k(3)] that show thesis by blast
qed

lemma col_release:
  assumes "numeric_digits r" and "0 \<le> i" and "i \<le> gv r" and "col (f64_round (gv r - i)) = Some y"
  obtains k where "numeric_digits k" "y = Fin (gv k)" "0 \<le> k" "k \<le> r"
proof -
  obtain k where k: "numeric_digits k" "y = Fin (gv k)" "\<bar>rnd (gv r - i) * 10 ^ 4 - of_int k\<bar> \<le> 3 / 5"
    by (rule col_SomeE [OF assms(4)])
  note g = gv_range [OF assms(1)]
  have "\<bar>gv r - i\<bar> < 137438953472" using assms(2,3) g by linarith
  from rnd_near [OF this] have "rnd (gv r - i) \<le> of_int r / 10 ^ 4 + 2 / 131072"
    "- (1 / 131072) \<le> rnd (gv r - i)"
    using assms(2,3) g by linarith+
  then have "rnd (gv r - i) * 10 ^ 4 \<le> of_int r + 3 / 10" "of_int 0 - 3 / 10 \<le> rnd (gv r - i) * 10 ^ 4"
    by simp_all
  with k int_between [OF k(3)] that show thesis by blast
qed

text \<open>What is left after taking \<open>i\<close> from an available stock covers the reserve.\<close>

lemma col_take:
  assumes "numeric_digits q" and "numeric_digits r" and "0 \<le> r" and "r \<le> q" and "0 \<le> i"
    and "i \<le> gv q - gv r + 1 / 131072" and "col (f64_round (gv q - i)) = Some y"
  obtains k where "numeric_digits k" "y = Fin (gv k)" "r \<le> k" "k \<le> q"
    "\<bar>rnd (gv q - i) * 10 ^ 4 - of_int k\<bar> \<le> 3 / 5" "\<bar>rnd (gv q - i) - (gv q - i)\<bar> \<le> 1 / 131072"
proof -
  obtain k where k: "numeric_digits k" "y = Fin (gv k)" "\<bar>rnd (gv q - i) * 10 ^ 4 - of_int k\<bar> \<le> 3 / 5"
    by (rule col_SomeE [OF assms(7)])
  note g = gv_range [OF assms(1)] gv_range [OF assms(2)]
  have r0: "0 \<le> gv r" using assms(3) by (rule gv_nonneg)
  have lt: "\<bar>gv q - i\<bar> < 137438953472" using r0 assms(5,6) g by linarith
  note near = rnd_near [OF lt]
  then have "rnd (gv q - i) \<le> of_int q / 10 ^ 4 + 2 / 131072"
    "of_int r / 10 ^ 4 - 3 / 131072 \<le> rnd (gv q - i)"
    using assms(5,6) g by linarith+
  then have "rnd (gv q - i) * 10 ^ 4 \<le> of_int q + 3 / 10" "of_int r - 3 / 10 \<le> rnd (gv q - i) * 10 ^ 4"
    by simp_all
  with k int_between [OF k(3)] near that show thesis by blast
qed

lemma col_take_both:
  assumes "numeric_digits q" and "numeric_digits r" and "0 \<le> r" and "r \<le> q" and "0 \<le> i"
    and "i \<le> gv q - gv r + 1 / 131072" and "i \<le> gv r"
    and "col (f64_round (gv q - i)) = Some y" and "col (f64_round (gv r - i)) = Some z"
  obtains k m where "numeric_digits k" "numeric_digits m" "y = Fin (gv k)" "z = Fin (gv m)"
    "0 \<le> m" "m \<le> k" "k \<le> q"
proof -
  obtain k where k: "numeric_digits k" "y = Fin (gv k)" "r \<le> k" "k \<le> q"
    "\<bar>rnd (gv q - i) * 10 ^ 4 - of_int k\<bar> \<le> 3 / 5" "\<bar>rnd (gv q - i) - (gv q - i)\<bar> \<le> 1 / 131072"
    using col_take [OF assms(1-6,8)] by blast
  obtain m where m: "numeric_digits m" "z = Fin (gv m)" "0 \<le> m" "m \<le> r"
    using col_release [OF assms(2,5,7,9)] by blast
  have "m \<le> k" using k(3) m(4) by simp
  with k m that show thesis by blast
qed

text \<open>On whole ten-thousandths the arithmetic is exact.\<close>

lemma col_exact:
  assumes "numeric_digits q" and "numeric_digits n" and "s = 1 \<or> s = - 1"
    and "col (f64_round (gv q + of_int s * gv n)) = Some y"
  shows "y = Fin (gv (q + s * n))"
proof -
  let ?x = "gv q + of_int s * gv n"
  obtain k where k: "y = Fin (gv k)" "\<bar>rnd ?x * 10 ^ 4 - of_int k\<bar> \<le> 3 / 5"
    by (rule col_SomeE [OF assms(4)])
  note g = gv_range [OF assms(1)] gv_range [OF assms(2)]
  let ?b = "of_int s * gv n" and ?c = "of_int s * of_int n / 10 ^ 4 :: rat"
  have b: "\<bar>?b\<bar> < 100000000001" "\<bar>?b - ?c\<bar> \<le> 1 / 131072"
  proof -
    have "\<bar>gv n\<bar> < 100000000001" using g(3,4) by linarith
    then show "\<bar>?b\<bar> < 100000000001" using assms(3) by auto
    show "\<bar>?b - ?c\<bar> \<le> 1 / 131072" using assms(3)
    proof
      assume "s = 1" then show ?thesis using g(4) by simp
    next
      assume "s = - 1" then show ?thesis using g(4) by (simp add: abs_minus_commute)
    qed
  qed
  have "\<bar>?x\<bar> < 274877906944" using g(1,2) b(1) by linarith
  then have "\<bar>?x\<bar> < 2 powi 38" by (simp add: power_int_def)
  from rnd_error_below [OF this] have "\<bar>rnd ?x - ?x\<bar> \<le> 1 / 65536"
    by (simp add: powi2_minus_numeral)
  then have "\<bar>rnd ?x - (of_int q / 10 ^ 4 + ?c)\<bar> \<le> 4 / 131072"
    using g(2) b(2) by linarith
  moreover have "of_int q / 10 ^ 4 + ?c = of_int (q + s * n) / 10 ^ 4"
    by (simp add: add_divide_distrib)
  ultimately have lo: "of_int (q + s * n) / 10 ^ 4 - 4 / 131072 \<le> rnd ?x"
    and hi: "rnd ?x \<le> of_int (q + s * n) / 10 ^ 4 + 4 / 131072"
    by (simp_all only: abs_le_iff) linarith+
  from scale_lower [OF lo] scale_upper [OF hi] have "(of_int (q + s * n) :: rat) < of_int k + 1" "(of_int k :: rat) < of_int (q + s * n) + 1"
    using k(2) by linarith+
  then have "(of_int (q + s * n) :: rat) < of_int (k + 1)" "(of_int k :: rat) < of_int (q + s * n + 1)"
    by simp_all
  then have "k = q + s * n" by (simp only: of_int_less_iff)
  with k(1) show ?thesis by simp
qed

lemmas col_exact_add = col_exact [where s = 1, simplified]
lemmas col_exact_sub = col_exact [where s = "- 1", simplified]

end

lemma numeric_15_4_column: "numeric_column numeric_15_4"
proof
  fix x y
  assume "numeric_15_4 (Fin x) = Some y"
  then have "numeric_digits (rha (x * 10 ^ 4))" "y = Fin (gv (rha (x * 10 ^ 4)))"
    by (auto simp: Let_def split: if_splits)
  moreover have "\<bar>x * 10 ^ 4 - of_int (rha (x * 10 ^ 4))\<bar> \<le> 3 / 5"
    using rha_error [of "x * 10 ^ 4"] by linarith
  ultimately show "\<exists>k. numeric_digits k \<and> y = Fin (gv k) \<and> \<bar>x * 10 ^ 4 - of_int k\<bar> \<le> 3 / 5"
    by blast
qed simp

interpretation numeric_15_4: numeric_column numeric_15_4
  by (rule numeric_15_4_column)

text \<open>Whole quantities pass the column unchanged.\<close>

lemma numeric_15_4_units: "\<bar>n\<bar> < 10 ^ 11 \<Longrightarrow> numeric_15_4 (Fin (of_int n)) = Some (Fin (of_int n))"
proof -
  assume n: "\<bar>n\<bar> < 10 ^ 11"
  have "of_int n * 10 ^ 4 = (of_int (10 ^ 4 * n) :: rat)" by simp
  then have "rha (of_int n * 10 ^ 4) = 10 ^ 4 * n" by (simp only: rha_of_int)
  moreover have "numeric_digits (10 ^ 4 * n)"
    using n by (simp add: numeric_digits_def abs_mult)
  moreover have "gv (10 ^ 4 * n) = of_int n" using n by (intro gv_units) simp
  ultimately show ?thesis by (simp add: Let_def)
qed

end
