(* ===== verification/Warehouse.thy ===== *)
theory Warehouse
  imports Entities Column
begin

text \<open>
  \<open>internal/module/warehouse/service.go\<close> over \<open>internal/storage/postgres/warehouse_repo.go\<close>:
  stock levels, movements and stocktaking.

  A stock level is written to \<open>NUMERIC(15,4)\<close> columns (\<open>column\<close> of the environment), read and
  calculated with as doubles. Every method reads the level through the pool and writes it in
  its transaction.
\<close>

record stock_level =
  sl_OrganizationID :: uuid
  sl_ProductID :: uuid
  sl_WarehouseID :: uuid
  sl_Quantity :: f64
  sl_Reserved :: f64
  sl_Available :: f64
  sl_Unit :: string
  sl_CostPerUnit :: "int64 option"
  sl_MinQuantity :: f64
  sl_MaxQuantity :: "f64 option"
  sl_UpdatedAt :: time

record stock_movement =
  m_ID :: uuid
  m_OrganizationID :: uuid
  m_ProductID :: uuid
  m_WarehouseID :: uuid
  m_Type :: string
  m_Quantity :: f64
  m_Unit :: string
  m_CostPerUnit :: "int64 option"
  m_Reason :: string
  m_ReferenceType :: "string option"
  m_ReferenceID :: "uuid option"
  m_DestWarehouseID :: "uuid option"
  m_ActorID :: "uuid option"
  m_CreatedAt :: time

record movement_result =
  mr_MovementID :: uuid
  mr_NewQuantity :: f64
  mr_OldQuantity :: f64

record inventory_item =
  ii_ID :: uuid
  ii_InventoryID :: uuid
  ii_OrganizationID :: uuid
  ii_ProductID :: uuid
  ii_Expected :: f64
  ii_Actual :: "f64 option"
  ii_Discrepancy :: f64
  ii_CountedAt :: "time option"

record inventory =
  inv_ID :: uuid
  inv_OrganizationID :: uuid
  inv_WarehouseID :: uuid
  inv_Status :: string
  inv_Notes :: string
  inv_ActorID :: "uuid option"
  inv_CreatedAt :: time
  inv_AppliedAt :: "time option"
  inv_Items :: "inventory_item list"

record warehouse_db = entity_db +
  t_stock :: "stock_level list"
  t_movements :: "stock_movement list"
  t_inventories :: "inventory list"
  t_inv_items :: "inventory_item list"

record receive_input =
  ri_ProductID :: uuid
  ri_WarehouseID :: uuid
  ri_Quantity :: f64
  ri_Unit :: string
  ri_CostPerUnit :: "int64 option"
  ri_Reason :: string
  ri_ActorID :: "uuid option"

record ship_input =
  si_ProductID :: uuid
  si_WarehouseID :: uuid
  si_Quantity :: f64
  si_Unit :: string
  si_ReferenceType :: "string option"
  si_ReferenceID :: "uuid option"
  si_ActorID :: "uuid option"

record transfer_input =
  ti_ProductID :: uuid
  ti_FromWarehouseID :: uuid
  ti_ToWarehouseID :: uuid
  ti_Quantity :: f64
  ti_Unit :: string
  ti_ActorID :: "uuid option"

record adjust_input =
  ai_ProductID :: uuid
  ai_WarehouseID :: uuid
  ai_NewQuantity :: f64
  ai_Reason :: string
  ai_ActorID :: "uuid option"

text \<open>\<open>ReserveInput\<close> and \<open>UnreserveInput\<close> have the same fields.\<close>

record reserve_input =
  rv_ProductID :: uuid
  rv_WarehouseID :: uuid
  rv_Quantity :: f64
  rv_ReferenceID :: "uuid option"

record check_item =
  ck_ProductID :: uuid
  ck_WarehouseID :: uuid
  ck_Quantity :: f64

section \<open>The repository\<close>

definition stock_key :: "stock_level \<Rightarrow> uuid \<times> uuid \<times> uuid" where
  "stock_key sl = (sl_OrganizationID sl, sl_ProductID sl, sl_WarehouseID sl)"

definition stock_at :: "uuid \<times> uuid \<times> uuid \<Rightarrow> 'a warehouse_db_scheme \<Rightarrow> stock_level option" where
  "stock_at k d = row_get stock_key k (t_stock d)"

definition put_stock :: "stock_level \<Rightarrow> 'a warehouse_db_scheme \<Rightarrow> 'a warehouse_db_scheme" where
  "put_stock sl d = d\<lparr>t_stock := row_put stock_key sl (t_stock d)\<rparr>"

definition with_available :: "stock_level \<Rightarrow> stock_level" where
  "with_available sl = sl\<lparr>sl_Available := fsub (sl_Quantity sl) (sl_Reserved sl)\<rparr>"

definition GetStockLevel :: "uuid \<Rightarrow> uuid \<Rightarrow> uuid \<Rightarrow> ('a warehouse_db_scheme, stock_level) op" where
  "GetStockLevel org pid wh =
    bnd (pool_find (stock_at (org, pid, wh)) (NewNotFound ''stock level not found'')) (\<lambda>sl.
    ret (with_available sl))"

text \<open>The row the columns hold after the write; \<open>Available\<close> is not a column.\<close>

definition stored_level :: "(f64 \<Rightarrow> f64 option) \<Rightarrow> stock_level \<Rightarrow> stock_level option" where
  "stored_level col sl =
    (case (col (sl_Quantity sl), col (sl_Reserved sl), col (sl_MinQuantity sl),
           (case sl_MaxQuantity sl of None \<Rightarrow> Some None | Some m \<Rightarrow> map_option Some (col m))) of
       (Some q, Some r, Some mn, Some mx) \<Rightarrow>
         Some (sl\<lparr>sl_Quantity := q, sl_Reserved := r, sl_Available := f64_zero,
                  sl_MinQuantity := mn, sl_MaxQuantity := mx\<rparr>)
     | _ \<Rightarrow> None)"

definition numeric_overflow :: go_error where
  "numeric_overflow = PlainError ''numeric field overflow'' None"

definition UpsertStockLevel :: "stock_level \<Rightarrow> ('a warehouse_db_scheme, unit) op" where
  "UpsertStockLevel sl env = tx_stmt (\<lambda>d. case stored_level (column env) sl of
       None \<Rightarrow> Inl numeric_overflow
     | Some row \<Rightarrow> Inr ((), put_stock row d)) env"

definition InsertMovement :: "stock_movement \<Rightarrow> ('a warehouse_db_scheme, unit) op" where
  "InsertMovement m env = tx_stmt (\<lambda>d. case column env (m_Quantity m) of
       None \<Rightarrow> Inl numeric_overflow
     | Some q \<Rightarrow> row_insert t_movements (\<lambda>ms d. d\<lparr>t_movements := ms\<rparr>) m_ID (m\<lparr>m_Quantity := q\<rparr>) d) env"

definition CreateInventory :: "inventory \<Rightarrow> ('a warehouse_db_scheme, unit) op" where
  "CreateInventory iv = tx_stmt (row_insert t_inventories (\<lambda>xs d. d\<lparr>t_inventories := xs\<rparr>) inv_ID iv)"

definition find_inventory :: "uuid \<Rightarrow> uuid \<Rightarrow> 'a warehouse_db_scheme \<Rightarrow> inventory option" where
  "find_inventory org i d =
     find (\<lambda>iv. inv_OrganizationID iv = org \<and> inv_ID iv = i) (t_inventories d)"

definition repo_GetInventory :: "uuid \<Rightarrow> uuid \<Rightarrow> ('a warehouse_db_scheme, inventory) op" where
  "repo_GetInventory org i = pool_find (find_inventory org i) (NewNotFound ''inventory not found'')"

definition UpdateInventory :: "inventory \<Rightarrow> ('a warehouse_db_scheme, unit) op" where
  "UpdateInventory iv = tx_stmt (exec (\<lambda>d. d\<lparr>t_inventories := row_update (\<lambda>x. inv_ID x = inv_ID iv)
     (\<lambda>x. x\<lparr>inv_Status := inv_Status iv, inv_AppliedAt := inv_AppliedAt iv\<rparr>) (t_inventories d)\<rparr>))"

definition CreateInventoryItems :: "inventory_item list \<Rightarrow> ('a warehouse_db_scheme, unit) op" where
  "CreateInventoryItems items = for_each items (\<lambda>item.
     tx_stmt (row_insert t_inv_items (\<lambda>xs d. d\<lparr>t_inv_items := xs\<rparr>) ii_ID item))"

definition GetInventoryItems :: "uuid \<Rightarrow> ('a warehouse_db_scheme, inventory_item list) op" where
  "GetInventoryItems i = pool_stmt (query (\<lambda>d.
     sort_key ii_ProductID (filter (\<lambda>it. ii_InventoryID it = i) (t_inv_items d))))"

definition UpdateInventoryItem :: "inventory_item \<Rightarrow> ('a warehouse_db_scheme, unit) op" where
  "UpdateInventoryItem item = tx_stmt (exec (\<lambda>d. d\<lparr>t_inv_items := row_update (\<lambda>x. ii_ID x = ii_ID item)
     (\<lambda>x. x\<lparr>ii_Actual := ii_Actual item, ii_Discrepancy := ii_Discrepancy item,
            ii_CountedAt := ii_CountedAt item\<rparr>) (t_inv_items d)\<rparr>))"

definition ListStockForWarehouse :: "uuid \<Rightarrow> uuid \<Rightarrow> ('a warehouse_db_scheme, stock_level list) op" where
  "ListStockForWarehouse org wh = pool_stmt (query (\<lambda>d.
     map with_available (filter (\<lambda>sl. sl_OrganizationID sl = org \<and> sl_WarehouseID sl = wh) (t_stock d))))"

section \<open>The service\<close>

definition blank_level :: "uuid \<Rightarrow> uuid \<Rightarrow> uuid \<Rightarrow> string \<Rightarrow> time \<Rightarrow> stock_level" where
  "blank_level org pid wh unit_name t =
    \<lparr>sl_OrganizationID = org, sl_ProductID = pid, sl_WarehouseID = wh, sl_Quantity = f64_zero,
     sl_Reserved = f64_zero, sl_Available = f64_zero, sl_Unit = unit_name, sl_CostPerUnit = None,
     sl_MinQuantity = f64_zero, sl_MaxQuantity = None, sl_UpdatedAt = t\<rparr>"

text \<open>Any error of the read, not only "no rows", makes a blank level.\<close>

definition getOrCreateStockLevel ::
  "uuid \<Rightarrow> uuid \<Rightarrow> uuid \<Rightarrow> string \<Rightarrow> ('a warehouse_db_scheme, stock_level) op" where
  "getOrCreateStockLevel org pid wh unit_name =
    bnd (try_op (GetStockLevel org pid wh)) (\<lambda>r.
    case r of
      Inl _ \<Rightarrow> bnd now (\<lambda>t. ret (blank_level org pid wh unit_name t))
    | Inr sl \<Rightarrow> ret sl)"

definition publishEvent ::
  "uuid \<Rightarrow> uuid \<Rightarrow> string \<Rightarrow> uuid option \<Rightarrow> json \<Rightarrow> ('a core_db_scheme, unit) op" where
  "publishEvent org entity ty actor data =
    bnd new_uuid (\<lambda>evid.
    bnd now (\<lambda>t.
    publish \<lparr>ev_ID = evid, ev_OrganizationID = org, ev_EntityID = Some entity, ev_Type = ty,
             ev_Data = marshal data, ev_ActorID = actor, ev_Timestamp = t, ev_Version = 1\<rparr>))"

definition movement ::
  "uuid \<Rightarrow> time \<Rightarrow> uuid \<Rightarrow> uuid \<Rightarrow> uuid \<Rightarrow> string \<Rightarrow> f64 \<Rightarrow> string \<Rightarrow> uuid option \<Rightarrow> stock_movement" where
  "movement mid t org pid wh ty q unit_name actor =
    \<lparr>m_ID = mid, m_OrganizationID = org, m_ProductID = pid, m_WarehouseID = wh, m_Type = ty,
     m_Quantity = q, m_Unit = unit_name, m_CostPerUnit = None, m_Reason = '''', m_ReferenceType = None,
     m_ReferenceID = None, m_DestWarehouseID = None, m_ActorID = actor, m_CreatedAt = t\<rparr>"

text \<open>The weighted average of \<open>Receive\<close>.\<close>

definition received_cost :: "stock_level \<Rightarrow> int64 option \<Rightarrow> f64 \<Rightarrow> int64 option" where
  "received_cost sl cost qty =
    (case cost of
       None \<Rightarrow> sl_CostPerUnit sl
     | Some c \<Rightarrow>
        let oldCost = (case sl_CostPerUnit sl of None \<Rightarrow> 0 | Some o' \<Rightarrow> o') in
        if feq (sl_Quantity sl) f64_zero then Some c
        else
          let totalCost = int64_of_f64 (f64_Round (fadd (fmul (f64_of_int64 oldCost) (sl_Quantity sl))
                                                       (fmul (f64_of_int64 c) qty)));
              newQty = fadd (sl_Quantity sl) qty
          in Some (int64_of_f64 (f64_Round (fdiv (f64_of_int64 totalCost) newQty))))"

definition unit_or_pieces :: "string \<Rightarrow> string" where
  "unit_or_pieces u = (if u = '''' then unit_pieces else u)"

definition Receive :: "uuid \<Rightarrow> receive_input \<Rightarrow> ('a warehouse_db_scheme, movement_result) op" where
  "Receive org inp =
    bnd (guard (fle (ri_Quantity inp) f64_zero) (NewBadRequest ''quantity must be positive'')) (\<lambda>_.
    let inp = inp\<lparr>ri_Unit := unit_or_pieces (ri_Unit inp)\<rparr> in
    bnd (with_tx (
      bnd (getOrCreateStockLevel org (ri_ProductID inp) (ri_WarehouseID inp) (ri_Unit inp)) (\<lambda>sl.
      let sl = sl\<lparr>sl_CostPerUnit := received_cost sl (ri_CostPerUnit inp) (ri_Quantity inp)\<rparr>;
          sl = sl\<lparr>sl_Quantity := fadd (sl_Quantity sl) (ri_Quantity inp)\<rparr> in
      bnd now (\<lambda>t.
      bnd (UpsertStockLevel (sl\<lparr>sl_UpdatedAt := t\<rparr>)) (\<lambda>_.
      bnd new_uuid (\<lambda>mid.
      bnd now (\<lambda>t.
      let m = (movement mid t org (ri_ProductID inp) (ri_WarehouseID inp) ''receive''
                 (ri_Quantity inp) (ri_Unit inp) (ri_ActorID inp))
              \<lparr>m_CostPerUnit := ri_CostPerUnit inp, m_Reason := ri_Reason inp\<rparr> in
      bnd (InsertMovement m) (\<lambda>_.
      ret \<lparr>mr_MovementID = mid, mr_NewQuantity = sl_Quantity sl, mr_OldQuantity = f64_zero\<rparr>)))))))) (\<lambda>result.
    let evData = [(''product_id'', JUuid (ri_ProductID inp)), (''warehouse_id'', JUuid (ri_WarehouseID inp)),
                  (''quantity'', JFloat (ri_Quantity inp)), (''new_quantity'', JFloat (mr_NewQuantity result))]
               @ (case ri_CostPerUnit inp of None \<Rightarrow> []
                  | Some c \<Rightarrow> [(''total_cost'', JFloat (fmul (f64_of_int64 c) (ri_Quantity inp)))]) in
    bnd (publishEvent org (ri_ProductID inp) ''warehouse.stock.received'' (ri_ActorID inp) (JObj evData)) (\<lambda>_.
    ret result)))"

definition checkLowStock :: "uuid \<Rightarrow> uuid \<Rightarrow> uuid \<Rightarrow> uuid option \<Rightarrow> ('a warehouse_db_scheme, unit) op" where
  "checkLowStock org pid wh actor =
    bnd (try_op (GetStockLevel org pid wh)) (\<lambda>r.
    case r of
      Inl _ \<Rightarrow> ret ()
    | Inr sl \<Rightarrow>
       let available = fsub (sl_Quantity sl) (sl_Reserved sl) in
       if fless f64_zero (sl_MinQuantity sl) \<and> fle available (sl_MinQuantity sl)
       then publishEvent org pid ''warehouse.stock.low'' actor
              (JObj [(''product_id'', JUuid pid), (''warehouse_id'', JUuid wh),
                     (''available'', JFloat available), (''min_quantity'', JFloat (sl_MinQuantity sl))])
       else ret ())"

text \<open>The level \<open>Ship\<close> writes: the reserve goes down too when it covers the shipment.\<close>

definition ship_level :: "stock_level \<Rightarrow> f64 \<Rightarrow> stock_level" where
  "ship_level sl qty =
    (let sl' = sl\<lparr>sl_Quantity := fsub (sl_Quantity sl) qty\<rparr>
     in if fle qty (sl_Reserved sl') then sl'\<lparr>sl_Reserved := fsub (sl_Reserved sl') qty\<rparr> else sl')"

definition Ship :: "uuid \<Rightarrow> ship_input \<Rightarrow> ('a warehouse_db_scheme, movement_result) op" where
  "Ship org inp =
    bnd (guard (fle (si_Quantity inp) f64_zero) (NewBadRequest ''quantity must be positive'')) (\<lambda>_.
    let inp = inp\<lparr>si_Unit := unit_or_pieces (si_Unit inp)\<rparr> in
    bnd (with_tx (
      bnd (try_op (GetStockLevel org (si_ProductID inp) (si_WarehouseID inp))) (\<lambda>r.
      case r of
        Inl _ \<Rightarrow> fail (NewNotFound ''stock level not found'')
      | Inr sl \<Rightarrow>
      let available = fsub (sl_Quantity sl) (sl_Reserved sl) in
      bnd (guard (fless available (si_Quantity inp)) (NewConflict ''insufficient available stock'')) (\<lambda>_.
      let sl = ship_level sl (si_Quantity inp) in
      bnd now (\<lambda>t.
      bnd (UpsertStockLevel (sl\<lparr>sl_UpdatedAt := t\<rparr>)) (\<lambda>_.
      bnd new_uuid (\<lambda>mid.
      bnd now (\<lambda>t.
      let m = (movement mid t org (si_ProductID inp) (si_WarehouseID inp) ''ship''
                 (si_Quantity inp) (si_Unit inp) (si_ActorID inp))
              \<lparr>m_ReferenceType := si_ReferenceType inp, m_ReferenceID := si_ReferenceID inp\<rparr> in
      bnd (InsertMovement m) (\<lambda>_.
      ret \<lparr>mr_MovementID = mid, mr_NewQuantity = sl_Quantity sl, mr_OldQuantity = f64_zero\<rparr>))))))))) (\<lambda>result.
    bnd (publishEvent org (si_ProductID inp) ''warehouse.stock.shipped'' (si_ActorID inp)
           (JObj [(''product_id'', JUuid (si_ProductID inp)), (''warehouse_id'', JUuid (si_WarehouseID inp)),
                  (''quantity'', JFloat (si_Quantity inp)), (''new_quantity'', JFloat (mr_NewQuantity result))])) (\<lambda>_.
    bnd (checkLowStock org (si_ProductID inp) (si_WarehouseID inp) (si_ActorID inp)) (\<lambda>_.
    ret result))))"

definition Transfer :: "uuid \<Rightarrow> transfer_input \<Rightarrow> ('a warehouse_db_scheme, movement_result) op" where
  "Transfer org inp =
    bnd (guard (fle (ti_Quantity inp) f64_zero) (NewBadRequest ''quantity must be positive'')) (\<lambda>_.
    bnd (guard (ti_FromWarehouseID inp = ti_ToWarehouseID inp)
           (NewBadRequest ''source and destination warehouses must differ'')) (\<lambda>_.
    let inp = inp\<lparr>ti_Unit := unit_or_pieces (ti_Unit inp)\<rparr> in
    bnd (with_tx (
      bnd (try_op (GetStockLevel org (ti_ProductID inp) (ti_FromWarehouseID inp))) (\<lambda>r.
      case r of
        Inl _ \<Rightarrow> fail (NewNotFound ''source stock level not found'')
      | Inr src \<Rightarrow>
      let available = fsub (sl_Quantity src) (sl_Reserved src) in
      bnd (guard (fless available (ti_Quantity inp))
             (NewConflict ''insufficient available stock in source warehouse'')) (\<lambda>_.
      bnd now (\<lambda>t.
      bnd (UpsertStockLevel (src\<lparr>sl_Quantity := fsub (sl_Quantity src) (ti_Quantity inp),
                                 sl_UpdatedAt := t\<rparr>)) (\<lambda>_.
      bnd (getOrCreateStockLevel org (ti_ProductID inp) (ti_ToWarehouseID inp) (ti_Unit inp)) (\<lambda>dst.
      bnd now (\<lambda>t.
      bnd (UpsertStockLevel (dst\<lparr>sl_Quantity := fadd (sl_Quantity dst) (ti_Quantity inp),
                                 sl_UpdatedAt := t\<rparr>)) (\<lambda>_.
      bnd new_uuid (\<lambda>mid.
      bnd now (\<lambda>t.
      let m = (movement mid t org (ti_ProductID inp) (ti_FromWarehouseID inp) ''transfer''
                 (ti_Quantity inp) (ti_Unit inp) (ti_ActorID inp))
              \<lparr>m_DestWarehouseID := Some (ti_ToWarehouseID inp)\<rparr> in
      bnd (InsertMovement m) (\<lambda>_.
      ret \<lparr>mr_MovementID = mid, mr_NewQuantity = f64_zero, mr_OldQuantity = f64_zero\<rparr>)))))))))))) (\<lambda>result.
    bnd (publishEvent org (ti_ProductID inp) ''warehouse.stock.transferred'' (ti_ActorID inp)
           (JObj [(''product_id'', JUuid (ti_ProductID inp)), (''from_warehouse'', JUuid (ti_FromWarehouseID inp)),
                  (''to_warehouse'', JUuid (ti_ToWarehouseID inp)), (''quantity'', JFloat (ti_Quantity inp))])) (\<lambda>_.
    ret result))))"

definition Adjust :: "uuid \<Rightarrow> adjust_input \<Rightarrow> ('a warehouse_db_scheme, movement_result) op" where
  "Adjust org inp =
    bnd (guard (fless (ai_NewQuantity inp) f64_zero) (NewBadRequest ''new_quantity cannot be negative'')) (\<lambda>_.
    bnd (guard (ai_Reason inp = '''') (NewBadRequest ''reason is required for adjustment'')) (\<lambda>_.
    bnd (with_tx (
      bnd (getOrCreateStockLevel org (ai_ProductID inp) (ai_WarehouseID inp) unit_pieces) (\<lambda>sl.
      let oldQty = sl_Quantity sl; diff = fsub (ai_NewQuantity inp) oldQty in
      bnd now (\<lambda>t.
      let sl = sl\<lparr>sl_Quantity := ai_NewQuantity inp, sl_UpdatedAt := t\<rparr> in
      bnd (UpsertStockLevel sl) (\<lambda>_.
      bnd new_uuid (\<lambda>mid.
      bnd now (\<lambda>t.
      let m = (movement mid t org (ai_ProductID inp) (ai_WarehouseID inp) ''adjust'' diff (sl_Unit sl)
                 (ai_ActorID inp))\<lparr>m_Reason := ai_Reason inp\<rparr> in
      bnd (InsertMovement m) (\<lambda>_.
      ret \<lparr>mr_MovementID = mid, mr_NewQuantity = ai_NewQuantity inp, mr_OldQuantity = oldQty\<rparr>)))))))) (\<lambda>result.
    bnd (publishEvent org (ai_ProductID inp) ''warehouse.stock.adjusted'' (ai_ActorID inp)
           (JObj [(''product_id'', JUuid (ai_ProductID inp)), (''warehouse_id'', JUuid (ai_WarehouseID inp)),
                  (''old_quantity'', JFloat (mr_OldQuantity result)),
                  (''new_quantity'', JFloat (mr_NewQuantity result))])) (\<lambda>_.
    ret result))))"

text \<open>\<open>Reserve\<close> and \<open>Unreserve\<close> publish inside the transaction, before its commit.\<close>

definition reserve_data :: "reserve_input \<Rightarrow> json" where
  "reserve_data inp = JObj [(''product_id'', JUuid (rv_ProductID inp)),
     (''warehouse_id'', JUuid (rv_WarehouseID inp)), (''quantity'', JFloat (rv_Quantity inp)),
     (''reference_id'', jnull_or JUuid (rv_ReferenceID inp))]"

definition Reserve :: "uuid \<Rightarrow> reserve_input \<Rightarrow> ('a warehouse_db_scheme, unit) op" where
  "Reserve org inp =
    bnd (guard (fle (rv_Quantity inp) f64_zero) (NewBadRequest ''quantity must be positive'')) (\<lambda>_.
    with_tx (
      bnd (try_op (GetStockLevel org (rv_ProductID inp) (rv_WarehouseID inp))) (\<lambda>r.
      case r of
        Inl _ \<Rightarrow> fail (NewNotFound ''stock level not found'')
      | Inr sl \<Rightarrow>
      let available = fsub (sl_Quantity sl) (sl_Reserved sl) in
      bnd (guard (fless available (rv_Quantity inp)) (NewConflict ''insufficient stock to reserve'')) (\<lambda>_.
      bnd now (\<lambda>t.
      bnd (UpsertStockLevel (sl\<lparr>sl_Reserved := fadd (sl_Reserved sl) (rv_Quantity inp),
                                sl_UpdatedAt := t\<rparr>)) (\<lambda>_.
      publishEvent org (rv_ProductID inp) ''warehouse.stock.reserved'' None (reserve_data inp)))))))"

definition Unreserve :: "uuid \<Rightarrow> reserve_input \<Rightarrow> ('a warehouse_db_scheme, unit) op" where
  "Unreserve org inp =
    bnd (guard (fle (rv_Quantity inp) f64_zero) (NewBadRequest ''quantity must be positive'')) (\<lambda>_.
    with_tx (
      bnd (try_op (GetStockLevel org (rv_ProductID inp) (rv_WarehouseID inp))) (\<lambda>r.
      case r of
        Inl _ \<Rightarrow> fail (NewNotFound ''stock level not found'')
      | Inr sl \<Rightarrow>
      bnd now (\<lambda>t.
      bnd (UpsertStockLevel (sl\<lparr>sl_Reserved := (if fless (sl_Reserved sl) (rv_Quantity inp) then f64_zero
                                                else fsub (sl_Reserved sl) (rv_Quantity inp)),
                                sl_UpdatedAt := t\<rparr>)) (\<lambda>_.
      publishEvent org (rv_ProductID inp) ''warehouse.stock.unreserved'' None (reserve_data inp))))))"

definition CheckAvailability :: "uuid \<Rightarrow> check_item list \<Rightarrow> ('a warehouse_db_scheme, unit) op" where
  "CheckAvailability org items = for_each items (\<lambda>item.
    bnd (try_op (GetStockLevel org (ck_ProductID item) (ck_WarehouseID item))) (\<lambda>r.
    case r of
      Inl _ \<Rightarrow> fail (NewConflict (''stock not found for product '' @ uuid_string (ck_ProductID item)))
    | Inr sl \<Rightarrow>
       let available = fsub (sl_Quantity sl) (sl_Reserved sl) in
       guard (fless available (ck_Quantity item))
         (NewConflict (''insufficient stock for product '' @ uuid_string (ck_ProductID item)))))"

section \<open>Stocktaking\<close>

definition not_in_progress :: "string \<Rightarrow> go_error" where
  "not_in_progress what = NewConflict (''inventory must be in 'in_progress' status to '' @ what)"

definition StartInventory ::
  "uuid \<Rightarrow> uuid \<Rightarrow> string \<Rightarrow> uuid option \<Rightarrow> ('a warehouse_db_scheme, inventory) op" where
  "StartInventory org wh notes actor =
    bnd (ListStockForWarehouse org wh) (\<lambda>stocks.
    bnd (with_tx (
      bnd now (\<lambda>t.
      bnd new_uuid (\<lambda>iid.
      let iv = \<lparr>inv_ID = iid, inv_OrganizationID = org, inv_WarehouseID = wh,
                 inv_Status = ''in_progress'', inv_Notes = notes, inv_ActorID = actor,
                 inv_CreatedAt = t, inv_AppliedAt = None, inv_Items = []\<rparr> in
      bnd (CreateInventory iv) (\<lambda>_.
      bnd (map_op (\<lambda>sl. bnd new_uuid (\<lambda>itid. ret \<lparr>ii_ID = itid, ii_InventoryID = iid,
             ii_OrganizationID = org, ii_ProductID = sl_ProductID sl, ii_Expected = sl_Quantity sl,
             ii_Actual = None, ii_Discrepancy = f64_zero, ii_CountedAt = None\<rparr>)) stocks) (\<lambda>items.
      bnd (if items \<noteq> [] then CreateInventoryItems items else ret ()) (\<lambda>_.
      ret (iv\<lparr>inv_Items := items\<rparr>)))))))) (\<lambda>iv.
    bnd (publishEvent org wh ''warehouse.inventory.started'' actor
           (JObj [(''inventory_id'', JUuid (inv_ID iv)), (''warehouse_id'', JUuid wh),
                  (''item_count'', JInt (int (length (inv_Items iv))))])) (\<lambda>_.
    ret iv)))"

definition CountItem ::
  "uuid \<Rightarrow> uuid \<Rightarrow> uuid \<Rightarrow> f64 \<Rightarrow> ('a warehouse_db_scheme, inventory_item) op" where
  "CountItem org iid pid actual =
    bnd (repo_GetInventory org iid) (\<lambda>iv.
    bnd (guard (inv_Status iv \<noteq> ''in_progress'') (not_in_progress ''count items'')) (\<lambda>_.
    bnd (GetInventoryItems iid) (\<lambda>items.
    case find (\<lambda>it. ii_ProductID it = pid) items of
      None \<Rightarrow> fail (NewNotFound ''product not found in inventory'')
    | Some target \<Rightarrow>
    bnd now (\<lambda>t.
    let target = target\<lparr>ii_Actual := Some actual, ii_Discrepancy := fsub actual (ii_Expected target),
                        ii_CountedAt := Some t\<rparr> in
    bnd (with_tx (UpdateInventoryItem target)) (\<lambda>_.
    ret target)))))"

definition GetInventory :: "uuid \<Rightarrow> uuid \<Rightarrow> ('a warehouse_db_scheme, inventory) op" where
  "GetInventory org iid =
    bnd (repo_GetInventory org iid) (\<lambda>iv.
    bnd (GetInventoryItems iid) (\<lambda>items.
    ret (iv\<lparr>inv_Items := items\<rparr>)))"

text \<open>One round of the loop of \<open>ApplyInventory\<close>; the actual count is known to be there.\<close>

definition apply_item ::
  "uuid \<Rightarrow> inventory \<Rightarrow> uuid \<Rightarrow> uuid option \<Rightarrow> time \<Rightarrow> inventory_item \<Rightarrow> ('a warehouse_db_scheme, unit) op" where
  "apply_item org iv iid actor t item =
    (if feq (ii_Discrepancy item) f64_zero then ret ()
     else case ii_Actual item of
       None \<Rightarrow> fail (PlainError ''invalid memory address or nil pointer dereference'' None)
     | Some actual \<Rightarrow>
     bnd (getOrCreateStockLevel org (ii_ProductID item) (inv_WarehouseID iv) unit_pieces) (\<lambda>sl.
     let oldQty = sl_Quantity sl; sl = sl\<lparr>sl_Quantity := actual, sl_UpdatedAt := t\<rparr> in
     bnd (UpsertStockLevel sl) (\<lambda>_.
     bnd new_uuid (\<lambda>mid.
     let m = (movement mid t org (ii_ProductID item) (inv_WarehouseID iv) ''adjust''
                (ii_Discrepancy item) (sl_Unit sl) actor)
             \<lparr>m_Reason := ''inventory count'', m_ReferenceType := Some ''inventory'',
              m_ReferenceID := Some iid\<rparr> in
     bnd (InsertMovement m) (\<lambda>_.
     publishEvent org (ii_ProductID item) ''warehouse.stock.adjusted'' actor
       (JObj [(''product_id'', JUuid (ii_ProductID item)), (''warehouse_id'', JUuid (inv_WarehouseID iv)),
              (''old_quantity'', JFloat oldQty), (''new_quantity'', JFloat actual),
              (''inventory_id'', JUuid iid)]))))))"

definition ApplyInventory :: "uuid \<Rightarrow> uuid \<Rightarrow> uuid option \<Rightarrow> ('a warehouse_db_scheme, inventory) op" where
  "ApplyInventory org iid actor =
    bnd (repo_GetInventory org iid) (\<lambda>iv.
    bnd (guard (inv_Status iv \<noteq> ''in_progress'') (not_in_progress ''apply'')) (\<lambda>_.
    bnd (GetInventoryItems iid) (\<lambda>items.
    bnd (guard (\<exists>item \<in> set items. ii_Actual item = None)
           (NewBadRequest ''all items must be counted before applying inventory'')) (\<lambda>_.
    bnd (with_tx (
      bnd now (\<lambda>t.
      bnd (for_each items (apply_item org iv iid actor t)) (\<lambda>_.
      let iv = iv\<lparr>inv_Status := ''applied'', inv_AppliedAt := Some t\<rparr> in
      bnd (UpdateInventory iv) (\<lambda>_. ret iv))))) (\<lambda>iv.
    let iv = iv\<lparr>inv_Items := items\<rparr> in
    bnd (publishEvent org (inv_WarehouseID iv) ''warehouse.inventory.applied'' actor
           (JObj [(''inventory_id'', JUuid (inv_ID iv)), (''warehouse_id'', JUuid (inv_WarehouseID iv))])) (\<lambda>_.
    ret iv))))))"

definition CancelInventory :: "uuid \<Rightarrow> uuid \<Rightarrow> uuid option \<Rightarrow> ('a warehouse_db_scheme, inventory) op" where
  "CancelInventory org iid actor =
    bnd (repo_GetInventory org iid) (\<lambda>iv.
    bnd (guard (inv_Status iv \<noteq> ''in_progress'') (not_in_progress ''cancel'')) (\<lambda>_.
    let iv = iv\<lparr>inv_Status := ''cancelled''\<rparr> in
    bnd (with_tx (UpdateInventory iv)) (\<lambda>_.
    bnd (publishEvent org (inv_WarehouseID iv) ''warehouse.inventory.cancelled'' actor
           (JObj [(''inventory_id'', JUuid (inv_ID iv)), (''warehouse_id'', JUuid (inv_WarehouseID iv))])) (\<lambda>_.
    ret iv))))"

section \<open>The stock table\<close>

interpretation stock: keyed_store stock_at put_stock stock_key
  by unfold_locales (auto simp: stock_at_def put_stock_def row_get_put dest: row_get_Some)

lemma stock_at_put [simp]: "stock_at k (put_stock row d) = (if k = stock_key row then Some row else stock_at k d)"
  by (rule stock.get_put)

lemma stock_at_frame [simp]:
  "stock_at k (d\<lparr>t_events := es\<rparr>) = stock_at k d"
  "stock_at k (d\<lparr>t_movements := ms\<rparr>) = stock_at k d"
  "stock_at k (d\<lparr>t_inventories := is\<rparr>) = stock_at k d"
  "stock_at k (d\<lparr>t_inv_items := its\<rparr>) = stock_at k d"
  by (simp_all add: stock_at_def)

lemma put_stock_frame [simp]:
  "put_stock row (d\<lparr>t_events := es\<rparr>) = (put_stock row d)\<lparr>t_events := es\<rparr>"
  by (simp add: put_stock_def)

lemma stored_level_Some:
  assumes "stored_level col sl = Some row"
  shows "col (sl_Quantity sl) = Some (sl_Quantity row)" "col (sl_Reserved sl) = Some (sl_Reserved row)"
    "stock_key row = stock_key sl"
  using assms by (auto simp: stored_level_def stock_key_def split: option.splits)

lemma stored_levelD:
  "stored_level col sl = Some row \<Longrightarrow> col (sl_Quantity sl) = Some (sl_Quantity row)
     \<and> col (sl_Reserved sl) = Some (sl_Reserved row) \<and> stock_key row = stock_key sl"
  using stored_level_Some by blast

lemma stock_key_update [simp]:
  "stock_key (sl\<lparr>sl_Quantity := q\<rparr>) = stock_key sl"
  "stock_key (sl\<lparr>sl_Reserved := q\<rparr>) = stock_key sl"
  "stock_key (sl\<lparr>sl_UpdatedAt := t\<rparr>) = stock_key sl"
  "stock_key (sl\<lparr>sl_CostPerUnit := c\<rparr>) = stock_key sl"
  "stock_key (sl\<lparr>sl_Available := q\<rparr>) = stock_key sl"
  by (simp_all add: stock_key_def)

section \<open>Verification conditions of the repository calls\<close>

named_theorems stock_intros \<open>conditions of the repository and event calls of the warehouse\<close>

lemma wpI_GetStockLevel [stock_intros]:
  "(\<And>e n. fault env (tick w) \<noteq> None \<or> stock_at (org, pid, wh) (committed w) = None \<Longrightarrow>
      E e (w\<lparr>tick := n\<rparr>)) \<Longrightarrow>
   (\<And>sl n. stock_at (org, pid, wh) (committed w) = Some sl \<Longrightarrow> Q (with_available sl) (w\<lparr>tick := n\<rparr>)) \<Longrightarrow>
   wp env (GetStockLevel org pid wh) Q E w"
  unfolding GetStockLevel_def by (intro wp_intros) auto

lemma wpI_getOrCreate [stock_intros]:
  "(\<And>n t. fault env (tick w) \<noteq> None \<or> stock_at (org, pid, wh) (committed w) = None \<Longrightarrow>
      Q (blank_level org pid wh u t) (w\<lparr>tick := n\<rparr>)) \<Longrightarrow>
   (\<And>sl n. stock_at (org, pid, wh) (committed w) = Some sl \<Longrightarrow> Q (with_available sl) (w\<lparr>tick := n\<rparr>)) \<Longrightarrow>
   wp env (getOrCreateStockLevel org pid wh u) Q E w"
  unfolding getOrCreateStockLevel_def by (intro wp_intros stock_intros) auto

lemma wpI_Upsert [stock_intros]:
  "(\<And>e n. E e (w\<lparr>tick := n\<rparr>)) \<Longrightarrow>
   (\<And>row n. stored_level (column env) sl = Some row \<Longrightarrow>
      Q () (w\<lparr>tick := n, pending := put_stock row \<circ> pending w\<rparr>)) \<Longrightarrow>
   wp env (UpsertStockLevel sl) Q E w"
  by (cases "stored_level (column env) sl")
    (auto simp: wp_def UpsertStockLevel_def tx_stmt_def Let_def stmt_effect_def comp_def
      split: option.split)

lemma movement_effect:
  "\<exists>g. stmt_effect (row_insert t_movements (\<lambda>ms d. d\<lparr>t_movements := ms\<rparr>) m_ID r)
      = (\<lambda>d. d\<lparr>t_movements := g d\<rparr>)"
  by (rule exI [of _ "\<lambda>d. if m_ID r \<in> m_ID ` set (t_movements d) then t_movements d
        else t_movements d @ [r]"])
    (auto simp: fun_eq_iff stmt_effect_def row_insert_def)

lemma wpI_InsertMovement [stock_intros]:
  fixes w :: "'a warehouse_db_scheme world"
  assumes E: "\<And>e n. E e (w\<lparr>tick := n\<rparr>)"
    and Q: "\<And>g n. Q () (w\<lparr>tick := n, pending := (\<lambda>d. d\<lparr>t_movements := g d\<rparr>) \<circ> pending w\<rparr>)"
  shows "wp env (InsertMovement m) Q E w"
proof (cases "column env (m_Quantity m)")
  case None
  then show ?thesis
    using E by (auto simp: wp_def InsertMovement_def tx_stmt_def Let_def split: option.split)
next
  case (Some q)
  let ?s = "row_insert t_movements (\<lambda>ms d. d\<lparr>t_movements := ms\<rparr>) m_ID (m\<lparr>m_Quantity := q\<rparr>)
    :: ('a warehouse_db_scheme, unit) stmt"
  obtain g where "stmt_effect ?s = (\<lambda>d. d\<lparr>t_movements := g d\<rparr>)" using movement_effect by blast
  then have "Q () (w\<lparr>tick := n, pending := stmt_effect ?s \<circ> pending w\<rparr>)" for n
    by (simp only: Q)
  with Some E show ?thesis
    by (auto simp: wp_def InsertMovement_def tx_stmt_def Let_def split: option.split sum.split)
qed

lemma wpI_publishEvent [stock_intros]:
  "(\<And>es ev n. ev_Type ev = ty \<Longrightarrow> ev_Data ev = marshal data \<Longrightarrow> ev_OrganizationID ev = org \<Longrightarrow>
      ev_EntityID ev = Some entity \<Longrightarrow>
      Q () (w\<lparr>tick := n, committed := (committed w)\<lparr>t_events := es\<rparr>, published := published w @ [ev]\<rparr>)) \<Longrightarrow>
   wp env (publishEvent org entity ty actor data) Q E w"
  unfolding publishEvent_def by (intro wp_intros) simp

lemma with_available_sel [simp]:
  "sl_Quantity (with_available sl) = sl_Quantity sl" "sl_Reserved (with_available sl) = sl_Reserved sl"
  "stock_key (with_available sl) = stock_key sl"
  by (simp_all add: with_available_def stock_key_def)

lemma blank_level_sel [simp]:
  "sl_Quantity (blank_level org pid wh u t) = f64_zero" "sl_Reserved (blank_level org pid wh u t) = f64_zero"
  "stock_key (blank_level org pid wh u t) = (org, pid, wh)"
  by (simp_all add: blank_level_def stock_key_def)

end
