(* ===== verification/Stock.thy ===== *)
theory Stock
  imports Warehouse
begin

text \<open>
  What the warehouse operations promise: the stock invariant \<open>0 \<le> reserved \<le> quantity\<close> under
  every sequence of requests and failures, exact arithmetic on ten-thousandths, and the places
  where the code gives up one of them.
\<close>

section \<open>The stock invariant\<close>

text \<open>
  A level is well formed: quantity and reserve are ten-thousandths as the columns hold them, and
  the reserve lies between zero and the quantity.
\<close>

definition level_ok :: "f64 \<Rightarrow> f64 \<Rightarrow> bool" where
  "level_ok qty res \<longleftrightarrow>
     (\<exists>q r. qty = Fin (gv q) \<and> res = Fin (gv r) \<and> numeric_digits q \<and> 0 \<le> r \<and> r \<le> q)"

definition stock_ok :: "'a warehouse_db_scheme \<Rightarrow> bool" where
  "stock_ok d \<longleftrightarrow> (\<forall>k sl. stock_at k d = Some sl \<longrightarrow> level_ok (sl_Quantity sl) (sl_Reserved sl))"

lemma stock_ok_all_rows: "stock_ok d = stock.all_rows (\<lambda>sl. level_ok (sl_Quantity sl) (sl_Reserved sl)) d"
  by (simp add: stock_ok_def stock.all_rows_def)

lemma stock_ok_put: "stock_ok d \<Longrightarrow> level_ok (sl_Quantity sl) (sl_Reserved sl) \<Longrightarrow> stock_ok (put_stock sl d)"
  unfolding stock_ok_all_rows by (rule stock.all_rows_put)

lemma stock_okD: "stock_ok d \<Longrightarrow> stock_at k d = Some sl \<Longrightarrow> level_ok (sl_Quantity sl) (sl_Reserved sl)"
  unfolding stock_ok_def by blast

lemma stock_ok_frame [simp]:
  "stock_ok (d\<lparr>t_events := es\<rparr>) = stock_ok d"
  "stock_ok (d\<lparr>t_movements := ms\<rparr>) = stock_ok d"
  by (simp_all add: stock_ok_def)

lemma numeric_digits_le: "numeric_digits q \<Longrightarrow> 0 \<le> r \<Longrightarrow> r \<le> q \<Longrightarrow> numeric_digits r"
  by (simp add: numeric_digits_def)

lemma level_okE:
  assumes "level_ok qty res"
  obtains q r where "qty = Fin (gv q)" "res = Fin (gv r)" "numeric_digits q" "numeric_digits r"
    "0 \<le> r" "r \<le> q"
  using assms numeric_digits_le by (auto simp: level_ok_def)

lemma level_okI:
  "qty = Fin (gv q) \<Longrightarrow> res = Fin (gv r) \<Longrightarrow> numeric_digits q \<Longrightarrow> 0 \<le> r \<Longrightarrow> r \<le> q \<Longrightarrow> level_ok qty res"
  unfolding level_ok_def by blast

lemma level_ok_blank [simp]: "level_ok f64_zero f64_zero"
  unfolding level_ok_def f64_zero_def
  by (intro exI [of _ 0]) (simp add: numeric_digits_def)

text \<open>The quantity of a request: positive, and a number (JSON has no NaN).\<close>

definition positive :: "f64 \<Rightarrow> bool" where
  "positive x \<longleftrightarrow> \<not> fle x f64_zero \<and> x \<noteq> NaN"

lemma positiveE:
  assumes "positive x"
  obtains i where "x = Fin i" "0 < i" | "x = Inf False"
  using assms by (cases x) (auto simp: positive_def f64_zero_def fle_def split: if_splits)

lemma f64_round_cases: "f64_round x = Fin (rnd x) \<or> (\<exists>s. f64_round x = Inf s)"
  by (auto simp: f64_round_def Let_def)

context numeric_column
begin

lemma level_receive:
  assumes "level_ok qty res" and "positive i"
    and "col (fadd qty i) = Some qty'" and "col res = Some res'"
  shows "level_ok qty' res'"
  using assms(2)
proof (cases rule: positiveE)
  case (1 i')
  obtain q r where q: "qty = Fin (gv q)" "res = Fin (gv r)" "numeric_digits q" "numeric_digits r"
    "0 \<le> r" "r \<le> q" using assms(1) by (rule level_okE)
  have c: "col (f64_round (gv q + i')) = Some qty'" using assms(3) 1 q by simp
  obtain k where k: "numeric_digits k" "qty' = Fin (gv k)" "q \<le> k"
    by (rule col_add [OF c q(3) less_imp_le [OF 1(2)]])
  have "res' = Fin (gv r)" using assms(4) q by (auto intro: col_stored)
  then show ?thesis using k q(5,6) by (intro level_okI [of _ k _ r]) simp_all
next
  case 2
  then show ?thesis
    using assms by (auto elim!: level_okE simp: col_Inf)
qed

lemma level_reserve:
  assumes "level_ok qty res" and "positive i" and "\<not> fless (fsub qty res) i"
    and "col (fadd res i) = Some res'" and "col qty = Some qty'"
  shows "level_ok qty' res'"
  using assms(2)
proof (cases rule: positiveE)
  case (1 i')
  obtain q r where q: "qty = Fin (gv q)" "res = Fin (gv r)" "numeric_digits q" "numeric_digits r"
    "0 \<le> r" "r \<le> q" using assms(1) by (rule level_okE)
  have "fle (Fin i') (f64_round (gv q - gv r))"
    using assms(3) 1 q f64_round_cases [of "gv q - gv r"] by (auto simp: fle_def feq_def)
  then have b: "i' \<le> gv q - gv r + 1 / 131072" by (rule available_bound [OF q(3-6)])
  have c: "col (f64_round (gv r + i')) = Some res'" using assms(4) 1 q by simp
  obtain k where k: "numeric_digits k" "res' = Fin (gv k)" "r \<le> k" "k \<le> q"
    by (rule col_reserve [OF q(3-6) less_imp_le [OF 1(2)] b c])
  have "qty' = Fin (gv q)" using assms(5) q by (auto intro: col_stored)
  then show ?thesis using k q(3,5) by (intro level_okI [of _ q _ k]) simp_all
next
  case 2
  then show ?thesis
    using assms by (auto elim!: level_okE simp: col_Inf)
qed

lemma level_ship:
  assumes "level_ok qty res" and "positive i" and "\<not> fless (fsub qty res) i"
    and "col (fsub qty i) = Some qty'"
    and "col (if fle i res \<and> both then fsub res i else res) = Some res'"
  shows "level_ok qty' res'"
  using assms(2)
proof (cases rule: positiveE)
  case (1 i')
  obtain q r where q: "qty = Fin (gv q)" "res = Fin (gv r)" "numeric_digits q" "numeric_digits r"
    "0 \<le> r" "r \<le> q" using assms(1) by (rule level_okE)
  have "fle (Fin i') (f64_round (gv q - gv r))"
    using assms(3) 1 q f64_round_cases [of "gv q - gv r"] by (auto simp: fle_def feq_def)
  then have b: "i' \<le> gv q - gv r + 1 / 131072" by (rule available_bound [OF q(3-6)])
  have c: "col (f64_round (gv q - i')) = Some qty'" using assms(4) 1 q by simp
  show ?thesis
  proof (cases "i' \<le> gv r \<and> both")
    case True
    then have c2: "col (f64_round (gv r - i')) = Some res'" using assms(5) 1 q by simp
    obtain k m where "numeric_digits k" "qty' = Fin (gv k)" "res' = Fin (gv m)" "0 \<le> m" "m \<le> k"
      by (rule col_take_both [OF q(3-6) less_imp_le [OF 1(2)] b conjunct1 [OF True] c c2])
    then show ?thesis unfolding level_ok_def by blast
  next
    case False
    then have "res' = Fin (gv r)" using assms(5) 1 q by (auto intro: col_stored)
    moreover obtain k where "numeric_digits k" "qty' = Fin (gv k)" "r \<le> k"
      by (rule col_take [OF q(3-6) less_imp_le [OF 1(2)] b c])
    ultimately show ?thesis unfolding level_ok_def using q(5) by blast
  qed
next
  case 2
  obtain q r where q: "qty = Fin (gv q)" "res = Fin (gv r)" using assms(1) by (rule level_okE)
  from 2 q assms(4) show ?thesis by (simp add: fsub_def col_Inf)
qed

lemma level_unreserve:
  assumes "level_ok qty res" and "positive i" and "col qty = Some qty'"
    and "col (if fless res i then f64_zero else fsub res i) = Some res'"
  shows "level_ok qty' res'"
proof -
  obtain q r where q: "qty = Fin (gv q)" "res = Fin (gv r)" "numeric_digits q" "numeric_digits r"
    "0 \<le> r" "r \<le> q" using assms(1) by (rule level_okE)
  have "qty' = Fin (gv q)" using assms(3) q by (auto intro: col_stored)
  moreover obtain k where "numeric_digits k" "res' = Fin (gv k)" "0 \<le> k" "k \<le> q"
  proof (cases "fless res i")
    case True
    then have "col (Fin (gv 0)) = Some res'" using assms(4) by (simp add: f64_zero_def)
    then have "res' = Fin (gv 0)" by (rule col_stored) (simp add: numeric_digits_def)
    with that [of 0] q show thesis by (simp add: numeric_digits_def)
  next
    case False
    have "i \<noteq> Inf False" using False q(2) by auto
    with assms(2) obtain i' where i: "i = Fin i'" "0 < i'" by (metis positiveE)
    with False q(2) have i: "i = Fin i'" "0 < i'" "i' \<le> gv r" by simp_all
    then have "col (f64_round (gv r - i')) = Some res'" using assms(4) False q by simp
    then obtain k where "numeric_digits k" "res' = Fin (gv k)" "0 \<le> k" "k \<le> r"
      by (rule col_release [OF q(4) less_imp_le [OF i(2)] i(3)])
    with q(6) show thesis by (intro that [of k]) auto
  qed
  ultimately show ?thesis unfolding level_ok_def using q(3) by blast
qed

end

lemma row_taken:
  assumes "numeric_column col" and "numeric_digits q" and "numeric_digits n"
    and "stored_level col (sl\<lparr>sl_Quantity := f64_round (gv q - gv n), sl_UpdatedAt := t\<rparr>) = Some row"
  shows "sl_Quantity row = Fin (gv (q - n)) \<and> stock_key row = stock_key sl"
  using stored_levelD [OF assms(4)] numeric_column.col_exact_sub [OF assms(1-3)] by simp

lemma row_added:
  assumes "numeric_column col" and "numeric_digits q" and "numeric_digits n"
    and "stored_level col (sl\<lparr>sl_Quantity := f64_round (gv q + gv n), sl_UpdatedAt := t\<rparr>) = Some row"
  shows "sl_Quantity row = Fin (gv (q + n)) \<and> stock_key row = stock_key sl"
  using stored_levelD [OF assms(4)] numeric_column.col_exact_add [OF assms(1-3)] by simp

abbreviation keeps_stock :: "env \<Rightarrow> 'a warehouse_db_scheme \<Rightarrow> ('a warehouse_db_scheme, 'b) op \<Rightarrow> bool" where
  "keeps_stock env d m \<equiv> wp env m (\<lambda>_ w'. stock_ok (committed w')) (\<lambda>_ w'. stock_ok (committed w')) (start d)"

lemma stock_ok_store:
  assumes "numeric_column col" and "stock_ok d" and "stored_level col sl = Some row"
    and "\<And>q' r'. col (sl_Quantity sl) = Some q' \<Longrightarrow> col (sl_Reserved sl) = Some r' \<Longrightarrow> level_ok q' r'"
  shows "stock_ok (put_stock row d)"
  using assms stored_level_Some [OF assms(3)] by (intro stock_ok_put) auto

lemma not_positive_guard: "x \<noteq> NaN \<Longrightarrow> \<not> fle x f64_zero \<Longrightarrow> positive x"
  by (simp add: positive_def)

lemma Receive_keeps:
  assumes col: "numeric_column (column env)" and inv: "stock_ok d" and q: "ri_Quantity inp \<noteq> NaN"
  shows "keeps_stock env d (Receive org inp)"
  unfolding Receive_def Let_def
  by (intro wp_intros stock_intros conjI allI impI)
    (auto simp: start_def inv  intro!: stock_ok_store [OF col inv]
       dest: numeric_column.level_receive [OF col stock_okD [OF inv] not_positive_guard [OF q]]
         numeric_column.level_receive [OF col level_ok_blank not_positive_guard [OF q]])

lemma Ship_keeps:
  assumes col: "numeric_column (column env)" and inv: "stock_ok d" and q: "si_Quantity inp \<noteq> NaN"
  shows "keeps_stock env d (Ship org inp)"
  unfolding Ship_def Let_def checkLowStock_def
  by (intro wp_intros stock_intros conjI allI impI)
    (auto simp: start_def inv ship_level_def Let_def split: if_splits intro!: stock_ok_store [OF col inv]
       elim!: numeric_column.level_ship [OF col stock_okD [OF inv] not_positive_guard [OF q], where both = True])

lemma Reserve_keeps:
  assumes col: "numeric_column (column env)" and inv: "stock_ok d" and q: "rv_Quantity inp \<noteq> NaN"
  shows "keeps_stock env d (Reserve org inp)"
  unfolding Reserve_def Let_def
  by (intro wp_intros stock_intros conjI allI impI)
    (auto simp: start_def inv intro!: stock_ok_store [OF col inv]
       elim!: numeric_column.level_reserve [OF col stock_okD [OF inv] not_positive_guard [OF q]])

lemma Unreserve_keeps:
  assumes col: "numeric_column (column env)" and inv: "stock_ok d" and q: "rv_Quantity inp \<noteq> NaN"
  shows "keeps_stock env d (Unreserve org inp)"
  unfolding Unreserve_def Let_def
  by (intro wp_intros stock_intros conjI allI impI)
    (auto simp: start_def inv intro!: stock_ok_store [OF col inv]
       elim!: numeric_column.level_unreserve [OF col stock_okD [OF inv] not_positive_guard [OF q]])

text \<open>The two rows \<open>Transfer\<close> writes.\<close>

lemma Transfer_source_row:
  assumes "numeric_column col" and "stock_ok d" and "stock_at k d = Some sl" and "positive i"
    and "\<not> fless (fsub (sl_Quantity sl) (sl_Reserved sl)) i"
    and "stored_level col (with_available sl\<lparr>sl_Quantity := fsub (sl_Quantity sl) i, sl_UpdatedAt := t\<rparr>) = Some row"
  shows "level_ok (sl_Quantity row) (sl_Reserved row)"
  using stored_level_Some [OF assms(6)] assms(5)
  by (intro numeric_column.level_ship [OF assms(1) stock_okD [OF assms(2,3)] assms(4), where both = False])
    simp_all

lemma Transfer_dest_row:
  assumes "numeric_column col" and "positive i"
    and "stored_level col (sl\<lparr>sl_Quantity := fadd q i, sl_UpdatedAt := t\<rparr>) = Some row"
    and "level_ok q (sl_Reserved sl)"
  shows "level_ok (sl_Quantity row) (sl_Reserved row)"
  using stored_level_Some [OF assms(3)]
  by (intro numeric_column.level_receive [OF assms(1,4,2)]) simp_all

lemma Transfer_keeps:
  assumes col: "numeric_column (column env)" and inv: "stock_ok d" and q: "ti_Quantity inp \<noteq> NaN"
  shows "keeps_stock env d (Transfer org inp)"
  unfolding Transfer_def Let_def
  by (intro wp_intros stock_intros conjI allI impI)
    (use q in \<open>auto simp: start_def inv positive_def stock_okD [OF inv]
       intro!: stock_ok_put [OF stock_ok_put [OF inv]]
       intro: Transfer_source_row [OF col inv] elim!: Transfer_dest_row [OF col, rotated]\<close>)

section \<open>Requests and the states they reach\<close>

datatype stock_request =
    RReceive receive_input
  | RShip ship_input
  | RTransfer transfer_input
  | RReserve reserve_input
  | RUnreserve reserve_input

fun serve :: "uuid \<Rightarrow> stock_request \<Rightarrow> ('a warehouse_db_scheme, unit) op" where
  "serve org (RReceive inp) = bnd (Receive org inp) (\<lambda>_. ret ())"
| "serve org (RShip inp) = bnd (Ship org inp) (\<lambda>_. ret ())"
| "serve org (RTransfer inp) = bnd (Transfer org inp) (\<lambda>_. ret ())"
| "serve org (RReserve inp) = Reserve org inp"
| "serve org (RUnreserve inp) = Unreserve org inp"

fun request_quantity :: "stock_request \<Rightarrow> f64" where
  "request_quantity (RReceive inp) = ri_Quantity inp"
| "request_quantity (RShip inp) = si_Quantity inp"
| "request_quantity (RTransfer inp) = ti_Quantity inp"
| "request_quantity (RReserve inp) = rv_Quantity inp"
| "request_quantity (RUnreserve inp) = rv_Quantity inp"

text \<open>
  One request after another, each in an environment of its own: any statement may fail, any
  identifiers and times are handed out; only the column is the same.
\<close>

inductive stock_run ::
  "(f64 \<Rightarrow> f64 option) \<Rightarrow> 'a warehouse_db_scheme \<Rightarrow> 'a warehouse_db_scheme \<Rightarrow> bool" for col d where
  run_none: "stock_run col d d"
| run_request: "stock_run col d d' \<Longrightarrow> column env = col \<Longrightarrow> request_quantity req \<noteq> NaN \<Longrightarrow>
    stock_run col d (committed (snd (serve org req env (start d'))))"

lemma serve_keeps:
  assumes "numeric_column (column env)" and "stock_ok d" and "request_quantity req \<noteq> NaN"
  shows "keeps_stock env d (serve org req)"
  using assms by (cases req) (auto simp: wp_bnd wp_ret_fun intro!: Receive_keeps Ship_keeps Transfer_keeps
      Reserve_keeps Unreserve_keeps)

lemma wp_committed:
  "wp env m (\<lambda>_ w'. P (committed w')) (\<lambda>_ w'. P (committed w')) w \<Longrightarrow> P (committed (snd (m env w)))"
  by (auto simp: wp_def split: prod.splits sum.splits)

lemma stock_run_keeps:
  "stock_run col d d' \<Longrightarrow> numeric_column col \<Longrightarrow> stock_ok d \<Longrightarrow> stock_ok d'"
proof (induction rule: stock_run.induct)
  case (run_request d' env req org)
  then show ?case using wp_committed [where P = stock_ok, OF serve_keeps] by blast
qed

section \<open>Properties\<close>

text \<open>C1: No stock is promised twice: from a database whose levels satisfy it, any sequence of
  receipts, shipments, transfers, reservations and releases, of any (JSON) quantities, with any
  statement failing, keeps \<open>0 \<le> reserved \<le> quantity\<close> in every stock level, rounding by the
  doubles and by the column included.\<close>

theorem stock_invariant:
  assumes "numeric_column col" and "stock_ok d" and "stock_run col d d'" and "stock_at k d' = Some sl"
  shows "\<exists>q r. sl_Quantity sl = Fin q \<and> sl_Reserved sl = Fin r \<and> 0 \<le> r \<and> r \<le> q"
proof -
  have "level_ok (sl_Quantity sl) (sl_Reserved sl)"
    using stock_run_keeps [OF assms(3,1,2)] assms(4) by (rule stock_okD)
  then show ?thesis by (elim level_okE) (auto intro: gv_mono gv_nonneg)
qed

definition empty_warehouse :: warehouse_db where
  "empty_warehouse = \<lparr>t_events = [], t_entities = [], t_components = [], t_stock = [],
     t_movements = [], t_inventories = [], t_inv_items = []\<rparr>"

definition receive_ten :: receive_input where
  "receive_ten = \<lparr>ri_ProductID = 2, ri_WarehouseID = 3, ri_Quantity = Fin 10, ri_Unit = '''',
     ri_CostPerUnit = None, ri_Reason = '''', ri_ActorID = None\<rparr>"

definition after_receive_ten :: warehouse_db where
  "after_receive_ten = committed (snd (serve 1 (RReceive receive_ten) (env_ok numeric_15_4) (start empty_warehouse)))"

lemma empty_warehouse_ok: "stock_ok empty_warehouse"
  by (simp add: stock_ok_def stock_at_def row_get_def empty_warehouse_def)

lemmas stock_ops = GetStockLevel_def getOrCreateStockLevel_def UpsertStockLevel_def InsertMovement_def
  publishEvent_def row_insert_def stored_level_def put_stock_def stock_at_def row_put_def row_get_def
  with_available_def blank_level_def movement_def unit_or_pieces_def stock_key_def f64_zero_def
  received_cost_def

lemma numeric_15_4_numeral [simp]:
  "(numeral k :: int) < 10 ^ 11 \<Longrightarrow> numeric_15_4 (Fin (numeral k)) = Some (Fin (numeral k))"
  "numeric_15_4 (Fin 0) = Some (Fin 0)" "numeric_15_4 (Fin 1) = Some (Fin 1)"
  using numeric_15_4_units [of "numeral k"] numeric_15_4_units [of 0] numeric_15_4_units [of 1] by simp_all

declare numeric_15_4.simps [simp del]

lemma after_receive_ten_level:
  "\<exists>sl. stock_at (1, 2, 3) after_receive_ten = Some sl \<and> sl_Quantity sl = Fin 10"
  by (simp add: after_receive_ten_def receive_ten_def empty_warehouse_def Receive_def run_simps
      stock_ops numeric_15_4_units)

theorem stock_invariant_witness:
  "\<exists>sl q r. stock_at (1, 2, 3) after_receive_ten = Some sl \<and> sl_Quantity sl = Fin q
     \<and> sl_Reserved sl = Fin r \<and> 0 \<le> r \<and> r \<le> q"
proof -
  obtain sl where sl: "stock_at (1, 2, 3) after_receive_ten = Some sl"
    using after_receive_ten_level by blast
  have "stock_run numeric_15_4 empty_warehouse after_receive_ten"
    unfolding after_receive_ten_def by (intro stock_run.intros) (simp_all add: receive_ten_def)
  from stock_invariant [OF numeric_15_4_column empty_warehouse_ok this sl] sl show ?thesis by blast
qed

text \<open>The test of the available stock, a difference of doubles, lets no more than the exact difference through.\<close>

lemma available_covers:
  assumes "numeric_column col" and "numeric_digits q" and "numeric_digits r" and "0 \<le> r" and "r \<le> q" and "numeric_digits n"
    and "\<not> fle (Fin (gv n)) f64_zero" and "\<not> fless (f64_round (gv q - gv r)) (Fin (gv n))"
  shows "0 < n \<and> r + n \<le> q"
proof
  show "0 < n" using assms(7) gv_mono [of n 0] by (force simp: f64_zero_def)
  have "fle (Fin (gv n)) (f64_round (gv q - gv r))"
    using assms(8) f64_round_cases [of "gv q - gv r"] by (auto simp: fle_def feq_def)
  then have "gv n \<le> gv q - gv r + 1 / 131072"
    by (rule numeric_column.available_bound [OF assms(1-3) assms(4,5)])
  then have "(of_int n :: rat) / 10 ^ 4 \<le> of_int q / 10 ^ 4 - of_int r / 10 ^ 4 + 4 / 131072"
    using gv_range(2) [OF assms(2)] gv_range(2) [OF assms(3)] gv_range(2) [OF assms(6)] by linarith
  then have "(of_int n :: rat) < of_int (q - r + 1)" by simp
  then show "r + n \<le> q" by (simp only: of_int_less_iff)
qed

text \<open>C8: A transfer moves stock and makes none: with every statement executed, and for quantities in whole
  ten-thousandths below \<open>10 ^ 11\<close>, the source loses exactly what the destination gains (a missing
  destination level counts as 0), never more than is on hand and not reserved, and no other level
  changes; an error leaves every level as it was.\<close>

theorem Transfer_conserves:
  assumes "numeric_column (column env)" and "reliable env"
    and src: "stock_at (org, ti_ProductID inp, ti_FromWarehouseID inp) d = Some src"
    and "sl_Quantity src = Fin (gv q)" and "sl_Reserved src = Fin (gv r)" and "ti_Quantity inp = Fin (gv n)"
    and dst: "case stock_at (org, ti_ProductID inp, ti_ToWarehouseID inp) d of
      None \<Rightarrow> e = 0 | Some dst \<Rightarrow> sl_Quantity dst = Fin (gv e)"
    and "numeric_digits q" and "0 \<le> r" and "r \<le> q" and "numeric_digits e" and "numeric_digits n"
  shows "wp env (Transfer org inp)
     (\<lambda>_ w'. 0 < n \<and> r + n \<le> q
        \<and> (\<forall>k. map_option sl_Quantity (stock_at k (committed w')) =
            (if k = (org, ti_ProductID inp, ti_FromWarehouseID inp) then Some (Fin (gv (q - n)))
             else if k = (org, ti_ProductID inp, ti_ToWarehouseID inp) then Some (Fin (gv (e + n)))
             else map_option sl_Quantity (stock_at k d))))
     (\<lambda>_ w'. \<forall>k. stock_at k (committed w') = stock_at k d) (start d)"
proof -
  have key: "stock_key src = (org, ti_ProductID inp, ti_FromWarehouseID inp)"
    using stock.get_key [OF src] .
  have r: "numeric_digits r" using assms(8-10) by (rule numeric_digits_le)
  note taken = row_taken [OF assms(1,8,12)] and added = row_added [OF assms(1,11,12)]
  note covers = available_covers [OF assms(1,8) r assms(9,10,12)]
  show ?thesis
  proof (cases "stock_at (org, ti_ProductID inp, ti_ToWarehouseID inp) d")
    case None
    then have e: "f64_zero = Fin (gv e)" using dst by (simp add: f64_zero_def)
    show ?thesis
      unfolding Transfer_def Let_def getOrCreateStockLevel_def
      by (intro wp_intros stock_intros conjI allI impI)
        (use covers in \<open>clarsimp simp: start_def reliable_fault [OF assms(2)] src None e key assms(4-6) dest!: taken added\<close>)+
  next
    case (Some dst')
    then have e: "sl_Quantity dst' = Fin (gv e)" "stock_key dst' = (org, ti_ProductID inp, ti_ToWarehouseID inp)"
      using dst stock.get_key [OF Some] by simp_all
    show ?thesis
      unfolding Transfer_def Let_def getOrCreateStockLevel_def
      by (intro wp_intros stock_intros conjI allI impI)
        (use covers in \<open>clarsimp simp: start_def reliable_fault [OF assms(2)] src Some e key assms(4-6) dest!: taken added\<close>)+
  qed
qed

text \<open>The theorem at two levels of 10 and 1 pieces, with 4 moved.\<close>

definition sample_level :: "uuid \<Rightarrow> int \<Rightarrow> int \<Rightarrow> stock_level" where
  "sample_level wh q r = (blank_level 1 2 wh ''kg'' 0)\<lparr>sl_Quantity := Fin (gv q), sl_Reserved := Fin (gv r)\<rparr>"

definition sample_stock :: "stock_level list \<Rightarrow> warehouse_db" where
  "sample_stock sls = empty_warehouse\<lparr>t_stock := sls\<rparr>"

lemma sample_stock_at:
  "stock_at k (sample_stock sls) = row_get stock_key k sls"
  by (simp add: sample_stock_def stock_at_def)

lemma sample_key [simp]: "stock_key (sample_level wh q r) = (1, 2, wh)"
  by (simp add: sample_level_def)

lemma sample_sel [simp]:
  "sl_Quantity (sample_level wh q r) = Fin (gv q)" "sl_Reserved (sample_level wh q r) = Fin (gv r)"
  by (simp_all add: sample_level_def)

theorem Transfer_conserves_witness:
  "wp (env_ok numeric_15_4)
     (Transfer 1 \<lparr>ti_ProductID = 2, ti_FromWarehouseID = 3, ti_ToWarehouseID = 4,
        ti_Quantity = Fin (gv 40000), ti_Unit = '''', ti_ActorID = None\<rparr>)
     (\<lambda>_ w'. map_option sl_Quantity (stock_at (1, 2, 3) (committed w')) = Some (Fin (gv 60000))
        \<and> map_option sl_Quantity (stock_at (1, 2, 4) (committed w')) = Some (Fin (gv 50000)))
     (\<lambda>_ w'. stock_at (1, 2, 3) (committed w')
           = stock_at (1, 2, 3) (sample_stock [sample_level 3 100000 0, sample_level 4 10000 0]))
     (start (sample_stock [sample_level 3 100000 0, sample_level 4 10000 0]))"
  by (rule wp_conseq [OF Transfer_conserves [where src = "sample_level 3 100000 0" and q = 100000 and r = 0
        and n = 40000 and e = 10000]])
    (simp_all add: sample_stock_at row_get_def numeric_digits_def numeric_15_4_column)

text \<open>The row \<open>Reserve\<close> and \<open>Unreserve\<close> write.\<close>

lemma row_reserve_added:
  assumes "numeric_column col" and "numeric_digits r" and "numeric_digits n" and "numeric_digits q"
    and "stored_level col (with_available sl\<lparr>sl_Reserved := f64_round (gv r + gv n), sl_UpdatedAt := t\<rparr>) = Some row"
    and "sl_Quantity sl = Fin (gv q)"
  shows "sl_Reserved row = Fin (gv (r + n)) \<and> sl_Quantity row = Fin (gv q) \<and> stock_key row = stock_key sl"
  using stored_levelD [OF assms(5)] numeric_column.col_exact_add [OF assms(1-3)]
    numeric_column.col_stored [OF assms(1) _ assms(4)] assms(6) by simp

lemma row_reserve_taken:
  assumes "numeric_column col" and "numeric_digits r" and "numeric_digits n" and "numeric_digits q"
    and "stored_level col (with_available sl\<lparr>sl_Reserved := f64_round (gv r - gv n), sl_UpdatedAt := t\<rparr>) = Some row"
    and "sl_Quantity sl = Fin (gv q)"
  shows "sl_Reserved row = Fin (gv (r - n)) \<and> sl_Quantity row = Fin (gv q) \<and> stock_key row = stock_key sl"
  using stored_levelD [OF assms(5)] numeric_column.col_exact_sub [OF assms(1-3)]
    numeric_column.col_stored [OF assms(1) _ assms(4)] assms(6) by simp

text \<open>What the two operations do to the level, in any world outside a transaction.\<close>

abbreviation level_key :: "uuid \<Rightarrow> reserve_input \<Rightarrow> uuid \<times> uuid \<times> uuid" where
  "level_key org inp \<equiv> (org, rv_ProductID inp, rv_WarehouseID inp)"

definition levels :: "'a warehouse_db_scheme \<Rightarrow> uuid \<times> uuid \<times> uuid \<Rightarrow> (f64 \<times> f64) option" where
  "levels d k = map_option (\<lambda>sl. (sl_Quantity sl, sl_Reserved sl)) (stock_at k d)"

lemma Reserve_raises:
  assumes "numeric_column (column env)" and "committed w = d" and "pending w = id"
    and at: "stock_at (level_key org inp) d = Some sl"
    and "sl_Quantity sl = Fin (gv q)" and "sl_Reserved sl = Fin (gv r)" and "rv_Quantity inp = Fin (gv n)"
    and "numeric_digits q" and "0 \<le> r" and "r \<le> q" and "numeric_digits n"
  shows "wp env (Reserve org inp)
     (\<lambda>_ w'. pending w' = id \<and> 0 < n \<and> r + n \<le> q
        \<and> (\<forall>k. levels (committed w') k = (if k = level_key org inp then Some (Fin (gv q), Fin (gv (r + n))) else levels d k)))
     (\<lambda>_ w'. \<forall>k. stock_at k (committed w') = stock_at k d) w"
proof -
  have key: "stock_key sl = level_key org inp"
    using stock.get_key [OF at] .
  have r: "numeric_digits r" using assms(8-10) by (rule numeric_digits_le)
  note added = row_reserve_added [OF assms(1) r assms(11,8) _ assms(5)]
  note covers = available_covers [OF assms(1,8) r assms(9-11)]
  show ?thesis
    unfolding Reserve_def Let_def
    by (intro wp_intros stock_intros conjI allI impI)
      (use covers in \<open>clarsimp simp: assms(2,3,5-7) at key levels_def dest!: added\<close>)+
qed

lemma Unreserve_lowers:
  assumes "numeric_column (column env)" and "committed w = d" and "pending w = id"
    and at: "stock_at (level_key org inp) d = Some sl"
    and "sl_Quantity sl = Fin (gv q)" and "sl_Reserved sl = Fin (gv r)" and "rv_Quantity inp = Fin (gv n)"
    and "numeric_digits q" and "0 \<le> n" and "n \<le> r" and "r \<le> q"
  shows "wp env (Unreserve org inp) 
     (\<lambda>_ w'. \<forall>k. levels (committed w') k = (if k = level_key org inp then Some (Fin (gv q), Fin (gv (r - n))) else levels d k))
     (\<lambda>_ _. True) w"
proof -
  have key: "stock_key sl = level_key org inp"
    using stock.get_key [OF at] .
  have dig: "numeric_digits r" "numeric_digits n" using assms(8-11) by (auto simp: numeric_digits_def)
  have le: "\<not> gv r < gv n" using gv_mono [OF assms(10)] by simp
  note taken = row_reserve_taken [OF assms(1) dig assms(8) _ assms(5)]
  show ?thesis
    unfolding Unreserve_def Let_def
    by (intro wp_intros stock_intros conjI allI impI)
      (clarsimp simp: assms(2,3,5-7) at key le levels_def dest!: taken)+
qed

text \<open>C6: A reservation of whole ten-thousandths succeeds only when the stock that is not reserved covers
  it exactly, raises the reserve by exactly its quantity, and leaves the quantity on hand and every
  other level alone; an error, whatever caused it, leaves every level as it was.\<close>

theorem Reserve_exact:
  assumes "numeric_column (column env)"
    and at: "stock_at (org, rv_ProductID inp, rv_WarehouseID inp) d = Some sl"
    and "sl_Quantity sl = Fin (gv q)" and "sl_Reserved sl = Fin (gv r)" and "rv_Quantity inp = Fin (gv n)"
    and "numeric_digits q" and "0 \<le> r" and "r \<le> q" and "numeric_digits n"
  shows "wp env (Reserve org inp)
     (\<lambda>_ w'. 0 < n \<and> r + n \<le> q
        \<and> (\<forall>k. map_option (\<lambda>sl. (sl_Quantity sl, sl_Reserved sl)) (stock_at k (committed w')) =
        (if k = (org, rv_ProductID inp, rv_WarehouseID inp) then Some (Fin (gv q), Fin (gv (r + n)))
         else map_option (\<lambda>sl. (sl_Quantity sl, sl_Reserved sl)) (stock_at k d))))
     (\<lambda>_ w'. \<forall>k. stock_at k (committed w') = stock_at k d) (start d)"
  by (rule wp_conseq [OF Reserve_raises [OF assms(1) _ _ at assms(3-9)]])
    (simp_all add: start_def levels_def)

definition reserve_sample :: reserve_input where
  "reserve_sample = \<lparr>rv_ProductID = 2, rv_WarehouseID = 3, rv_Quantity = Fin (gv 15000), rv_ReferenceID = None\<rparr>"

theorem Reserve_exact_witness:
  "wp (env_ok numeric_15_4) (Reserve 1 reserve_sample)
     (\<lambda>_ w'. 0 < (15000::int) \<and> 0 + 15000 \<le> (20000::int)
        \<and> (\<forall>k. map_option (\<lambda>sl. (sl_Quantity sl, sl_Reserved sl)) (stock_at k (committed w')) =
        (if k = (1, rv_ProductID reserve_sample, rv_WarehouseID reserve_sample)
         then Some (Fin (gv 20000), Fin (gv (0 + 15000)))
         else map_option (\<lambda>sl. (sl_Quantity sl, sl_Reserved sl)) (stock_at k (sample_stock [sample_level 3 20000 0])))))
     (\<lambda>_ w'. \<forall>k. stock_at k (committed w') = stock_at k (sample_stock [sample_level 3 20000 0]))
     (start (sample_stock [sample_level 3 20000 0]))"
  by (rule Reserve_exact [of _ _ _ _ "sample_level 3 20000 0" 20000 0 15000])
    (simp_all add: sample_stock_at row_get_def numeric_digits_def numeric_15_4_column reserve_sample_def)

text \<open>C7: Releasing what was reserved is the inverse: for a level and a quantity in whole ten-thousandths, a
  \<open>Reserve\<close> and an \<open>Unreserve\<close> of the same quantity that both succeed leave every level with the
  quantity and the reserve it had.\<close>

theorem Reserve_Unreserve_roundtrip:
  assumes "numeric_column (column env)"
    and at: "stock_at (org, rv_ProductID inp, rv_WarehouseID inp) d = Some sl"
    and "sl_Quantity sl = Fin (gv q)" and "sl_Reserved sl = Fin (gv r)" and "rv_Quantity inp = Fin (gv n)"
    and "numeric_digits q" and "0 \<le> r" and "r \<le> q" and "numeric_digits n"
  shows "wp env (bnd (Reserve org inp) (\<lambda>_. Unreserve org inp))
     (\<lambda>_ w'. \<forall>k. map_option (\<lambda>sl. (sl_Quantity sl, sl_Reserved sl)) (stock_at k (committed w'))
        = map_option (\<lambda>sl. (sl_Quantity sl, sl_Reserved sl)) (stock_at k d))
     (\<lambda>_ _. True) (start d)"
proof (rule wpI_bnd, rule wp_conseq [OF Reserve_raises [OF assms(1) _ _ at assms(3-9)]], goal_cases)
  case (3 x w1)
  then have lv: "levels (committed w1) k = (if k = level_key org inp then Some (Fin (gv q), Fin (gv (r + n))) else levels d k)" for k
    by (simp del: split_paired_All)
  from lv [of "level_key org inp"] obtain sl1 where sl1: "stock_at (level_key org inp) (committed w1) = Some sl1"
      "sl_Quantity sl1 = Fin (gv q)" "sl_Reserved sl1 = Fin (gv (r + n))"
    by (auto simp: levels_def)
  have at0: "levels d (level_key org inp) = Some (Fin (gv q), Fin (gv r))"
    using at assms(3,4) by (simp add: levels_def)
  have un: "wp env (Unreserve org inp)
      (\<lambda>_ w'. \<forall>k. levels (committed w') k =
        (if k = level_key org inp then Some (Fin (gv q), Fin (gv (r + n - n))) else levels (committed w1) k)) (\<lambda>_ _. True) w1"
    by (rule Unreserve_lowers [OF assms(1) _ _ sl1 assms(5,6)]) (use 3 assms(7) in simp_all)
  show ?case
  proof (rule wp_conseq [OF un], goal_cases)
    case (1 y w2)
    then have "levels (committed w2) k = levels d k" for k
      using lv [of k] at0 spec [OF 1, of k] by (cases "k = level_key org inp") (simp_all del: split_paired_All)
    then show ?case by (simp add: levels_def)
  qed simp
qed (simp_all add: start_def)

theorem Reserve_Unreserve_roundtrip_witness:
  "wp (env_ok numeric_15_4) (bnd (Reserve 1 reserve_sample) (\<lambda>_. Unreserve 1 reserve_sample))
     (\<lambda>_ w'. \<forall>k. map_option (\<lambda>sl. (sl_Quantity sl, sl_Reserved sl)) (stock_at k (committed w'))
        = map_option (\<lambda>sl. (sl_Quantity sl, sl_Reserved sl)) (stock_at k (sample_stock [sample_level 3 20000 5000])))
     (\<lambda>_ _. True) (start (sample_stock [sample_level 3 20000 5000]))"
  by (rule Reserve_Unreserve_roundtrip [of _ _ _ _ "sample_level 3 20000 5000" 20000 5000 15000])
    (simp_all add: sample_stock_at row_get_def numeric_digits_def numeric_15_4_column reserve_sample_def)

lemma tenths_short: "fless (f64_round (gv 3000 - gv 1000)) (Fin (gv 2000))"
  by code_simp

lemma tenths_positive: "0 < gv 2000"
  by code_simp

text \<open>The available stock is computed in doubles: with 0.3 on hand and 0.1 reserved, a request
  for the remaining 0.2 is refused as insufficient and nothing is reserved.\<close>

lemma Reserve_rejects_available:
  "wp (env_ok col)
     (Reserve 1 \<lparr>rv_ProductID = 2, rv_WarehouseID = 3, rv_Quantity = Fin (gv 2000), rv_ReferenceID = None\<rparr>)
     (\<lambda>_ _. False)
     (\<lambda>e w'. e = NewConflict ''insufficient stock to reserve''
        \<and> committed w' = sample_stock [sample_level 3 3000 1000])
     (start (sample_stock [sample_level 3 3000 1000]))"
  using tenths_short tenths_positive
  by (simp add: wp_def Reserve_def run_simps sample_stock_at GetStockLevel_def with_available_def
      row_get_def f64_zero_def not_le)

lemma fail_at_simps [simp]:
  "fault (fail_at k err env) n = (if n = k then Some err else None)"
  "uuids (fail_at k err env) = uuids env" "clock (fail_at k err env) = clock env"
  "column (fail_at k err env) = column env"
  by (simp_all add: fail_at_def)

text \<open>A read error is taken for an absent level: when the read of the level fails while
  \<open>Receive\<close> runs and nothing else does, the method succeeds and the level is overwritten; what
  was on hand and what was reserved are lost.\<close>

lemma Receive_read_error_overwrites:
  assumes "ri_Quantity inp = Fin 5" and "column env = numeric_15_4"
    and "uuids env 5 \<notin> m_ID ` set (t_movements d)"
  shows "wp (fail_at 1 err env) (Receive org inp)
     (\<lambda>res w'. mr_NewQuantity res = Fin 5
        \<and> map_option (\<lambda>sl. (sl_Quantity sl, sl_Reserved sl))
            (stock_at (org, ri_ProductID inp, ri_WarehouseID inp) (committed w')) = Some (Fin 5, Fin 0))
     (\<lambda>_ _. False) (start d)"
  using assms
  by (simp add: wp_def Receive_def getOrCreateStockLevel_def GetStockLevel_def run_simps f64_zero_def
    UpsertStockLevel_def InsertMovement_def publishEvent_def stored_level_def blank_level_def
    row_insert_def movement_def received_cost_def put_stock_def stock_key_def stock_at_def row_get_put eval_nat_numeral)

text \<open>The two operations that set the quantity from a count do not look at the reserve:
  after \<open>Adjust\<close> to a count below the reserve, more is reserved than there is.\<close>

lemma Adjust_breaks_invariant:
  assumes "numeric_column (column env)" and "reliable env"
    and at: "stock_at (org, ai_ProductID inp, ai_WarehouseID inp) d = Some sl"
    and "sl_Reserved sl = Fin (gv r)" and "ai_NewQuantity inp = Fin (gv n)"
    and "numeric_digits r" and "numeric_digits n" and "0 \<le> n" and "gv n < gv r"
  shows "wp env (Adjust org inp)
     (\<lambda>_ w'. \<exists>sl'. stock_at (org, ai_ProductID inp, ai_WarehouseID inp) (committed w') = Some sl'
        \<and> fless (sl_Quantity sl') (sl_Reserved sl'))
     (\<lambda>_ w'. stock_at k (committed w') = stock_at k d) (start d)"
proof -
  have key: "stock_key sl = (org, ai_ProductID inp, ai_WarehouseID inp)"
    using stock.get_key [OF at] .
  have row: "fless (sl_Quantity row) (sl_Reserved row) \<and> stock_key row = stock_key sl"
    if "stored_level (column env) (with_available sl\<lparr>sl_Quantity := Fin (gv n), sl_UpdatedAt := t\<rparr>) = Some row" for t row
    using stored_levelD [OF that] numeric_column.col_stored [OF assms(1) _ assms(7)]
      numeric_column.col_stored [OF assms(1) _ assms(6)] assms(4,9) by auto
  show ?thesis
    unfolding Adjust_def Let_def
    by (intro wp_intros stock_intros conjI allI impI)
      (clarsimp simp: start_def reliable_fault [OF assms(2)] at key assms(5) dest!: row)+
qed

definition adjust_sample :: adjust_input where
  "adjust_sample = \<lparr>ai_ProductID = 2, ai_WarehouseID = 3, ai_NewQuantity = Fin (gv 10000),
     ai_Reason = ''count'', ai_ActorID = None\<rparr>"

theorem Adjust_breaks_invariant_witness:
  "wp (env_ok numeric_15_4) (Adjust 1 adjust_sample)
     (\<lambda>_ w'. \<exists>sl'. stock_at (1, ai_ProductID adjust_sample, ai_WarehouseID adjust_sample) (committed w') = Some sl'
        \<and> fless (sl_Quantity sl') (sl_Reserved sl'))
     (\<lambda>_ w'. stock_at (1, 2, 3) (committed w') = stock_at (1, 2, 3) (sample_stock [sample_level 3 80000 50000]))
     (start (sample_stock [sample_level 3 80000 50000]))"
  using gv_units [of 1] gv_units [of 5]
  by (intro Adjust_breaks_invariant [of _ _ _ _ "sample_level 3 80000 50000" 50000 10000])
    (simp_all add: sample_stock_at row_get_def numeric_digits_def numeric_15_4_column adjust_sample_def)

text \<open>\<open>Reserve\<close> announces before it commits: when the commit fails the caller gets the error and
  no level changes, and \<open>warehouse.stock.reserved\<close> is out on the bus.\<close>

lemma Reserve_announces_uncommitted:
  assumes "stock_at (org, rv_ProductID inp, rv_WarehouseID inp) d = Some sl"
    and "\<not> fle (rv_Quantity inp) f64_zero"
    and "\<not> fless (fsub (sl_Quantity sl) (sl_Reserved sl)) (rv_Quantity inp)"
    and "stored_level (column env) (with_available sl\<lparr>sl_Reserved := fadd (sl_Reserved sl) (rv_Quantity inp),
           sl_UpdatedAt := clock env 2\<rparr>) \<noteq> None"
  shows "wp (fail_at 7 err env) (Reserve org inp)
     (\<lambda>_ _. False)
     (\<lambda>e w'. e = err \<and> map ev_Type (published w') = [''warehouse.stock.reserved'']
        \<and> stock_at k (committed w') = stock_at k d) (start d)"
  using assms
  by (auto simp: wp_def Reserve_def GetStockLevel_def run_simps UpsertStockLevel_def publishEvent_def
    put_stock_def stock_at_def numeral_2_eq_2)

definition receive_sample :: receive_input where
  "receive_sample = \<lparr>ri_ProductID = 2, ri_WarehouseID = 3, ri_Quantity = Fin 5, ri_Unit = '''',
     ri_CostPerUnit = None, ri_Reason = '''', ri_ActorID = None\<rparr>"

theorem Receive_read_error_overwrites_witness:
  "wp (fail_at 1 (NewInternal ''timeout'') (env_ok numeric_15_4)) (Receive 1 receive_sample)
     (\<lambda>res w'. mr_NewQuantity res = Fin 5
        \<and> map_option (\<lambda>sl. (sl_Quantity sl, sl_Reserved sl))
            (stock_at (1, ri_ProductID receive_sample, ri_WarehouseID receive_sample) (committed w'))
          = Some (Fin 5, Fin 0))
     (\<lambda>_ _. False) (start (sample_stock [sample_level 3 1000000 20000]))"
  by (rule Receive_read_error_overwrites)
    (simp_all add: receive_sample_def sample_stock_def empty_warehouse_def)

theorem Reserve_announces_uncommitted_witness:
  "wp (fail_at 7 (NewInternal ''commit failed'') (env_ok numeric_15_4))
     (Reserve 1 (reserve_sample\<lparr>rv_Quantity := Fin 1\<rparr>))
     (\<lambda>_ _. False)
     (\<lambda>e w'. e = NewInternal ''commit failed'' \<and> map ev_Type (published w') = [''warehouse.stock.reserved'']
        \<and> stock_at (1, 2, 3) (committed w') = stock_at (1, 2, 3) (sample_stock [sample_level 3 20000 0]))
     (start (sample_stock [sample_level 3 20000 0]))"
  using gv_units [of 2]
  by (intro Reserve_announces_uncommitted [where sl = "sample_level 3 20000 0"])
    (simp_all add: reserve_sample_def sample_stock_at row_get_def f64_zero_def stored_level_def
      with_available_def sample_level_def blank_level_def stock_key_def)

section \<open>Concurrent reservations\<close>

text \<open>
  \<open>Reserve\<close> reads the level through the pool, without a lock, and writes the whole row in its
  transaction: a request is planned on what it reads and committed later. Two sessions may
  interleave the two steps.
\<close>

definition reserve_plan :: "stock_level \<Rightarrow> f64 \<Rightarrow> stock_level option" where
  "reserve_plan sl qty =
    (if fless (fsub (sl_Quantity sl) (sl_Reserved sl)) qty then None
     else Some (sl\<lparr>sl_Reserved := fadd (sl_Reserved sl) qty\<rparr>))"

text \<open>A \<open>Reserve\<close> call with nothing in between is the plan followed by the write.\<close>

lemma Reserve_plan_write:
  assumes "reliable env" and "\<not> fle (rv_Quantity inp) f64_zero"
    and "stock_at (org, rv_ProductID inp, rv_WarehouseID inp) d = Some sl"
  shows "wp env (Reserve org inp)
     (\<lambda>_ w'. \<exists>sl' t row. reserve_plan (with_available sl) (rv_Quantity inp) = Some sl'
        \<and> stored_level (column env) (sl'\<lparr>sl_UpdatedAt := t\<rparr>) = Some row
        \<and> t_stock (committed w') = t_stock (put_stock row d))
     (\<lambda>e w'. t_stock (committed w') = t_stock d
        \<and> (reserve_plan (with_available sl) (rv_Quantity inp) = None
           \<longrightarrow> e = NewConflict ''insufficient stock to reserve'')) (start d)"
  unfolding Reserve_def Let_def
  by (intro wp_intros stock_intros conjI allI impI)
    (use assms(2,3) in \<open>fastforce simp: start_def reliable_fault [OF assms(1)] reserve_plan_def put_stock_def\<close>)+

datatype session = Waiting f64 | Planned f64 stock_level | Done f64 | Refused f64

inductive reserve_step ::
  "(f64 \<Rightarrow> f64 option) \<Rightarrow> uuid \<times> uuid \<times> uuid \<Rightarrow>
   'a warehouse_db_scheme \<times> session list \<Rightarrow> 'a warehouse_db_scheme \<times> session list \<Rightarrow> bool" for col k where
  step_plan: "i < length ss \<Longrightarrow> ss ! i = Waiting n \<Longrightarrow> stock_at k d = Some sl \<Longrightarrow>
    reserve_plan (with_available sl) n = Some sl' \<Longrightarrow> reserve_step col k (d, ss) (d, ss[i := Planned n sl'])"
| step_refuse: "i < length ss \<Longrightarrow> ss ! i = Waiting n \<Longrightarrow> stock_at k d = Some sl \<Longrightarrow>
    reserve_plan (with_available sl) n = None \<Longrightarrow> reserve_step col k (d, ss) (d, ss[i := Refused n])"
| step_write: "i < length ss \<Longrightarrow> ss ! i = Planned n sl \<Longrightarrow>
    stored_level col (sl\<lparr>sl_UpdatedAt := t\<rparr>) = Some row \<Longrightarrow>
    reserve_step col k (d, ss) (put_stock row d, ss[i := Done n])"

text \<open>Two reservations that the stock covers one at a time but not together can both succeed,
  and the level then records only one of them: the other reservation is lost.\<close>

lemma Reserve_lost_update:
  assumes "numeric_column col" and at: "stock_at k d = Some sl"
    and "sl_Quantity sl = Fin (gv q)" and "sl_Reserved sl = Fin (gv r)"
    and "numeric_digits q" and "0 \<le> r" and "r \<le> q" and "numeric_digits n"
    and fits: "\<not> fless (f64_round (gv q - gv r)) (Fin (gv n))"
    and accepted: "stored_level col (with_available sl\<lparr>sl_Reserved := fadd (Fin (gv r)) (Fin (gv n)), sl_UpdatedAt := t\<rparr>)
       \<noteq> None"
  shows "\<exists>d' sl'. (reserve_step col k)\<^sup>*\<^sup>* (d, [Waiting (Fin (gv n)), Waiting (Fin (gv n))])
       (d', [Done (Fin (gv n)), Done (Fin (gv n))])
     \<and> stock_at k d' = Some sl' \<and> sl_Quantity sl' = Fin (gv q) \<and> sl_Reserved sl' = Fin (gv (r + n))"
proof -
  let ?n = "Fin (gv n)" and ?p = "with_available sl\<lparr>sl_Reserved := fadd (Fin (gv r)) (Fin (gv n))\<rparr>"
  let ?R = "reserve_step col k"
  have r: "numeric_digits r" using assms(5-7) by (rule numeric_digits_le)
  have key: "stock_key sl = k" using stock.get_key [OF at] .
  obtain row where row: "stored_level col (?p\<lparr>sl_UpdatedAt := t\<rparr>) = Some row"
    using accepted by auto
  have plan: "reserve_plan (with_available sl) ?n = Some ?p"
    using fits by (simp add: reserve_plan_def assms(3,4))
  have w: "sl_Reserved row = Fin (gv (r + n)) \<and> sl_Quantity row = Fin (gv q) \<and> stock_key row = stock_key sl"
    using row_reserve_added [OF assms(1) r assms(8,5) _ assms(3)] row by simp
  have s1: "?R (d, [Waiting ?n, Waiting ?n]) (d, [Planned ?n ?p, Waiting ?n])"
    using step_plan [of 0 "[Waiting ?n, Waiting ?n]" ?n k d sl ?p col] at plan by simp
  have s2: "?R (d, [Planned ?n ?p, Waiting ?n]) (d, [Planned ?n ?p, Planned ?n ?p])"
    using step_plan [of 1 "[Planned ?n ?p, Waiting ?n]" ?n k d sl ?p col] at plan by simp
  have s3: "?R (d, [Planned ?n ?p, Planned ?n ?p]) (put_stock row d, [Done ?n, Planned ?n ?p])"
    using step_write [of 0 "[Planned ?n ?p, Planned ?n ?p]" ?n ?p col t row k d] row by simp
  have s4: "?R (put_stock row d, [Done ?n, Planned ?n ?p]) (put_stock row (put_stock row d), [Done ?n, Done ?n])"
    using step_write [of 1 "[Done ?n, Planned ?n ?p]" ?n ?p col t row k "put_stock row d"] row by simp
  have "?R\<^sup>*\<^sup>* (d, [Waiting ?n, Waiting ?n]) (put_stock row (put_stock row d), [Done ?n, Done ?n])"
    using s1 s2 s3 s4 by (meson converse_rtranclp_into_rtranclp rtranclp.rtrancl_refl)
  with w key show ?thesis
    by (intro exI [of _ "put_stock row (put_stock row d)"] exI [of _ row]) simp
qed

theorem Reserve_lost_update_witness:
  "\<exists>d' sl'. (reserve_step numeric_15_4 (1, 2, 3))\<^sup>*\<^sup>*
       (sample_stock [sample_level 3 20000 0], [Waiting (Fin (gv 20000)), Waiting (Fin (gv 20000))])
       (d', [Done (Fin (gv 20000)), Done (Fin (gv 20000))])
     \<and> stock_at (1, 2, 3) d' = Some sl' \<and> sl_Quantity sl' = Fin (gv 20000)
     \<and> sl_Reserved sl' = Fin (gv (0 + 20000))"
  using gv_units [of 2]
  by (intro Reserve_lost_update [where sl = "sample_level 3 20000 0" and t = 0])
    (simp_all add: sample_stock_at row_get_def numeric_digits_def numeric_15_4_column stored_level_def
      with_available_def sample_level_def blank_level_def f64_zero_def stock_key_def)

end
