(* ===== verification/Stocktaking.thy ===== *)
theory Stocktaking
  imports Stock
begin

text \<open>
  The rest of the warehouse: every operation is atomic on its tables, the life of a stocktaking
  session and what its application does to the stock, and the weighted average cost.
\<close>

section \<open>Atomicity\<close>

text \<open>The four tables of the warehouse.\<close>

definition warehouse_tables ::
  "'a warehouse_db_scheme \<Rightarrow> stock_level list \<times> stock_movement list \<times> inventory list \<times> inventory_item list" where
  "warehouse_tables d = (t_stock d, t_movements d, t_inventories d, t_inv_items d)"

lemma warehouse_tables_events [simp]: "warehouse_tables (d\<lparr>t_events := es\<rparr>) = warehouse_tables d"
  by (simp add: warehouse_tables_def)

lemma quiet_GetStockLevel [quiet_intros]: "quiet g (GetStockLevel org pid wh)"
  unfolding GetStockLevel_def by (intro quiet_intros)

lemma quiet_getOrCreate [quiet_intros]: "quiet g (getOrCreateStockLevel org pid wh u)"
  unfolding getOrCreateStockLevel_def by (intro quiet_intros)

lemma quiet_Upsert [quiet_intros]: "quiet g (UpsertStockLevel sl)"
  using quiet_tx_stmt unfolding UpsertStockLevel_def quiet_def by blast

lemma quiet_InsertMovement [quiet_intros]: "quiet g (InsertMovement m)"
  using quiet_tx_stmt unfolding InsertMovement_def quiet_def by blast

lemma quiet_publishEvent [quiet_intros]:
  "quiet warehouse_tables (publishEvent org e ty actor data)"
  unfolding publishEvent_def by (intro quiet_intros) simp

lemma total_publishEvent: "total (publishEvent org e ty actor data)"
  unfolding publishEvent_def by (intro atomic_intros)

lemma total_checkLowStock: "total (checkLowStock org pid wh actor)"
  unfolding checkLowStock_def Let_def
  by (intro total_bnd total_try total_case_sum total_if total_publishEvent total_ret)

lemma quiet_GetInventoryItems [quiet_intros]: "quiet g (GetInventoryItems i)"
  unfolding GetInventoryItems_def by (intro quiet_intros)

lemma quiet_repo_GetInventory [quiet_intros]: "quiet g (repo_GetInventory org i)"
  unfolding repo_GetInventory_def by (intro quiet_intros)

lemma quiet_ListStockForWarehouse [quiet_intros]: "quiet g (ListStockForWarehouse org i)"
  unfolding ListStockForWarehouse_def by (intro quiet_intros)

lemma quiet_inventory_writes [quiet_intros]:
  "quiet g (CreateInventory iv)" "quiet g (UpdateInventory iv)" "quiet g (UpdateInventoryItem it)"
  "quiet g (CreateInventoryItems its)"
  unfolding CreateInventory_def UpdateInventory_def UpdateInventoryItem_def CreateInventoryItems_def
  by (intro quiet_intros)+

lemma quiet_apply_item [quiet_intros]: "quiet warehouse_tables (apply_item org iv iid actor t item)"
  unfolding apply_item_def Let_def by (intro quiet_intros)

lemmas stock_atomic_rules = atomic_rules total_publishEvent total_checkLowStock

lemma atomic_case_option:
  "atomic g m \<Longrightarrow> (\<And>x. atomic g (f x)) \<Longrightarrow> atomic g (case r of None \<Rightarrow> m | Some x \<Rightarrow> f x)"
  by (cases r) simp_all

lemma stock_ops_atomic:
  "atomic warehouse_tables (Receive org i1)" "atomic warehouse_tables (Ship org i2)"
  "atomic warehouse_tables (Transfer org i3)" "atomic warehouse_tables (Adjust org i4)"
  "atomic warehouse_tables (Reserve org i5)" "atomic warehouse_tables (Unreserve org i5)"
  "atomic warehouse_tables (StartInventory org wh notes actor)"
  "atomic warehouse_tables (ApplyInventory org iid actor)"
  "atomic warehouse_tables (CancelInventory org iid actor)"
  unfolding Receive_def Ship_def Transfer_def Adjust_def Reserve_def Unreserve_def StartInventory_def
    ApplyInventory_def CancelInventory_def Let_def
  by (rule stock_atomic_rules quiet_intros)+

text \<open>C9: Every stock operation is all or nothing on the database: whatever statement fails
  (the begin, a read, a write, the commit), an error leaves levels, movements, stocktakings and
  their items as they were.\<close>

theorem stock_errors_change_nothing:
  "wp env (Receive org i1) (\<lambda>_ _. True) (\<lambda>_ w'. warehouse_tables (committed w') = warehouse_tables d) (start d)
   \<and> wp env (Ship org i2) (\<lambda>_ _. True) (\<lambda>_ w'. warehouse_tables (committed w') = warehouse_tables d) (start d)
   \<and> wp env (Transfer org i3) (\<lambda>_ _. True) (\<lambda>_ w'. warehouse_tables (committed w') = warehouse_tables d) (start d)
   \<and> wp env (Adjust org i4) (\<lambda>_ _. True) (\<lambda>_ w'. warehouse_tables (committed w') = warehouse_tables d) (start d)
   \<and> wp env (Reserve org i5) (\<lambda>_ _. True) (\<lambda>_ w'. warehouse_tables (committed w') = warehouse_tables d) (start d)
   \<and> wp env (Unreserve org i5) (\<lambda>_ _. True) (\<lambda>_ w'. warehouse_tables (committed w') = warehouse_tables d) (start d)
   \<and> wp env (ApplyInventory org iid actor) (\<lambda>_ _. True)
       (\<lambda>_ w'. warehouse_tables (committed w') = warehouse_tables d) (start d)"
  by (intro conjI atomic_wp stock_ops_atomic)

text \<open>A stocktaking that is applied or cancelled stays so: counting, applying or cancelling it
  again is refused with a conflict, changes no table and announces nothing.\<close>

lemma closed_inventory_is_final:
  assumes "find_inventory org iid d = Some iv" and "inv_Status iv \<noteq> ''in_progress''" and "fault env 0 = None"
  shows "wp env (CountItem org iid pid actual) (\<lambda>_ _. False)
       (\<lambda>e w'. GetCode e = CodeConflict \<and> committed w' = d \<and> published w' = []) (start d)
     \<and> wp env (ApplyInventory org iid actor) (\<lambda>_ _. False)
       (\<lambda>e w'. GetCode e = CodeConflict \<and> committed w' = d \<and> published w' = []) (start d)
     \<and> wp env (CancelInventory org iid actor) (\<lambda>_ _. False)
       (\<lambda>e w'. GetCode e = CodeConflict \<and> committed w' = d \<and> published w' = []) (start d)"
  using assms
  by (simp add: CountItem_def ApplyInventory_def CancelInventory_def repo_GetInventory_def wp_simps
      start_def not_in_progress_def)

definition inventory_sample_db :: warehouse_db where
  "inventory_sample_db = empty_warehouse\<lparr>t_inventories := [\<lparr>inv_ID = 9, inv_OrganizationID = 1,
     inv_WarehouseID = 3, inv_Status = ''applied'', inv_Notes = '''', inv_ActorID = None,
     inv_CreatedAt = 0, inv_AppliedAt = Some 5, inv_Items = []\<rparr>]\<rparr>"

theorem closed_inventory_is_final_witness:
  "wp (env_ok Some) (CountItem 1 9 2 (Fin 4)) (\<lambda>_ _. False)
       (\<lambda>e w'. GetCode e = CodeConflict \<and> committed w' = inventory_sample_db \<and> published w' = [])
       (start inventory_sample_db)
     \<and> wp (env_ok Some) (ApplyInventory 1 9 None) (\<lambda>_ _. False)
       (\<lambda>e w'. GetCode e = CodeConflict \<and> committed w' = inventory_sample_db \<and> published w' = [])
       (start inventory_sample_db)
     \<and> wp (env_ok Some) (CancelInventory 1 9 None) (\<lambda>_ _. False)
       (\<lambda>e w'. GetCode e = CodeConflict \<and> committed w' = inventory_sample_db \<and> published w' = [])
       (start inventory_sample_db)"
  by (rule closed_inventory_is_final [where iv = "hd (t_inventories inventory_sample_db)"])
    (simp_all add: find_inventory_def inventory_sample_db_def empty_warehouse_def)

text \<open>What the loop of \<open>ApplyInventory\<close> has pending after it.\<close>

definition counted :: "env \<Rightarrow> uuid \<Rightarrow> uuid \<Rightarrow> inventory_item \<Rightarrow> 'a warehouse_db_scheme \<Rightarrow> bool" where
  "counted env org wh it d \<longleftrightarrow>
     (feq (ii_Discrepancy it) f64_zero \<or>
      (\<exists>actual row. ii_Actual it = Some actual \<and> stock_at (org, ii_ProductID it, wh) d = Some row
         \<and> column env actual = Some (sl_Quantity row)))"

lemma stock_at_rows: "t_stock d = t_stock d' \<Longrightarrow> stock_at k d = stock_at k d'"
  by (simp add: stock_at_def)

lemma counted_frame [simp]:
  "counted env org wh it (d\<lparr>t_events := es\<rparr>) = counted env org wh it d"
  "counted env org wh it (d\<lparr>t_inventories := ivs\<rparr>) = counted env org wh it d"
  by (simp_all add: counted_def)

text \<open>The items are counted in what is pending; nothing else changes, and nothing is committed.\<close>

definition item_keys :: "uuid \<Rightarrow> uuid \<Rightarrow> inventory_item list \<Rightarrow> (uuid \<times> uuid \<times> uuid) set" where
  "item_keys org wh its = (\<lambda>it. (org, ii_ProductID it, wh)) ` set its"

definition counted_all ::
  "env \<Rightarrow> uuid \<Rightarrow> uuid \<Rightarrow> inventory_item list \<Rightarrow> 'a warehouse_db_scheme world \<Rightarrow> 'a warehouse_db_scheme world \<Rightarrow> bool" where
  "counted_all env org wh its w w' \<longleftrightarrow>
     (\<forall>it \<in> set its. \<forall>d. counted env org wh it (pending w' d))
     \<and> (\<forall>k d. k \<notin> item_keys org wh its \<longrightarrow> stock_at k (pending w' d) = stock_at k (pending w d))
     \<and> (\<forall>k. stock_at k (committed w') = stock_at k (committed w))"

lemma item_keys_sort [simp]: "item_keys org wh (sort_key f its) = item_keys org wh its"
  by (simp add: item_keys_def)

lemma apply_item_wp:
  "wp env (apply_item org iv iid actor t it)
     (\<lambda>_ w'. counted_all env org (inv_WarehouseID iv) [it] w w') (\<lambda>_ _. True) w"
proof (cases "stock_at (org, ii_ProductID it, inv_WarehouseID iv) (committed w)")
  case None
  then show ?thesis
    unfolding apply_item_def Let_def counted_all_def item_keys_def
    by (intro wp_intros stock_intros conjI allI impI) (clarsimp simp: counted_def dest!: stored_levelD)+
next
  case (Some sl)
  then have "stock_key sl = (org, ii_ProductID it, inv_WarehouseID iv)" by (rule stock.get_key)
  then show ?thesis
    unfolding apply_item_def Let_def counted_all_def item_keys_def
    by (intro wp_intros stock_intros conjI allI impI)
      (clarsimp simp: Some counted_def dest!: stored_levelD)+
qed

lemma counted_all_Cons:
  assumes "counted_all env org wh [it] w w1" and "counted_all env org wh its w1 w2"
    and "(org, ii_ProductID it, wh) \<notin> item_keys org wh its"
  shows "counted_all env org wh (it # its) w w2"
  using assms unfolding counted_all_def by (auto simp: counted_def item_keys_def)

lemma apply_items_wp:
  fixes w :: "'a warehouse_db_scheme world"
  shows "distinct (map ii_ProductID items) \<Longrightarrow>
   wp env (for_each items (apply_item org iv iid actor t))
     (\<lambda>_ w'. counted_all env org (inv_WarehouseID iv) items w w') (\<lambda>_ _. True) w"
proof (induction items arbitrary: w)
  case Nil
  then show ?case by (simp add: wp_ret counted_all_def)
next
  case (Cons it items)
  have fresh: "(org, ii_ProductID it, inv_WarehouseID iv) \<notin> item_keys org (inv_WarehouseID iv) items"
    using Cons.prems by (auto simp: item_keys_def image_iff)
  show ?case
    unfolding for_each.simps wp_bnd
  proof (rule wp_conseq [OF apply_item_wp])
    fix u and w1 :: "'a warehouse_db_scheme world"
    assume w1: "counted_all env org (inv_WarehouseID iv) [it] w w1"
    show "wp env (for_each items (apply_item org iv iid actor t))
      (\<lambda>_ w'. counted_all env org (inv_WarehouseID iv) (it # items) w w') (\<lambda>_ _. True) w1"
      using Cons.prems counted_all_Cons [OF w1 _ fresh]
      by (intro wp_conseq [OF Cons.IH]) auto
  qed simp
qed

text \<open>C12: After \<open>ApplyInventory\<close> succeeds, every counted product with a discrepancy stands in the
  stock table with the quantity that was counted (as the column stores it), and the products
  that are not in the session are untouched.\<close>

theorem ApplyInventory_sets_counts:
  assumes "distinct (map ii_ProductID (filter (\<lambda>it. ii_InventoryID it = iid) (t_inv_items d)))"
    and "find_inventory org iid d = Some iv"
  shows "wp env (ApplyInventory org iid actor)
     (\<lambda>_ w'. (\<forall>it \<in> set (t_inv_items d). ii_InventoryID it = iid \<longrightarrow>
            counted env org (inv_WarehouseID iv) it (committed w'))
        \<and> (\<forall>k. k \<notin> item_keys org (inv_WarehouseID iv) (filter (\<lambda>it. ii_InventoryID it = iid) (t_inv_items d)) \<longrightarrow>
            stock_at k (committed w') = stock_at k d))
     (\<lambda>_ _. True) (start d)"
proof -
  have dist: "distinct (map ii_ProductID (sort_key ii_ProductID (filter (\<lambda>it. ii_InventoryID it = iid) (t_inv_items d))))"
    using assms(1) by (metis distinct_map distinct_sort set_sort)
  show ?thesis
    unfolding ApplyInventory_def Let_def repo_GetInventory_def GetInventoryItems_def UpdateInventory_def
    apply (intro wp_intros stock_intros)
         apply (simp_all add: start_def assms(2))
    apply (rule wp_conseq [OF apply_items_wp])
    using dist apply simp
     apply (intro wp_intros stock_intros conjI allI impI)
      apply (auto simp: counted_all_def stmt_effect_def)
    done
qed

definition count_sample_db :: warehouse_db where
  "count_sample_db = (sample_stock [sample_level 3 50000 0])
     \<lparr>t_inventories := [\<lparr>inv_ID = 9, inv_OrganizationID = 1, inv_WarehouseID = 3,
        inv_Status = ''in_progress'', inv_Notes = '''', inv_ActorID = None, inv_CreatedAt = 0,
        inv_AppliedAt = None, inv_Items = []\<rparr>],
      t_inv_items := [\<lparr>ii_ID = 11, ii_InventoryID = 9, ii_OrganizationID = 1, ii_ProductID = 2,
        ii_Expected = Fin 5, ii_Actual = Some (Fin 4), ii_Discrepancy = Fin (- 1),
        ii_CountedAt = Some 3\<rparr>]\<rparr>"

theorem ApplyInventory_sets_counts_witness:
  "wp (env_ok numeric_15_4) (ApplyInventory 1 9 None)
     (\<lambda>_ w'. (\<forall>it \<in> set (t_inv_items count_sample_db). ii_InventoryID it = 9 \<longrightarrow>
            counted (env_ok numeric_15_4) 1 (inv_WarehouseID (hd (t_inventories count_sample_db))) it (committed w'))
        \<and> (\<forall>k. k \<notin> item_keys 1 (inv_WarehouseID (hd (t_inventories count_sample_db)))
              (filter (\<lambda>it. ii_InventoryID it = 9) (t_inv_items count_sample_db)) \<longrightarrow>
            stock_at k (committed w') = stock_at k count_sample_db))
     (\<lambda>_ _. True) (start count_sample_db)"
  by (rule ApplyInventory_sets_counts) (simp_all add: count_sample_db_def find_inventory_def)

section \<open>The weighted average cost\<close>

text \<open>On whole quantities and amounts small enough for a double (products below \<open>2 ^ 51\<close>) the
  cost after a receipt lies between the cost before and the cost received.\<close>

lemma received_cost_between:
  assumes "sl_Quantity sl = Fin (of_int q)" and "0 < q" and "0 < n"
    and "sl_CostPerUnit sl = Some o'" and "0 \<le> sint o'" and "0 \<le> sint c"
    and "sint o' * q + sint c * n < 2 ^ 52" and "q + n < 2 ^ 52"
  shows "\<exists>avg. received_cost sl (Some c) (Fin (of_int n)) = Some avg
     \<and> min (sint o') (sint c) \<le> sint avg \<and> sint avg \<le> max (sint o') (sint c)"
proof -
  let ?o = "sint o'" and ?c = "sint c"
  let ?T = "?o * q + ?c * n" and ?N = "q + n"
  let ?lo = "min ?o ?c" and ?hi = "max ?o ?c"
  have nn: "0 \<le> ?o * q" "0 \<le> ?c * n" using assms by simp_all
  have "?o * 1 \<le> ?o * q" "?c * 1 \<le> ?c * n" using assms by (intro mult_left_mono; simp)+
  then have small: "?o < 2 ^ 52" "?c < 2 ^ 52" using assms(7) nn by simp_all
  have T: "f64_of_int64 o' = Fin (of_int ?o)" "f64_of_int64 c = Fin (of_int ?c)"
    using small assms(5,6) by (simp_all add: f64_of_int64_def f64_of_int_small del: of_int_sint)
  have prods: "f64_round (of_int ?o * of_int q) = Fin (of_int (?o * q))"
    "f64_round (of_int ?c * of_int n) = Fin (of_int (?c * n))"
    using f64_round_of_int [of "?o * q"] f64_round_of_int [of "?c * n"] nn assms(7)
    by (simp_all del: of_int_sint)
  have sum: "f64_round (of_int (?o * q) + of_int (?c * n)) = Fin (of_int ?T)"
    using f64_round_of_int [of ?T] nn assms(7) by (simp del: of_int_sint)
  have qty: "f64_round (of_int q + of_int n) = Fin (of_int ?N)"
    using f64_round_of_int [of ?N] assms(2,3,8) by simp
  have tot: "sint (word_of_int ?T :: int64) = ?T"
    using nn assms(7) by (intro sint64_of_int) simp_all
  have totf: "f64_of_int64 (word_of_int ?T) = Fin (of_int ?T)"
    unfolding f64_of_int64_def tot using nn assms(7) by (intro f64_of_int_small) simp
  have lo: "?lo * ?N \<le> ?T" and hi: "?T \<le> ?hi * ?N"
    using assms(2,3) by (auto simp: algebra_simps min_def max_def intro!: add_mono mult_right_mono)
  have N: "(0::rat) < of_int ?N" using assms(2,3) by simp
  have "of_int ?lo \<le> (of_int ?T / of_int ?N :: rat)"
    using lo N by (simp only: pos_le_divide_eq of_int_le_iff flip: of_int_mult)
  moreover have "(of_int ?T / of_int ?N :: rat) \<le> of_int ?hi"
    using hi N by (simp only: pos_divide_le_eq of_int_le_iff flip: of_int_mult)
  ultimately have lohi: "of_int ?lo \<le> (of_int ?T / of_int ?N :: rat)" "(of_int ?T / of_int ?N :: rat) \<le> of_int ?hi"
    by simp_all
  then have b: "rnd (of_int ?lo) \<le> rnd (of_int ?T / of_int ?N)"
    "rnd (of_int ?T / of_int ?N) \<le> rnd (of_int ?hi)"
    by (auto intro: rnd_mono)
  have r: "rnd (of_int ?lo) = of_int ?lo" "rnd (of_int ?hi) = of_int ?hi"
    using small assms(5,6) by (intro rnd_of_int; simp add: min_def max_def)+
  have rha: "?lo \<le> rha (rnd (of_int ?T / of_int ?N))" "rha (rnd (of_int ?T / of_int ?N)) \<le> ?hi"
    using rha_mono [OF b(1)] rha_mono [OF b(2)] unfolding r rha_of_int by simp_all
  let ?a = "rha (rnd (of_int ?T / of_int ?N))"
  have "\<bar>of_int ?T / of_int ?N :: rat\<bar> \<le> of_int ?hi"
  proof -
    have "0 \<le> ?T" using nn by simp
    then have "0 \<le> (of_int ?T :: rat)" by (simp only: of_int_0_le_iff)
    then have "0 \<le> (of_int ?T / of_int ?N :: rat)" using N by (intro divide_nonneg_pos)
    then show ?thesis using lohi(2) by (simp only: abs_of_nonneg)
  qed
  also have "\<dots> \<le> 2 powi 52"
    using small by (simp add: power_int_def max_def)
  finally have fin: "f64_round (of_int ?T / of_int ?N) = Fin (rnd (of_int ?T / of_int ?N))"
    by (rule f64_round_bounded) simp
  have "int64_of_f64 (f64_Round (fadd (fmul (f64_of_int64 o') (sl_Quantity sl))
      (fmul (f64_of_int64 c) (Fin (of_int n))))) = int64_of_f64 (Fin (of_int ?T))"
    by (simp only: T assms(1) fmul.simps prods fadd.simps sum f64_Round.simps rha_of_int)
  also have "\<dots> = word_of_int ?T"
    using nn assms(7) by (intro int64_of_f64_of_int) simp_all
  finally have total: "int64_of_f64 (f64_Round (fadd (fmul (f64_of_int64 o') (sl_Quantity sl))
      (fmul (f64_of_int64 c) (Fin (of_int n))))) = word_of_int ?T" .
  have N0: "(of_int ?N :: rat) \<noteq> 0" using N by simp
  have "int64_of_f64 (f64_Round (fdiv (Fin (of_int ?T)) (Fin (of_int ?N)))) = int64_of_f64 (Fin (of_int ?a))"
    by (simp only: fdiv.simps N0 if_False fin f64_Round.simps)
  also have "\<dots> = word_of_int ?a"
    using rha small assms(5,6) by (intro int64_of_f64_of_int) auto
  finally have avg: "int64_of_f64 (f64_Round (fdiv (f64_of_int64 (word_of_int ?T))
      (fadd (sl_Quantity sl) (Fin (of_int n))))) = word_of_int ?a"
    by (simp only: totf assms(1) fadd.simps qty)
  have "\<not> feq (sl_Quantity sl) f64_zero"
    using assms(1,2) by (simp add: f64_zero_def)
  then have "received_cost sl (Some c) (Fin (of_int n)) = Some (word_of_int ?a)"
    by (simp only: received_cost_def option.case Let_def assms(4) total avg if_False)
  moreover have "sint (word_of_int ?a :: int64) = ?a"
    using rha small assms(5,6) by (intro sint64_of_int) auto
  ultimately show ?thesis using rha by simp
qed


theorem received_cost_between_witness:
  "\<exists>avg. received_cost ((blank_level 1 2 3 '''' 0)\<lparr>sl_Quantity := Fin (of_int 2), sl_CostPerUnit := Some 100\<rparr>)
       (Some 200) (Fin (of_int 3)) = Some avg
     \<and> min (sint (100 :: int64)) (sint (200 :: int64)) \<le> sint avg
     \<and> sint avg \<le> max (sint (100 :: int64)) (sint (200 :: int64))"
  by (rule received_cost_between [where q = 2 and n = 3 and o' = 100]) simp_all

end
