(* ===== verification/Orders.thy ===== *)
theory Orders
  imports Stock Money
begin

text \<open>
  \<open>internal/module/order/service.go\<close> over \<open>internal/storage/postgres/order_repo.go\<close>: orders,
  their lines, order numbers and refunds.

  Money is \<open>BIGINT\<close> in the tables and \<open>int64\<close> in the code, so sums wrap. The quantity of a line
  is a \<open>NUMERIC(15,4)\<close> column read as a double; the quantity of a refunded line an \<open>INTEGER\<close>.
  Foreign keys are not modelled: what they refuse is one more way for a statement to fail.
\<close>

record order_item =
  oi_ID :: uuid
  oi_OrderID :: uuid
  oi_OrganizationID :: uuid
  oi_ProductID :: uuid
  oi_Name :: string
  oi_SKU :: string
  oi_Quantity :: f64
  oi_Unit :: string
  oi_UnitPrice :: int64
  oi_Discount :: int64
  oi_Tax :: int64
  oi_Total :: int64
  oi_SortOrder :: nat
  oi_CreatedAt :: time

record order =
  o_ID :: uuid
  o_OrganizationID :: uuid
  o_EntityID :: uuid
  o_Number :: string
  o_CustomerID :: "uuid option"
  o_Status :: string
  o_Subtotal :: int64
  o_Discount :: int64
  o_Tax :: int64
  o_Total :: int64
  o_Currency :: string
  o_Notes :: string
  o_Source :: string
  o_WarehouseID :: "uuid option"
  o_AssignedTo :: "uuid option"
  o_PaidAt :: "time option"
  o_ShippedAt :: "time option"
  o_DeliveredAt :: "time option"
  o_CancelledAt :: "time option"
  o_CreatedAt :: time
  o_UpdatedAt :: time
  o_Items :: "order_item list"

record refund_item =
  rfi_ID :: uuid
  rfi_RefundID :: uuid
  rfi_OrderItemID :: uuid
  rfi_Quantity :: int64
  rfi_UnitPrice :: int64
  rfi_Total :: int64
  rfi_Reason :: string

record refund =
  rf_ID :: uuid
  rf_OrganizationID :: uuid
  rf_OrderID :: uuid
  rf_Status :: string
  rf_Total :: int64
  rf_Reason :: string
  rf_RefundMethod :: string
  rf_Ver :: int
  rf_Upd :: time
  rf_Iat :: time
  rf_Items :: "refund_item list"

record order_db = warehouse_db +
  t_orders :: "order list"
  t_order_items :: "order_item list"
  t_order_seqs :: "(uuid \<times> int) list"
  t_refunds :: "refund list"
  t_refund_items :: "refund_item list"

record create_item_input =
  cii_ProductID :: uuid
  cii_Quantity :: f64
  cii_UnitPrice :: int64
  cii_Discount :: int64
  cii_Tax :: int64

record create_order_input =
  coi_CustomerID :: "uuid option"
  coi_WarehouseID :: "uuid option"
  coi_Items :: "create_item_input list"
  coi_Notes :: string

record update_order_input =
  uoi_Items :: "create_item_input list"
  uoi_Notes :: "string option"

record pay_input =
  pay_Amount :: int64
  pay_Method :: string

record refund_item_input =
  rii_OrderItemID :: uuid
  rii_Quantity :: int64
  rii_Reason :: string

record create_refund_input =
  cri_Items :: "refund_item_input list"
  cri_RefundMethod :: string

section \<open>The repository\<close>

definition order_row :: "uuid \<Rightarrow> uuid \<Rightarrow> order \<Rightarrow> bool" where
  "order_row org oid ord \<longleftrightarrow> o_OrganizationID ord = org \<and> o_ID ord = oid"

definition find_order :: "uuid \<Rightarrow> uuid \<Rightarrow> 'a order_db_scheme \<Rightarrow> order option" where
  "find_order org oid d = find (order_row org oid) (t_orders d)"

text \<open>The keys of the table: the identifier, and the number within the organization.\<close>

definition CreateOrder :: "order \<Rightarrow> ('a order_db_scheme, unit) op" where
  "CreateOrder ord = tx_stmt (\<lambda>d.
     if o_ID ord \<in> o_ID ` set (t_orders d)
        \<or> (o_OrganizationID ord, o_Number ord) \<in> (\<lambda>x. (o_OrganizationID x, o_Number x)) ` set (t_orders d)
     then Inl duplicate_key
     else Inr ((), d\<lparr>t_orders := t_orders d @ [ord\<lparr>o_PaidAt := None, o_ShippedAt := None,
            o_DeliveredAt := None, o_CancelledAt := None, o_Items := []\<rparr>]\<rparr>))"

definition CreateOrderItems :: "order_item list \<Rightarrow> ('a order_db_scheme, unit) op" where
  "CreateOrderItems items env = for_each items (\<lambda>item. tx_stmt (\<lambda>d.
     case column env (oi_Quantity item) of
       None \<Rightarrow> Inl numeric_overflow
     | Some q \<Rightarrow> row_insert t_order_items (\<lambda>xs d. d\<lparr>t_order_items := xs\<rparr>) oi_ID
                   (item\<lparr>oi_Quantity := q\<rparr>) d)) env"

definition GetOrder :: "uuid \<Rightarrow> uuid \<Rightarrow> ('a order_db_scheme, order) op" where
  "GetOrder org oid = pool_find (find_order org oid) (NewNotFound ''order not found'')"

definition items_of :: "uuid \<Rightarrow> 'a order_db_scheme \<Rightarrow> order_item list" where
  "items_of oid d = sort_key oi_SortOrder (filter (\<lambda>it. oi_OrderID it = oid) (t_order_items d))"

definition GetOrderItems :: "uuid \<Rightarrow> ('a order_db_scheme, order_item list) op" where
  "GetOrderItems oid = pool_stmt (query (items_of oid))"

text \<open>The columns \<open>UpdateOrder\<close> writes, by identifier alone.\<close>

definition set_order :: "order \<Rightarrow> order \<Rightarrow> order" where
  "set_order ord r = r\<lparr>o_Status := o_Status ord, o_Subtotal := o_Subtotal ord, o_Discount := o_Discount ord,
     o_Tax := o_Tax ord, o_Total := o_Total ord, o_Notes := o_Notes ord, o_PaidAt := o_PaidAt ord,
     o_ShippedAt := o_ShippedAt ord, o_DeliveredAt := o_DeliveredAt ord, o_CancelledAt := o_CancelledAt ord,
     o_UpdatedAt := o_UpdatedAt ord\<rparr>"

definition put_order :: "order \<Rightarrow> 'a order_db_scheme \<Rightarrow> 'a order_db_scheme" where
  "put_order ord d = d\<lparr>t_orders := row_update (\<lambda>r. o_ID r = o_ID ord) (set_order ord) (t_orders d)\<rparr>"

definition UpdateOrder :: "order \<Rightarrow> ('a order_db_scheme, unit) op" where
  "UpdateOrder ord = tx_stmt (exec (put_order ord))"

definition UpdateOrderItems :: "uuid \<Rightarrow> order_item list \<Rightarrow> ('a order_db_scheme, unit) op" where
  "UpdateOrderItems oid items =
    bnd (tx_stmt (exec (\<lambda>d. d\<lparr>t_order_items := filter (\<lambda>it. oi_OrderID it \<noteq> oid) (t_order_items d)\<rparr>))) (\<lambda>_.
    CreateOrderItems items)"

text \<open>
  Two statements: make sure the row is there, then increment it. The increment is refused at
  the end of \<open>BIGINT\<close>.
\<close>

definition bigint_out_of_range :: go_error where
  "bigint_out_of_range = PlainError ''bigint out of range'' None"

definition last_number :: "uuid \<Rightarrow> 'a order_db_scheme \<Rightarrow> int" where
  "last_number org d = (case row_get fst org (t_order_seqs d) of None \<Rightarrow> 0 | Some (_, n) \<Rightarrow> n)"

definition NextOrderNumber :: "uuid \<Rightarrow> ('a order_db_scheme, int) op" where
  "NextOrderNumber org =
    bnd (tx_stmt (exec (\<lambda>d. if org \<in> fst ` set (t_order_seqs d) then d
          else d\<lparr>t_order_seqs := t_order_seqs d @ [(org, 0)]\<rparr>))) (\<lambda>_.
    tx_stmt (\<lambda>d. let n = last_number org d + 1 in
       if n < 2 ^ 63 then Inr (n, d\<lparr>t_order_seqs := row_put fst (org, n) (t_order_seqs d)\<rparr>)
       else Inl bigint_out_of_range))"

definition CreateRefund :: "refund \<Rightarrow> ('a order_db_scheme, unit) op" where
  "CreateRefund rf = tx_stmt (row_insert t_refunds (\<lambda>xs d. d\<lparr>t_refunds := xs\<rparr>) rf_ID (rf\<lparr>rf_Items := []\<rparr>))"

text \<open>The driver refuses a quantity that \<open>INTEGER\<close> cannot hold.\<close>

definition integer_out_of_range :: go_error where
  "integer_out_of_range = PlainError ''integer out of range'' None"

definition CreateRefundItems :: "refund_item list \<Rightarrow> ('a order_db_scheme, unit) op" where
  "CreateRefundItems items = for_each items (\<lambda>item. tx_stmt (\<lambda>d.
     if \<bar>sint (rfi_Quantity item)\<bar> < 2 ^ 31
     then row_insert t_refund_items (\<lambda>xs d. d\<lparr>t_refund_items := xs\<rparr>) rfi_ID item d
     else Inl integer_out_of_range))"

definition repo_GetRefund :: "uuid \<Rightarrow> uuid \<Rightarrow> ('a order_db_scheme, refund) op" where
  "repo_GetRefund org rid = pool_find
     (\<lambda>d. find (\<lambda>r. rf_OrganizationID r = org \<and> rf_ID r = rid) (t_refunds d)) (NewNotFound ''refund not found'')"

definition GetRefundItems :: "uuid \<Rightarrow> ('a order_db_scheme, refund_item list) op" where
  "GetRefundItems rid = pool_stmt (query (\<lambda>d. filter (\<lambda>it. rfi_RefundID it = rid) (t_refund_items d)))"

section \<open>The service\<close>

text \<open>\<open>fmt.Sprintf("ORD-%05d", seq)\<close>.\<close>

definition dec05 :: "int \<Rightarrow> string" where
  "dec05 n = (let ds = dec_nat (nat \<bar>n\<bar>) in
     if n < 0 then CHR ''-'' # replicate (4 - length ds) (CHR ''0'') @ ds
     else replicate (5 - length ds) (CHR ''0'') @ ds)"

definition order_number :: "int \<Rightarrow> string" where
  "order_number seq = ''ORD-'' @ dec05 seq"

text \<open>\<open>int64(math.Round(float64(price) * quantity))\<close>.\<close>

definition line_amount :: "create_item_input \<Rightarrow> int64" where
  "line_amount it = int64_of_f64 (f64_Round (fmul (f64_of_int64 (cii_UnitPrice it)) (cii_Quantity it)))"

definition line_total :: "create_item_input \<Rightarrow> int64" where
  "line_total it = line_amount it - cii_Discount it + cii_Tax it"

definition new_line ::
  "uuid \<Rightarrow> uuid \<Rightarrow> time \<Rightarrow> nat \<times> create_item_input \<Rightarrow> ('a order_db_scheme, order_item) op" where
  "new_line org oid t = (\<lambda>(i, it).
    bnd new_uuid (\<lambda>iid.
    ret \<lparr>oi_ID = iid, oi_OrderID = oid, oi_OrganizationID = org, oi_ProductID = cii_ProductID it,
         oi_Name = ''Product'', oi_SKU = '''', oi_Quantity = cii_Quantity it, oi_Unit = unit_pieces,
         oi_UnitPrice = cii_UnitPrice it, oi_Discount = cii_Discount it, oi_Tax = cii_Tax it,
         oi_Total = line_total it, oi_SortOrder = i, oi_CreatedAt = t\<rparr>))"

text \<open>The three sums of the loop.\<close>

definition subtotal :: "create_item_input list \<Rightarrow> int64" where
  "subtotal its = sum_list (map line_amount its)"

definition total_discount :: "create_item_input list \<Rightarrow> int64" where
  "total_discount its = sum_list (map cii_Discount its)"

definition total_tax :: "create_item_input list \<Rightarrow> int64" where
  "total_tax its = sum_list (map cii_Tax its)"

definition check_customer :: "uuid \<Rightarrow> uuid option \<Rightarrow> ('a order_db_scheme, unit) op" where
  "check_customer org customer =
    (case customer of
       None \<Rightarrow> ret ()
     | Some cid \<Rightarrow>
        bnd (try_op (Get org cid False)) (\<lambda>r.
        case r of
          Inl _ \<Rightarrow> fail (NewBadRequest (''customer not found: '' @ uuid_string cid))
        | Inr cust \<Rightarrow> guard (e_Kind cust \<noteq> ''customer'') (NewBadRequest ''entity is not a customer'')))"

definition order_entity :: create_input where
  "order_entity = \<lparr>ci_Kind = ''order'', ci_Name = ''Order'', ci_ParentID = None, ci_Meta = None\<rparr>"

definition new_order ::
  "uuid \<Rightarrow> uuid \<Rightarrow> uuid \<Rightarrow> string \<Rightarrow> time \<Rightarrow> create_order_input \<Rightarrow> order" where
  "new_order org oid eid number t inp =
    \<lparr>o_ID = oid, o_OrganizationID = org, o_EntityID = eid, o_Number = number,
     o_CustomerID = coi_CustomerID inp, o_Status = ''draft'', o_Subtotal = subtotal (coi_Items inp),
     o_Discount = total_discount (coi_Items inp), o_Tax = total_tax (coi_Items inp),
     o_Total = subtotal (coi_Items inp) - total_discount (coi_Items inp) + total_tax (coi_Items inp),
     o_Currency = ''RUB'', o_Notes = coi_Notes inp, o_Source = ''manual'',
     o_WarehouseID = coi_WarehouseID inp, o_AssignedTo = None, o_PaidAt = None, o_ShippedAt = None,
     o_DeliveredAt = None, o_CancelledAt = None, o_CreatedAt = t, o_UpdatedAt = t, o_Items = []\<rparr>"

text \<open>The module has its own copy of the helper, with the body of the warehouse's.\<close>

definition order_publishEvent ::
  "uuid \<Rightarrow> uuid \<Rightarrow> string \<Rightarrow> uuid option \<Rightarrow> json \<Rightarrow> ('a core_db_scheme, unit) op" where
  "order_publishEvent org entity ty actor data =
    bnd new_uuid (\<lambda>evid.
    bnd now (\<lambda>t.
    publish \<lparr>ev_ID = evid, ev_OrganizationID = org, ev_EntityID = Some entity, ev_Type = ty,
             ev_Data = marshal data, ev_ActorID = actor, ev_Timestamp = t, ev_Version = 1\<rparr>))"

definition uuid_field :: "string \<Rightarrow> uuid option \<Rightarrow> (string \<times> json) list" where
  "uuid_field name v = (case v of None \<Rightarrow> [] | Some u \<Rightarrow> [(name, JUuid u)])"

text \<open>
  The entity is created first thing in the order's transaction and commits on its own: nothing
  of the order is pending then.
\<close>

definition order_Create ::
  "uuid \<Rightarrow> create_order_input \<Rightarrow> uuid option \<Rightarrow> ('a order_db_scheme, order) op" where
  "order_Create org inp actor =
    bnd (guard (coi_Items inp = []) (NewBadRequest ''items are required'')) (\<lambda>_.
    bnd (check_customer org (coi_CustomerID inp)) (\<lambda>_.
    bnd (with_tx (
      bnd (Create org order_entity actor) (\<lambda>e.
      bnd (NextOrderNumber org) (\<lambda>seq.
      bnd now (\<lambda>t.
      bnd (map_op (new_line org uuid_nil t) (enumerate 0 (coi_Items inp))) (\<lambda>items.
      bnd new_uuid (\<lambda>oid.
      let ord = new_order org oid (e_ID e) (order_number seq) t inp in
      bnd (CreateOrder ord) (\<lambda>_.
      let items = map (\<lambda>it. it\<lparr>oi_OrderID := oid\<rparr>) items in
      bnd (CreateOrderItems items) (\<lambda>_.
      ret (ord\<lparr>o_Items := items\<rparr>)))))))))) (\<lambda>ord.
    bnd (order_publishEvent org (o_EntityID ord) ''order.created'' actor
           (JObj ([(''order_id'', JUuid (o_ID ord)), (''number'', JStr (o_Number ord)),
                   (''total'', jint64 (o_Total ord))] @ uuid_field ''customer_id'' (o_CustomerID ord)))) (\<lambda>_.
    ret ord))))"

definition order_Get :: "uuid \<Rightarrow> uuid \<Rightarrow> bool \<Rightarrow> ('a order_db_scheme, order) op" where
  "order_Get org oid includeItems =
    bnd (GetOrder org oid) (\<lambda>ord.
    if includeItems then bnd (GetOrderItems oid) (\<lambda>items. ret (ord\<lparr>o_Items := items\<rparr>)) else ret ord)"

definition Submit :: "uuid \<Rightarrow> uuid \<Rightarrow> uuid option \<Rightarrow> ('a order_db_scheme, order) op" where
  "Submit org oid actor =
    bnd (GetOrder org oid) (\<lambda>ord.
    bnd (guard (o_Status ord \<noteq> ''draft'')
          (NewConflict (''order must be in 'draft' status to submit''))) (\<lambda>_.
    bnd now (\<lambda>t.
    let ord = ord\<lparr>o_Status := ''new'', o_UpdatedAt := t\<rparr> in
    bnd (with_tx (UpdateOrder ord)) (\<lambda>_.
    bnd (order_publishEvent org (o_EntityID ord) ''order.submitted'' actor
           (JObj [(''order_id'', JUuid (o_ID ord)), (''number'', JStr (o_Number ord)),
                  (''total'', jint64 (o_Total ord))])) (\<lambda>_.
    ret ord)))))"

definition check_items :: "uuid \<Rightarrow> order_item list \<Rightarrow> check_item list" where
  "check_items wh items = map (\<lambda>it. \<lparr>ck_ProductID = oi_ProductID it, ck_WarehouseID = wh,
     ck_Quantity = oi_Quantity it\<rparr>) items"

text \<open>The warehouse is an interface of the service, which may be absent.\<close>

definition Confirm ::
  "(uuid \<Rightarrow> check_item list \<Rightarrow> ('a order_db_scheme, unit) op) option \<Rightarrow>
   uuid \<Rightarrow> uuid \<Rightarrow> uuid option \<Rightarrow> ('a order_db_scheme, order) op" where
  "Confirm warehouse org oid actor =
    bnd (GetOrder org oid) (\<lambda>ord.
    bnd (guard (o_Status ord \<noteq> ''new'') (NewConflict (''order must be in 'new' status to confirm''))) (\<lambda>_.
    bnd (GetOrderItems oid) (\<lambda>items.
    bnd (case (o_WarehouseID ord, warehouse) of
           (Some wh, Some check) \<Rightarrow> check org (check_items wh items)
         | _ \<Rightarrow> ret ()) (\<lambda>_.
    bnd now (\<lambda>t.
    let ord = ord\<lparr>o_Status := ''confirmed'', o_UpdatedAt := t\<rparr> in
    bnd (with_tx (UpdateOrder ord)) (\<lambda>_.
    bnd (order_publishEvent org (o_EntityID ord) ''order.confirmed'' actor
           (JObj ([(''order_id'', JUuid (o_ID ord)), (''number'', JStr (o_Number ord)),
                   (''items'', JArr (map (\<lambda>it. JObj [(''product_id'', JUuid (oi_ProductID it)),
                      (''quantity'', JFloat (oi_Quantity it)), (''unit_price'', jint64 (oi_UnitPrice it))]) items)),
                   (''total'', jint64 (o_Total ord))] @ uuid_field ''warehouse_id'' (o_WarehouseID ord)))) (\<lambda>_.
    ret ord)))))))"

definition Pay :: "uuid \<Rightarrow> uuid \<Rightarrow> pay_input \<Rightarrow> uuid option \<Rightarrow> ('a order_db_scheme, order) op" where
  "Pay org oid inp actor =
    bnd (GetOrder org oid) (\<lambda>ord.
    bnd (guard (o_Status ord \<noteq> ''confirmed'')
          (NewConflict (''order must be in 'confirmed' status to pay''))) (\<lambda>_.
    bnd now (\<lambda>t.
    let ord = ord\<lparr>o_PaidAt := Some t, o_Status := ''paid'', o_UpdatedAt := t\<rparr> in
    bnd (with_tx (UpdateOrder ord)) (\<lambda>_.
    bnd (order_publishEvent org (o_EntityID ord) ''order.paid'' actor
           (JObj [(''order_id'', JUuid (o_ID ord)), (''amount'', jint64 (pay_Amount inp)),
                  (''method'', JStr (pay_Method inp))])) (\<lambda>_.
    ret ord)))))"

definition order_Ship :: "uuid \<Rightarrow> uuid \<Rightarrow> string \<Rightarrow> uuid option \<Rightarrow> ('a order_db_scheme, order) op" where
  "order_Ship org oid tracking actor =
    bnd (GetOrder org oid) (\<lambda>ord.
    bnd (guard (o_Status ord \<noteq> ''paid'' \<and> o_Status ord \<noteq> ''assembling'')
          (NewConflict (''order must be in 'paid' or 'assembling' status to ship''))) (\<lambda>_.
    bnd now (\<lambda>t.
    let ord = ord\<lparr>o_ShippedAt := Some t, o_Status := ''shipped'', o_UpdatedAt := t\<rparr> in
    bnd (with_tx (UpdateOrder ord)) (\<lambda>_.
    bnd (order_publishEvent org (o_EntityID ord) ''order.shipped'' actor
           (JObj [(''order_id'', JUuid (o_ID ord)), (''tracking'', JStr tracking)])) (\<lambda>_.
    ret ord)))))"

definition Deliver :: "uuid \<Rightarrow> uuid \<Rightarrow> uuid option \<Rightarrow> ('a order_db_scheme, order) op" where
  "Deliver org oid actor =
    bnd (GetOrder org oid) (\<lambda>ord.
    bnd (guard (o_Status ord \<noteq> ''shipped'')
          (NewConflict (''order must be in 'shipped' status to deliver''))) (\<lambda>_.
    bnd now (\<lambda>t.
    let ord = ord\<lparr>o_DeliveredAt := Some t, o_Status := ''delivered'', o_UpdatedAt := t\<rparr> in
    bnd (with_tx (UpdateOrder ord)) (\<lambda>_.
    bnd (order_publishEvent org (o_EntityID ord) ''order.delivered'' actor
           (JObj [(''order_id'', JUuid (o_ID ord))])) (\<lambda>_.
    ret ord)))))"

definition Cancel :: "uuid \<Rightarrow> uuid \<Rightarrow> string \<Rightarrow> uuid option \<Rightarrow> ('a order_db_scheme, order) op" where
  "Cancel org oid reason actor =
    bnd (GetOrder org oid) (\<lambda>ord.
    bnd (guard (o_Status ord \<notin> {''draft'', ''new'', ''confirmed'', ''paid''})
          (NewConflict ''order can only be cancelled from draft, new, confirmed, or paid status'')) (\<lambda>_.
    bnd (GetOrderItems oid) (\<lambda>items.
    bnd now (\<lambda>t.
    let ord = ord\<lparr>o_CancelledAt := Some t, o_Status := ''cancelled'', o_UpdatedAt := t\<rparr> in
    bnd (with_tx (UpdateOrder ord)) (\<lambda>_.
    bnd (order_publishEvent org (o_EntityID ord) ''order.cancelled'' actor
           (JObj ([(''order_id'', JUuid (o_ID ord)), (''reason'', JStr reason), (''total'', jint64 (o_Total ord)),
                   (''items'', JArr (map (\<lambda>it. JObj [(''product_id'', JUuid (oi_ProductID it)),
                      (''quantity'', JFloat (oi_Quantity it))]) items))]
                  @ uuid_field ''warehouse_id'' (o_WarehouseID ord)))) (\<lambda>_.
    ret ord))))))"

text \<open>The order's lines by identifier, and the loop of \<open>Refund\<close> over the lines refunded.\<close>

definition item_map :: "order_item list \<Rightarrow> uuid \<rightharpoonup> order_item" where
  "item_map items = fold (\<lambda>it m. m(oi_ID it \<mapsto> it)) items Map.empty"

definition refund_line ::
  "(uuid \<rightharpoonup> order_item) \<Rightarrow> uuid \<Rightarrow> refund_item_input \<Rightarrow> ('a order_db_scheme, refund_item) op" where
  "refund_line items rid ri =
    (case items (rii_OrderItemID ri) of
       None \<Rightarrow> fail (NewBadRequest (''order item not found: '' @ uuid_string (rii_OrderItemID ri)))
     | Some it \<Rightarrow>
        bnd (guard (sle (rii_Quantity ri) 0 \<or> fless (oi_Quantity it) (f64_of_int64 (rii_Quantity ri)))
              (NewBadRequest (''invalid refund quantity for item '' @ uuid_string (rii_OrderItemID ri)))) (\<lambda>_.
        bnd new_uuid (\<lambda>iid.
        ret \<lparr>rfi_ID = iid, rfi_RefundID = rid, rfi_OrderItemID = rii_OrderItemID ri,
             rfi_Quantity = rii_Quantity ri, rfi_UnitPrice = oi_UnitPrice it,
             rfi_Total = oi_UnitPrice it * rii_Quantity ri, rfi_Reason = rii_Reason ri\<rparr>)))"

definition Refund ::
  "uuid \<Rightarrow> uuid \<Rightarrow> create_refund_input \<Rightarrow> uuid option \<Rightarrow> ('a order_db_scheme, refund) op" where
  "Refund org oid inp actor =
    bnd (GetOrder org oid) (\<lambda>ord.
    bnd (guard (o_Status ord \<notin> {''paid'', ''shipped'', ''delivered''})
          (NewConflict ''order must be in paid, shipped, or delivered status to refund'')) (\<lambda>_.
    bnd (guard (cri_Items inp = []) (NewBadRequest ''at least one item is required for refund'')) (\<lambda>_.
    bnd (GetOrderItems oid) (\<lambda>items.
    bnd (with_tx (
      bnd now (\<lambda>t.
      bnd new_uuid (\<lambda>rid.
      bnd (map_op (refund_line (item_map items) rid) (cri_Items inp)) (\<lambda>rfis.
      let rf = \<lparr>rf_ID = rid, rf_OrganizationID = org, rf_OrderID = oid, rf_Status = ''pending'',
                rf_Total = sum_list (map rfi_Total rfis), rf_Reason = rii_Reason (hd (cri_Items inp)),
                rf_RefundMethod = cri_RefundMethod inp, rf_Ver = 1, rf_Upd = t, rf_Iat = t, rf_Items = []\<rparr> in
      bnd (CreateRefund rf) (\<lambda>_.
      bnd (CreateRefundItems rfis) (\<lambda>_.
      ret (rf\<lparr>rf_Items := rfis\<rparr>)))))))) (\<lambda>rf.
    let product = (\<lambda>ri. case item_map items (rfi_OrderItemID ri) of None \<Rightarrow> uuid_nil | Some it \<Rightarrow> oi_ProductID it) in
    bnd (order_publishEvent org (o_EntityID ord) ''order.refunded'' actor
           (JObj ([(''refund_id'', JUuid (rf_ID rf)), (''order_id'', JUuid oid), (''total'', jint64 (rf_Total rf)),
                   (''refund_method'', JStr (rf_RefundMethod rf)),
                   (''items'', JArr (map (\<lambda>ri. JObj [(''product_id'', JUuid (product ri)),
                      (''quantity'', jint64 (rfi_Quantity ri)), (''unit_price'', jint64 (rfi_UnitPrice ri))])
                      (rf_Items rf)))] @ uuid_field ''warehouse_id'' (o_WarehouseID ord)))) (\<lambda>_.
    ret rf))))))"

definition GetRefund :: "uuid \<Rightarrow> uuid \<Rightarrow> ('a order_db_scheme, refund) op" where
  "GetRefund org rid =
    bnd (repo_GetRefund org rid) (\<lambda>rf.
    bnd (GetRefundItems rid) (\<lambda>items.
    ret (rf\<lparr>rf_Items := items\<rparr>)))"

definition order_Update ::
  "uuid \<Rightarrow> uuid \<Rightarrow> update_order_input \<Rightarrow> uuid option \<Rightarrow> ('a order_db_scheme, order) op" where
  "order_Update org oid inp actor =
    bnd (GetOrder org oid) (\<lambda>ord.
    bnd (guard (o_Status ord \<noteq> ''draft'' \<and> o_Status ord \<noteq> ''new'')
          (NewConflict ''order can only be updated in draft or new status'')) (\<lambda>_.
    let ord = (case uoi_Notes inp of None \<Rightarrow> ord | Some n \<Rightarrow> ord\<lparr>o_Notes := n\<rparr>) in
    if uoi_Items inp \<noteq> []
    then
      bnd now (\<lambda>t.
      bnd (map_op (new_line org oid t) (enumerate 0 (uoi_Items inp))) (\<lambda>items.
      let ord = ord\<lparr>o_Subtotal := subtotal (uoi_Items inp), o_Discount := total_discount (uoi_Items inp),
                    o_Tax := total_tax (uoi_Items inp),
                    o_Total := subtotal (uoi_Items inp) - total_discount (uoi_Items inp) + total_tax (uoi_Items inp),
                    o_UpdatedAt := t\<rparr> in
      bnd (with_tx (bnd (UpdateOrderItems oid items) (\<lambda>_. UpdateOrder ord))) (\<lambda>_.
      ret (ord\<lparr>o_Items := items\<rparr>))))
    else
      bnd now (\<lambda>t.
      let ord = ord\<lparr>o_UpdatedAt := t\<rparr> in
      bnd (with_tx (UpdateOrder ord)) (\<lambda>_.
      ret ord))))"

end
