(* ===== verification/Views.thy ===== *)
theory Views
  imports Entities
begin

text \<open>
  Transactions seen from inside. \<open>view w\<close> is the state the statements of the running
  transaction see and \<open>Commit\<close> installs. The rules below say of a statement, of a loop of
  statements and of a nested call what they make of the view and of the committed state, so
  that a proof about a method follows its view from statement to statement.
\<close>

definition view :: "'d world \<Rightarrow> 'd" where
  "view w = pending w (committed w)"

text \<open>What an operation inside a transaction leaves alone.\<close>

definition same_outside :: "'d world \<Rightarrow> 'd world \<Rightarrow> bool" where
  "same_outside w w' \<longleftrightarrow> committed w' = committed w \<and> published w' = published w"

lemma same_outside_refl [simp]: "same_outside w w"
  by (simp add: same_outside_def)

lemma same_outside_trans: "same_outside w w' \<Longrightarrow> same_outside w' w'' \<Longrightarrow> same_outside w w''"
  by (simp add: same_outside_def)

lemma same_outside_tick [simp]:
  "same_outside (w\<lparr>tick := n\<rparr>) w' = same_outside w w'"
  "same_outside w (w'\<lparr>tick := n\<rparr>) = same_outside w w'"
  by (simp_all add: same_outside_def)

lemma view_simps [simp]:
  "view (w\<lparr>tick := n\<rparr>) = view w" "view (w\<lparr>pending := id\<rparr>) = committed w"
  "view (w\<lparr>tick := n, pending := id\<rparr>) = committed w"
  "view (w\<lparr>published := ps\<rparr>) = view w"
  by (simp_all add: view_def)

lemma view_sym: "d = view w \<Longrightarrow> view w = d"
  by simp

named_theorems view_intros \<open>rules of the weakest precondition in terms of the view\<close>

lemma view_tx_stmt [view_intros]:
  assumes "\<And>e w'. same_outside w w' \<Longrightarrow> E e w'"
    and "\<And>x d w'. s (view w) = Inr (x, d) \<Longrightarrow> same_outside w w' \<Longrightarrow> view w' = d \<Longrightarrow> Q x w'"
  shows "wp env (tx_stmt s) Q E w"
  by (rule wpI_tx_stmt) (auto simp: view_def stmt_effect_def same_outside_def intro!: assms)

lemma view_with_tx [view_intros]:
  assumes "\<And>e w'. same_outside w w' \<Longrightarrow> pending w' = pending w \<Longrightarrow> E e w'"
    and "\<And>w0. committed w0 = committed w \<Longrightarrow> view w0 = committed w \<Longrightarrow> published w0 = published w \<Longrightarrow>
      pending w0 = id \<Longrightarrow>
      wp env fn (\<lambda>x w1. (\<forall>e w'. same_outside w1 w' \<longrightarrow> pending w' = id \<longrightarrow> E e w')
        \<and> (\<forall>w'. committed w' = view w1 \<longrightarrow> published w' = published w1 \<longrightarrow> pending w' = id \<longrightarrow> Q x w'))
      (\<lambda>e w1. \<forall>w'. same_outside w1 w' \<longrightarrow> pending w' = id \<longrightarrow> E e w') w0"
  shows "wp env (with_tx fn) Q E w"
proof (rule wpI_with_tx)
  let ?w = "w\<lparr>tick := Suc (tick w), pending := id\<rparr>"
  have "wp env fn (\<lambda>x w1. (\<forall>e w'. same_outside w1 w' \<longrightarrow> pending w' = id \<longrightarrow> E e w')
        \<and> (\<forall>w'. committed w' = view w1 \<longrightarrow> published w' = published w1 \<longrightarrow> pending w' = id \<longrightarrow> Q x w'))
      (\<lambda>e w1. \<forall>w'. same_outside w1 w' \<longrightarrow> pending w' = id \<longrightarrow> E e w') ?w"
    by (rule assms(2)) simp_all
  then show "wp env fn
     (\<lambda>x w1. (\<forall>e. fault env (tick w1) = Some e \<longrightarrow> E e (w1\<lparr>tick := Suc (tick w1), pending := id\<rparr>))
        \<and> (fault env (tick w1) = None \<longrightarrow>
             Q x (w1\<lparr>tick := Suc (tick w1), pending := id, committed := pending w1 (committed w1)\<rparr>)))
      (\<lambda>e w1. E e (w1\<lparr>pending := id\<rparr>)) ?w"
    by (rule wp_conseq) (auto simp: same_outside_def view_def)
qed (rule assms(1), simp_all)

lemma view_find [view_intros]:
  assumes "\<And>e w'. same_outside w w' \<Longrightarrow> pending w' = pending w \<Longrightarrow> E e w'"
    and "\<And>x w'. g (committed w) = Some x \<Longrightarrow> same_outside w w' \<Longrightarrow> pending w' = pending w \<Longrightarrow> Q x w'"
  shows "wp env (pool_find g e) Q E w"
  by (rule wpI_find) (auto simp: same_outside_def intro!: assms)

lemma view_query [view_intros]:
  assumes "\<And>e w'. same_outside w w' \<Longrightarrow> pending w' = pending w \<Longrightarrow> E e w'"
    and "\<And>w'. same_outside w w' \<Longrightarrow> pending w' = pending w \<Longrightarrow> Q (g (committed w)) w'"
  shows "wp env (pool_stmt (query g)) Q E w"
  by (rule wpI_pool_stmt) (auto simp: same_outside_def intro!: assms)

text \<open>A loop of inserts: an invariant of the view along the list.\<close>

lemma view_for_each:
  assumes "I [] (view w)"
    and "\<And>e w'. same_outside w w' \<Longrightarrow> E e w'"
    and "\<And>ys x zs w' . xs = ys @ x # zs \<Longrightarrow> I ys (view w') \<Longrightarrow> same_outside w w' \<Longrightarrow>
      wp env (f x) (\<lambda>_ w''. I (ys @ [x]) (view w'') \<and> same_outside w' w'') (\<lambda>_ w''. same_outside w' w'') w'"
    and "\<And>w'. I xs (view w') \<Longrightarrow> same_outside w w' \<Longrightarrow> Q () w'"
  shows "wp env (for_each xs f) Q E w"
proof -
  have "wp env (for_each zs f) (\<lambda>_ w'. I xs (view w') \<and> same_outside w w') (\<lambda>_ w'. same_outside w w') w'"
    if "xs = ys @ zs" "I ys (view w')" "same_outside w w'" for ys zs w'
    using that
  proof (induction zs arbitrary: ys w')
    case Nil
    then show ?case by (simp add: wp_ret)
  next
    case (Cons x zs)
    show ?case
      unfolding for_each.simps wp_bnd
    proof (rule wp_conseq [OF assms(3) [OF Cons.prems]])
      fix u w''
      assume "I (ys @ [x]) (view w'') \<and> same_outside w' w''"
      then show "wp env (for_each zs f) (\<lambda>_ w'. I xs (view w') \<and> same_outside w w') (\<lambda>_ w'. same_outside w w') w''"
        using Cons.prems by (intro Cons.IH [of "ys @ [x]"]) (auto intro: same_outside_trans)
    qed (use Cons.prems in \<open>auto intro: same_outside_trans\<close>)
  qed
  from this [of "[]" xs w] assms(1) show ?thesis
    by (auto intro!: assms(2,4) elim!: wp_conseq)
qed

text \<open>A publication changes the event table and the published list only.\<close>

lemma view_publish [view_intros]:
  assumes "\<And>es w'. committed w' = (committed w)\<lparr>t_events := es\<rparr> \<Longrightarrow> published w' = published w @ [ev] \<Longrightarrow>
      pending w' = pending w \<Longrightarrow> Q () w'"
  shows "wp env (publish ev) Q E w"
  by (rule wpI_publish) (auto intro!: assms)

lemmas view_rules = wpI_ret wpI_fail wpI_bnd wpI_try wpI_guard wpI_if wpI_case_option wpI_case_sum
  wpI_case_prod wpI_new_uuid wpI_now view_tx_stmt view_with_tx view_find view_query view_publish

text \<open>
  \<open>entity.Service.Create\<close> called from inside another service's transaction, with nothing of
  it pending: it commits its own, and leaves every table but events and entities alone.
\<close>

lemma view_Create:
  assumes "pending w = id"
    and "\<And>e es ents w'. committed w' = (committed w)\<lparr>t_events := es, t_entities := ents\<rparr> \<Longrightarrow>
      pending w' = id \<Longrightarrow> E e w'"
    and "\<And>x es ents w'. committed w' = (committed w)\<lparr>t_events := es, t_entities := ents\<rparr> \<Longrightarrow>
      pending w' = id \<Longrightarrow> view w' = committed w' \<Longrightarrow> e_ID x \<in> e_ID ` set ents \<Longrightarrow> Q x w'"
  shows "wp env (Create org inp actor) Q E w"
proof -
  have errs: "E e w'" if "committed w' = committed w" "pending w' = id" for e w'
    using that by (intro assms(2) [where es = "t_events (committed w)" and ents = "t_entities (committed w)"]) simp_all
  have fine: "Q x w'" if "committed w' = v\<lparr>t_events := es'\<rparr>" "(committed w)\<lparr>t_entities := ents, t_events := es\<rparr> = v"
      "pending w' = id" "e_ID x \<in> e_ID ` set ents" for x w' v es es' ents
  proof -
    have "committed w' = (committed w)\<lparr>t_events := es', t_entities := ents\<rparr>"
      using that(1) by (simp flip: that(2))
    then show ?thesis using that(3,4) by (intro assms(3)) (auto simp: view_def)
  qed
  show ?thesis
    unfolding Create_def CreateTx_def AppendTx_def Let_def
    apply (intro view_rules allI impI conjI)
    apply (simp_all add: same_outside_def assms(1) blank_entity_def split: if_splits)
    apply (auto intro!: errs simp: assms(1))
     apply (rule fine, assumption, assumption; simp)+
    done
qed

section \<open>Reads\<close>

text \<open>An operation that reads: time passes, nothing else changes.\<close>

definition reads :: "('d, 'a) op \<Rightarrow> bool" where
  "reads m \<longleftrightarrow> (\<forall>env w. same_outside w (snd (m env w)) \<and> pending (snd (m env w)) = pending w)"

named_theorems reads_intros \<open>operations that change nothing\<close>

lemma reads_ret [reads_intros]: "reads (ret x)" "reads (fail e)" "reads (guard c e)"
  by (simp_all add: reads_def ret_def fail_def guard_def)

lemma reads_bnd [reads_intros]: "reads m \<Longrightarrow> (\<And>x. reads (f x)) \<Longrightarrow> reads (bnd m f)"
  unfolding reads_def bnd_def same_outside_def
  by (auto split: prod.split sum.split) (metis snd_conv)+

lemma reads_try [reads_intros]: "reads m \<Longrightarrow> reads (try_op m)"
  unfolding reads_def try_op_def same_outside_def by (auto split: prod.split) (metis snd_conv)+

lemma reads_query [reads_intros]: "reads (pool_stmt (query g))"
  by (auto simp: reads_def pool_stmt_def same_outside_def Let_def split: option.splits)

lemma reads_case_option [reads_intros]:
  "reads m \<Longrightarrow> (\<And>x. reads (f x)) \<Longrightarrow> reads (case r of None \<Rightarrow> m | Some x \<Rightarrow> f x)"
  by (cases r) simp_all

lemma reads_case_sum [reads_intros]:
  "(\<And>x. reads (f x)) \<Longrightarrow> (\<And>x. reads (h x)) \<Longrightarrow> reads (case r of Inl x \<Rightarrow> f x | Inr x \<Rightarrow> h x)"
  by (cases r) simp_all

lemma reads_if [reads_intros]: "reads m \<Longrightarrow> reads m' \<Longrightarrow> reads (if c then m else m')"
  by simp

lemma reads_find [reads_intros]: "reads (pool_find g e)"
  unfolding pool_find_def by (intro reads_intros)

lemma reads_for_each [reads_intros]: "(\<And>x. reads (f x)) \<Longrightarrow> reads (for_each xs f)"
  by (induction xs) (auto intro: reads_intros)

lemma view_reads:
  assumes "reads m"
    and "\<And>e w'. same_outside w w' \<Longrightarrow> pending w' = pending w \<Longrightarrow> E e w'"
    and "\<And>x w'. same_outside w w' \<Longrightarrow> pending w' = pending w \<Longrightarrow> Q x w'"
  shows "wp env m Q E w"
  using assms unfolding reads_def by (auto intro!: wpI) (metis snd_conv)+

section \<open>Runs that cannot fail\<close>

text \<open>The same rules when every statement is executed: only a constraint or a guard can refuse.\<close>

lemma ok_tx_stmt:
  assumes "reliable env" and "\<And>e. s (view w) = Inl e \<Longrightarrow> False"
    and "\<And>x d w'. s (view w) = Inr (x, d) \<Longrightarrow> same_outside w w' \<Longrightarrow> view w' = d \<Longrightarrow> Q x w'"
  shows "wp env (tx_stmt s) Q E w"
  using assms(1)
  by (auto simp: wp_tx_stmt view_def [symmetric] split: sum.split dest: assms(2))
    (auto simp: view_def stmt_effect_def same_outside_def intro!: assms(3))

lemma ok_with_tx:
  assumes "reliable env"
    and "\<And>w0. committed w0 = committed w \<Longrightarrow> view w0 = committed w \<Longrightarrow> published w0 = published w \<Longrightarrow>
      pending w0 = id \<Longrightarrow>
      wp env fn (\<lambda>x w1. \<forall>w'. committed w' = view w1 \<longrightarrow> published w' = published w1 \<longrightarrow> pending w' = id \<longrightarrow> Q x w')
      (\<lambda>e w1. \<forall>w'. same_outside w1 w' \<longrightarrow> pending w' = id \<longrightarrow> E e w') w0"
  shows "wp env (with_tx fn) Q E w"
proof -
  let ?w = "w\<lparr>tick := Suc (tick w), pending := id\<rparr>"
  have "wp env fn (\<lambda>x w1. \<forall>w'. committed w' = view w1 \<longrightarrow> published w' = published w1 \<longrightarrow> pending w' = id \<longrightarrow> Q x w')
      (\<lambda>e w1. \<forall>w'. same_outside w1 w' \<longrightarrow> pending w' = id \<longrightarrow> E e w') ?w"
    by (rule assms(2)) simp_all
  then show ?thesis
    using assms(1) unfolding wp_with_tx
    by (auto elim!: wp_conseq simp: view_def same_outside_def)
qed

lemma ok_find:
  assumes "reliable env" and "g (committed w) = Some x"
    and "\<And>w'. same_outside w w' \<Longrightarrow> pending w' = pending w \<Longrightarrow> Q x w'"
  shows "wp env (pool_find g e) Q E w"
  using assms(1,2) by (auto simp: wp_pool_find same_outside_def intro!: assms(3))

lemma ok_query:
  assumes "reliable env" and "\<And>w'. same_outside w w' \<Longrightarrow> pending w' = pending w \<Longrightarrow> Q (g (committed w)) w'"
  shows "wp env (pool_stmt (query g)) Q E w"
  using assms(1) by (auto simp: wp_pool_stmt same_outside_def intro!: assms(2))

text \<open>Identifiers that are new: not the nil one, pairwise different, and not in use.\<close>

definition fresh_uuids :: "uuid set \<Rightarrow> env \<Rightarrow> bool" where
  "fresh_uuids used env \<longleftrightarrow> inj (uuids env) \<and> (\<forall>n. uuids env n \<noteq> uuid_nil \<and> uuids env n \<notin> used)"

lemma fresh_uuidsD:
  "fresh_uuids used env \<Longrightarrow> uuids env n \<noteq> uuid_nil" "fresh_uuids used env \<Longrightarrow> uuids env n \<notin> used"
  "fresh_uuids used env \<Longrightarrow> uuids env n = uuids env m \<longleftrightarrow> n = m"
  by (auto simp: fresh_uuids_def inj_eq)

lemma env_ok_fresh: "\<forall>u \<in> used. u < 1000 \<Longrightarrow> fresh_uuids used (env_ok col)"
  by (force simp: fresh_uuids_def inj_def uuid_nil_def)

lemma ok_Create:
  assumes "reliable env" and "pending w = id" and "ci_Kind inp \<noteq> ''''" and "ci_Name inp \<noteq> ''''"
    and fresh: "fresh_uuids (e_ID ` set (t_entities (committed w)) \<union> ev_ID ` set (t_events (committed w))) env"
    and "\<And>x es ents w'. committed w' = (committed w)\<lparr>t_events := es, t_entities := ents\<rparr> \<Longrightarrow>
      pending w' = id \<Longrightarrow> view w' = committed w' \<Longrightarrow>
      map ev_Type (published w') = map ev_Type (published w) @ [''entity.created''] \<Longrightarrow> Q x w'"
  shows "wp env (Create org inp actor) Q E w"
proof -
  have fine: "Q x w'" if "committed w' = v\<lparr>t_events := es'\<rparr>" "(committed w)\<lparr>t_entities := ents, t_events := es\<rparr> = v"
      "pending w' = id" "map ev_Type (published w') = map ev_Type (published w) @ [''entity.created'']" for x w' v es es' ents
  proof -
    have "committed w' = (committed w)\<lparr>t_events := es', t_entities := ents\<rparr>"
      using that(1) by (simp flip: that(2))
    then show ?thesis using that(3,4) by (intro assms(6)) (auto simp: view_def)
  qed
  note ids = fresh_uuidsD [OF fresh]
  show ?thesis
    unfolding Create_def CreateTx_def AppendTx_def Let_def
    apply (intro wpI_bnd wpI_guard wpI_ret wpI_if wpI_new_uuid wpI_now ok_with_tx [OF assms(1)] allI impI view_publish
        ok_tx_stmt [OF assms(1)])
    apply (simp_all add: assms(2-4) blank_entity_def ids(1) same_outside_def split: if_splits)
    using ids(2) apply (auto simp: event_stored_def entity_event_def)
     apply (metis imageI)
    apply (rule fine, assumption, assumption; simp add: entity_event_def)
    done
qed

section \<open>Moves\<close>

text \<open>
  \<open>moves R m\<close>: started outside a transaction, the operation ends outside one, and whatever
  happens the committed state has moved along \<open>R\<close>. A service method is put together from reads,
  guards, publications and transactions, so for a reflexive and transitive \<open>R\<close> it moves along
  \<open>R\<close> when its transactions do.
\<close>

definition moves :: "('d \<Rightarrow> 'd \<Rightarrow> bool) \<Rightarrow> ('d, 'a) op \<Rightarrow> bool" where
  "moves R m \<longleftrightarrow> (\<forall>env w. pending w = id \<longrightarrow>
     pending (snd (m env w)) = id \<and> R (committed w) (committed (snd (m env w))))"

lemma moves_run: "moves R m \<Longrightarrow> R d (committed (snd (m env (start d))))"
  unfolding moves_def by (drule spec [of _ env], drule spec [of _ "start d"]) (simp add: start_def)

lemma wp_state: "wp env m (\<lambda>_. P) (\<lambda>_. P) w \<longleftrightarrow> P (snd (m env w))"
  by (cases "m env w") (simp add: wp_def split: sum.split)

lemma moves_wp:
  "moves R m \<longleftrightarrow> (\<forall>env w. pending w = id \<longrightarrow>
     wp env m (\<lambda>_ w'. pending w' = id \<and> R (committed w) (committed w'))
       (\<lambda>_ w'. pending w' = id \<and> R (committed w) (committed w')) w)"
  by (simp add: moves_def wp_state)

text \<open>The same inside a transaction: the committed state stays, the view moves.\<close>

definition works :: "('d \<Rightarrow> 'd \<Rightarrow> bool) \<Rightarrow> ('d, 'a) op \<Rightarrow> bool" where
  "works R m \<longleftrightarrow> (\<forall>env w. committed (snd (m env w)) = committed w \<and> R (view w) (view (snd (m env w))))"

lemma works_wp:
  "works R m \<Longrightarrow> wp env m (\<lambda>_ w'. committed w' = committed w \<and> R (view w) (view w'))
     (\<lambda>_ w'. committed w' = committed w \<and> R (view w) (view w')) w"
  by (simp add: wp_state works_def)

locale transition =
  fixes R :: "'d \<Rightarrow> 'd \<Rightarrow> bool"
  assumes R_refl: "R d d"
    and R_trans: "R d d' \<Longrightarrow> R d' d'' \<Longrightarrow> R d d''"
begin

lemma moves_reads: "reads m \<Longrightarrow> moves R m"
  by (simp add: moves_def reads_def same_outside_def R_refl)

lemma moves_bnd: "moves R m \<Longrightarrow> (\<And>x. moves R (f x)) \<Longrightarrow> moves R (bnd m f)"
  unfolding moves_def bnd_def by (auto split: prod.split sum.split) (metis R_trans snd_conv)+

lemma moves_try: "moves R m \<Longrightarrow> moves R (try_op m)"
  unfolding moves_def try_op_def by (auto split: prod.split) (metis snd_conv)+

lemma moves_new_uuid: "moves R new_uuid" and moves_now: "moves R now"
  by (simp_all add: moves_def new_uuid_def now_def R_refl)

lemma moves_case_option:
  "moves R m \<Longrightarrow> (\<And>x. moves R (f x)) \<Longrightarrow> moves R (case r of None \<Rightarrow> m | Some x \<Rightarrow> f x)"
  by (cases r) simp_all

lemma moves_case_sum:
  "(\<And>x. moves R (f x)) \<Longrightarrow> (\<And>x. moves R (h x)) \<Longrightarrow> moves R (case r of Inl x \<Rightarrow> f x | Inr x \<Rightarrow> h x)"
  by (cases r) simp_all

lemma moves_if: "moves R m \<Longrightarrow> moves R m' \<Longrightarrow> moves R (if c then m else m')"
  by simp

lemma moves_for_each: "(\<And>x. moves R (f x)) \<Longrightarrow> moves R (for_each xs f)"
  by (induction xs) (auto intro: moves_bnd moves_reads reads_intros)

lemma moves_map_op: "(\<And>x. moves R (f x)) \<Longrightarrow> moves R (map_op f xs)"
  by (induction xs) (auto intro!: moves_bnd intro: moves_reads reads_intros)

lemma moves_with_tx:
  assumes "\<And>env w. pending w = id \<Longrightarrow>
    wp env fn (\<lambda>_ w'. committed w' = committed w \<and> R (committed w) (view w')) (\<lambda>_ w'. committed w' = committed w) w"
  shows "moves R (with_tx fn)"
  unfolding moves_wp
proof (intro allI impI view_with_tx)
  fix env and w w0 :: "'d world"
  assume w: "pending w = id" and w0: "committed w0 = committed w" "pending w0 = id"
  show "wp env fn
     (\<lambda>x w1. (\<forall>e w'. same_outside w1 w' \<longrightarrow> pending w' = id \<longrightarrow> pending w' = id \<and> R (committed w) (committed w'))
        \<and> (\<forall>w'. committed w' = view w1 \<longrightarrow> published w' = published w1 \<longrightarrow> pending w' = id \<longrightarrow>
             pending w' = id \<and> R (committed w) (committed w')))
     (\<lambda>e w1. \<forall>w'. same_outside w1 w' \<longrightarrow> pending w' = id \<longrightarrow> pending w' = id \<and> R (committed w) (committed w')) w0"
    using w0 by (intro wp_conseq [OF assms [OF w0(2)]]) (auto simp: same_outside_def R_refl)
qed (auto simp: same_outside_def R_refl)

lemma moves_ret: "moves R (ret x)" and moves_fail: "moves R (fail e)" and moves_guard: "moves R (guard c e)"
  and moves_query: "moves R (pool_stmt (query g))" and moves_find: "moves R (pool_find h e)"
  by (intro moves_reads reads_intros)+

lemma works_ret: "works R (ret x)" and works_new_uuid: "works R new_uuid" and works_now: "works R now"
  by (simp_all add: works_def ret_def new_uuid_def now_def R_refl)

lemma works_bnd: "works R m \<Longrightarrow> (\<And>x. works R (f x)) \<Longrightarrow> works R (bnd m f)"
  unfolding works_def bnd_def by (auto split: prod.split sum.split) (metis R_trans snd_conv)+

lemma works_for_each: "(\<And>x. works R (f x)) \<Longrightarrow> works R (for_each xs f)"
  by (induction xs) (auto intro: works_bnd works_ret)

lemma works_tx_stmt:
  "(\<And>d x d'. s d = Inr (x, d') \<Longrightarrow> R d d') \<Longrightarrow> works R (tx_stmt s)"
  by (auto simp: works_def tx_stmt_def view_def stmt_effect_def Let_def R_refl split: option.splits sum.splits)

lemma moves_tx: "works R fn \<Longrightarrow> moves R (with_tx fn)"
  by (intro moves_with_tx, rule wp_conseq [OF works_wp]) (auto simp: view_def)

lemmas moves_rules = moves_bnd moves_ret moves_fail moves_guard moves_query moves_find moves_try moves_new_uuid
  moves_now moves_case_option moves_case_sum moves_if moves_for_each moves_map_op

lemmas works_rules = works_bnd works_ret works_new_uuid works_now works_for_each works_tx_stmt

end

lemma moves_publish:
  "(\<And>d es. R d (d\<lparr>t_events := es\<rparr>)) \<Longrightarrow> moves R (publish ev)"
  by (auto simp: moves_wp intro!: view_publish)

lemma moves_pool_stmt:
  "(\<And>d. R d d) \<Longrightarrow> (\<And>d x d'. s d = Inr (x, d') \<Longrightarrow> R d d') \<Longrightarrow> moves R (pool_stmt s)"
  by (auto simp: moves_def pool_stmt_def Let_def split: option.splits sum.splits)

end
