(* ===== verification/OrderLife.thy ===== *)
theory OrderLife
  imports Orders Views
begin

text \<open>
  What an order may become. \<open>order_step\<close> is the abstract machine: the changes an order may
  undergo, with their guards; \<open>table_step\<close> lifts it to the table, where a draft may be added and
  one order may change. The methods of the service refine it: every request, whatever fails in
  it, is one \<open>table_step\<close>.
\<close>

inductive order_step :: "order \<Rightarrow> order \<Rightarrow> bool" where
  submit: "o_Status r = ''draft'' \<Longrightarrow> order_step r (r\<lparr>o_Status := ''new'', o_UpdatedAt := t\<rparr>)"
| confirm: "o_Status r = ''new'' \<Longrightarrow> order_step r (r\<lparr>o_Status := ''confirmed'', o_UpdatedAt := t\<rparr>)"
| pay: "o_Status r = ''confirmed'' \<Longrightarrow>
    order_step r (r\<lparr>o_Status := ''paid'', o_PaidAt := Some t, o_UpdatedAt := t\<rparr>)"
| ship: "o_Status r = ''paid'' \<or> o_Status r = ''assembling'' \<Longrightarrow>
    order_step r (r\<lparr>o_Status := ''shipped'', o_ShippedAt := Some t, o_UpdatedAt := t\<rparr>)"
| deliver: "o_Status r = ''shipped'' \<Longrightarrow>
    order_step r (r\<lparr>o_Status := ''delivered'', o_DeliveredAt := Some t, o_UpdatedAt := t\<rparr>)"
| cancel: "o_Status r \<in> {''draft'', ''new'', ''confirmed'', ''paid''} \<Longrightarrow>
    order_step r (r\<lparr>o_Status := ''cancelled'', o_CancelledAt := Some t, o_UpdatedAt := t\<rparr>)"
| revise: "o_Status r \<in> {''draft'', ''new''} \<Longrightarrow>
    order_step r (r\<lparr>o_Subtotal := s, o_Discount := x, o_Tax := y, o_Total := s - x + y, o_Notes := n,
      o_UpdatedAt := t\<rparr>)"
| annotate: "o_Status r \<in> {''draft'', ''new''} \<Longrightarrow> order_step r (r\<lparr>o_Notes := n, o_UpdatedAt := t\<rparr>)"

inductive_cases order_stepE: "order_step r r'"

definition fresh_order :: "order list \<Rightarrow> order \<Rightarrow> bool" where
  "fresh_order os r \<longleftrightarrow> o_ID r \<notin> o_ID ` set os
     \<and> (o_OrganizationID r, o_Number r) \<notin> (\<lambda>x. (o_OrganizationID x, o_Number x)) ` set os
     \<and> o_Status r = ''draft'' \<and> o_PaidAt r = None \<and> o_ShippedAt r = None \<and> o_DeliveredAt r = None
     \<and> o_CancelledAt r = None \<and> o_Items r = [] \<and> o_Total r = o_Subtotal r - o_Discount r + o_Tax r"

inductive table_step :: "order list \<Rightarrow> order list \<Rightarrow> bool" where
  stays: "table_step os os"
| opens: "fresh_order os r \<Longrightarrow> table_step os (os @ [r])"
| changes: "r \<in> set os \<Longrightarrow> order_step r r' \<Longrightarrow>
    table_step os (map (\<lambda>x. if o_ID x = o_ID r then r' else x) os)"

section \<open>The invariant of the order tables\<close>

text \<open>The dates an order carries in each status.\<close>

definition stamps_ok :: "order \<Rightarrow> bool" where
  "stamps_ok r \<longleftrightarrow>
     o_Status r \<in> {''draft'', ''new'', ''confirmed'', ''paid'', ''shipped'', ''delivered'', ''cancelled''}
   \<and> (o_Status r \<in> {''draft'', ''new'', ''confirmed''} \<longrightarrow> o_PaidAt r = None)
   \<and> (o_Status r \<in> {''paid'', ''shipped'', ''delivered''} \<longrightarrow> o_PaidAt r \<noteq> None)
   \<and> (o_ShippedAt r \<noteq> None \<longleftrightarrow> o_Status r \<in> {''shipped'', ''delivered''})
   \<and> (o_DeliveredAt r \<noteq> None \<longleftrightarrow> o_Status r = ''delivered'')
   \<and> (o_CancelledAt r \<noteq> None \<longleftrightarrow> o_Status r = ''cancelled'')"

definition row_ok :: "order \<Rightarrow> bool" where
  "row_ok r \<longleftrightarrow> stamps_ok r \<and> o_Items r = [] \<and> o_Total r = o_Subtotal r - o_Discount r + o_Tax r"

definition items_total :: "uuid \<Rightarrow> 'a order_db_scheme \<Rightarrow> int64" where
  "items_total oid d = sum_list (map oi_Total (filter (\<lambda>it. oi_OrderID it = oid) (t_order_items d)))"

text \<open>The numbers given out so far are the ones up to the organization's counter.\<close>

definition number_ok :: "'a order_db_scheme \<Rightarrow> order \<Rightarrow> bool" where
  "number_ok d r \<longleftrightarrow> (\<exists>k. 1 \<le> k \<and> k \<le> last_number (o_OrganizationID r) d \<and> o_Number r = order_number k)"

definition orders_ok :: "'a order_db_scheme \<Rightarrow> bool" where
  "orders_ok d \<longleftrightarrow> distinct (map o_ID (t_orders d))
     \<and> (\<forall>org. 0 \<le> last_number org d)
     \<and> (\<forall>r \<in> set (t_orders d). number_ok d r)
     \<and> (\<forall>r \<in> set (t_orders d). row_ok r \<and> items_total (o_ID r) d = o_Total r)
     \<and> (\<forall>it \<in> set (t_order_items d). oi_OrderID it \<in> o_ID ` set (t_orders d))"

lemma order_step_id: "order_step r r' \<Longrightarrow> o_ID r' = o_ID r \<and> o_OrganizationID r' = o_OrganizationID r
    \<and> o_Number r' = o_Number r"
  by (cases rule: order_step.cases) auto

lemma order_step_row_ok: "order_step r r' \<Longrightarrow> row_ok r \<Longrightarrow> row_ok r'"
  by (induction rule: order_step.induct) ((elim insertE emptyE disjE)?; simp add: row_ok_def stamps_ok_def)+

lemma fresh_row_ok: "fresh_order os r \<Longrightarrow> row_ok r"
  by (simp add: fresh_order_def row_ok_def stamps_ok_def)

lemma map_step_ids:
  "order_step r r' \<Longrightarrow> map o_ID (map (\<lambda>x. if o_ID x = o_ID r then r' else x) os) = map o_ID os"
  using order_step_id by (auto simp: comp_def)

lemma distinct_key_eq: "distinct (map f xs) \<Longrightarrow> x \<in> set xs \<Longrightarrow> y \<in> set xs \<Longrightarrow> f x = f y \<Longrightarrow> x = y"
  by (simp add: distinct_map inj_on_def)

text \<open>What the update statement does to a table with distinct identifiers.\<close>

lemma row_update_map:
  assumes "distinct (map o_ID os)" and "r \<in> set os" and "o_ID ord = o_ID r" and "set_order ord r = r'"
  shows "row_update (\<lambda>x. o_ID x = o_ID ord) (set_order ord) os
    = map (\<lambda>x. if o_ID x = o_ID r then r' else x) os"
  using assms distinct_key_eq [OF assms(1) _ assms(2)] by (auto simp: row_update_def)


lemma orders_ok_events [simp]:
  "orders_ok (d\<lparr>t_events := es\<rparr>) = orders_ok d"
  "orders_ok (d\<lparr>t_entities := ents\<rparr>) = orders_ok d"
  by (simp_all add: orders_ok_def items_total_def number_ok_def last_number_def)

lemma orders_ok_irrelevant [simp]:
  "orders_ok (d\<lparr>t_refunds := rf\<rparr>) = orders_ok d"
  "orders_ok (d\<lparr>t_refund_items := ri\<rparr>) = orders_ok d"
  by (simp_all add: orders_ok_def items_total_def number_ok_def last_number_def)

lemma last_number_cong: "t_order_seqs d' = t_order_seqs d \<Longrightarrow> last_number org d' = last_number org d"
  by (simp add: last_number_def)

lemma last_number_frame [simp]:
  "last_number org (d\<lparr>t_events := es\<rparr>) = last_number org d"
  "last_number org (d\<lparr>t_entities := ents\<rparr>) = last_number org d"
  "last_number org (d\<lparr>t_order_items := its\<rparr>) = last_number org d"
  "last_number org (d\<lparr>t_orders := os\<rparr>) = last_number org d"
  by (simp_all add: last_number_def)

lemma find_orderD: "find_order org oid d = Some r \<Longrightarrow> r \<in> set (t_orders d) \<and> o_ID r = oid \<and> o_OrganizationID r = org"
  by (auto simp: find_order_def order_row_def dest: find_SomeD)

text \<open>At most one order of the table changes, and the counters only grow.\<close>

definition good :: "'a order_db_scheme \<Rightarrow> 'a order_db_scheme \<Rightarrow> bool" where
  "good d d' \<longleftrightarrow> orders_ok d' \<and> table_step (t_orders d) (t_orders d')
     \<and> (\<forall>org. last_number org d \<le> last_number org d')"

lemma good_refl: "orders_ok d \<Longrightarrow> good d d"
  by (simp add: good_def stays)

lemma good_events [simp]: "good d (d'\<lparr>t_events := es\<rparr>) = good d d'"
  by (simp add: good_def)

lemma orders_ok_change:
  assumes ok: "orders_ok d" and r: "r \<in> set (t_orders d)" and step: "order_step r r'"
    and items: "t_order_items d' = t_order_items d" and "o_Total r' = o_Total r"
    and seqs: "t_order_seqs d' = t_order_seqs d"
    and os: "t_orders d' = map (\<lambda>x. if o_ID x = o_ID r then r' else x) (t_orders d)"
  shows "orders_ok d'"
proof -
  have ids: "o_ID ` set (t_orders d') = o_ID ` set (t_orders d)"
    unfolding os set_map [symmetric] map_step_ids [OF step] by simp
  have dist: "distinct (map o_ID (t_orders d'))"
    using ok unfolding os map_step_ids [OF step] by (simp add: orders_ok_def)
  have tot: "items_total oid d' = items_total oid d" for oid by (simp add: items_total_def items)
  have "row_ok x \<and> items_total (o_ID x) d' = o_Total x" if "x \<in> set (t_orders d')" for x
    using that ok r order_step_row_ok [OF step] order_step_id [OF step] assms(5)
    by (auto simp: os tot orders_ok_def)
  moreover have "number_ok d' x" if "x \<in> set (t_orders d')" for x
    using that ok r order_step_id [OF step] last_number_cong [OF seqs]
    by (auto simp: os orders_ok_def number_ok_def)
  ultimately show ?thesis using ok ids dist last_number_cong [OF seqs] by (simp add: orders_ok_def items)
qed

lemma good_put_order:
  assumes ok: "orders_ok d" and r: "find_order org oid d = Some r" and "o_ID ord = o_ID r"
    and step: "order_step r (set_order ord r)" and "o_Total ord = o_Total r"
  shows "good d (put_order ord d)"
proof -
  have mem: "r \<in> set (t_orders d)" using find_orderD [OF r] by simp
  have os: "t_orders (put_order ord d) = map (\<lambda>x. if o_ID x = o_ID r then set_order ord r else x) (t_orders d)"
    using ok row_update_map [OF _ mem assms(3) refl] by (simp add: put_order_def orders_ok_def)
  have "orders_ok (put_order ord d)"
    by (rule orders_ok_change [OF ok mem step _ _ _ os]) (simp_all add: put_order_def set_order_def assms(5))
  then show ?thesis
    using table_step.changes [OF mem step] by (simp add: good_def os) (simp add: put_order_def)
qed

lemma set_order_eq:
  "set_order (r\<lparr>o_Status := s, o_UpdatedAt := t\<rparr>) r = r\<lparr>o_Status := s, o_UpdatedAt := t\<rparr>"
  "set_order (r\<lparr>o_PaidAt := p, o_Status := s, o_UpdatedAt := t\<rparr>) r = r\<lparr>o_Status := s, o_PaidAt := p, o_UpdatedAt := t\<rparr>"
  "set_order (r\<lparr>o_ShippedAt := p, o_Status := s, o_UpdatedAt := t\<rparr>) r = r\<lparr>o_Status := s, o_ShippedAt := p, o_UpdatedAt := t\<rparr>"
  "set_order (r\<lparr>o_DeliveredAt := p, o_Status := s, o_UpdatedAt := t\<rparr>) r = r\<lparr>o_Status := s, o_DeliveredAt := p, o_UpdatedAt := t\<rparr>"
  "set_order (r\<lparr>o_CancelledAt := p, o_Status := s, o_UpdatedAt := t\<rparr>) r = r\<lparr>o_Status := s, o_CancelledAt := p, o_UpdatedAt := t\<rparr>"
  "set_order (r\<lparr>o_Notes := n, o_UpdatedAt := t\<rparr>) r = r\<lparr>o_Notes := n, o_UpdatedAt := t\<rparr>"
  "set_order (r\<lparr>o_UpdatedAt := t\<rparr>) r = r\<lparr>o_UpdatedAt := t\<rparr>"
  by (cases r; simp add: set_order_def)+

section \<open>The statements and loops of the service\<close>

text \<open>The rows an insert of lines leaves: the quantity is what the column makes of it.\<close>

definition stored_line :: "order_item \<Rightarrow> order_item \<Rightarrow> bool" where
  "stored_line it row \<longleftrightarrow> (\<exists>q. row = it\<lparr>oi_Quantity := q\<rparr>)"

lemma stored_line_fields:
  "stored_line it row \<Longrightarrow> oi_Total row = oi_Total it \<and> oi_OrderID row = oi_OrderID it"
  by (auto simp: stored_line_def)

lemma view_CreateOrderItems:
  assumes "\<And>e w'. same_outside w w' \<Longrightarrow> E e w'"
    and "\<And>rows w'. list_all2 stored_line items rows \<Longrightarrow> same_outside w w' \<Longrightarrow>
      view w' = (view w)\<lparr>t_order_items := t_order_items (view w) @ rows\<rparr> \<Longrightarrow> Q () w'"
  shows "wp env (CreateOrderItems items) Q E w"
proof -
  let ?I = "\<lambda>its d. \<exists>rows. list_all2 stored_line its rows
    \<and> d = (view w)\<lparr>t_order_items := t_order_items (view w) @ rows\<rparr>"
  let ?f = "\<lambda>item. tx_stmt (\<lambda>d. case column env (oi_Quantity item) of None \<Rightarrow> Inl numeric_overflow
     | Some q \<Rightarrow> row_insert t_order_items (\<lambda>xs d. d\<lparr>t_order_items := xs\<rparr>) oi_ID (item\<lparr>oi_Quantity := q\<rparr>) d)"
  have "wp env (for_each items ?f) Q E w"
  proof (rule view_for_each [where I = ?I])
    fix ys x zs and w' :: "'a order_db_scheme world"
    assume I: "?I ys (view w')"
    show "wp env (?f x) (\<lambda>_ w''. ?I (ys @ [x]) (view w'') \<and> same_outside w' w'')
        (\<lambda>_ w''. same_outside w' w'') w'"
    proof (rule view_tx_stmt)
      fix u d w''
      assume "(case column env (oi_Quantity x) of None \<Rightarrow> Inl numeric_overflow
         | Some q \<Rightarrow> row_insert t_order_items (\<lambda>xs d. d\<lparr>t_order_items := xs\<rparr>) oi_ID
             (x\<lparr>oi_Quantity := q\<rparr>) (view w')) = Inr (u, d)"
        and w'': "same_outside w' w''" "view w'' = d"
      then obtain q where d: "d = (view w')\<lparr>t_order_items := t_order_items (view w') @ [x\<lparr>oi_Quantity := q\<rparr>]\<rparr>"
        by (auto split: option.splits)
      from I obtain rows where "list_all2 stored_line ys rows"
        "view w' = (view w)\<lparr>t_order_items := t_order_items (view w) @ rows\<rparr>" by blast
      then have "?I (ys @ [x]) d"
        by (intro exI [of _ "rows @ [x\<lparr>oi_Quantity := q\<rparr>]"])
          (auto simp: d stored_line_def intro!: list_all2_appendI)
      then show "?I (ys @ [x]) (view w'') \<and> same_outside w' w''" using w'' by simp
    qed simp
  qed (auto intro: assms)
  then show ?thesis by (simp add: CreateOrderItems_def wp_def)
qed

text \<open>The lines built from the request: their totals and their order.\<close>

definition built_lines :: "uuid \<Rightarrow> create_item_input list \<Rightarrow> order_item list \<Rightarrow> bool" where
  "built_lines oid its lines \<longleftrightarrow> map oi_Total lines = map line_total its \<and> (\<forall>l \<in> set lines. oi_OrderID l = oid)"

lemma view_new_lines:
  assumes "\<And>lines w'. built_lines oid its lines \<Longrightarrow> same_outside w w' \<Longrightarrow> view w' = view w \<Longrightarrow>
      pending w' = pending w \<Longrightarrow> Q lines w'"
  shows "wp env (map_op (new_line org oid t) (enumerate k its)) Q E w"
  using assms
proof (induction its arbitrary: k w Q)
  case Nil
  then show ?case by (simp add: wp_ret built_lines_def)
next
  case (Cons it its)
  show ?case
    unfolding enumerate_simps map_op.simps wp_bnd new_line_def prod.case
    apply (intro wpI_bnd wpI_new_uuid wpI_ret)
    apply (rule Cons.IH [unfolded new_line_def])
    apply (intro wpI_ret Cons.prems)
      apply (auto simp: built_lines_def same_outside_def view_def)
    done
qed

lemma sum_line_totals: "sum_list (map line_total its) = subtotal its - total_discount its + total_tax its"
  by (induction its) (simp_all add: subtotal_def total_discount_def total_tax_def line_total_def)

lemma stored_lines_total:
  "list_all2 stored_line lines rows \<Longrightarrow> sum_list (map oi_Total rows) = sum_list (map oi_Total lines)
     \<and> (\<forall>r \<in> set rows. \<exists>l \<in> set lines. oi_OrderID r = oi_OrderID l)"
  by (induction rule: list_all2_induct) (auto simp: stored_line_def)

end
