(* ===== verification/OrderRuns.thy ===== *)
theory OrderRuns
  imports OrderLife
begin

text \<open>Every method of the order service refines the abstract machine of \<open>OrderLife\<close>.\<close>

abbreviation keeps_orders :: "env \<Rightarrow> 'a order_db_scheme \<Rightarrow> ('a order_db_scheme, 'b) op \<Rightarrow> bool" where
  "keeps_orders env d m \<equiv>
     wp env m (\<lambda>_ w'. good d (committed w')) (\<lambda>_ w'. good d (committed w')) (start d)"

lemmas order_method_defs = GetOrder_def GetOrderItems_def UpdateOrder_def order_publishEvent_def Let_def

lemma Submit_good:
  assumes ok: "orders_ok d"
  shows "keeps_orders env d (Submit org oid actor)"
  unfolding Submit_def order_method_defs
  by (intro view_rules conjI allI impI)
    (use ok in \<open>auto simp: start_def same_outside_def good_refl set_order_eq
      intro!: order_step.submit elim!: good_put_order [rotated]\<close>)

lemma Pay_good:
  assumes ok: "orders_ok d"
  shows "keeps_orders env d (Pay org oid inp actor)"
  unfolding Pay_def order_method_defs
  by (intro view_rules conjI allI impI)
    (use ok in \<open>auto simp: start_def same_outside_def good_refl set_order_eq
      intro!: order_step.pay elim!: good_put_order [rotated]\<close>)

lemma order_Ship_good:
  assumes ok: "orders_ok d"
  shows "keeps_orders env d (order_Ship org oid tracking actor)"
  unfolding order_Ship_def order_method_defs
  by (intro view_rules conjI allI impI)
    (use ok in \<open>auto simp: start_def same_outside_def good_refl set_order_eq
      intro!: order_step.ship elim!: good_put_order [rotated]\<close>)

lemma Deliver_good:
  assumes ok: "orders_ok d"
  shows "keeps_orders env d (Deliver org oid actor)"
  unfolding Deliver_def order_method_defs
  by (intro view_rules conjI allI impI)
    (use ok in \<open>auto simp: start_def same_outside_def good_refl set_order_eq
      intro!: order_step.deliver elim!: good_put_order [rotated]\<close>)

lemma Cancel_good:
  assumes ok: "orders_ok d"
  shows "keeps_orders env d (Cancel org oid reason actor)"
  unfolding Cancel_def order_method_defs
  by (intro view_rules conjI allI impI)
    (use ok in \<open>auto simp: start_def same_outside_def good_refl set_order_eq
      intro!: order_step.cancel elim!: good_put_order [rotated]\<close>)

lemma reads_CheckAvailability [reads_intros]: "reads (CheckAvailability org items)"
  unfolding CheckAvailability_def GetStockLevel_def Let_def by (intro reads_intros)

lemma reads_check_customer [reads_intros]: "reads (check_customer org customer)"
  unfolding check_customer_def Get_def GetByID_def ListComponents_def by (intro reads_intros)

lemma Confirm_good:
  assumes ok: "orders_ok d"
  shows "keeps_orders env d (Confirm (Some CheckAvailability) org oid actor)"
  unfolding Confirm_def order_method_defs prod.case option.case
  by (intro view_rules view_reads [OF reads_CheckAvailability] conjI allI impI)
    (use ok in \<open>auto simp: start_def same_outside_def good_refl set_order_eq
      intro!: order_step.confirm elim!: good_put_order [rotated]\<close>)

text \<open>A refund leaves the orders and their lines alone.\<close>

lemma good_same:
  "orders_ok d \<Longrightarrow> t_orders d' = t_orders d \<Longrightarrow> t_order_items d' = t_order_items d \<Longrightarrow>
     t_order_seqs d' = t_order_seqs d \<Longrightarrow> good d d'"
  by (simp add: good_def orders_ok_def items_total_def number_ok_def last_number_def stays)

lemma frame_refund_line [frame_intros]: "frame g (refund_line items rid ri)"
  unfolding refund_line_def by (intro frame_intros)

lemma Refund_frame: "frame (\<lambda>d. (t_orders d, t_order_items d, t_order_seqs d)) (Refund org oid inp actor)"
  unfolding Refund_def order_method_defs CreateRefund_def CreateRefundItems_def
  by (intro frame_intros) (auto split: if_splits)

lemma Refund_good:
  assumes "orders_ok d"
  shows "keeps_orders env d (Refund org oid inp actor)"
  using frame_run [OF Refund_frame, of org oid inp actor env d] assms
  by (auto simp: wp_def intro!: good_same split: prod.splits sum.splits)

text \<open>A number is taken: a sequence row and nothing else changes.\<close>

definition numbered :: "uuid \<Rightarrow> 'a order_db_scheme \<Rightarrow> 'a order_db_scheme" where
  "numbered org d = d\<lparr>t_order_seqs := row_put fst (org, last_number org d + 1)
     (if org \<in> fst ` set (t_order_seqs d) then t_order_seqs d else t_order_seqs d @ [(org, 0)])\<rparr>"

lemma last_number_numbered:
  "last_number o' (numbered org d) = (if o' = org then last_number org d + 1 else last_number o' d)"
proof -
  have "row_get fst o' (t_order_seqs d @ [(org, 0)]) = row_get fst o' (t_order_seqs d)" if "o' \<noteq> org"
    using that by (simp add: row_get_append) (simp add: row_get_def split: option.split)
  then show ?thesis by (auto simp: last_number_def numbered_def row_get_put)
qed

lemma last_number_ensured:
  "last_number org (d\<lparr>t_order_seqs := t_order_seqs d @ [(org, 0)]\<rparr>)
     = (if org \<in> fst ` set (t_order_seqs d) then last_number org d else 0)"
proof (cases "row_get fst org (t_order_seqs d)")
  case None
  then have "org \<notin> fst ` set (t_order_seqs d)" by (simp add: row_get_None)
  with None show ?thesis by (simp add: last_number_def row_get_append) (simp add: row_get_def)
next
  case Some
  then show ?thesis by (auto simp: last_number_def row_get_append dest!: row_get_Some)
qed

lemma last_number_absent: "org \<notin> fst ` set (t_order_seqs d) \<Longrightarrow> last_number org d = 0"
  by (simp add: last_number_def row_get_None [THEN iffD2])

lemma view_NextOrderNumber:
  assumes "\<And>e w'. same_outside w w' \<Longrightarrow> E e w'"
    and "\<And>w'. same_outside w w' \<Longrightarrow> view w' = numbered org (view w) \<Longrightarrow> Q (last_number org (view w) + 1) w'"
  shows "wp env (NextOrderNumber org) Q E w"
  unfolding NextOrderNumber_def Let_def
proof (intro wpI_bnd view_tx_stmt)
  fix u d w1 n d2 w2
  assume "exec (\<lambda>d. if org \<in> fst ` set (t_order_seqs d) then d
      else d\<lparr>t_order_seqs := t_order_seqs d @ [(org, 0)]\<rparr>) (view w) = Inr (u, d)"
    and s1: "same_outside w w1" "view w1 = d"
    and 2: "(if last_number org (view w1) + 1 < 2 ^ 63 then Inr (last_number org (view w1) + 1,
          (view w1)\<lparr>t_order_seqs := row_put fst (org, last_number org (view w1) + 1) (t_order_seqs (view w1))\<rparr>)
        else Inl bigint_out_of_range) = Inr (n, d2)"
    and s2: "same_outside w1 w2" "view w2 = d2"
  then have d: "d = (if org \<in> fst ` set (t_order_seqs (view w)) then view w
      else (view w)\<lparr>t_order_seqs := t_order_seqs (view w) @ [(org, 0)]\<rparr>)" by simp
  then have "last_number org d = last_number org (view w)"
    by (simp add: last_number_ensured last_number_absent)
  with 2 have "n = last_number org (view w) + 1" "d2 = numbered org (view w)"
    by (auto simp: s1 d numbered_def split: if_splits)
  then show "Q n w2" using same_outside_trans [OF s1(1) s2(1)] s2(2) by (simp add: assms(2))
qed (auto intro: assms(1) same_outside_trans)

lemma numbered_tables [simp]:
  "t_orders (numbered org d) = t_orders d" "t_order_items (numbered org d) = t_order_items d"
  by (simp_all add: numbered_def)

lemma good_new_order:
  assumes ok: "orders_ok d" and fresh: "fresh_order (t_orders d) r"
    and items: "\<forall>l \<in> set rows. oi_OrderID l = o_ID r" "sum_list (map oi_Total rows) = o_Total r"
    and d': "t_orders d' = t_orders d @ [r]" "t_order_items d' = t_order_items d @ rows"
    and num: "o_Number r = order_number (last_number (o_OrganizationID r) d + 1)"
      "\<And>org. last_number org d' = (if org = o_OrganizationID r then last_number org d + 1 else last_number org d)"
  shows "good d d'"
proof -
  have old: "items_total oid d' = items_total oid d" if "oid \<in> o_ID ` set (t_orders d)" for oid
  proof -
    have "filter (\<lambda>it. oi_OrderID it = oid) rows = []"
      using items(1) fresh that by (auto simp: filter_empty_conv fresh_order_def)
    then show ?thesis by (simp add: items_total_def d')
  qed
  have "filter (\<lambda>it. oi_OrderID it = o_ID r) (t_order_items d) = []"
    using ok fresh unfolding orders_ok_def fresh_order_def filter_empty_conv by metis
  moreover have "filter (\<lambda>it. oi_OrderID it = o_ID r) rows = rows" using items(1) by simp
  ultimately have new: "items_total (o_ID r) d' = o_Total r"
    by (simp add: items_total_def d' items(2))
  have "number_ok d' x" if "x \<in> set (t_orders d')" for x
  proof (cases "x = r")
    case True
    moreover have "0 \<le> last_number (o_OrganizationID r) d" using ok by (simp add: orders_ok_def)
    ultimately show ?thesis unfolding number_ok_def
      by (intro exI [of _ "last_number (o_OrganizationID r) d + 1"]) (simp add: num)
  next
    case False
    then have "number_ok d x" using that ok by (simp add: d' orders_ok_def)
    then show ?thesis using num(2) by (fastforce simp: number_ok_def)
  qed
  then have "orders_ok d'"
    using ok fresh old new items(1) fresh_row_ok [OF fresh]
    by (auto simp: orders_ok_def d' fresh_order_def num)
  then show ?thesis using table_step.opens [OF fresh] by (simp add: good_def d' num)
qed

lemma new_order_plain [simp]:
  "(new_order org oid eid num t inp)\<lparr>o_PaidAt := None, o_ShippedAt := None, o_DeliveredAt := None,
     o_CancelledAt := None, o_Items := []\<rparr> = new_order org oid eid num t inp"
  "o_ID (new_order org oid eid num t inp) = oid" "o_Number (new_order org oid eid num t inp) = num"
  "o_OrganizationID (new_order org oid eid num t inp) = org"
  by (simp_all add: new_order_def)

lemma good_created:
  assumes ok: "orders_ok d" and lines: "built_lines uuid_nil (coi_Items inp) lines"
    and rows: "list_all2 stored_line (map (oi_OrderID_update (\<lambda>_. oid)) lines) rows"
    and "t_orders d' = t_orders d @ [new_order org oid eid num t inp]"
    and "oid \<notin> o_ID ` set (t_orders d)"
    and "(org, num) \<notin> (\<lambda>x. (o_OrganizationID x, o_Number x)) ` set (t_orders d)"
    and "t_order_items d' = t_order_items d @ rows"
    and num: "num = order_number (last_number org d + 1)"
      "\<And>k. last_number k d' = (if k = org then last_number k d + 1 else last_number k d)"
  shows "good d d'"
proof (rule good_new_order [OF ok _ _ _ assms(4,7)])
  show "fresh_order (t_orders d) (new_order org oid eid num t inp)"
    using assms(5,6) by (simp add: fresh_order_def new_order_def)
  have "map oi_Total (map (oi_OrderID_update (\<lambda>_. oid)) lines) = map line_total (coi_Items inp)"
    using lines by (simp add: built_lines_def comp_def)
  then show "sum_list (map oi_Total rows) = o_Total (new_order org oid eid num t inp)"
    using stored_lines_total [OF rows] by (simp add: new_order_def flip: sum_line_totals)
  show "\<forall>l \<in> set rows. oi_OrderID l = o_ID (new_order org oid eid num t inp)"
    using stored_lines_total [OF rows] by auto
qed (simp_all add: num)

lemma order_Create_good:
  assumes ok: "orders_ok d"
  shows "keeps_orders env d (order_Create org inp actor)"
  unfolding order_Create_def order_publishEvent_def Let_def CreateOrder_def
  apply (intro view_rules view_reads [OF reads_check_customer] view_Create view_NextOrderNumber
      view_new_lines view_CreateOrderItems conjI allI impI)
  using ok apply (simp_all add: start_def same_outside_def good_refl)
   apply (simp_all add: good_same)
  apply (clarsimp split: if_splits)
  apply (drule view_sym)
  apply (erule (2) good_created; simp add: last_number_numbered; intro conjI impI refl; assumption)
  done

text \<open>The lines of an order are replaced together with its amounts.\<close>

lemma good_revised:
  assumes ok: "orders_ok d" and r: "find_order org oid d = Some r" and "o_ID ord = o_ID r"
    and step: "order_step r (set_order ord r)"
    and rows: "\<forall>l \<in> set rows. oi_OrderID l = oid" "sum_list (map oi_Total rows) = o_Total ord"
    and d': "t_orders d' = t_orders (put_order ord d)"
      "t_order_items d' = filter (\<lambda>it. oi_OrderID it \<noteq> oid) (t_order_items d) @ rows"
      "t_order_seqs d' = t_order_seqs d"
  shows "good d d'"
proof -
  have mem: "r \<in> set (t_orders d)" and id: "o_ID r = oid" using find_orderD [OF r] by simp_all
  let ?r = "set_order ord r"
  have os: "t_orders d' = map (\<lambda>x. if o_ID x = o_ID r then ?r else x) (t_orders d)"
    using ok row_update_map [OF _ mem assms(3) refl] by (simp add: d' put_order_def orders_ok_def)
  have ids: "map o_ID (t_orders d') = map o_ID (t_orders d)" unfolding os by (rule map_step_ids [OF step])
  then have ids': "o_ID ` set (t_orders d') = o_ID ` set (t_orders d)" by (metis set_map)
  have new: "items_total oid d' = o_Total ?r"
  proof -
    have "filter (\<lambda>it. oi_OrderID it = oid) rows = rows" using rows(1) by simp
    then show ?thesis by (simp add: items_total_def d' rows(2) set_order_def)
  qed
  have old: "items_total k d' = items_total k d" if "k \<noteq> oid" for k
  proof -
    have "filter (\<lambda>it. oi_OrderID it = k) rows = []" using rows(1) that by (auto simp: filter_empty_conv)
    moreover have "filter (\<lambda>it. oi_OrderID it = k) (filter (\<lambda>it. oi_OrderID it \<noteq> oid) (t_order_items d))
        = filter (\<lambda>it. oi_OrderID it = k) (t_order_items d)"
      using that by (auto intro: filter_cong)
    ultimately show ?thesis by (simp add: items_total_def d')
  qed
  have "row_ok x \<and> items_total (o_ID x) d' = o_Total x" if "x \<in> set (t_orders d')" for x
    using that ok mem order_step_row_ok [OF step] order_step_id [OF step] new old
    by (auto simp: os id orders_ok_def)
  moreover have "\<forall>it \<in> set (t_order_items d'). oi_OrderID it \<in> o_ID ` set (t_orders d')"
    using ok rows(1) mem id by (auto simp: d'(2) ids' orders_ok_def)
  moreover have "number_ok d' x" if "x \<in> set (t_orders d')" for x
    using that ok mem order_step_id [OF step] last_number_cong [OF d'(3)]
    by (auto simp: os orders_ok_def number_ok_def)
  ultimately have "orders_ok d'" using ok last_number_cong [OF d'(3)] by (simp add: orders_ok_def ids)
  then show ?thesis using table_step.changes [OF mem step] last_number_cong [OF d'(3)] by (simp add: good_def os)
qed

lemma put_order_items [simp]:
  "t_order_seqs (put_order ord d) = t_order_seqs d"
  "t_order_items (put_order ord d) = t_order_items d"
  "put_order ord (d\<lparr>t_order_items := its\<rparr>) = (put_order ord d)\<lparr>t_order_items := its\<rparr>"
  by (simp_all add: put_order_def)

lemma revise_step:
  assumes "o_Status r \<in> {''draft'', ''new''}" and "o_Notes ord = n" and "o_Status ord = o_Status r"
    and "o_PaidAt ord = o_PaidAt r" and "o_ShippedAt ord = o_ShippedAt r"
    and "o_DeliveredAt ord = o_DeliveredAt r" and "o_CancelledAt ord = o_CancelledAt r"
    and "o_Total ord = o_Subtotal ord - o_Discount ord + o_Tax ord"
  shows "order_step r (set_order ord r)"
proof -
  have "set_order ord r = r\<lparr>o_Subtotal := o_Subtotal ord, o_Discount := o_Discount ord, o_Tax := o_Tax ord,
      o_Total := o_Subtotal ord - o_Discount ord + o_Tax ord, o_Notes := o_Notes ord,
      o_UpdatedAt := o_UpdatedAt ord\<rparr>"
    using assms by (cases r; simp add: set_order_def)
  then show ?thesis using order_step.revise [OF assms(1)] by simp
qed

abbreviation with_notes :: "string option \<Rightarrow> order \<Rightarrow> order" where
  "with_notes nt r \<equiv> (case nt of None \<Rightarrow> r | Some n \<Rightarrow> r\<lparr>o_Notes := n\<rparr>)"

lemma annotate_step:
  assumes "o_Status r \<in> {''draft'', ''new''}"
  shows "order_step r (set_order ((with_notes nt r)\<lparr>o_UpdatedAt := t\<rparr>) r)"
proof (cases nt)
  case None
  have "r\<lparr>o_Notes := o_Notes r, o_UpdatedAt := t\<rparr> = r\<lparr>o_UpdatedAt := t\<rparr>" by simp
  with None show ?thesis using order_step.annotate [OF assms, where n = "o_Notes r" and t = t] by (simp add: set_order_eq)
qed (use order_step.annotate [OF assms] in \<open>simp add: set_order_eq\<close>)

lemma good_annotated:
  assumes "orders_ok d" and "find_order org oid d = Some r" and "o_Status r = ''draft'' \<or> o_Status r = ''new''"
    and "put_order ((with_notes nt r)\<lparr>o_UpdatedAt := t\<rparr>) d = d'"
  shows "good d d'"
  using good_put_order [OF assms(1,2) _ annotate_step] assms(3)
  by (auto simp: assms(4) [symmetric] split: option.splits)

lemma good_revised_lines:
  assumes ok: "orders_ok d" and r: "find_order org oid d = Some r"
    and "o_Status r = ''draft'' \<or> o_Status r = ''new''"
    and lines: "built_lines oid its lines" "list_all2 stored_line lines rows"
    and d1: "d\<lparr>t_order_items := filter (\<lambda>it. oi_OrderID it \<noteq> oid) (t_order_items d)\<rparr> = d1"
    and d': "(put_order ((with_notes nt r)\<lparr>o_Subtotal := subtotal its, o_Discount := total_discount its,
        o_Tax := total_tax its, o_Total := subtotal its - total_discount its + total_tax its,
        o_UpdatedAt := t\<rparr>) d1)\<lparr>t_order_items := t_order_items d1 @ rows\<rparr> = d'"
  shows "good d d'"
proof (rule good_revised [OF ok r])
  let ?ord = "(with_notes nt r)\<lparr>o_Subtotal := subtotal its, o_Discount := total_discount its,
        o_Tax := total_tax its, o_Total := subtotal its - total_discount its + total_tax its,
        o_UpdatedAt := t\<rparr>"
  show "order_step r (set_order ?ord r)"
    by (rule revise_step [OF _ refl]) (use assms(3) in \<open>auto split: option.splits\<close>)
  show "\<forall>l \<in> set rows. oi_OrderID l = oid" "sum_list (map oi_Total rows) = o_Total ?ord"
    using stored_lines_total [OF lines(2)] lines(1) by (auto simp: built_lines_def sum_line_totals)
qed (auto simp: d' [symmetric] d1 [symmetric] split: option.splits)

lemma order_Update_good:
  assumes ok: "orders_ok d"
  shows "keeps_orders env d (order_Update org oid inp actor)"
  unfolding order_Update_def order_method_defs UpdateOrderItems_def
  apply (intro view_rules view_new_lines view_CreateOrderItems conjI allI impI)
  using ok apply (simp_all add: start_def same_outside_def good_refl)
   apply (erule (6) good_revised_lines)
  apply (erule (3) good_annotated)
  done

section \<open>Requests\<close>

datatype order_request =
    OCreate create_order_input
  | OSubmit uuid
  | OConfirm uuid
  | OPay uuid pay_input
  | OShip uuid string
  | ODeliver uuid
  | OCancel uuid string
  | ORefund uuid create_refund_input
  | OUpdate uuid update_order_input

fun serve_order :: "uuid \<Rightarrow> uuid option \<Rightarrow> order_request \<Rightarrow> ('a order_db_scheme, unit) op" where
  "serve_order org actor (OCreate inp) = bnd (order_Create org inp actor) (\<lambda>_. ret ())"
| "serve_order org actor (OSubmit oid) = bnd (Submit org oid actor) (\<lambda>_. ret ())"
| "serve_order org actor (OConfirm oid) = bnd (Confirm (Some CheckAvailability) org oid actor) (\<lambda>_. ret ())"
| "serve_order org actor (OPay oid inp) = bnd (Pay org oid inp actor) (\<lambda>_. ret ())"
| "serve_order org actor (OShip oid tracking) = bnd (order_Ship org oid tracking actor) (\<lambda>_. ret ())"
| "serve_order org actor (ODeliver oid) = bnd (Deliver org oid actor) (\<lambda>_. ret ())"
| "serve_order org actor (OCancel oid reason) = bnd (Cancel org oid reason actor) (\<lambda>_. ret ())"
| "serve_order org actor (ORefund oid inp) = bnd (Refund org oid inp actor) (\<lambda>_. ret ())"
| "serve_order org actor (OUpdate oid inp) = bnd (order_Update org oid inp actor) (\<lambda>_. ret ())"

text \<open>One request after another, of any organizations, each in an environment of its own.\<close>

inductive order_run :: "'a order_db_scheme \<Rightarrow> 'a order_db_scheme \<Rightarrow> bool" for d where
  orun_none: "order_run d d"
| orun_request: "order_run d d' \<Longrightarrow> order_run d (committed (snd (serve_order org actor req env (start d'))))"

lemmas order_methods_good = order_Create_good Submit_good Confirm_good Pay_good order_Ship_good
  Deliver_good Cancel_good Refund_good order_Update_good

lemma serve_order_good: "orders_ok d \<Longrightarrow> keeps_orders env d (serve_order org actor req)"
  by (cases req) (simp_all add: wp_bnd wp_ret_fun order_methods_good)

lemma serve_order_result:
  "orders_ok d \<Longrightarrow> good d (committed (snd (serve_order org actor req env (start d))))"
  using serve_order_good [of d env org actor req] by (rule wp_committed)

lemma order_run_ok: "order_run d d' \<Longrightarrow> orders_ok d \<Longrightarrow> orders_ok d'"
  by (induction rule: order_run.induct) (auto simp: good_def dest: serve_order_result)

text \<open>What a step of the table, and a run, means for one order.\<close>

lemma table_step_row:
  assumes "table_step os os'" and "distinct (map o_ID os)" and "r \<in> set os"
  shows "\<exists>r' \<in> set os'. order_step\<^sup>*\<^sup>* r r'"
  using assms(1)
proof (cases rule: table_step.cases)
  case (changes x x')
  show ?thesis
  proof (cases "o_ID r = o_ID x")
    case True
    then have "r = x" using distinct_key_eq assms(2,3) changes(2) by metis
    moreover have "x' \<in> set os'" using changes(1,2) by force
    ultimately show ?thesis using r_into_rtranclp [of order_step, OF changes(3)] by blast
  next
    case False
    then have "r \<in> set os'" using changes(1) assms(3) by force
    then show ?thesis by blast
  qed
qed (use assms(3) in auto)

lemma order_run_row:
  assumes "order_run d d'" and "orders_ok d" and "r \<in> set (t_orders d)"
  shows "\<exists>r' \<in> set (t_orders d'). order_step\<^sup>*\<^sup>* r r'"
  using assms(1)
proof (induction rule: order_run.induct)
  case (orun_request d' org actor req env)
  then obtain r' where r': "r' \<in> set (t_orders d')" "order_step\<^sup>*\<^sup>* r r'" by blast
  have ok: "orders_ok d'" using order_run_ok [OF orun_request.hyps assms(2)] .
  then have "table_step (t_orders d') (t_orders (committed (snd (serve_order org actor req env (start d')))))"
    using serve_order_result [OF ok] by (simp add: good_def)
  from table_step_row [OF this _ r'(1)] ok r'(2) show ?case
    by (auto simp: orders_ok_def intro: rtranclp_trans)
qed (use assms(3) in auto)

lemma order_steps_keep: "order_step\<^sup>*\<^sup>* r r' \<Longrightarrow> o_ID r' = o_ID r \<and> o_OrganizationID r' = o_OrganizationID r
    \<and> o_Number r' = o_Number r"
  by (induction rule: rtranclp_induct) (auto dest: order_step_id)

lemma closed_no_step: "order_step r r' \<Longrightarrow> o_Status r \<notin> {''delivered'', ''cancelled''}"
  by (cases rule: order_step.cases) auto

lemma closed_steps: "order_step\<^sup>*\<^sup>* r r' \<Longrightarrow> o_Status r \<in> {''delivered'', ''cancelled''} \<Longrightarrow> r' = r"
  by (induction rule: converse_rtranclp_induct) (auto dest: closed_no_step)

lemma row_ok_dates:
  "row_ok r \<Longrightarrow> if o_Status r \<in> {''paid'', ''shipped'', ''delivered''} then o_PaidAt r \<noteq> None
     else o_ShippedAt r = None \<and> o_DeliveredAt r = None"
  unfolding row_ok_def stamps_ok_def by (elim conjE insertE emptyE; simp)

text \<open>Once paid, the amounts of an order and its date of payment are settled.\<close>

definition settled :: "order \<Rightarrow> bool" where
  "settled r \<longleftrightarrow> o_Status r \<in> {''paid'', ''shipped'', ''delivered''}
     \<or> o_Status r = ''cancelled'' \<and> o_PaidAt r \<noteq> None"

lemma settled_step:
  "order_step r r' \<Longrightarrow> settled r \<Longrightarrow> row_ok r \<Longrightarrow>
     settled r' \<and> o_Total r' = o_Total r \<and> o_PaidAt r' = o_PaidAt r"
  by (induction rule: order_step.induct)
    ((elim insertE emptyE disjE)?; simp add: settled_def row_ok_def stamps_ok_def)+

lemma settled_steps:
  "order_step\<^sup>*\<^sup>* r r' \<Longrightarrow> settled r \<Longrightarrow> row_ok r \<Longrightarrow>
     o_Total r' = o_Total r \<and> o_PaidAt r' = o_PaidAt r \<and> settled r' \<and> row_ok r'"
  by (induction rule: rtranclp_induct) (auto dest: settled_step order_step_row_ok)

section \<open>Properties\<close>

text \<open>C2: The order service refines the order machine: whatever request is served, whichever of its
  statements fails, the table of orders stays as it is, gains one fresh draft, or has one order
  take one step the machine allows from its status.\<close>

theorem order_service_refines_machine:
  assumes "orders_ok d"
  shows "table_step (t_orders d) (t_orders (committed (snd (serve_order org actor req env (start d)))))"
  using serve_order_result [OF assms] by (simp add: good_def)

text \<open>C3: The books of every order balance after any run of requests: the totals of its stored lines
  add up to its total, which is the subtotal less the discount plus the tax (in 64-bit
  arithmetic), and its dates are those of its status, so that nothing is shipped unpaid.\<close>

theorem order_books_balance:
  assumes "orders_ok d" and "order_run d d'" and "r \<in> set (t_orders d')"
  shows "items_total (o_ID r) d' = o_Total r \<and> o_Total r = o_Subtotal r - o_Discount r + o_Tax r
    \<and> (if o_Status r \<in> {''paid'', ''shipped'', ''delivered''} then o_PaidAt r \<noteq> None
       else o_ShippedAt r = None \<and> o_DeliveredAt r = None)"
proof -
  have "row_ok r \<and> items_total (o_ID r) d' = o_Total r"
    using order_run_ok [OF assms(2,1)] assms(3) by (simp add: orders_ok_def)
  then show ?thesis using row_ok_dates [of r] by (simp add: row_ok_def)
qed

text \<open>Orders are never lost or rewritten: after any run every order is still there under its
  identifier, organization and number; a delivered or cancelled one is unchanged, and a paid one
  has kept its total and its date of payment.\<close>

lemma orders_are_kept:
  assumes "orders_ok d" and "order_run d d'" and "r \<in> set (t_orders d)"
  shows "\<exists>r' \<in> set (t_orders d'). o_ID r' = o_ID r \<and> o_OrganizationID r' = o_OrganizationID r
    \<and> o_Number r' = o_Number r
    \<and> (o_Status r \<in> {''delivered'', ''cancelled''} \<longrightarrow> r' = r)
    \<and> (settled r \<longrightarrow> o_Total r' = o_Total r \<and> o_PaidAt r' = o_PaidAt r)"
proof -
  obtain r' where "r' \<in> set (t_orders d')" and steps: "order_step\<^sup>*\<^sup>* r r'"
    using order_run_row [OF assms(2,1,3)] by blast
  moreover have "row_ok r" using assms(1,3) by (simp add: orders_ok_def)
  ultimately show ?thesis
    using order_steps_keep [OF steps] closed_steps [OF steps] settled_steps [OF steps] by blast
qed

section \<open>Witnesses\<close>

text \<open>An order of two pieces at 10.00, shipped, and the delivery of it.\<close>

definition sample_line :: order_item where
  "sample_line = \<lparr>oi_ID = 21, oi_OrderID = 20, oi_OrganizationID = 1, oi_ProductID = 2, oi_Name = ''Product'',
     oi_SKU = '''', oi_Quantity = Fin 2, oi_Unit = unit_pieces, oi_UnitPrice = 1000, oi_Discount = 0,
     oi_Tax = 0, oi_Total = 2000, oi_SortOrder = 0, oi_CreatedAt = 0\<rparr>"

definition sample_order :: order where
  "sample_order = \<lparr>o_ID = 20, o_OrganizationID = 1, o_EntityID = 19, o_Number = order_number 1,
     o_CustomerID = None, o_Status = ''shipped'', o_Subtotal = 2000, o_Discount = 0, o_Tax = 0,
     o_Total = 2000, o_Currency = ''RUB'', o_Notes = '''', o_Source = ''manual'', o_WarehouseID = None,
     o_AssignedTo = None, o_PaidAt = Some 5, o_ShippedAt = Some 6, o_DeliveredAt = None,
     o_CancelledAt = None, o_CreatedAt = 0, o_UpdatedAt = 6, o_Items = []\<rparr>"

definition sample_orders :: order_db where
  "sample_orders = \<lparr>t_events = [], t_entities = [], t_components = [], t_stock = [], t_movements = [],
     t_inventories = [], t_inv_items = [], t_orders = [sample_order], t_order_items = [sample_line],
     t_order_seqs = [(1, 1)], t_refunds = [], t_refund_items = []\<rparr>"

definition delivered_orders :: order_db where
  "delivered_orders = committed (snd (serve_order 1 None (ODeliver 20) (env_ok numeric_15_4) (start sample_orders)))"

lemma sample_orders_ok: "orders_ok sample_orders"
proof -
  have "number_ok sample_orders sample_order"
    unfolding number_ok_def
    by (intro exI [of _ 1]) (simp add: sample_order_def sample_orders_def last_number_def row_get_def)
  then show ?thesis
    by (simp add: orders_ok_def sample_orders_def last_number_def row_get_def row_ok_def stamps_ok_def
        items_total_def sample_order_def sample_line_def)
qed

lemma delivered_run: "order_run sample_orders delivered_orders"
  unfolding delivered_orders_def by (intro order_run.intros)

lemma delivered_row:
  "sample_order\<lparr>o_Status := ''delivered'', o_DeliveredAt := Some 1, o_UpdatedAt := 1\<rparr> \<in> set (t_orders delivered_orders)"
  by (simp add: delivered_orders_def sample_orders_def Deliver_def order_method_defs run_simps find_order_def
      order_row_def sample_order_def query_def put_order_def set_order_def row_update_def)

theorem order_service_refines_machine_witness: "table_step (t_orders sample_orders) (t_orders delivered_orders)"
  unfolding delivered_orders_def by (rule order_service_refines_machine [OF sample_orders_ok])

theorem order_books_balance_witness:
  "items_total 20 delivered_orders = 2000"
  using order_books_balance [OF sample_orders_ok delivered_run delivered_row] by (simp add: sample_order_def)

theorem orders_are_kept_witness:
  "\<exists>r' \<in> set (t_orders delivered_orders). o_ID r' = 20 \<and> o_Total r' = 2000 \<and> o_PaidAt r' = Some 5"
  using orders_are_kept [OF sample_orders_ok delivered_run, of sample_order]
  by (auto simp: sample_orders_def sample_order_def settled_def)

end
