(* ===== verification/OrderBook.thy ===== *)
theory OrderBook
  imports OrderRuns
begin

text \<open>
  What placing and refunding an order does: order numbers, the success of \<open>Create\<close>, what it
  leaves behind when it fails, and the amounts a refund may reach.
\<close>

section \<open>Order numbers\<close>

lemma undec_zeros: "undec 0 (replicate n (CHR ''0'') @ ds) = undec 0 ds"
  by (induction n) simp_all

lemma order_number_inj:
  assumes "0 \<le> a" and "0 \<le> b" and "order_number a = order_number b"
  shows "a = b"
proof -
  have "undec 0 (dec05 x) = nat x" if "0 \<le> x" for x
    using that by (simp add: dec05_def Let_def undec_zeros undec_dec_nat)
  with assms show ?thesis by (metis order_number_def append_same_eq nat_eq_iff same_append_eq)
qed

lemma next_number_free:
  assumes "orders_ok d"
  shows "(org, order_number (last_number org d + 1)) \<notin> (\<lambda>x. (o_OrganizationID x, o_Number x)) ` set (t_orders d)"
proof
  assume "(org, order_number (last_number org d + 1)) \<in> (\<lambda>x. (o_OrganizationID x, o_Number x)) ` set (t_orders d)"
  then obtain r where r: "r \<in> set (t_orders d)" "o_OrganizationID r = org"
    "o_Number r = order_number (last_number org d + 1)" by auto
  then obtain k where "1 \<le> k" "k \<le> last_number org d" "o_Number r = order_number k"
    using assms by (auto simp: orders_ok_def number_ok_def)
  with r(3) order_number_inj [of k "last_number org d + 1"] show False by simp
qed

section \<open>A run of \<open>Create\<close> that cannot fail\<close>

text \<open>A line that stands for the \<open>i\<close>-th item of a request, with a quantity.\<close>

definition line_of :: "uuid \<Rightarrow> uuid \<Rightarrow> nat \<times> create_item_input \<Rightarrow> f64 \<Rightarrow> order_item \<Rightarrow> bool" where
  "line_of org oid = (\<lambda>(i, it) q l. oi_OrganizationID l = org \<and> oi_OrderID l = oid \<and> oi_SortOrder l = i
     \<and> oi_ProductID l = cii_ProductID it \<and> oi_Quantity l = q \<and> oi_UnitPrice l = cii_UnitPrice it
     \<and> oi_Discount l = cii_Discount it \<and> oi_Tax l = cii_Tax it \<and> oi_Total l = line_total it)"

definition stored_in :: "env \<Rightarrow> order_item \<Rightarrow> order_item \<Rightarrow> bool" where
  "stored_in env it row \<longleftrightarrow> (\<exists>q. column env (oi_Quantity it) = Some q \<and> row = it\<lparr>oi_Quantity := q\<rparr>)"

text \<open>The rows of the lines of a request: the quantities are what the column makes of those asked for.\<close>

definition line_rows :: "env \<Rightarrow> uuid \<Rightarrow> uuid \<Rightarrow> create_item_input list \<Rightarrow> order_item list \<Rightarrow> bool" where
  "line_rows env org oid its rows \<longleftrightarrow> list_all2 (\<lambda>p row. \<exists>q. column env (cii_Quantity (snd p)) = Some q
     \<and> line_of org oid p q row) (enumerate 0 its) rows"

lemma stored_line_rows:
  assumes "list_all2 (\<lambda>p l. line_of org oid' p (cii_Quantity (snd p)) l) (enumerate 0 its) lines"
    and "list_all2 (stored_in env) (map (\<lambda>it. it\<lparr>oi_OrderID := oid\<rparr>) lines) rows"
  shows "line_rows env org oid its rows"
  using assms by (auto simp: line_rows_def list_all2_conv_all_nth stored_in_def line_of_def case_prod_unfold)

lemma ok_new_lines:
  assumes "\<And>lines w'. built_lines oid its lines \<Longrightarrow> map oi_Quantity lines = map cii_Quantity its \<Longrightarrow>
      map oi_ID lines = map (uuids env) [tick w ..< tick w + length its] \<Longrightarrow>
      list_all2 (\<lambda>p l. line_of org oid p (cii_Quantity (snd p)) l) (enumerate k its) lines \<Longrightarrow>
      same_outside w w' \<Longrightarrow> view w' = view w \<Longrightarrow> pending w' = pending w \<Longrightarrow> Q lines w'"
  shows "wp env (map_op (new_line org oid t) (enumerate k its)) Q E w"
  using assms
proof (induction its arbitrary: k w Q)
  case Nil
  then show ?case by (simp add: wp_ret built_lines_def)
next
  case (Cons it its)
  show ?case
    unfolding enumerate_simps map_op.simps wp_bnd new_line_def prod.case
    apply (intro wpI_bnd wpI_new_uuid wpI_ret)
    apply (rule Cons.IH [unfolded new_line_def])
    apply (intro wpI_ret Cons.prems)
         apply (auto simp: built_lines_def line_of_def same_outside_def view_def upt_rec [of "tick w"])
    done
qed

lemma ok_fresh_lines:
  assumes "inj (uuids env)" and "\<forall>it \<in> set its. column env (cii_Quantity it) \<noteq> None"
    and "\<And>lines w'. built_lines oid its lines \<Longrightarrow> \<forall>l \<in> set lines. column env (oi_Quantity l) \<noteq> None \<Longrightarrow>
      distinct (map oi_ID lines) \<Longrightarrow> \<forall>l \<in> set lines. \<exists>n. oi_ID l = uuids env n \<Longrightarrow>
      list_all2 (\<lambda>p l. line_of org oid p (cii_Quantity (snd p)) l) (enumerate k its) lines \<Longrightarrow>
      same_outside w w' \<Longrightarrow> view w' = view w \<Longrightarrow> pending w' = pending w \<Longrightarrow> Q lines w'"
  shows "wp env (map_op (new_line org oid t) (enumerate k its)) Q E w"
proof (rule ok_new_lines)
  fix lines w'
  assume b: "built_lines oid its lines" and q: "map oi_Quantity lines = map cii_Quantity its"
    and i: "map oi_ID lines = map (uuids env) [tick w ..< tick w + length its]"
    and l: "list_all2 (\<lambda>p l. line_of org oid p (cii_Quantity (snd p)) l) (enumerate k its) lines"
    and w': "same_outside w w'" "view w' = view w" "pending w' = pending w"
  have "oi_Quantity ` set lines = cii_Quantity ` set its" using q by (metis set_map)
  then have "\<forall>l \<in> set lines. column env (oi_Quantity l) \<noteq> None" using assms(2) by (metis imageE imageI)
  moreover have "distinct (map oi_ID lines)"
    using assms(1) unfolding i by (simp add: distinct_map inj_on_def inj_def)
  moreover have "oi_ID ` set lines \<subseteq> range (uuids env)"
    using i by (metis image_mono set_map subset_UNIV)
  ultimately show "Q lines w'" using b l w' by (intro assms(3)) auto
qed

lemma ok_CreateOrderItems:
  assumes "reliable env" and "\<forall>it \<in> set items. column env (oi_Quantity it) \<noteq> None"
    and "distinct (map oi_ID items)" and "oi_ID ` set items \<inter> oi_ID ` set (t_order_items (view w)) = {}"
    and "\<And>rows w'. list_all2 (stored_in env) items rows \<Longrightarrow> same_outside w w' \<Longrightarrow>
      view w' = (view w)\<lparr>t_order_items := t_order_items (view w) @ rows\<rparr> \<Longrightarrow> Q () w'"
  shows "wp env (CreateOrderItems items) Q E w"
  using assms(2-5)
proof (induction items arbitrary: w Q)
  case Nil
  then show ?case by (simp add: CreateOrderItems_def wp_def ret_def)
next
  case (Cons it items)
  from Cons.prems(1) obtain q where q: "column env (oi_Quantity it) = Some q" by auto
  let ?row = "it\<lparr>oi_Quantity := q\<rparr>"
  have unfold: "CreateOrderItems (it # items) env = bnd (tx_stmt (\<lambda>d. row_insert t_order_items
      (\<lambda>xs d. d\<lparr>t_order_items := xs\<rparr>) oi_ID ?row d)) (\<lambda>_. CreateOrderItems items) env"
    unfolding CreateOrderItems_def bnd_def fun_eq_iff by (simp add: q bnd_def)
  have "wp env (bnd (tx_stmt (\<lambda>d. row_insert t_order_items
      (\<lambda>xs d. d\<lparr>t_order_items := xs\<rparr>) oi_ID ?row d)) (\<lambda>_. CreateOrderItems items)) Q E w"
  proof (intro wpI_bnd ok_tx_stmt [OF assms(1)])
    fix e
    assume "row_insert t_order_items (\<lambda>xs d. d\<lparr>t_order_items := xs\<rparr>) oi_ID ?row (view w) = Inl e"
    then show False using Cons.prems(3) by (auto simp: row_insert_def split: if_splits)
  next
    fix u d w1
    assume "row_insert t_order_items (\<lambda>xs d. d\<lparr>t_order_items := xs\<rparr>) oi_ID ?row (view w) = Inr (u, d)"
      and w1: "same_outside w w1" "view w1 = d"
    then have d: "view w1 = (view w)\<lparr>t_order_items := t_order_items (view w) @ [?row]\<rparr>" by simp
    show "wp env (CreateOrderItems items) Q E w1"
    proof (rule Cons.IH)
      fix rows w2
      assume "list_all2 (stored_in env) items rows" and "same_outside w1 w2"
        and "view w2 = (view w1)\<lparr>t_order_items := t_order_items (view w1) @ rows\<rparr>"
      then show "Q () w2"
        using w1(1) d by (intro Cons.prems(4) [of "?row # rows"]) (auto intro: same_outside_trans, auto simp: stored_in_def q)
    qed (use Cons.prems d in auto)
  qed
  then show ?case by (simp add: wp_def unfold)
qed

lemma ok_NextOrderNumber:
  assumes "reliable env" and "last_number org (view w) + 1 < 2 ^ 63"
    and "\<And>w'. same_outside w w' \<Longrightarrow> view w' = numbered org (view w) \<Longrightarrow> Q (last_number org (view w) + 1) w'"
  shows "wp env (NextOrderNumber org) Q E w"
proof -
  have "wp env (NextOrderNumber org) (\<lambda>_ _. True) (\<lambda>_ _. False) w"
    unfolding NextOrderNumber_def Let_def using assms(2)
    by (intro wpI_bnd ok_tx_stmt [OF assms(1)])
      (auto simp: last_number_ensured last_number_absent split: if_splits)
  moreover have "wp env (NextOrderNumber org) Q (\<lambda>_ _. True) w"
    by (rule view_NextOrderNumber) (auto intro: assms(3))
  ultimately show ?thesis by (auto simp: wp_def split: prod.splits sum.splits)
qed

definition used_ids :: "'a order_db_scheme \<Rightarrow> uuid set" where
  "used_ids d = e_ID ` set (t_entities d) \<union> ev_ID ` set (t_events d) \<union> o_ID ` set (t_orders d)
     \<union> oi_ID ` set (t_order_items d)"

lemma fresh_uuids_mono: "fresh_uuids B env \<Longrightarrow> A \<subseteq> B \<Longrightarrow> fresh_uuids A env"
  by (auto simp: fresh_uuids_def)

definition customer_known :: "uuid \<Rightarrow> uuid option \<Rightarrow> 'a entity_db_scheme \<Rightarrow> bool" where
  "customer_known org customer d \<longleftrightarrow> (case customer of None \<Rightarrow> True
     | Some cid \<Rightarrow> (case find_entity org cid d of None \<Rightarrow> False | Some e \<Rightarrow> e_Kind e = ''customer''))"

lemma ok_check_customer:
  assumes "reliable env" and "customer_known org customer (committed w)"
    and "\<And>w'. same_outside w w' \<Longrightarrow> pending w' = pending w \<Longrightarrow> Q () w'"
  shows "wp env (check_customer org customer) Q E w"
  using assms
  by (auto simp: check_customer_def customer_known_def Get_def GetByID_def wp_bnd wp_ret wp_try wp_guard wp_pool_find
      same_outside_def split: option.splits)

text \<open>C4: With every statement executed and identifiers that are new, an order of storable lines, for no
  customer or a customer of the organization, is placed, as long as the organization's numbers fit
  an \<open>int64\<close>: it is a draft for that customer with the total of its lines under the organization's
  next number, the sequence has moved to that number, its row is appended, with one row for each line
  asked for, in order, with its product, amounts and the quantity the column keeps, and the
  creations of the entity and of the order are announced.\<close>

theorem order_Create_succeeds:
  assumes ok: "orders_ok d" and "reliable env" and fresh: "fresh_uuids (used_ids d) env"
    and "coi_Items inp \<noteq> []" and "customer_known org (coi_CustomerID inp) d"
    and "\<forall>it \<in> set (coi_Items inp). column env (cii_Quantity it) \<noteq> None"
    and "last_number org d + 1 < 2 ^ 63"
  shows "wp env (order_Create org inp actor)
     (\<lambda>ord w'. o_Status ord = ''draft'' \<and> o_Number ord = order_number (last_number org d + 1)
        \<and> o_CustomerID ord = coi_CustomerID inp
        \<and> o_Total ord = subtotal (coi_Items inp) - total_discount (coi_Items inp) + total_tax (coi_Items inp)
        \<and> last_number org (committed w') = last_number org d + 1
        \<and> t_orders (committed w') = t_orders d @ [ord\<lparr>o_Items := []\<rparr>]
        \<and> (\<exists>rows. t_order_items (committed w') = t_order_items d @ rows
             \<and> line_rows env org (o_ID ord) (coi_Items inp) rows)
        \<and> map ev_Type (published w') = [''entity.created'', ''order.created''])
     (\<lambda>_ _. False) (start d)"
proof -
  have ids: "fresh_uuids (e_ID ` set (t_entities d) \<union> ev_ID ` set (t_events d)) env"
    using fresh by (rule fresh_uuids_mono) (auto simp: used_ids_def)
  have free: "uuids env n \<notin> o_ID ` set (t_orders d)" "uuids env n \<notin> oi_ID ` set (t_order_items d)" for n
    using fresh_uuidsD(2) [OF fresh, of n] by (auto simp: used_ids_def)
  have clash: "oi_ID ` set lines \<inter> oi_ID ` set (t_order_items d') = {}"
    if "\<forall>l \<in> set lines. \<exists>n. oi_ID l = uuids env n" "t_order_items d' = t_order_items d" for lines d'
  proof -
    have "i \<notin> oi_ID ` set (t_order_items d')" if "i \<in> oi_ID ` set lines" for i
      using that \<open>\<forall>l \<in> set lines. \<exists>n. oi_ID l = uuids env n\<close> \<open>t_order_items d' = t_order_items d\<close> free(2)
      by (metis imageE)
    then show ?thesis by blast
  qed
  have inj: "inj (uuids env)" using fresh by (simp add: fresh_uuids_def)
  show ?thesis
    unfolding order_Create_def order_publishEvent_def Let_def CreateOrder_def
    apply (intro wpI_bnd wpI_guard wpI_ret wpI_new_uuid wpI_now ok_check_customer [OF assms(2)] ok_with_tx [OF assms(2)] ok_Create [OF assms(2)]
        ok_NextOrderNumber [OF assms(2)] ok_fresh_lines ok_tx_stmt [OF assms(2)] ok_CreateOrderItems [OF assms(2)]
        view_publish allI impI)
    using assms(4,5,7) ids apply (simp_all add: start_def same_outside_def order_entity_def inj assms(6) free
        next_number_free [OF ok] comp_def image_image)
     apply (erule clash, clarsimp)
    apply (clarsimp simp: new_order_def last_number_numbered)
    apply (erule stored_line_rows, simp)
    done
qed

section \<open>Refunds\<close>

definition line_refundable :: "order_item list \<Rightarrow> refund_item_input \<Rightarrow> bool" where
  "line_refundable items ri \<longleftrightarrow> (case item_map items (rii_OrderItemID ri) of None \<Rightarrow> False
     | Some it \<Rightarrow> \<not> sle (rii_Quantity ri) 0 \<and> \<not> fless (oi_Quantity it) (f64_of_int64 (rii_Quantity ri)))"

definition refund_amount :: "order_item list \<Rightarrow> refund_item_input \<Rightarrow> int64" where
  "refund_amount items ri = (case item_map items (rii_OrderItemID ri) of None \<Rightarrow> 0
     | Some it \<Rightarrow> oi_UnitPrice it * rii_Quantity ri)"

text \<open>The loop succeeds exactly on refundable lines and builds one line for each.\<close>

definition built_refund :: "order_item list \<Rightarrow> refund_item_input list \<Rightarrow> refund_item list \<Rightarrow> bool" where
  "built_refund items ris rfis \<longleftrightarrow> map rfi_Total rfis = map (refund_amount items) ris
     \<and> map rfi_Quantity rfis = map rii_Quantity ris"

lemma view_refund_lines:
  assumes "\<And>e w'. same_outside w w' \<Longrightarrow> pending w' = pending w \<Longrightarrow>
      \<not> (\<forall>ri \<in> set ris. line_refundable items ri) \<Longrightarrow> GetCode e = CodeBadRequest \<Longrightarrow> E e w'"
    and "\<And>rfis w'. built_refund items ris rfis \<Longrightarrow> \<forall>ri \<in> set ris. line_refundable items ri \<Longrightarrow>
      map rfi_ID rfis = map (uuids env) [tick w ..< tick w + length ris] \<Longrightarrow>
      same_outside w w' \<Longrightarrow> view w' = view w \<Longrightarrow> pending w' = pending w \<Longrightarrow> Q rfis w'"
  shows "wp env (map_op (refund_line (item_map items) rid) ris) Q E w"
  using assms
proof (induction ris arbitrary: w Q)
  case Nil
  then show ?case by (simp add: wp_ret built_refund_def)
next
  case (Cons ri ris)
  show ?case
  proof (cases "item_map items (rii_OrderItemID ri)")
    case None
    then show ?thesis
      by (auto simp: refund_line_def wp_bnd wp_fail line_refundable_def intro!: Cons.prems(1))
  next
    case (Some it)
    show ?thesis
      unfolding map_op.simps wp_bnd refund_line_def Some option.case
      apply (intro wpI_bnd wpI_guard wpI_new_uuid wpI_ret)
       apply (rule Cons.prems(1); auto simp: line_refundable_def Some)
      apply (rule Cons.IH [unfolded refund_line_def])
       apply (rule Cons.prems(1); auto simp: same_outside_def)
      apply (intro wpI_ret Cons.prems)
           apply (auto simp: built_refund_def same_outside_def view_def upt_rec [of "tick w"] refund_amount_def
            line_refundable_def Some)
      done
  qed
qed

lemma ok_CreateRefundItems:
  assumes "reliable env" and "\<forall>it \<in> set items. \<bar>sint (rfi_Quantity it)\<bar> < 2 ^ 31"
    and "distinct (map rfi_ID items)" and "rfi_ID ` set items \<inter> rfi_ID ` set (t_refund_items (view w)) = {}"
    and "\<And>w'. same_outside w w' \<Longrightarrow>
      view w' = (view w)\<lparr>t_refund_items := t_refund_items (view w) @ items\<rparr> \<Longrightarrow> Q () w'"
  shows "wp env (CreateRefundItems items) Q E w"
  using assms(2-5)
proof (induction items arbitrary: w Q)
  case Nil
  then show ?case by (simp add: CreateRefundItems_def wp_ret)
next
  case (Cons it items)
  show ?case
    unfolding CreateRefundItems_def for_each.simps
  proof (intro wpI_bnd ok_tx_stmt [OF assms(1)])
    fix e
    assume "(if \<bar>sint (rfi_Quantity it)\<bar> < 2 ^ 31
        then row_insert t_refund_items (\<lambda>xs d. d\<lparr>t_refund_items := xs\<rparr>) rfi_ID it (view w)
        else Inl integer_out_of_range) = Inl e"
    then show False using Cons.prems by (auto simp: row_insert_def split: if_splits)
  next
    fix u d w1
    assume "(if \<bar>sint (rfi_Quantity it)\<bar> < 2 ^ 31
        then row_insert t_refund_items (\<lambda>xs d. d\<lparr>t_refund_items := xs\<rparr>) rfi_ID it (view w)
        else Inl integer_out_of_range) = Inr (u, d)"
      and w1: "same_outside w w1" "view w1 = d"
    then have d: "view w1 = (view w)\<lparr>t_refund_items := t_refund_items (view w) @ [it]\<rparr>"
      by (auto split: if_splits)
    have "wp env (CreateRefundItems items) Q E w1"
      using Cons.prems w1(1) d by (intro Cons.IH) (auto intro: Cons.prems(4) same_outside_trans)
    then show "wp env (for_each items (\<lambda>item. tx_stmt (\<lambda>d. if \<bar>sint (rfi_Quantity item)\<bar> < 2 ^ 31
        then row_insert t_refund_items (\<lambda>xs d. d\<lparr>t_refund_items := xs\<rparr>) rfi_ID item d
        else Inl integer_out_of_range))) Q E w1"
      by (simp add: CreateRefundItems_def)
  qed
qed

lemma wp_any: "(\<And>e w'. E e w') \<Longrightarrow> (\<And>x w'. Q x w') \<Longrightarrow> wp env m Q E w"
  by (rule wpI)

lemma Refund_checks:
  "wp env (Refund org oid inp actor)
     (\<lambda>rf w'. (\<exists>ord. find_order org oid d = Some ord \<and> o_Status ord \<in> {''paid'', ''shipped'', ''delivered''})
        \<and> list_all (line_refundable (items_of oid d)) (cri_Items inp)
        \<and> rf_Total rf = sum_list (map (refund_amount (items_of oid d)) (cri_Items inp)))
     (\<lambda>_ _. True) (start d)"
  unfolding Refund_def GetOrder_def GetOrderItems_def order_publishEvent_def Let_def
  apply (intro wpI_bnd wpI_guard view_find view_query view_with_tx wpI_new_uuid wpI_now view_refund_lines
      wp_any [where m = "CreateRefund rf" for rf] wp_any [where m = "CreateRefundItems rfs" for rfs]
      wp_any [where m = "publish ev" for ev] wpI_ret allI impI conjI TrueI)
  apply (simp_all add: start_def same_outside_def)
  apply (auto simp: list_all_iff built_refund_def)
  done

lemma Refund_atomic: "atomic (\<lambda>d. (t_refunds d, t_refund_items d)) (Refund org oid inp actor)"
  unfolding Refund_def GetOrder_def GetOrderItems_def order_publishEvent_def CreateRefund_def CreateRefundItems_def
    Let_def refund_line_def
  by (rule atomic_rules quiet_intros | simp)+

text \<open>C5: A refund is taken only from an order that is paid, shipped or delivered, for lines of it and
  not more than each line's quantity; its total is the price of what is refunded, and orders and
  lines stay as they are. An error records no refund.\<close>

theorem Refund_within_lines:
  "wp env (Refund org oid inp actor)
     (\<lambda>rf w'. (\<exists>ord. find_order org oid d = Some ord \<and> o_Status ord \<in> {''paid'', ''shipped'', ''delivered''})
        \<and> list_all (line_refundable (items_of oid d)) (cri_Items inp)
        \<and> rf_Total rf = sum_list (map (refund_amount (items_of oid d)) (cri_Items inp))
        \<and> (t_orders (committed w'), t_order_items (committed w')) = (t_orders d, t_order_items d))
     (\<lambda>_ w'. (t_refunds (committed w'), t_refund_items (committed w')) = (t_refunds d, t_refund_items d))
     (start d)"
proof (rule wp_split)
  have "wp env (Refund org oid inp actor)
     (\<lambda>rf w'. (\<exists>ord. find_order org oid d = Some ord \<and> o_Status ord \<in> {''paid'', ''shipped'', ''delivered''})
        \<and> list_all (line_refundable (items_of oid d)) (cri_Items inp)
        \<and> rf_Total rf = sum_list (map (refund_amount (items_of oid d)) (cri_Items inp)))
     (\<lambda>_ _. True) (start d)"
    by (rule Refund_checks)
  then show "wp env (Refund org oid inp actor)
     (\<lambda>rf w'. (\<exists>ord. find_order org oid d = Some ord \<and> o_Status ord \<in> {''paid'', ''shipped'', ''delivered''})
        \<and> list_all (line_refundable (items_of oid d)) (cri_Items inp)
        \<and> rf_Total rf = sum_list (map (refund_amount (items_of oid d)) (cri_Items inp))
        \<and> (t_orders (committed w'), t_order_items (committed w')) = (t_orders d, t_order_items d))
     (\<lambda>_ _. True) (start d)"
    using frame_run [OF Refund_frame, of org oid inp actor env d] unfolding wp_def
    by (auto split: sum.splits)
next
  show "wp env (Refund org oid inp actor) (\<lambda>_ _. True)
     (\<lambda>_ w'. (t_refunds (committed w'), t_refund_items (committed w')) = (t_refunds d, t_refund_items d)) (start d)"
    using atomic_wp [OF Refund_atomic] .
qed

text \<open>
  Nothing in the method looks at the refunds already recorded. Once an order is paid, the same
  lines can be refunded again and again, each time up to the quantity of the line.
\<close>

definition used_refund_ids :: "'a order_db_scheme \<Rightarrow> uuid set" where
  "used_refund_ids d = rf_ID ` set (t_refunds d) \<union> rfi_ID ` set (t_refund_items d)"

lemma range_disjoint: "(\<And>n. f n \<notin> B) \<Longrightarrow> X \<subseteq> range f \<Longrightarrow> X \<inter> B = {}"
  by auto

lemma row_insert_refused: "row_insert g u k x d = Inl e \<Longrightarrow> k x \<in> k ` set (g d)"
  by (auto simp: row_insert_def split: if_splits)

lemma ok_refund_lines:
  assumes "inj (uuids env)" and "\<forall>ri \<in> set ris. line_refundable items ri"
    and "\<forall>ri \<in> set ris. \<bar>sint (rii_Quantity ri)\<bar> < 2 ^ 31"
    and "\<And>rfis w'. sum_list (map rfi_Total rfis) = sum_list (map (refund_amount items) ris) \<Longrightarrow>
      \<forall>rfi \<in> set rfis. \<bar>sint (rfi_Quantity rfi)\<bar> < 2 ^ 31 \<Longrightarrow> distinct (map rfi_ID rfis) \<Longrightarrow>
      rfi_ID ` set rfis \<subseteq> range (uuids env) \<Longrightarrow>
      same_outside w w' \<Longrightarrow> view w' = view w \<Longrightarrow> pending w' = pending w \<Longrightarrow> Q rfis w'"
  shows "wp env (map_op (refund_line (item_map items) rid) ris) Q E w"
proof (rule view_refund_lines)
  fix rfis and w' :: "'a order_db_scheme world"
  assume built: "built_refund items ris rfis" and ids: "map rfi_ID rfis = map (uuids env) [tick w ..< tick w + length ris]"
    and w': "same_outside w w'" "view w' = view w" "pending w' = pending w"
  have "\<forall>q \<in> set (map rfi_Quantity rfis). \<bar>sint q\<bar> < 2 ^ 31"
    using assms(3) built by (simp add: built_refund_def)
  moreover have "rfi_ID ` set rfis = set (map (uuids env) [tick w ..< tick w + length ris])"
    using ids by (simp flip: ids)
  ultimately show "Q rfis w'"
    using assms(1) built w' by (intro assms(4)) (auto simp: built_refund_def ids distinct_map inj_def inj_on_def)
qed (use assms(2) in auto)

text \<open>Earlier refunds do not count. With every statement executed and identifiers that are new, a
  refund of lines within their quantities succeeds and is appended, whatever the tables of refunds
  hold: the refunds of an order may together exceed what it cost.\<close>

lemma Refund_ignores_earlier:
  assumes "reliable env" and fresh: "fresh_uuids (used_refund_ids d) env"
    and "find_order org oid d = Some ord" and "o_Status ord \<in> {''paid'', ''shipped'', ''delivered''}"
    and "cri_Items inp \<noteq> []" and "\<forall>ri \<in> set (cri_Items inp). line_refundable (items_of oid d) ri"
    and "\<forall>ri \<in> set (cri_Items inp). \<bar>sint (rii_Quantity ri)\<bar> < 2 ^ 31"
  shows "wp env (Refund org oid inp actor)
     (\<lambda>rf w'. t_refunds (committed w') = t_refunds d @ [rf\<lparr>rf_Items := []\<rparr>] \<and> rf_OrderID rf = oid
        \<and> rf_Total rf = sum_list (map (refund_amount (items_of oid d)) (cri_Items inp)))
     (\<lambda>_ _. False) (start d)"
proof -
  have free: "uuids env n \<notin> rf_ID ` set (t_refunds d)" "uuids env n \<notin> rfi_ID ` set (t_refund_items d)" for n
    using fresh_uuidsD(2) [OF fresh, of n] by (auto simp: used_refund_ids_def)
  have unused: "X \<subseteq> range (uuids env) \<Longrightarrow> X \<inter> rfi_ID ` set (t_refund_items d) = {}" for X
    by (rule range_disjoint [OF free(2)])
  have inj: "inj (uuids env)" using fresh by (simp add: fresh_uuids_def)
  show ?thesis
    unfolding Refund_def GetOrder_def GetOrderItems_def CreateRefund_def order_publishEvent_def Let_def
  apply (intro wpI_bnd wpI_guard wpI_ret wpI_new_uuid wpI_now ok_find [OF assms(1)] ok_query [OF assms(1)]
      ok_with_tx [OF assms(1)] ok_refund_lines ok_tx_stmt [OF assms(1)] ok_CreateRefundItems [OF assms(1)]
      view_publish allI impI conjI)
  using assms(3-7) inj apply (simp_all add: start_def same_outside_def)
    apply (elim conjE disjE; simp)
   apply (drule row_insert_refused, simp add: free)
  apply (erule unused)
  done
qed

lemma created_run:
  assumes "e_ID e \<noteq> uuid_nil" and "e_ID e \<notin> e_ID ` set (t_entities d)" and "\<not> event_stored ev d"
  shows "wp (fail_at 10 err env) (with_tx (bnd (CreateTx e) (\<lambda>e. bnd (AppendTx ev) (\<lambda>_. ret e))))
    (\<lambda>x w'. tick w' = 9 \<and> published w' = [] \<and> pending w' = id \<and> event_stored ev (committed w')
      \<and> t_orders (committed w') = t_orders d
      \<and> map e_Kind (t_entities (committed w')) = map e_Kind (t_entities d) @ [e_Kind e])
    (\<lambda>_ _. False) \<lparr>committed = d, pending = id, published = [], tick = Suc (Suc (Suc (Suc 0)))\<rparr>"
  using assms unfolding CreateTx_def AppendTx_def
  by (simp add: wp_bnd wp_ret wp_now wp_with_tx wp_tx_stmt Let_def stmt_effect_def event_stored_def)

text \<open>The entity of an order outlives the order's failure. When only the first statement of the
  sequence fails, \<open>Create\<close> returns that error and places no order, but the entity it created in
  a transaction of its own stays, and its creation has been announced.\<close>

lemma order_Create_leaves_entity:
  assumes "coi_Items inp \<noteq> []" and "coi_CustomerID inp = None"
    and "fresh_uuids (used_ids d) env"
  shows "wp (fail_at 10 err env) (order_Create org inp actor)
     (\<lambda>_ _. False)
     (\<lambda>e w'. e = err \<and> t_orders (committed w') = t_orders d
        \<and> map e_Kind (t_entities (committed w')) = map e_Kind (t_entities d) @ [''order'']
        \<and> map ev_Type (published w') = [''entity.created'']) (start d)"
proof -
  have free: "uuids env n \<noteq> uuid_nil" "uuids env n \<notin> e_ID ` set (t_entities d)" for n
    using fresh_uuidsD(1,2) [OF assms(3), of n] by (auto simp: used_ids_def)
  have stored: "\<not> event_stored (entity_event (uuids env n) org' eid ty actor' t data) d" for n org' eid ty actor' t data
    using fresh_uuidsD(2) [OF assms(3), of n] by (auto simp: used_ids_def event_stored_def entity_event_def) (metis imageI)
  have entity: "wp (fail_at 10 err env) (Create org order_entity actor)
      (\<lambda>_ w'. tick w' = 10 \<and> t_orders (committed w') = t_orders d
        \<and> map e_Kind (t_entities (committed w')) = map e_Kind (t_entities d) @ [''order'']
        \<and> map ev_Type (published w') = [''entity.created'']) (\<lambda>_ _. False) ((start d)\<lparr>tick := 1\<rparr>)"
    unfolding Create_def
    by (simp add: wp_bnd wp_guard wp_ret wp_new_uuid wp_now Let_def order_entity_def start_def)
      (rule wp_conseq [OF created_run]; simp add: free stored [unfolded entity_event_def] blank_entity_def entity_event_def wp_publish Let_def wp_bnd wp_ret)
  show ?thesis
    unfolding order_Create_def check_customer_def assms(2) option.case wp_bnd NextOrderNumber_def Let_def
    apply (simp add: assms(1) wp_bnd wp_guard wp_ret wp_with_tx start_def)
    apply (rule wp_conseq [OF entity [unfolded start_def, simplified]])
     apply (simp_all add: wp_bnd wp_tx_stmt)
    done
qed

section \<open>Runs on concrete orders\<close>

definition sample_input :: create_order_input where
  "sample_input = \<lparr>coi_CustomerID = None, coi_WarehouseID = None,
     coi_Items = [\<lparr>cii_ProductID = 2, cii_Quantity = Fin 2, cii_UnitPrice = 1000, cii_Discount = 0, cii_Tax = 0\<rparr>],
     coi_Notes = ''''\<rparr>"

definition sample_refund :: create_refund_input where
  "sample_refund = \<lparr>cri_Items = [\<lparr>rii_OrderItemID = 21, rii_Quantity = 2, rii_Reason = ''broken''\<rparr>],
     cri_RefundMethod = ''card''\<rparr>"

text \<open>The order of the example with a refund of everything on record.\<close>

definition refunded_orders :: order_db where
  "refunded_orders = sample_orders\<lparr>t_refunds := [\<lparr>rf_ID = 30, rf_OrganizationID = 1, rf_OrderID = 20,
     rf_Status = ''pending'', rf_Total = 2000, rf_Reason = '''', rf_RefundMethod = ''card'', rf_Ver = 1,
     rf_Upd = 0, rf_Iat = 0, rf_Items = []\<rparr>]\<rparr>"

lemma refunded_items: "items_of 20 refunded_orders = [sample_line]"
  by (simp add: items_of_def refunded_orders_def sample_orders_def sample_line_def)

theorem order_Create_succeeds_witness:
  "wp (env_ok numeric_15_4) (order_Create 1 sample_input None)
     (\<lambda>ord w'. o_Status ord = ''draft'' \<and> o_Number ord = order_number (last_number 1 sample_orders + 1)
        \<and> o_CustomerID ord = coi_CustomerID sample_input
        \<and> o_Total ord = subtotal (coi_Items sample_input) - total_discount (coi_Items sample_input) + total_tax (coi_Items sample_input)
        \<and> last_number 1 (committed w') = last_number 1 sample_orders + 1
        \<and> t_orders (committed w') = t_orders sample_orders @ [ord\<lparr>o_Items := []\<rparr>]
        \<and> (\<exists>rows. t_order_items (committed w') = t_order_items sample_orders @ rows
             \<and> line_rows (env_ok numeric_15_4) 1 (o_ID ord) (coi_Items sample_input) rows)
        \<and> map ev_Type (published w') = [''entity.created'', ''order.created''])
     (\<lambda>_ _. False) (start sample_orders)"
proof (rule order_Create_succeeds [OF sample_orders_ok])
  show "fresh_uuids (used_ids sample_orders) (env_ok numeric_15_4)"
    by (rule env_ok_fresh) (simp add: used_ids_def sample_orders_def sample_order_def sample_line_def)
  show "\<forall>it \<in> set (coi_Items sample_input). column (env_ok numeric_15_4) (cii_Quantity it) \<noteq> None"
    using numeric_15_4_units [of 2] by (simp add: sample_input_def)
qed (simp_all add: sample_input_def sample_orders_def last_number_def row_get_def customer_known_def)

theorem Refund_ignores_earlier_witness:
  "wp (env_ok numeric_15_4) (Refund 1 20 sample_refund None)
     (\<lambda>rf w'. t_refunds (committed w') = t_refunds refunded_orders @ [rf\<lparr>rf_Items := []\<rparr>] \<and> rf_OrderID rf = 20
        \<and> rf_Total rf = sum_list (map (refund_amount (items_of 20 refunded_orders)) (cri_Items sample_refund)))
     (\<lambda>_ _. False) (start refunded_orders)"
proof (rule Refund_ignores_earlier)
  show "fresh_uuids (used_refund_ids refunded_orders) (env_ok numeric_15_4)"
    by (rule env_ok_fresh) (simp add: used_refund_ids_def refunded_orders_def sample_orders_def)
  show "find_order 1 20 refunded_orders = Some sample_order"
    by (simp add: find_order_def refunded_orders_def sample_orders_def sample_order_def order_row_def)
  have "f64_of_int 2 = Fin 2" using f64_of_int_small [of 2] by simp
  then show "\<forall>ri \<in> set (cri_Items sample_refund). line_refundable (items_of 20 refunded_orders) ri"
    by (simp add: refunded_items sample_refund_def line_refundable_def item_map_def sample_line_def sle_def f64_of_int64_def)
qed (simp_all add: sample_order_def sample_refund_def)

theorem order_Create_leaves_entity_witness:
  "wp (fail_at 10 (NewInternal ''timeout'') (env_ok numeric_15_4)) (order_Create 1 sample_input None)
     (\<lambda>_ _. False)
     (\<lambda>e w'. e = NewInternal ''timeout'' \<and> t_orders (committed w') = t_orders sample_orders
        \<and> map e_Kind (t_entities (committed w')) = map e_Kind (t_entities sample_orders) @ [''order'']
        \<and> map ev_Type (published w') = [''entity.created'']) (start sample_orders)"
proof (rule order_Create_leaves_entity)
  show "fresh_uuids (used_ids sample_orders) (env_ok numeric_15_4)"
    by (rule env_ok_fresh) (simp add: used_ids_def sample_orders_def sample_order_def sample_line_def)
qed (simp_all add: sample_input_def)

end
