(* ===== verification/Dates.thy ===== *)
theory Dates
  imports Money
begin

text \<open>
  Calendar dates, as the standard library's \<open>time\<close> package and a \<open>DATE\<close> column have them.
  A \<open>time.Time\<close> at midnight UTC that stands for a day is its \<open>civil\<close> date; the server's clock
  is taken to run on UTC. \<open>parse_date\<close> and \<open>format_date\<close> are the layout \<open>2006-01-02\<close>.
\<close>

record civil =
  c_Year :: int
  c_Month :: int
  c_Day :: int

definition is_leap :: "int \<Rightarrow> bool" where
  "is_leap y \<longleftrightarrow> y mod 4 = 0 \<and> (y mod 100 \<noteq> 0 \<or> y mod 400 = 0)"

definition days_in :: "int \<Rightarrow> int \<Rightarrow> int" where
  "days_in y m = (if m = 2 then if is_leap y then 29 else 28
     else if m = 4 \<or> m = 6 \<or> m = 9 \<or> m = 11 then 30 else 31)"

definition year_days :: "int \<Rightarrow> int" where
  "year_days y = (if is_leap y then 366 else 365)"

definition civil_ok :: "civil \<Rightarrow> bool" where
  "civil_ok c \<longleftrightarrow> 1 \<le> c_Month c \<and> c_Month c \<le> 12 \<and> 1 \<le> c_Day c \<and> c_Day c \<le> days_in (c_Year c) (c_Month c)"

definition civil_le :: "civil \<Rightarrow> civil \<Rightarrow> bool" where
  "civil_le a b \<longleftrightarrow> c_Year a < c_Year b \<or> c_Year a = c_Year b \<and>
     (c_Month a < c_Month b \<or> c_Month a = c_Month b \<and> c_Day a \<le> c_Day b)"

text \<open>A \<open>TIMESTAMPTZ\<close> column keeps microseconds; the driver cuts the rest off.\<close>

definition pg_time :: "time \<Rightarrow> time" where
  "pg_time t = t div 1000 * 1000"

lemma pg_time_le [simp]: "pg_time t \<le> t"
  by (simp add: pg_time_def)

lemma pg_time_mono: "s \<le> t \<Longrightarrow> pg_time s \<le> pg_time t"
  by (simp add: pg_time_def zdiv_mono1)

lemma pg_time_idem [simp]: "pg_time (pg_time t) = pg_time t"
  by (simp add: pg_time_def)

section \<open>The date of an instant\<close>

text \<open>The year that the \<open>n\<close>-th day from the first of January of year \<open>y\<close> falls in, and its day there.\<close>

function find_year :: "int \<Rightarrow> int \<Rightarrow> int \<times> int" where
  "find_year y n = (if n < year_days y then (y, n) else find_year (y + 1) (n - year_days y))"
  by pat_completeness auto

termination
  by (relation "measure (\<lambda>(y, n). nat n)") (auto simp: year_days_def split: if_splits)

declare find_year.simps [simp del]

function find_month :: "int \<Rightarrow> int \<Rightarrow> int \<Rightarrow> int \<times> int" where
  "find_month y m n =
     (if n < days_in y m \<or> 12 \<le> m then (m, n) else find_month y (m + 1) (n - days_in y m))"
  by pat_completeness auto

termination
  by (relation "measure (\<lambda>(y, m, n). nat (12 - m))") auto

declare find_month.simps [simp del]

text \<open>Days repeat every 400 years, which have 146097 of them; day 0 is January 1, 1970.\<close>

definition civil_of_day :: "int \<Rightarrow> civil" where
  "civil_of_day n =
    (let (y, k) = find_year (1970 + 400 * (n div 146097)) (n mod 146097);
         (m, j) = find_month y 1 k
     in \<lparr>c_Year = y, c_Month = m, c_Day = j + 1\<rparr>)"

definition civil_of_time :: "time \<Rightarrow> civil" where
  "civil_of_time t = civil_of_day (t div (24 * 60 * 60 * 1000000000))"

lemma find_year_in: "0 \<le> n \<Longrightarrow> find_year y n = (y', k) \<Longrightarrow> 0 \<le> k \<and> k < year_days y'"
proof (induction y n rule: find_year.induct)
  case (1 y n)
  then show ?case
    by (cases "n < year_days y") (auto simp: find_year.simps [of y n])
qed

lemma days_in_pos: "28 \<le> days_in y m" "days_in y m \<le> 31"
  by (simp_all add: days_in_def)

text \<open>The days of the months from \<open>m\<close> to December.\<close>

definition rest_of_year :: "int \<Rightarrow> int \<Rightarrow> int" where
  "rest_of_year y m = (\<Sum>k\<leftarrow>[m..12]. days_in y k)"

lemma rest_of_year_step: "m \<le> 12 \<Longrightarrow> rest_of_year y m = days_in y m + rest_of_year y (m + 1)"
  by (simp add: rest_of_year_def upto.simps [of m])

lemma rest_of_year_1: "rest_of_year y 1 = year_days y"
  by (simp add: rest_of_year_def upto.simps days_in_def year_days_def)

lemma find_month_in:
  "0 \<le> n \<Longrightarrow> n < rest_of_year y m \<Longrightarrow> 1 \<le> m \<Longrightarrow> m \<le> 12 \<Longrightarrow> find_month y m n = (m', k) \<Longrightarrow>
     1 \<le> m' \<and> m' \<le> 12 \<and> 0 \<le> k \<and> k < days_in y m'"
proof (induction y m n rule: find_month.induct)
  case (1 y m n)
  show ?case
  proof (cases "n < days_in y m \<or> 12 \<le> m")
    case True
    moreover have "rest_of_year y 13 = 0" by (simp add: rest_of_year_def)
    ultimately show ?thesis
      using 1(2-) rest_of_year_step [of m y] by (auto simp: find_month.simps [of y m n])
  next
    case False
    then show ?thesis
      using 1 rest_of_year_step [of m y] by (auto simp: find_month.simps [of y m n])
  qed
qed

lemma civil_of_day_ok: "civil_ok (civil_of_day n)"
proof -
  obtain y k where y: "find_year (1970 + 400 * (n div 146097)) (n mod 146097) = (y, k)" by fastforce
  obtain m j where m: "find_month y 1 k = (m, j)" by fastforce
  have "0 \<le> k" "k < rest_of_year y 1"
    using find_year_in [OF _ y] by (simp_all add: rest_of_year_1)
  then have "1 \<le> m \<and> m \<le> 12 \<and> 0 \<le> j \<and> j < days_in y m"
    using find_month_in [OF _ _ _ _ m] by simp
  then show ?thesis
    by (simp add: civil_of_day_def civil_ok_def y m)
qed

section \<open>The layouts \<open>2006-01-02\<close> and \<open>2006-01\<close>\<close>

text \<open>\<open>appendInt\<close>: decimal digits, padded with zeros to the width, after the sign.\<close>

definition padded :: "nat \<Rightarrow> int \<Rightarrow> string" where
  "padded w n = (let ds = dec_nat (nat \<bar>n\<bar>) in
     (if n < 0 then ''-'' else []) @ replicate (w - length ds) (CHR ''0'') @ ds)"

definition format_month :: "civil \<Rightarrow> string" where
  "format_month c = padded 4 (c_Year c) @ ''-'' @ padded 2 (c_Month c)"

definition format_date :: "civil \<Rightarrow> string" where
  "format_date c = format_month c @ ''-'' @ padded 2 (c_Day c)"

text \<open>Four digits, two digits and two digits, and a day that exists.\<close>

fun parse_date :: "string \<Rightarrow> civil option" where
  "parse_date [y1, y2, y3, y4, s1, m1, m2, s2, d1, d2] =
    (if list_all is_digit [y1, y2, y3, y4, m1, m2, d1, d2] \<and> s1 = CHR ''-'' \<and> s2 = CHR ''-''
     then (let c = \<lparr>c_Year = int (undec 0 [y1, y2, y3, y4]), c_Month = int (undec 0 [m1, m2]),
                    c_Day = int (undec 0 [d1, d2])\<rparr>
           in if civil_ok c then Some c else None)
     else None)"
| "parse_date _ = None"

section \<open>Printing and reading a date\<close>

lemma dec_nat_length: "n < 10 ^ k \<Longrightarrow> 0 < k \<Longrightarrow> length (dec_nat n) \<le> k"
proof (induction k arbitrary: n)
  case 0
  then show ?case by simp
next
  case (Suc k)
  show ?case
  proof (cases "n < 10")
    case True
    then show ?thesis by (subst dec_nat.simps) simp
  next
    case False
    then have "0 < k" using Suc.prems by (cases k) auto
    moreover have "n div 10 < 10 ^ k" using Suc.prems(1) by (simp add: div_less_iff_less_mult mult.commute)
    ultimately have "length (dec_nat (n div 10)) \<le> k" by (intro Suc.IH)
    with False show ?thesis by (subst dec_nat.simps) simp
  qed
qed

lemma undec_replicate: "undec 0 (replicate k (CHR ''0'') @ ds) = undec 0 ds"
  by (induction k) simp_all

lemma padded_digits:
  assumes "0 \<le> n" and "n < 10 ^ w" and "0 < w"
  shows "length (padded w n) = w" "list_all is_digit (padded w n)" "int (undec 0 (padded w n)) = n"
proof -
  have "length (dec_nat (nat n)) \<le> w"
    using assms by (intro dec_nat_length) (simp_all add: nat_less_iff)
  moreover have "is_digit (CHR ''0'')" by (simp add: is_digit_def)
  ultimately show "length (padded w n) = w" "list_all is_digit (padded w n)" "int (undec 0 (padded w n)) = n"
    using assms dec_nat_digits [of _ "nat n"]
    by (auto simp: padded_def Let_def list_all_iff undec_replicate undec_dec_nat)
qed

lemma length_2E: "length s = 2 \<Longrightarrow> (\<And>a b. s = [a, b] \<Longrightarrow> P) \<Longrightarrow> P"
  by (auto simp: numeral_2_eq_2 length_Suc_conv)

lemma length_4E: "length s = 4 \<Longrightarrow> (\<And>a b c d. s = [a, b, c, d] \<Longrightarrow> P) \<Longrightarrow> P"
  by (auto simp: eval_nat_numeral length_Suc_conv)

lemma parse_format_date:
  assumes "civil_ok c" and "0 \<le> c_Year c" and "c_Year c \<le> 9999"
  shows "parse_date (format_date c) = Some c"
proof -
  have "days_in (c_Year c) (c_Month c) \<le> 31" by (rule days_in_pos)
  then have m: "0 \<le> c_Month c" "c_Month c < 10 ^ 2" and d: "0 \<le> c_Day c" "c_Day c < 10 ^ 2"
    and y: "0 \<le> c_Year c" "c_Year c < 10 ^ 4"
    using assms by (simp_all add: civil_ok_def)
  obtain y1 y2 y3 y4 where Y: "padded 4 (c_Year c) = [y1, y2, y3, y4]"
    using padded_digits(1) [OF y] by (auto elim: length_4E)
  obtain m1 m2 where M: "padded 2 (c_Month c) = [m1, m2]"
    using padded_digits(1) [OF m] by (auto elim: length_2E)
  obtain d1 d2 where D: "padded 2 (c_Day c) = [d1, d2]"
    using padded_digits(1) [OF d] by (auto elim: length_2E)
  note digits = padded_digits(2) [OF y, unfolded Y] padded_digits(2) [OF m, unfolded M] padded_digits(2) [OF d, unfolded D]
  note read = padded_digits(3) [OF y, unfolded Y] padded_digits(3) [OF m, unfolded M] padded_digits(3) [OF d, unfolded D]
  let ?c = "\<lparr>c_Year = c_Year c, c_Month = c_Month c, c_Day = c_Day c\<rparr>"
  from digits read have "parse_date (format_date c) = (if civil_ok ?c then Some ?c else None)"
    by (simp add: format_date_def format_month_def Y M D Let_def del: undec.simps)
  moreover have "?c = c" by simp
  ultimately show ?thesis using assms(1) by (simp only: if_True)
qed

end
