(* ===== verification/Finance.thy ===== *)
theory Finance
  imports Orders Dates
begin

text \<open>
  Accounting: the chart of accounts, journal transactions with their lines, invoices, monthly
  periods, cash operations and reports. Sources: \<open>internal/module/finance/service.go\<close> and
  \<open>repository.go\<close>, \<open>internal/storage/postgres/finance_repo.go\<close>, and of \<open>migrations\<close> the keys,
  the checks and the balance trigger of the tables. Amounts are 64-bit kopecks; \<open>SUM\<close> in the
  database is exact. The day of a transaction, a parameter of a report, is its \<open>civil\<close> date.
\<close>

section \<open>Data\<close>

record account =
  ac_ID :: uuid
  ac_OrganizationID :: uuid
  ac_Code :: string
  ac_Name :: string
  ac_Type :: string
  ac_ParentID :: "uuid option"
  ac_IsSystem :: bool
  ac_Currency :: string
  ac_CreatedAt :: time

record transaction_line =
  tl_ID :: uuid
  tl_TransactionID :: uuid
  tl_OrganizationID :: uuid
  tl_AccountID :: uuid
  tl_Debit :: int64
  tl_Credit :: int64
  tl_Description :: string
  tl_EntityID :: "uuid option"

record transaction =
  tn_ID :: uuid
  tn_OrganizationID :: uuid
  tn_Date :: civil
  tn_Description :: string
  tn_ReferenceType :: "string option"
  tn_ReferenceID :: "uuid option"
  tn_IsPosted :: bool
  tn_ActorID :: "uuid option"
  tn_CreatedAt :: time
  tn_Lines :: "transaction_line list"

record invoice =
  fi_ID :: uuid
  fi_OrganizationID :: uuid
  fi_Number :: string
  fi_Type :: string
  fi_CounterpartyID :: "uuid option"
  fi_OrderID :: "uuid option"
  fi_Subtotal :: int64
  fi_Tax :: int64
  fi_Total :: int64
  fi_Currency :: string
  fi_Status :: string
  fi_IssuedAt :: "time option"
  fi_DueAt :: "time option"
  fi_PaidAt :: "time option"
  fi_CreatedAt :: time

record trial_balance_row =
  tb_AccountID :: uuid
  tb_Code :: string
  tb_Name :: string
  tb_Debit :: int64
  tb_Credit :: int64

record account_balance =
  ab_AccountID :: uuid
  ab_DebitTotal :: int64
  ab_CreditTotal :: int64
  ab_Balance :: int64

record finance_period =
  pd_OrganizationID :: uuid
  pd_Year :: int
  pd_Month :: int
  pd_Status :: string
  pd_ClosedAt :: "time option"
  pd_ClosedBy :: "uuid option"

record pnl_row =
  pl_AccountID :: uuid
  pl_Code :: string
  pl_Name :: string
  pl_Type :: string
  pl_Amount :: int64

record pnl_report =
  pr_From :: civil
  pr_To :: civil
  pr_Rows :: "pnl_row list"
  pr_TotalRevenue :: int64
  pr_TotalExpense :: int64
  pr_NetProfit :: int64

record cash_operation =
  co_ID :: uuid
  co_OrganizationID :: uuid
  co_Type :: string
  co_Amount :: int64
  co_Description :: string
  co_AccountCode :: string
  co_ActorID :: "uuid option"
  co_CreatedAt :: time

record create_account_input =
  cai_Code :: string
  cai_Name :: string
  cai_Type :: string
  cai_ParentID :: "uuid option"
  cai_Currency :: string

record create_line_input =
  cli_AccountID :: uuid
  cli_Debit :: int64
  cli_Credit :: int64
  cli_Description :: string
  cli_EntityID :: "uuid option"

record create_transaction_input =
  cti_Date :: string
  cti_Description :: string
  cti_ReferenceType :: "string option"
  cti_ReferenceID :: "uuid option"
  cti_Lines :: "create_line_input list"

record create_invoice_input =
  cvi_Number :: string
  cvi_Type :: string
  cvi_CounterpartyID :: "uuid option"
  cvi_OrderID :: "uuid option"
  cvi_Subtotal :: int64
  cvi_Tax :: int64
  cvi_Total :: int64
  cvi_Currency :: string
  cvi_IssuedAt :: "time option"
  cvi_DueAt :: "time option"

record create_cash_input =
  cci_Type :: string
  cci_Amount :: int64
  cci_Description :: string
  cci_AccountCode :: string

record finance_db = order_db +
  t_accounts :: "account list"
  t_transactions :: "transaction list"
  t_lines :: "transaction_line list"
  t_invoices :: "invoice list"
  t_periods :: "finance_period list"
  t_cash :: "cash_operation list"

text \<open>\<open>DefaultAccounts\<close>: the fields the literal leaves out are zero.\<close>

definition default_account :: "string \<Rightarrow> string \<Rightarrow> string \<Rightarrow> create_account_input" where
  "default_account code name ty = \<lparr>cai_Code = code, cai_Name = name, cai_Type = ty, cai_ParentID = None,
     cai_Currency = ''''\<rparr>"

definition DefaultAccounts :: "create_account_input list" where
  "DefaultAccounts =
    [default_account ''10'' ''Materials'' ''asset'',
     default_account ''41'' ''Goods'' ''asset'',
     default_account ''44'' ''Selling expenses'' ''expense'',
     default_account ''50'' ''Cash'' ''asset'',
     default_account ''51'' ''Bank account'' ''asset'',
     default_account ''60'' ''Suppliers'' ''liability'',
     default_account ''62'' ''Customers'' ''asset'',
     default_account ''70'' ''Payroll'' ''liability'',
     default_account ''90'' ''Sales'' ''revenue'',
     default_account ''91'' ''Other income/expense'' ''revenue'',
     default_account ''99'' ''Profit and loss'' ''equity'']"

section \<open>The repository\<close>

definition foreign_key_violation :: go_error where
  "foreign_key_violation = PlainError ''violates foreign key constraint'' None"

definition check_violation :: go_error where
  "check_violation = PlainError ''violates check constraint'' None"

text \<open>Accounts: keyed by identifier, and by code within the organization; the parent exists.\<close>

definition repo_CreateAccount :: "account \<Rightarrow> ('a finance_db_scheme, unit) op" where
  "repo_CreateAccount a = tx_stmt (\<lambda>d.
     if ac_ID a \<in> ac_ID ` set (t_accounts d)
        \<or> (ac_OrganizationID a, ac_Code a) \<in> (\<lambda>x. (ac_OrganizationID x, ac_Code x)) ` set (t_accounts d)
     then Inl duplicate_key
     else if (case ac_ParentID a of None \<Rightarrow> False | Some p \<Rightarrow> p \<noteq> ac_ID a \<and> p \<notin> ac_ID ` set (t_accounts d))
     then Inl foreign_key_violation
     else Inr ((), d\<lparr>t_accounts := t_accounts d @ [a]\<rparr>))"

definition find_account :: "uuid \<Rightarrow> uuid \<Rightarrow> 'a finance_db_scheme \<Rightarrow> account option" where
  "find_account org aid d = find (\<lambda>a. ac_OrganizationID a = org \<and> ac_ID a = aid) (t_accounts d)"

definition GetAccount :: "uuid \<Rightarrow> uuid \<Rightarrow> ('a finance_db_scheme, account) op" where
  "GetAccount org aid = pool_find (find_account org aid) (NewNotFound ''account not found'')"

definition find_code :: "uuid \<Rightarrow> string \<Rightarrow> 'a finance_db_scheme \<Rightarrow> account option" where
  "find_code org code d = find (\<lambda>a. ac_OrganizationID a = org \<and> ac_Code a = code) (t_accounts d)"

definition GetAccountByCode :: "uuid \<Rightarrow> string \<Rightarrow> ('a finance_db_scheme, account) op" where
  "GetAccountByCode org code = pool_find (find_code org code) (NewNotFound (''account not found: '' @ code))"

text \<open>\<open>ORDER BY\<close>: insertion into a sorted list.\<close>

fun insert_by :: "('r \<Rightarrow> 'r \<Rightarrow> bool) \<Rightarrow> 'r \<Rightarrow> 'r list \<Rightarrow> 'r list" where
  "insert_by le x [] = [x]"
| "insert_by le x (y # ys) = (if le x y then x # y # ys else y # insert_by le x ys)"

definition order_by :: "('r \<Rightarrow> 'r \<Rightarrow> bool) \<Rightarrow> 'r list \<Rightarrow> 'r list" where
  "order_by le xs = foldr (insert_by le) xs []"

definition ListAccounts :: "uuid \<Rightarrow> ('a finance_db_scheme, account list) op" where
  "ListAccounts org = pool_stmt (query (\<lambda>d. order_by (\<lambda>a b. str_le (ac_Code a) (ac_Code b))
     (filter (\<lambda>a. ac_OrganizationID a = org) (t_accounts d))))"

text \<open>\<open>ON DELETE RESTRICT\<close> of the lines, and the parents of other accounts.\<close>

definition account_in_use :: "uuid \<Rightarrow> 'a finance_db_scheme \<Rightarrow> bool" where
  "account_in_use aid d \<longleftrightarrow> aid \<in> tl_AccountID ` set (t_lines d)
     \<or> (\<exists>a \<in> set (t_accounts d). ac_ParentID a = Some aid \<and> ac_ID a \<noteq> aid)"

definition repo_DeleteAccount :: "uuid \<Rightarrow> uuid \<Rightarrow> ('a finance_db_scheme, unit) op" where
  "repo_DeleteAccount org aid =
    (let p = (\<lambda>a. ac_OrganizationID a = org \<and> ac_ID a = aid)
     in bnd (pool_stmt (\<lambda>d.
          if 0 < row_count p (t_accounts d) \<and> account_in_use aid d then Inl foreign_key_violation
          else Inr (row_count p (t_accounts d),
                    d\<lparr>t_accounts := filter (\<lambda>a. \<not> p a) (t_accounts d)\<rparr>))) (\<lambda>n.
        guard (n = 0) (NewNotFound ''account not found'')))"

definition HasTransactionLines :: "uuid \<Rightarrow> uuid \<Rightarrow> ('a finance_db_scheme, bool) op" where
  "HasTransactionLines org aid = pool_stmt (query (\<lambda>d.
     \<exists>l \<in> set (t_lines d). tl_OrganizationID l = org \<and> tl_AccountID l = aid))"

text \<open>Transactions and lines.\<close>

definition repo_CreateTransaction :: "transaction \<Rightarrow> ('a finance_db_scheme, unit) op" where
  "repo_CreateTransaction t = tx_stmt
     (row_insert t_transactions (\<lambda>xs d. d\<lparr>t_transactions := xs\<rparr>) tn_ID (t\<lparr>tn_Lines := []\<rparr>))"

definition line_check :: "transaction_line \<Rightarrow> bool" where
  "line_check l \<longleftrightarrow> 0 \<le> sint (tl_Debit l) \<and> 0 \<le> sint (tl_Credit l) \<and> \<not> (0 < sint (tl_Debit l) \<and> 0 < sint (tl_Credit l))"

definition line_refs :: "transaction_line \<Rightarrow> 'a finance_db_scheme \<Rightarrow> bool" where
  "line_refs l d \<longleftrightarrow> tl_TransactionID l \<in> tn_ID ` set (t_transactions d)
     \<and> tl_AccountID l \<in> ac_ID ` set (t_accounts d)
     \<and> (case tl_EntityID l of None \<Rightarrow> True | Some e \<Rightarrow> e \<in> e_ID ` set (t_entities d))"

definition insert_line :: "transaction_line \<Rightarrow> ('a finance_db_scheme, unit) stmt" where
  "insert_line l d =
     (if \<not> line_check l then Inl check_violation
      else if \<not> line_refs l d then Inl foreign_key_violation
      else row_insert t_lines (\<lambda>xs d. d\<lparr>t_lines := xs\<rparr>) tl_ID l d)"

definition CreateTransactionLines :: "transaction_line list \<Rightarrow> ('a finance_db_scheme, unit) op" where
  "CreateTransactionLines lines = for_each lines (\<lambda>l. tx_stmt (insert_line l))"

definition find_transaction :: "uuid \<Rightarrow> uuid \<Rightarrow> 'a finance_db_scheme \<Rightarrow> transaction option" where
  "find_transaction org tid d = find (\<lambda>t. tn_OrganizationID t = org \<and> tn_ID t = tid) (t_transactions d)"

definition repo_GetTransaction :: "uuid \<Rightarrow> uuid \<Rightarrow> ('a finance_db_scheme, transaction) op" where
  "repo_GetTransaction org tid = pool_find (find_transaction org tid) (NewNotFound ''transaction not found'')"

definition lines_of :: "uuid \<Rightarrow> 'a finance_db_scheme \<Rightarrow> transaction_line list" where
  "lines_of tid d = filter (\<lambda>l. tl_TransactionID l = tid) (t_lines d)"

definition GetTransactionLines :: "uuid \<Rightarrow> ('a finance_db_scheme, transaction_line list) op" where
  "GetTransactionLines tid = pool_stmt (query (lines_of tid))"

text \<open>The trigger \<open>check_double_entry_balance\<close> refuses to post what does not balance.\<close>

definition sum_debit :: "transaction_line list \<Rightarrow> int" where
  "sum_debit ls = (\<Sum>l\<leftarrow>ls. sint (tl_Debit l))"

definition sum_credit :: "transaction_line list \<Rightarrow> int" where
  "sum_credit ls = (\<Sum>l\<leftarrow>ls. sint (tl_Credit l))"

definition double_entry :: "uuid \<Rightarrow> 'a finance_db_scheme \<Rightarrow> bool" where
  "double_entry tid d \<longleftrightarrow> lines_of tid d \<noteq> [] \<and> sum_debit (lines_of tid d) = sum_credit (lines_of tid d)"

definition unbalanced :: go_error where
  "unbalanced = PlainError ''transaction is unbalanced: SUM(debit) != SUM(credit)'' None"

definition update_transaction :: "transaction \<Rightarrow> ('a finance_db_scheme, unit) stmt" where
  "update_transaction t d =
    (let p = (\<lambda>r. tn_OrganizationID r = tn_OrganizationID t \<and> tn_ID r = tn_ID t)
     in if \<exists>r \<in> set (t_transactions d). p r \<and> tn_IsPosted t \<and> \<not> tn_IsPosted r \<and> \<not> double_entry (tn_ID r) d
        then Inl unbalanced
        else Inr ((), d\<lparr>t_transactions := row_update p
               (\<lambda>r. r\<lparr>tn_IsPosted := tn_IsPosted t, tn_Description := tn_Description t\<rparr>) (t_transactions d)\<rparr>))"

definition UpdateTransaction :: "transaction \<Rightarrow> ('a finance_db_scheme, unit) op" where
  "UpdateTransaction t = tx_stmt (update_transaction t)"

text \<open>Invoices. A \<open>DATE\<close> column keeps the day of what is written to it.\<close>

definition date_column :: "time \<Rightarrow> time" where
  "date_column t = t - t mod (24 * 60 * 60 * 1000000000)"

definition repo_CreateInvoice :: "invoice \<Rightarrow> ('a finance_db_scheme, unit) op" where
  "repo_CreateInvoice i = pool_stmt (\<lambda>d.
     if fi_ID i \<in> fi_ID ` set (t_invoices d)
        \<or> (fi_OrganizationID i, fi_Number i) \<in> (\<lambda>x. (fi_OrganizationID x, fi_Number x)) ` set (t_invoices d)
     then Inl duplicate_key
     else if (case fi_CounterpartyID i of None \<Rightarrow> False | Some e \<Rightarrow> e \<notin> e_ID ` set (t_entities d))
     then Inl foreign_key_violation
     else Inr ((), d\<lparr>t_invoices := t_invoices d @
            [i\<lparr>fi_IssuedAt := map_option date_column (fi_IssuedAt i), fi_DueAt := map_option date_column (fi_DueAt i)\<rparr>]\<rparr>))"

definition find_invoice :: "uuid \<Rightarrow> uuid \<Rightarrow> 'a finance_db_scheme \<Rightarrow> invoice option" where
  "find_invoice org iid d = find (\<lambda>i. fi_OrganizationID i = org \<and> fi_ID i = iid) (t_invoices d)"

definition GetInvoice :: "uuid \<Rightarrow> uuid \<Rightarrow> ('a finance_db_scheme, invoice) op" where
  "GetInvoice org iid = pool_find (find_invoice org iid) (NewNotFound ''invoice not found'')"

definition UpdateInvoice :: "invoice \<Rightarrow> ('a finance_db_scheme, unit) op" where
  "UpdateInvoice i = pool_stmt (exec (\<lambda>d. d\<lparr>t_invoices :=
     row_update (\<lambda>r. fi_OrganizationID r = fi_OrganizationID i \<and> fi_ID r = fi_ID i)
       (\<lambda>r. r\<lparr>fi_Status := fi_Status i, fi_PaidAt := fi_PaidAt i\<rparr>) (t_invoices d)\<rparr>))"

text \<open>Periods: keyed by organization, year and month; the columns are \<open>INT\<close> and the month is checked.\<close>

definition period_key :: "finance_period \<Rightarrow> uuid \<times> int \<times> int" where
  "period_key p = (pd_OrganizationID p, pd_Year p, pd_Month p)"

definition find_period :: "uuid \<Rightarrow> int \<Rightarrow> int \<Rightarrow> 'a finance_db_scheme \<Rightarrow> finance_period option" where
  "find_period org y m d = row_get period_key (org, y, m) (t_periods d)"

definition GetPeriod :: "uuid \<Rightarrow> int \<Rightarrow> int \<Rightarrow> ('a finance_db_scheme, finance_period) op" where
  "GetPeriod org y m = pool_find (find_period org y m) (NewNotFound ''period not found'')"

definition UpsertPeriod :: "finance_period \<Rightarrow> ('a finance_db_scheme, unit) op" where
  "UpsertPeriod p = tx_stmt (\<lambda>d.
     if \<bar>pd_Year p\<bar> \<ge> 2 ^ 31 then Inl integer_out_of_range
     else if pd_Month p < 1 \<or> 12 < pd_Month p then Inl check_violation
     else Inr ((), d\<lparr>t_periods := row_put period_key p (t_periods d)\<rparr>))"

definition ListPeriods :: "uuid \<Rightarrow> ('a finance_db_scheme, finance_period list) op" where
  "ListPeriods org = pool_stmt (query (\<lambda>d.
     order_by (\<lambda>p q. pd_Year q < pd_Year p \<or> pd_Year p = pd_Year q \<and> pd_Month q \<le> pd_Month p)
       (filter (\<lambda>p. pd_OrganizationID p = org) (t_periods d))))"

definition repo_CreateCashOperation :: "cash_operation \<Rightarrow> ('a finance_db_scheme, unit) op" where
  "repo_CreateCashOperation c = tx_stmt (\<lambda>d.
     if co_Type c \<noteq> ''deposit'' \<and> co_Type c \<noteq> ''withdrawal'' \<or> sle (co_Amount c) 0 then Inl check_violation
     else row_insert t_cash (\<lambda>xs d. d\<lparr>t_cash := xs\<rparr>) co_ID c d)"

text \<open>
  Reports. \<open>left_join\<close> keeps a row that has no partner, \<open>inner_join\<close> drops it. A \<open>SUM\<close> of
  \<open>BIGINT\<close> is exact; scanning it into an \<open>int64\<close> fails when it does not fit.
\<close>

definition left_join :: "('x \<Rightarrow> 'y \<Rightarrow> bool) \<Rightarrow> 'x list \<Rightarrow> 'y list \<Rightarrow> ('x \<times> 'y option) list" where
  "left_join on xs ys = concat (map (\<lambda>x. case filter (on x) ys of
     [] \<Rightarrow> [(x, None)] | ms \<Rightarrow> map (\<lambda>y. (x, Some y)) ms) xs)"

definition inner_join :: "('x \<Rightarrow> 'y \<Rightarrow> bool) \<Rightarrow> 'x list \<Rightarrow> 'y list \<Rightarrow> ('x \<times> 'y) list" where
  "inner_join on xs ys = concat (map (\<lambda>x. map (\<lambda>y. (x, y)) (filter (on x) ys)) xs)"

definition scan_int64 :: "int \<Rightarrow> go_error + int64" where
  "scan_int64 n = (if - (2 ^ 63) \<le> n \<and> n < 2 ^ 63 then Inr (word_of_int n) else Inl bigint_out_of_range)"

fun scan_rows :: "('r \<Rightarrow> go_error + 's) \<Rightarrow> 'r list \<Rightarrow> go_error + 's list" where
  "scan_rows f [] = Inr []"
| "scan_rows f (r # rs) =
     (case f r of Inl e \<Rightarrow> Inl e
      | Inr x \<Rightarrow> (case scan_rows f rs of Inl e \<Rightarrow> Inl e | Inr xs \<Rightarrow> Inr (x # xs)))"

definition report :: "('d \<Rightarrow> go_error + 's) \<Rightarrow> ('d, 's) op" where
  "report g = pool_stmt (\<lambda>d. case g d of Inl e \<Rightarrow> Inl e | Inr x \<Rightarrow> Inr (x, d))"

definition account_lines :: "account \<Rightarrow> 'a finance_db_scheme \<Rightarrow> transaction_line list" where
  "account_lines a d = filter (\<lambda>l. tl_AccountID l = ac_ID a \<and> tl_OrganizationID l = ac_OrganizationID a) (t_lines d)"

definition posted_until :: "civil \<Rightarrow> transaction_line \<Rightarrow> transaction \<Rightarrow> bool" where
  "posted_until date l t \<longleftrightarrow> tn_ID t = tl_TransactionID l \<and> tn_IsPosted t \<and> civil_le (tn_Date t) date"

definition trial_row :: "civil \<Rightarrow> 'a finance_db_scheme \<Rightarrow> account \<Rightarrow> go_error + trial_balance_row" where
  "trial_row date d a =
    (let ls = map fst (left_join (posted_until date) (account_lines a d) (t_transactions d))
     in case (scan_int64 (sum_debit ls), scan_int64 (sum_credit ls)) of
          (Inr debit, Inr credit) \<Rightarrow>
            Inr \<lparr>tb_AccountID = ac_ID a, tb_Code = ac_Code a, tb_Name = ac_Name a, tb_Debit = debit, tb_Credit = credit\<rparr>
        | (Inl e, _) \<Rightarrow> Inl e
        | (_, Inl e) \<Rightarrow> Inl e)"

definition GetTrialBalance :: "uuid \<Rightarrow> civil \<Rightarrow> ('a finance_db_scheme, trial_balance_row list) op" where
  "GetTrialBalance org date = report (\<lambda>d. scan_rows (trial_row date d)
     (order_by (\<lambda>a b. str_le (ac_Code a) (ac_Code b)) (filter (\<lambda>a. ac_OrganizationID a = org) (t_accounts d))))"

definition posted_between :: "civil \<Rightarrow> civil \<Rightarrow> transaction_line \<Rightarrow> transaction \<Rightarrow> bool" where
  "posted_between from to l t \<longleftrightarrow> tn_ID t = tl_TransactionID l \<and> tn_IsPosted t
     \<and> civil_le from (tn_Date t) \<and> civil_le (tn_Date t) to"

definition GetAccountBalance ::
  "uuid \<Rightarrow> uuid \<Rightarrow> civil \<Rightarrow> civil \<Rightarrow> ('a finance_db_scheme, account_balance) op" where
  "GetAccountBalance org aid from to = report (\<lambda>d.
    let ls = map fst (inner_join (posted_between from to)
               (filter (\<lambda>l. tl_OrganizationID l = org \<and> tl_AccountID l = aid) (t_lines d)) (t_transactions d))
    in case (scan_int64 (sum_debit ls), scan_int64 (sum_credit ls)) of
         (Inr debit, Inr credit) \<Rightarrow>
           Inr \<lparr>ab_AccountID = aid, ab_DebitTotal = debit, ab_CreditTotal = credit, ab_Balance = debit - credit\<rparr>
       | (Inl e, _) \<Rightarrow> Inl e
       | (_, Inl e) \<Rightarrow> Inl e)"

definition pnl_amount :: "account \<Rightarrow> transaction_line list \<Rightarrow> int" where
  "pnl_amount a ls = (\<Sum>l\<leftarrow>ls. if ac_Type a = ''revenue'' then sint (tl_Credit l) - sint (tl_Debit l)
                              else sint (tl_Debit l) - sint (tl_Credit l))"

definition pnl_lines :: "civil \<Rightarrow> civil \<Rightarrow> 'a finance_db_scheme \<Rightarrow> account \<Rightarrow> transaction_line list" where
  "pnl_lines from to d a = map fst (inner_join (posted_between from to) (account_lines a d) (t_transactions d))"

definition pnl_row_of :: "civil \<Rightarrow> civil \<Rightarrow> 'a finance_db_scheme \<Rightarrow> account \<Rightarrow> go_error + pnl_row" where
  "pnl_row_of from to d a =
    (case scan_int64 (pnl_amount a (pnl_lines from to d a)) of
       Inl e \<Rightarrow> Inl e
     | Inr amount \<Rightarrow> Inr \<lparr>pl_AccountID = ac_ID a, pl_Code = ac_Code a, pl_Name = ac_Name a,
                         pl_Type = ac_Type a, pl_Amount = amount\<rparr>)"

definition repo_GetProfitAndLoss :: "uuid \<Rightarrow> civil \<Rightarrow> civil \<Rightarrow> ('a finance_db_scheme, pnl_row list) op" where
  "repo_GetProfitAndLoss org from to = report (\<lambda>d. scan_rows (pnl_row_of from to d)
     (order_by (\<lambda>a b. ac_Type a \<noteq> ac_Type b \<and> str_le (ac_Type b) (ac_Type a)
                      \<or> ac_Type a = ac_Type b \<and> str_le (ac_Code a) (ac_Code b))
       (filter (\<lambda>a. ac_OrganizationID a = org \<and> (ac_Type a = ''revenue'' \<or> ac_Type a = ''expense'')
                    \<and> pnl_lines from to d a \<noteq> [] \<and> pnl_amount a (pnl_lines from to d a) \<noteq> 0) (t_accounts d))))"

section \<open>The service\<close>

definition finance_publishEvent :: "uuid \<Rightarrow> string \<Rightarrow> json \<Rightarrow> uuid option \<Rightarrow> ('a core_db_scheme, unit) op" where
  "finance_publishEvent org ty data actor =
    bnd new_uuid (\<lambda>evid.
    bnd now (\<lambda>t.
    publish \<lparr>ev_ID = evid, ev_OrganizationID = org, ev_EntityID = None, ev_Type = ty,
             ev_Data = marshal data, ev_ActorID = actor, ev_Timestamp = t, ev_Version = 0\<rparr>))"

definition SeedDefaultAccounts :: "uuid \<Rightarrow> ('a finance_db_scheme, unit) op" where
  "SeedDefaultAccounts org = with_tx (for_each DefaultAccounts (\<lambda>inp.
    bnd new_uuid (\<lambda>aid.
    bnd now (\<lambda>t.
    repo_CreateAccount \<lparr>ac_ID = aid, ac_OrganizationID = org, ac_Code = cai_Code inp, ac_Name = cai_Name inp,
      ac_Type = cai_Type inp, ac_ParentID = None, ac_IsSystem = True, ac_Currency = ''RUB'', ac_CreatedAt = t\<rparr>))))"

definition CreateAccount :: "uuid \<Rightarrow> create_account_input \<Rightarrow> ('a finance_db_scheme, account) op" where
  "CreateAccount org inp =
    bnd (guard (cai_Code inp = '''') (NewBadRequest ''code is required'')) (\<lambda>_.
    bnd (guard (cai_Name inp = '''') (NewBadRequest ''name is required'')) (\<lambda>_.
    bnd (guard (cai_Type inp \<notin> {''asset'', ''liability'', ''equity'', ''revenue'', ''expense''})
          (NewBadRequest ''type must be asset, liability, equity, revenue, or expense'')) (\<lambda>_.
    let currency = (if cai_Currency inp = '''' then ''RUB'' else cai_Currency inp) in
    bnd new_uuid (\<lambda>aid.
    bnd now (\<lambda>t.
    let a = \<lparr>ac_ID = aid, ac_OrganizationID = org, ac_Code = cai_Code inp, ac_Name = cai_Name inp,
             ac_Type = cai_Type inp, ac_ParentID = cai_ParentID inp, ac_IsSystem = False,
             ac_Currency = currency, ac_CreatedAt = t\<rparr> in
    bnd (with_tx (repo_CreateAccount a)) (\<lambda>_.
    ret a))))))"

definition DeleteAccount :: "uuid \<Rightarrow> uuid \<Rightarrow> ('a finance_db_scheme, unit) op" where
  "DeleteAccount org aid =
    bnd (GetAccount org aid) (\<lambda>a.
    bnd (guard (ac_IsSystem a) (NewConflict ''cannot delete system account'')) (\<lambda>_.
    bnd (HasTransactionLines org aid) (\<lambda>hasLines.
    bnd (guard hasLines (NewConflict ''cannot delete account with existing transaction lines'')) (\<lambda>_.
    repo_DeleteAccount org aid))))"

text \<open>An error of the read, whichever it is, counts as no record, and no record as open.\<close>

definition IsPeriodOpen :: "uuid \<Rightarrow> civil \<Rightarrow> ('a finance_db_scheme, bool) op" where
  "IsPeriodOpen org date =
    bnd (try_op (GetPeriod org (c_Year date) (c_Month date))) (\<lambda>r.
    ret (case r of Inl _ \<Rightarrow> True | Inr p \<Rightarrow> pd_Status p \<noteq> ''closed''))"

definition check_line :: "create_line_input \<Rightarrow> ('d, unit) op" where
  "check_line l =
    bnd (guard (slt (cli_Debit l) 0 \<or> slt (cli_Credit l) 0)
          (NewBadRequest ''debit and credit must be non-negative'')) (\<lambda>_.
    bnd (guard (slt 0 (cli_Debit l) \<and> slt 0 (cli_Credit l))
          (NewBadRequest ''a line cannot have both debit and credit'')) (\<lambda>_.
    guard (cli_Debit l = 0 \<and> cli_Credit l = 0) (NewBadRequest ''a line must have either debit or credit'')))"

definition total_debit :: "create_line_input list \<Rightarrow> int64" where
  "total_debit ls = sum_list (map cli_Debit ls)"

definition total_credit :: "create_line_input list \<Rightarrow> int64" where
  "total_credit ls = sum_list (map cli_Credit ls)"

definition new_txn_line :: "uuid \<Rightarrow> uuid \<Rightarrow> create_line_input \<Rightarrow> ('d, transaction_line) op" where
  "new_txn_line org tid l =
    bnd new_uuid (\<lambda>lid.
    ret \<lparr>tl_ID = lid, tl_TransactionID = tid, tl_OrganizationID = org, tl_AccountID = cli_AccountID l,
         tl_Debit = cli_Debit l, tl_Credit = cli_Credit l, tl_Description = cli_Description l,
         tl_EntityID = cli_EntityID l\<rparr>)"

definition new_transaction ::
  "uuid \<Rightarrow> uuid \<Rightarrow> civil \<Rightarrow> uuid option \<Rightarrow> time \<Rightarrow> create_transaction_input \<Rightarrow> transaction" where
  "new_transaction org tid date actor t inp =
    \<lparr>tn_ID = tid, tn_OrganizationID = org, tn_Date = date, tn_Description = cti_Description inp,
     tn_ReferenceType = cti_ReferenceType inp, tn_ReferenceID = cti_ReferenceID inp, tn_IsPosted = False,
     tn_ActorID = actor, tn_CreatedAt = t, tn_Lines = []\<rparr>"

definition period_closed :: "civil \<Rightarrow> go_error" where
  "period_closed date = NewConflict (''accounting period is closed for '' @ format_month date)"

definition CreateTransaction ::
  "uuid \<Rightarrow> create_transaction_input \<Rightarrow> uuid option \<Rightarrow> ('a finance_db_scheme, transaction) op" where
  "CreateTransaction org inp actor =
    bnd (guard (length (cti_Lines inp) < 2) (NewBadRequest ''at least two lines are required'')) (\<lambda>_.
    bnd (case parse_date (cti_Date inp) of
           None \<Rightarrow> fail (NewBadRequest ''invalid date format, expected YYYY-MM-DD'')
         | Some date \<Rightarrow> ret date) (\<lambda>date.
    bnd (IsPeriodOpen org date) (\<lambda>open.
    bnd (guard (\<not> open) (period_closed date)) (\<lambda>_.
    bnd (for_each (cti_Lines inp) check_line) (\<lambda>_.
    bnd (guard (total_debit (cti_Lines inp) \<noteq> total_credit (cti_Lines inp))
          (NewBadRequest ''sum of debits must equal sum of credits'')) (\<lambda>_.
    bnd new_uuid (\<lambda>tid.
    bnd now (\<lambda>t.
    let txn = new_transaction org tid date actor t inp in
    bnd (map_op (new_txn_line org tid) (cti_Lines inp)) (\<lambda>lines.
    bnd (with_tx (bnd (repo_CreateTransaction txn) (\<lambda>_. CreateTransactionLines lines))) (\<lambda>_.
    let txn = txn\<lparr>tn_Lines := lines\<rparr> in
    bnd (finance_publishEvent org ''finance.transaction.created''
           (JObj [(''transaction_id'', JUuid tid), (''date'', JStr (cti_Date inp)),
                  (''total'', jint64 (total_debit (cti_Lines inp)))]) actor) (\<lambda>_.
    ret txn)))))))))))"

definition GetTransaction :: "uuid \<Rightarrow> uuid \<Rightarrow> ('a finance_db_scheme, transaction) op" where
  "GetTransaction org tid =
    bnd (repo_GetTransaction org tid) (\<lambda>txn.
    bnd (GetTransactionLines tid) (\<lambda>lines.
    ret (txn\<lparr>tn_Lines := lines\<rparr>)))"

definition PostTransaction :: "uuid \<Rightarrow> uuid \<Rightarrow> uuid option \<Rightarrow> ('a finance_db_scheme, unit) op" where
  "PostTransaction org tid actor =
    bnd (repo_GetTransaction org tid) (\<lambda>txn.
    bnd (guard (tn_IsPosted txn) (NewConflict ''transaction is already posted'')) (\<lambda>_.
    bnd (with_tx (UpdateTransaction (txn\<lparr>tn_IsPosted := True\<rparr>))) (\<lambda>_.
    finance_publishEvent org ''finance.transaction.posted'' (JObj [(''transaction_id'', JUuid tid)]) actor)))"

definition CreateInvoice :: "uuid \<Rightarrow> create_invoice_input \<Rightarrow> ('a finance_db_scheme, invoice) op" where
  "CreateInvoice org inp =
    bnd (guard (cvi_Number inp = '''') (NewBadRequest ''number is required'')) (\<lambda>_.
    bnd (guard (cvi_Type inp \<noteq> ''incoming'' \<and> cvi_Type inp \<noteq> ''outgoing'')
          (NewBadRequest ''type must be incoming or outgoing'')) (\<lambda>_.
    let currency = (if cvi_Currency inp = '''' then ''RUB'' else cvi_Currency inp) in
    bnd new_uuid (\<lambda>iid.
    bnd now (\<lambda>t.
    let i = \<lparr>fi_ID = iid, fi_OrganizationID = org, fi_Number = cvi_Number inp, fi_Type = cvi_Type inp,
             fi_CounterpartyID = cvi_CounterpartyID inp, fi_OrderID = cvi_OrderID inp,
             fi_Subtotal = cvi_Subtotal inp, fi_Tax = cvi_Tax inp, fi_Total = cvi_Total inp,
             fi_Currency = currency, fi_Status = ''draft'', fi_IssuedAt = cvi_IssuedAt inp,
             fi_DueAt = cvi_DueAt inp, fi_PaidAt = None, fi_CreatedAt = t\<rparr> in
    bnd (repo_CreateInvoice i) (\<lambda>_.
    ret i)))))"

definition MarkInvoicePaid :: "uuid \<Rightarrow> uuid \<Rightarrow> ('a finance_db_scheme, unit) op" where
  "MarkInvoicePaid org iid =
    bnd (GetInvoice org iid) (\<lambda>i.
    bnd (guard (fi_Status i = ''paid'') (NewConflict ''invoice is already paid'')) (\<lambda>_.
    bnd now (\<lambda>t.
    UpdateInvoice (i\<lparr>fi_Status := ''paid'', fi_PaidAt := Some t\<rparr>))))"

definition CreateAutoTransaction ::
  "uuid \<Rightarrow> string \<Rightarrow> string \<Rightarrow> string \<Rightarrow> string \<Rightarrow> int64 \<Rightarrow> string option \<Rightarrow> uuid option \<Rightarrow>
   ('a finance_db_scheme, unit) op" where
  "CreateAutoTransaction org date description debitCode creditCode amount refType refID =
    bnd (GetAccountByCode org debitCode) (\<lambda>debitAcct.
    bnd (GetAccountByCode org creditCode) (\<lambda>creditAcct.
    bnd (CreateTransaction org
           \<lparr>cti_Date = date, cti_Description = description, cti_ReferenceType = refType, cti_ReferenceID = refID,
            cti_Lines = [\<lparr>cli_AccountID = ac_ID debitAcct, cli_Debit = amount, cli_Credit = 0,
                          cli_Description = '''', cli_EntityID = None\<rparr>,
                         \<lparr>cli_AccountID = ac_ID creditAcct, cli_Debit = 0, cli_Credit = amount,
                          cli_Description = '''', cli_EntityID = None\<rparr>]\<rparr> None) (\<lambda>txn.
    PostTransaction org (tn_ID txn) None)))"

definition blank_period :: "uuid \<Rightarrow> int \<Rightarrow> int \<Rightarrow> finance_period" where
  "blank_period org y m = \<lparr>pd_OrganizationID = org, pd_Year = y, pd_Month = m, pd_Status = '''',
     pd_ClosedAt = None, pd_ClosedBy = None\<rparr>"

definition ClosePeriod :: "uuid \<Rightarrow> int \<Rightarrow> int \<Rightarrow> uuid option \<Rightarrow> ('a finance_db_scheme, finance_period) op" where
  "ClosePeriod org y m actor =
    bnd (guard (m < 1 \<or> 12 < m) (NewBadRequest ''month must be between 1 and 12'')) (\<lambda>_.
    bnd (try_op (GetPeriod org y m)) (\<lambda>r.
    let p = (case r of Inl _ \<Rightarrow> blank_period org y m | Inr p \<Rightarrow> p) in
    bnd (guard (pd_Status p = ''closed'') (NewConflict ''period is already closed'')) (\<lambda>_.
    bnd now (\<lambda>t.
    let p = p\<lparr>pd_Status := ''closed'', pd_ClosedAt := Some t, pd_ClosedBy := actor\<rparr> in
    bnd (with_tx (UpsertPeriod p)) (\<lambda>_.
    bnd (finance_publishEvent org ''finance.period.closed'' (JObj [(''year'', JInt y), (''month'', JInt m)]) actor) (\<lambda>_.
    ret p))))))"

definition ReopenPeriod :: "uuid \<Rightarrow> int \<Rightarrow> int \<Rightarrow> ('a finance_db_scheme, finance_period) op" where
  "ReopenPeriod org y m =
    bnd (try_op (GetPeriod org y m)) (\<lambda>r.
    case r of
      Inl _ \<Rightarrow> fail (NewNotFound ''period not found'')
    | Inr p \<Rightarrow>
        bnd (guard (pd_Status p \<noteq> ''closed'') (NewConflict ''period is not closed'')) (\<lambda>_.
        let p = p\<lparr>pd_Status := ''open'', pd_ClosedAt := None, pd_ClosedBy := None\<rparr> in
        bnd (with_tx (UpsertPeriod p)) (\<lambda>_.
        ret p)))"

definition total_of_type :: "string \<Rightarrow> pnl_row list \<Rightarrow> int64" where
  "total_of_type ty rows = sum_list (map pl_Amount (filter (\<lambda>r. pl_Type r = ty) rows))"

definition GetProfitAndLoss :: "uuid \<Rightarrow> civil \<Rightarrow> civil \<Rightarrow> ('a finance_db_scheme, pnl_report) op" where
  "GetProfitAndLoss org from to =
    bnd (repo_GetProfitAndLoss org from to) (\<lambda>rows.
    let totalRevenue = total_of_type ''revenue'' rows; totalExpense = total_of_type ''expense'' rows in
    ret \<lparr>pr_From = from, pr_To = to, pr_Rows = rows, pr_TotalRevenue = totalRevenue,
         pr_TotalExpense = totalExpense, pr_NetProfit = totalRevenue - totalExpense\<rparr>)"

text \<open>The debit and the credit account of a cash operation: other income and expense for cash itself.\<close>

definition cash_codes :: "string \<Rightarrow> string \<Rightarrow> string \<times> string" where
  "cash_codes ty code =
    (let (debit, credit) = (if ty = ''withdrawal'' then (code, ''50'') else (''50'', code))
     in if debit = credit then (if ty = ''deposit'' then (debit, ''91'') else (''91'', credit))
        else (debit, credit))"

definition CreateCashOperation ::
  "uuid \<Rightarrow> create_cash_input \<Rightarrow> uuid option \<Rightarrow> ('a finance_db_scheme, cash_operation) op" where
  "CreateCashOperation org inp actor =
    bnd (guard (cci_Type inp \<noteq> ''deposit'' \<and> cci_Type inp \<noteq> ''withdrawal'')
          (NewBadRequest ''type must be deposit or withdrawal'')) (\<lambda>_.
    bnd (guard (sle (cci_Amount inp) 0) (NewBadRequest ''amount must be positive'')) (\<lambda>_.
    let code = (if cci_AccountCode inp = '''' then ''50'' else cci_AccountCode inp) in
    bnd now (\<lambda>date.
    bnd (IsPeriodOpen org (civil_of_time date)) (\<lambda>open.
    bnd (guard (\<not> open) (period_closed (civil_of_time date))) (\<lambda>_.
    bnd new_uuid (\<lambda>cid.
    bnd now (\<lambda>t.
    let c = \<lparr>co_ID = cid, co_OrganizationID = org, co_Type = cci_Type inp, co_Amount = cci_Amount inp,
             co_Description = cci_Description inp, co_AccountCode = code, co_ActorID = actor, co_CreatedAt = t\<rparr>;
        codes = cash_codes (cci_Type inp) code in
    bnd (with_tx (repo_CreateCashOperation c)) (\<lambda>_.
    bnd (try_op (CreateAutoTransaction org (format_date (civil_of_time t)) (''Cash: '' @ cci_Description inp)
           (fst codes) (snd codes) (cci_Amount inp) None None)) (\<lambda>_.
    bnd (finance_publishEvent org (''finance.cash.'' @ cci_Type inp)
           (JObj [(''operation_id'', JUuid cid), (''amount'', jint64 (cci_Amount inp)),
                  (''type'', JStr (cci_Type inp))]) actor) (\<lambda>_.
    ret c))))))))))"

end
