(* ===== verification/Journal.thy ===== *)
theory Journal
  imports Finance Views
begin

text \<open>
  The journal as an abstract machine, and the proof that the finance service drives it: a
  journal is the transactions and their lines; it moves by recording a balanced entry of two
  lines or more under a new identifier, and by posting an entry whose lines balance exactly.
\<close>

section \<open>The machine\<close>

type_synonym journal = "transaction list \<times> transaction_line list"

definition journal :: "'a finance_db_scheme \<Rightarrow> journal" where
  "journal d = (t_transactions d, t_lines d)"

definition one_sided :: "transaction_line \<Rightarrow> bool" where
  "one_sided l \<longleftrightarrow> 0 \<le> sint (tl_Debit l) \<and> 0 \<le> sint (tl_Credit l) \<and> (tl_Debit l = 0 \<longleftrightarrow> tl_Credit l \<noteq> 0)"

definition entry_lines :: "transaction \<Rightarrow> transaction_line list \<Rightarrow> bool" where
  "entry_lines t ls \<longleftrightarrow> 2 \<le> length ls
     \<and> list_all (\<lambda>l. tl_TransactionID l = tn_ID t \<and> tl_OrganizationID l = tn_OrganizationID t \<and> one_sided l) ls
     \<and> sum_list (map tl_Debit ls) = sum_list (map tl_Credit ls)"

definition exact :: "transaction_line list \<Rightarrow> bool" where
  "exact ls \<longleftrightarrow> sum_debit ls = sum_credit ls"

inductive journal_step :: "journal \<Rightarrow> journal \<Rightarrow> bool" where
  enter: "tn_ID t \<notin> tn_ID ` set ts \<Longrightarrow> \<not> tn_IsPosted t \<Longrightarrow> entry_lines t new \<Longrightarrow>
     journal_step (ts, ls) (ts @ [t], ls @ new)"
| post: "exact (filter (\<lambda>l. tl_TransactionID l = tid) ls) \<Longrightarrow>
     journal_step (ts, ls) (row_update (\<lambda>t. tn_ID t = tid) (\<lambda>t. t\<lparr>tn_IsPosted := True\<rparr>) ts, ls)"

inductive_cases journal_stepE: "journal_step j j'"

text \<open>What every reachable journal satisfies.\<close>

definition lines_in :: "uuid \<Rightarrow> transaction_line list \<Rightarrow> transaction_line list" where
  "lines_in tid ls = filter (\<lambda>l. tl_TransactionID l = tid) ls"

definition journal_ok :: "journal \<Rightarrow> bool" where
  "journal_ok j \<longleftrightarrow> distinct (map tn_ID (fst j))
     \<and> (\<forall>l \<in> set (snd j). tl_TransactionID l \<in> tn_ID ` set (fst j))
     \<and> (\<forall>t \<in> set (fst j). entry_lines t (lines_in (tn_ID t) (snd j))
          \<and> (tn_IsPosted t \<longrightarrow> exact (lines_in (tn_ID t) (snd j))))"

lemma lines_in_append: "lines_in tid (ls @ new) = lines_in tid ls @ lines_in tid new"
  by (simp add: lines_in_def)

lemma lines_in_entry:
  "entry_lines t new \<Longrightarrow> lines_in tid new = (if tid = tn_ID t then new else [])"
  by (auto simp: lines_in_def entry_lines_def list_all_iff filter_empty_conv filter_id_conv)

lemma lines_in_unused: "(\<forall>l \<in> set ls. tl_TransactionID l \<in> A) \<Longrightarrow> tid \<notin> A \<Longrightarrow> lines_in tid ls = []"
  by (auto simp: lines_in_def filter_empty_conv)

lemma journal_step_ok: "journal_step j j' \<Longrightarrow> journal_ok j \<Longrightarrow> journal_ok j'"
proof (induction rule: journal_step.induct)
  case (enter t ts new ls)
  have old: "lines_in (tn_ID x) new = []" if "x \<in> set ts" for x
    using enter(1,3) that by (metis imageI lines_in_entry)
  have "lines_in (tn_ID t) ls = []"
    using enter(1,4) by (intro lines_in_unused) (auto simp: journal_ok_def)
  moreover have "tl_TransactionID l = tn_ID t" if "l \<in> set new" for l
    using enter(3) that by (auto simp: entry_lines_def list_all_iff)
  ultimately show ?case
    using enter old by (auto simp: journal_ok_def lines_in_append lines_in_entry)
next
  case (post tid ls ts)
  let ?ts = "row_update (\<lambda>t. tn_ID t = tid) (\<lambda>t. t\<lparr>tn_IsPosted := True\<rparr>) ts"
  have ids: "map tn_ID ?ts = map tn_ID ts"
    by (simp add: row_update_def)
  then have set_ids: "tn_ID ` set ?ts = tn_ID ` set ts"
    by (metis list.set_map)
  show ?case
    using post unfolding journal_ok_def fst_conv snd_conv ids set_ids
    by (auto simp: row_update_def entry_lines_def lines_in_def)
qed

lemma journal_steps_ok: "journal_step\<^sup>*\<^sup>* j j' \<Longrightarrow> journal_ok j \<Longrightarrow> journal_ok j'"
  by (induction rule: rtranclp_induct) (auto intro: journal_step_ok)

text \<open>Entries are never removed or changed, a posted one stays posted, and its lines stay.\<close>

definition kept_in :: "transaction \<Rightarrow> transaction list \<Rightarrow> bool" where
  "kept_in t ts \<longleftrightarrow> t \<in> set ts \<or> t\<lparr>tn_IsPosted := True\<rparr> \<in> set ts"

lemma journal_step_keeps:
  "journal_step j j' \<Longrightarrow> journal_ok j \<Longrightarrow> t \<in> set (fst j) \<Longrightarrow>
     kept_in t (fst j') \<and> lines_in (tn_ID t) (snd j') = lines_in (tn_ID t) (snd j)"
proof (induction rule: journal_step.induct)
  case (enter t' ts new ls)
  then have "lines_in (tn_ID t) new = []" by (metis fst_conv imageI lines_in_entry)
  with enter show ?case by (simp add: kept_in_def lines_in_append)
next
  case (post tid ls ts)
  then show ?case by (auto simp: kept_in_def row_update_def)
qed

lemma journal_steps_keep:
  "journal_step\<^sup>*\<^sup>* j j' \<Longrightarrow> journal_ok j \<Longrightarrow> t \<in> set (fst j) \<Longrightarrow>
     kept_in t (fst j') \<and> lines_in (tn_ID t) (snd j') = lines_in (tn_ID t) (snd j)"
proof (induction rule: rtranclp_induct)
  case base
  then show ?case by (simp add: kept_in_def)
next
  case (step j' j'')
  then have ok: "journal_ok j'" by (auto intro: journal_steps_ok)
  from step obtain t' where t': "t' \<in> set (fst j')" "t' = t \<or> t' = t\<lparr>tn_IsPosted := True\<rparr>"
    by (auto simp: kept_in_def)
  then have "tn_ID t' = tn_ID t" by auto
  with t' step journal_step_keeps [OF step.hyps(2) ok t'(1)] show ?case
    by (auto simp: kept_in_def)
qed

section \<open>The tables\<close>

definition accounts_ok :: "'a finance_db_scheme \<Rightarrow> bool" where
  "accounts_ok d \<longleftrightarrow> distinct (map ac_ID (t_accounts d))
     \<and> (\<forall>l \<in> set (t_lines d). tl_AccountID l \<in> ac_ID ` set (t_accounts d))"

definition books_ok :: "'a finance_db_scheme \<Rightarrow> bool" where
  "books_ok d \<longleftrightarrow> journal_ok (journal d) \<and> accounts_ok d"

definition books_move :: "'a finance_db_scheme \<Rightarrow> 'a finance_db_scheme \<Rightarrow> bool" where
  "books_move d d' \<longleftrightarrow> (books_ok d \<longrightarrow> books_ok d' \<and> journal_step\<^sup>*\<^sup>* (journal d) (journal d'))"

interpretation books: transition books_move
  by unfold_locales (auto simp: books_move_def)

lemma journal_frame [simp]:
  "journal (d\<lparr>t_events := es\<rparr>) = journal d" "journal (d\<lparr>t_accounts := as\<rparr>) = journal d"
  "journal (d\<lparr>t_invoices := is'\<rparr>) = journal d" "journal (d\<lparr>t_periods := ps\<rparr>) = journal d"
  "journal (d\<lparr>t_cash := cs\<rparr>) = journal d"
  by (simp_all add: journal_def)

lemma books_same:
  "journal d' = journal d \<Longrightarrow> t_accounts d' = t_accounts d \<Longrightarrow> books_move d d'"
  by (auto simp: books_move_def books_ok_def accounts_ok_def journal_def)

lemma books_accounts:
  "(distinct (map ac_ID (t_accounts d)) \<Longrightarrow> distinct (map ac_ID as)) \<Longrightarrow>
   (\<forall>l \<in> set (t_lines d). tl_AccountID l \<in> ac_ID ` set (t_accounts d) \<longrightarrow> tl_AccountID l \<in> ac_ID ` set as) \<Longrightarrow>
     books_move d (d\<lparr>t_accounts := as\<rparr>)"
  by (auto simp: books_move_def books_ok_def accounts_ok_def)

lemma books_removed:
  assumes "\<And>a. a \<in> set (t_accounts d) \<Longrightarrow> \<not> q a \<Longrightarrow> ac_ID a \<notin> tl_AccountID ` set (t_lines d)"
  shows "books_move d (d\<lparr>t_accounts := filter q (t_accounts d)\<rparr>)"
proof (rule books_accounts)
  show "\<forall>l \<in> set (t_lines d). tl_AccountID l \<in> ac_ID ` set (t_accounts d) \<longrightarrow>
      tl_AccountID l \<in> ac_ID ` set (filter q (t_accounts d))"
    using assms by (auto simp: image_iff) metis
qed (simp add: distinct_map_filter)

lemma books_publish: "moves books_move (publish ev)"
  by (intro moves_publish books_same) simp_all

section \<open>Entering a transaction\<close>

definition line_ok :: "create_line_input \<Rightarrow> bool" where
  "line_ok l \<longleftrightarrow> 0 \<le> sint (cli_Debit l) \<and> 0 \<le> sint (cli_Credit l) \<and> (cli_Debit l = 0 \<longleftrightarrow> cli_Credit l \<noteq> 0)"

lemma pos_sint: "0 \<le> sint (a :: int64) \<Longrightarrow> 0 < sint a \<longleftrightarrow> a \<noteq> 0"
  using signed_word_eqI [of a 0] by (auto simp: order_le_less)

lemma wp_check_line: "line_ok l \<Longrightarrow> wp env (check_line l) Q E w \<longleftrightarrow> Q () w"
  by (simp add: check_line_def wp_bnd wp_guard line_ok_def slt_def pos_sint)

lemma wp_check_bad: "\<not> line_ok l \<Longrightarrow> (\<And>e. GetCode e = CodeBadRequest \<Longrightarrow> E e w) \<Longrightarrow> wp env (check_line l) Q E w"
  by (auto simp: check_line_def wp_bnd wp_guard line_ok_def slt_def pos_sint)

lemma wp_check_lines:
  assumes "list_all line_ok ls \<Longrightarrow> Q () w"
    and "\<And>e. \<not> list_all line_ok ls \<Longrightarrow> GetCode e = CodeBadRequest \<Longrightarrow> E e w"
  shows "wp env (for_each ls check_line) Q E w"
  using assms
proof (induction ls)
  case Nil
  then show ?case by (simp add: wp_ret)
next
  case (Cons l ls)
  show ?case
  proof (cases "line_ok l")
    case True
    then show ?thesis
      unfolding for_each.simps wp_bnd
      by (simp add: wp_check_line Cons.IH Cons.prems)
  next
    case False
    then show ?thesis
      unfolding for_each.simps wp_bnd by (intro wp_check_bad Cons.prems) simp_all
  qed
qed

definition built_line :: "uuid \<Rightarrow> uuid \<Rightarrow> create_line_input \<Rightarrow> transaction_line \<Rightarrow> bool" where
  "built_line org tid i l \<longleftrightarrow> tl_TransactionID l = tid \<and> tl_OrganizationID l = org
     \<and> tl_AccountID l = cli_AccountID i \<and> tl_Debit l = cli_Debit i \<and> tl_Credit l = cli_Credit i
     \<and> tl_EntityID l = cli_EntityID i"

lemma view_txn_lines:
  assumes "\<And>lines w'. list_all2 (built_line org tid) ls lines \<Longrightarrow>
      map tl_ID lines = map (uuids env) [tick w ..< tick w + length ls] \<Longrightarrow>
      same_outside w w' \<Longrightarrow> view w' = view w \<Longrightarrow> pending w' = pending w \<Longrightarrow> Q lines w'"
  shows "wp env (map_op (new_txn_line org tid) ls) Q E w"
  using assms
proof (induction ls arbitrary: w Q)
  case Nil
  then show ?case by (simp add: wp_ret)
next
  case (Cons l ls)
  show ?case
    unfolding map_op.simps wp_bnd new_txn_line_def
    apply (intro wpI_bnd wpI_new_uuid wpI_ret)
    apply (rule Cons.IH [unfolded new_txn_line_def])
    apply (intro wpI_ret Cons.prems)
        apply (auto simp: built_line_def same_outside_def view_def upt_rec [of "tick w"])
    done
qed

lemma built_totals:
  assumes "list_all2 (built_line org tid) ls lines"
  shows "map tl_Debit lines = map cli_Debit ls" "map tl_Credit lines = map cli_Credit ls"
    "length lines = length ls" "tl_AccountID ` set lines = cli_AccountID ` set ls"
  using assms by (induction rule: list_all2_induct) (auto simp: built_line_def)

lemma built_entry:
  assumes "list_all2 (built_line (tn_OrganizationID t) (tn_ID t)) ls lines" and "list_all line_ok ls"
    and "2 \<le> length ls" and "total_debit ls = total_credit ls"
  shows "entry_lines t lines"
proof -
  have "list_all (\<lambda>l. tl_TransactionID l = tn_ID t \<and> tl_OrganizationID l = tn_OrganizationID t \<and> one_sided l) lines"
    using assms(1,2) by (induction rule: list_all2_induct) (auto simp: built_line_def line_ok_def one_sided_def)
  then show ?thesis
    using assms(3,4) built_totals [OF assms(1)] by (simp add: entry_lines_def total_debit_def total_credit_def)
qed

lemma view_CreateTransactionLines:
  assumes "\<And>e w'. same_outside w w' \<Longrightarrow> E e w'"
    and "\<And>w'. same_outside w w' \<Longrightarrow> view w' = (view w)\<lparr>t_lines := t_lines (view w) @ lines\<rparr> \<Longrightarrow>
      tl_AccountID ` set lines \<subseteq> ac_ID ` set (t_accounts (view w)) \<Longrightarrow> Q () w'"
  shows "wp env (CreateTransactionLines lines) Q E w"
proof -
  let ?I = "\<lambda>ls d. d = (view w)\<lparr>t_lines := t_lines (view w) @ ls\<rparr>
    \<and> tl_AccountID ` set ls \<subseteq> ac_ID ` set (t_accounts (view w))"
  have "wp env (for_each lines (\<lambda>l. tx_stmt (insert_line l))) Q E w"
  proof (rule view_for_each [where I = ?I])
    fix ys x zs and w' :: "'a finance_db_scheme world"
    assume "?I ys (view w')"
    then show "wp env (tx_stmt (insert_line x)) (\<lambda>_ w''. ?I (ys @ [x]) (view w'') \<and> same_outside w' w'')
      (\<lambda>_ w''. same_outside w' w'') w'"
      by (intro view_tx_stmt) (auto simp: insert_line_def line_refs_def split: if_splits)
  qed (use assms in auto)
  then show ?thesis by (simp add: CreateTransactionLines_def)
qed

lemma books_entered:
  assumes "entry_lines t lines" and "\<not> tn_IsPosted t" and "tn_ID t \<notin> tn_ID ` set (t_transactions d)"
    and "tl_AccountID ` set lines \<subseteq> ac_ID ` set (t_accounts d)"
  shows "books_move d (d\<lparr>t_transactions := t_transactions d @ [t], t_lines := t_lines d @ lines\<rparr>)"
proof -
  let ?d = "d\<lparr>t_transactions := t_transactions d @ [t], t_lines := t_lines d @ lines\<rparr>"
  have step: "journal_step (journal d) (journal ?d)"
    using assms(1-3) by (simp add: journal_def journal_step.enter)
  moreover have "accounts_ok ?d" if "accounts_ok d"
    using that assms(4) by (auto simp: accounts_ok_def)
  ultimately show ?thesis
    by (auto simp: books_move_def books_ok_def intro: journal_step_ok)
qed

lemma books_created:
  assumes "list_all2 (built_line org tid) ls lines" and "list_all line_ok ls" and "\<not> length ls < 2"
    and "total_debit ls = total_credit ls"
    and "tn_ID (new_transaction org tid date actor t inp) \<notin> tn_ID ` set (t_transactions d)"
    and "tl_AccountID ` set lines \<subseteq> ac_ID ` set (t_accounts d)"
  shows "books_move d (d\<lparr>t_transactions := t_transactions d @ [new_transaction org tid date actor t inp\<lparr>tn_Lines := []\<rparr>],
    t_lines := t_lines d @ lines, t_events := es\<rparr>)"
proof -
  let ?t = "new_transaction org tid date actor t inp\<lparr>tn_Lines := []\<rparr>"
  have "entry_lines ?t lines"
    using assms(1-4) by (intro built_entry) (simp_all add: new_transaction_def)
  then have "books_move d (d\<lparr>t_transactions := t_transactions d @ [?t], t_lines := t_lines d @ lines\<rparr>)"
    using assms(5,6) by (intro books_entered) (simp_all add: new_transaction_def)
  then show ?thesis
    by (rule books.R_trans) (rule books_same; simp add: journal_def)
qed

lemma reads_IsPeriodOpen: "reads (IsPeriodOpen org date)"
  unfolding IsPeriodOpen_def GetPeriod_def by (intro reads_intros)

lemma CreateTransaction_moves: "moves books_move (CreateTransaction org inp actor)"
  unfolding moves_wp
proof (intro allI impI)
  fix env and w :: "'a finance_db_scheme world"
  assume w: "pending w = id"
  have base: "books_move d d" for d :: "'a finance_db_scheme" by (rule books.R_refl)
  show "wp env (CreateTransaction org inp actor)
     (\<lambda>_ w'. pending w' = id \<and> books_move (committed w) (committed w'))
     (\<lambda>_ w'. pending w' = id \<and> books_move (committed w) (committed w')) w"
    unfolding CreateTransaction_def Let_def finance_publishEvent_def repo_CreateTransaction_def
    apply (intro view_rules view_reads [OF reads_IsPeriodOpen] wp_check_lines view_txn_lines
        view_CreateTransactionLines allI impI conjI)
    using w apply (simp_all add: same_outside_def base)
    apply (erule (5) books_created)
    done
qed

section \<open>The other methods\<close>

lemma books_post:
  assumes "find_transaction org tid d = Some t" and "\<not> tn_IsPosted t"
    and "update_transaction (t\<lparr>tn_IsPosted := True\<rparr>) d = Inr (u, d')"
  shows "books_move d d'"
proof (cases "books_ok d")
  case True
  let ?p = "\<lambda>r. tn_OrganizationID r = tn_OrganizationID t \<and> tn_ID r = tn_ID t"
  let ?f = "\<lambda>r. r\<lparr>tn_IsPosted := True, tn_Description := tn_Description t\<rparr>"
  have t: "t \<in> set (t_transactions d)" "tn_OrganizationID t = org" "tn_ID t = tid"
    using assms(1) by (auto simp: find_transaction_def dest: find_SomeD)
  have only: "r = t" if "r \<in> set (t_transactions d)" "tn_ID r = tn_ID t" for r
    using True t(1) that by (auto simp: books_ok_def journal_ok_def journal_def distinct_map inj_on_def)
  have d': "d' = d\<lparr>t_transactions := row_update ?p ?f (t_transactions d)\<rparr>"
    and bal: "exact (filter (\<lambda>l. tl_TransactionID l = tid) (t_lines d))"
    using assms(2,3) t
    by (auto simp: update_transaction_def Let_def exact_def double_entry_def lines_of_def split: if_splits)
  have "row_update ?p ?f (t_transactions d)
    = row_update (\<lambda>r. tn_ID r = tid) (\<lambda>r. r\<lparr>tn_IsPosted := True\<rparr>) (t_transactions d)"
    unfolding row_update_def using t(3) by (intro map_cong) (auto dest: only)
  with bal have "journal_step (journal d) (journal d')"
    by (simp add: d' journal_def journal_step.post)
  moreover have "accounts_ok d'" using True d' by (simp add: books_ok_def accounts_ok_def)
  ultimately show ?thesis
    by (auto simp: books_move_def books_ok_def intro: journal_step_ok)
qed (simp add: books_move_def)

lemma PostTransaction_moves: "moves books_move (PostTransaction org tid actor)"
  unfolding moves_wp
proof (intro allI impI)
  fix env and w :: "'a finance_db_scheme world"
  assume w: "pending w = id"
  have base: "books_move d d" for d :: "'a finance_db_scheme" by (rule books.R_refl)
  have evs: "books_move d (d'\<lparr>t_events := es\<rparr>)" if "books_move d d'" for d d' :: "'a finance_db_scheme" and es
    using that by (rule books.R_trans) (rule books_same; simp)
  show "wp env (PostTransaction org tid actor)
     (\<lambda>_ w'. pending w' = id \<and> books_move (committed w) (committed w'))
     (\<lambda>_ w'. pending w' = id \<and> books_move (committed w) (committed w')) w"
    unfolding PostTransaction_def Let_def finance_publishEvent_def repo_GetTransaction_def UpdateTransaction_def
    apply (intro view_rules allI impI conjI)
    using w apply (simp_all add: same_outside_def base)
    apply (rule evs, erule (2) books_post)
    done
qed

lemma repo_CreateAccount_works: "works books_move (repo_CreateAccount a)"
  unfolding repo_CreateAccount_def
  by (rule books.works_tx_stmt) (auto split: if_splits option.splits intro!: books_accounts)

lemma CreateAccount_moves: "moves books_move (CreateAccount org inp)"
  unfolding CreateAccount_def Let_def
  by (intro books.moves_rules books.moves_tx repo_CreateAccount_works)

lemma SeedDefaultAccounts_moves: "moves books_move (SeedDefaultAccounts org)"
  unfolding SeedDefaultAccounts_def
  by (intro books.moves_tx books.works_bnd books.works_new_uuid books.works_now books.works_for_each
      repo_CreateAccount_works)

lemma DeleteAccount_moves: "moves books_move (DeleteAccount org aid)"
  unfolding DeleteAccount_def GetAccount_def HasTransactionLines_def repo_DeleteAccount_def Let_def
  apply (intro books.moves_rules moves_pool_stmt books.R_refl)
  apply (auto simp: row_count_def account_in_use_def filter_empty_conv split: if_splits intro!: books_removed)
  done

lemma CreateInvoice_moves: "moves books_move (CreateInvoice org inp)"
  unfolding CreateInvoice_def repo_CreateInvoice_def Let_def
  by (intro books.moves_rules moves_pool_stmt books.R_refl) (auto split: if_splits option.splits intro!: books_same)

lemma MarkInvoicePaid_moves: "moves books_move (MarkInvoicePaid org iid)"
  unfolding MarkInvoicePaid_def GetInvoice_def UpdateInvoice_def
  by (intro books.moves_rules moves_pool_stmt books.R_refl) (auto intro!: books_same)

lemma finance_publishEvent_moves: "moves books_move (finance_publishEvent org ty data actor)"
  unfolding finance_publishEvent_def by (intro books.moves_rules books_publish)

lemma UpsertPeriod_works: "works books_move (UpsertPeriod p)"
  unfolding UpsertPeriod_def by (rule books.works_tx_stmt) (auto split: if_splits intro!: books_same)

lemma ClosePeriod_moves: "moves books_move (ClosePeriod org y m actor)"
  unfolding ClosePeriod_def GetPeriod_def Let_def
  by (intro books.moves_rules books.moves_tx UpsertPeriod_works finance_publishEvent_moves)

lemma ReopenPeriod_moves: "moves books_move (ReopenPeriod org y m)"
  unfolding ReopenPeriod_def GetPeriod_def Let_def
  by (intro books.moves_rules books.moves_tx UpsertPeriod_works)

lemma CreateAutoTransaction_moves:
  "moves books_move (CreateAutoTransaction org date desc debit credit amount refType refID)"
  unfolding CreateAutoTransaction_def GetAccountByCode_def
  by (intro books.moves_rules CreateTransaction_moves PostTransaction_moves)

lemma CreateCashOperation_moves: "moves books_move (CreateCashOperation org inp actor)"
  unfolding CreateCashOperation_def IsPeriodOpen_def GetPeriod_def repo_CreateCashOperation_def Let_def
  by (intro books.moves_rules books.moves_tx books.works_tx_stmt CreateAutoTransaction_moves finance_publishEvent_moves)
    (auto split: if_splits intro!: books_same)

section \<open>Runs of the service\<close>

datatype finance_request =
    FSeed
  | FAccount create_account_input
  | FDelete uuid
  | FTransaction create_transaction_input
  | FPost uuid
  | FInvoice create_invoice_input
  | FPaid uuid
  | FAuto string string string string int64 "string option" "uuid option"
  | FClose int int
  | FReopen int int
  | FCash create_cash_input

fun serve_finance :: "uuid \<Rightarrow> uuid option \<Rightarrow> finance_request \<Rightarrow> ('a finance_db_scheme, unit) op" where
  "serve_finance org actor FSeed = SeedDefaultAccounts org"
| "serve_finance org actor (FAccount inp) = bnd (CreateAccount org inp) (\<lambda>_. ret ())"
| "serve_finance org actor (FDelete aid) = DeleteAccount org aid"
| "serve_finance org actor (FTransaction inp) = bnd (CreateTransaction org inp actor) (\<lambda>_. ret ())"
| "serve_finance org actor (FPost tid) = PostTransaction org tid actor"
| "serve_finance org actor (FInvoice inp) = bnd (CreateInvoice org inp) (\<lambda>_. ret ())"
| "serve_finance org actor (FPaid iid) = MarkInvoicePaid org iid"
| "serve_finance org actor (FAuto date desc debit credit amount refType refID) =
     CreateAutoTransaction org date desc debit credit amount refType refID"
| "serve_finance org actor (FClose y m) = bnd (ClosePeriod org y m actor) (\<lambda>_. ret ())"
| "serve_finance org actor (FReopen y m) = bnd (ReopenPeriod org y m) (\<lambda>_. ret ())"
| "serve_finance org actor (FCash inp) = bnd (CreateCashOperation org inp actor) (\<lambda>_. ret ())"

lemma serve_finance_moves: "moves books_move (serve_finance org actor req)"
  by (cases req) (auto intro!: books.moves_bnd books.moves_ret SeedDefaultAccounts_moves CreateAccount_moves
    DeleteAccount_moves CreateTransaction_moves PostTransaction_moves CreateInvoice_moves MarkInvoicePaid_moves
    CreateAutoTransaction_moves ClosePeriod_moves ReopenPeriod_moves CreateCashOperation_moves)

text \<open>Any number of requests, each with an environment of its own.\<close>

inductive finance_run :: "finance_db \<Rightarrow> finance_db \<Rightarrow> bool" where
  start: "finance_run d d"
| serve: "finance_run d d' \<Longrightarrow> finance_run d (committed (snd (serve_finance org actor req env (start d'))))"

lemma finance_run_moves: "finance_run d d' \<Longrightarrow> books_move d d'"
proof (induction rule: finance_run.induct)
  case (start d)
  then show ?case by (rule books.R_refl)
next
  case (serve d d' org actor req env)
  have "books_move d' (committed (snd (serve_finance org actor req env (start d'))))"
    by (rule moves_run [OF serve_finance_moves])
  with serve.IH show ?case by (rule books.R_trans)
qed

end
