(* ===== verification/Books.thy ===== *)
theory Books
  imports Journal OrderBook
begin

text \<open>
  What the accounts show: posted entries balance and stay, closed periods refuse entries as far
  as the period can be read, an automatic entry is posted in one go, and what the trial balance
  adds up.
\<close>

section \<open>The journal under the service\<close>

text \<open>C15: The finance service drives the journal machine: whatever request is served, whichever of its
  statements fails, the tables move by entering balanced entries under new identifiers and by
  posting entries whose lines balance exactly, and by nothing else.\<close>

theorem finance_service_refines_journal:
  assumes "books_ok d"
  shows "journal_step\<^sup>*\<^sup>* (journal d) (journal (committed (snd (serve_finance org actor req env (start d)))))"
  using moves_run [OF serve_finance_moves, of d org actor req env] assms by (simp add: books_move_def)

text \<open>C16: After any run of requests every posted transaction has two lines or more, each on one side
  and on an account that exists, and its debits and credits are equal as exact sums, no 64-bit
  wrap-around in between.\<close>

theorem posted_entries_balance:
  assumes "books_ok d" and "finance_run d d'" and "t \<in> set (t_transactions d')" and "tn_IsPosted t"
  shows "sum_debit (lines_of (tn_ID t) d') = sum_credit (lines_of (tn_ID t) d')
    \<and> 2 \<le> length (lines_of (tn_ID t) d')
    \<and> list_all (\<lambda>l. one_sided l \<and> tl_AccountID l \<in> ac_ID ` set (t_accounts d')) (lines_of (tn_ID t) d')"
proof -
  have ok: "books_ok d'" using finance_run_moves [OF assms(2)] assms(1) by (simp add: books_move_def)
  then have "entry_lines t (lines_of (tn_ID t) d') \<and> exact (lines_of (tn_ID t) d')"
    using assms(3,4) by (simp add: books_ok_def journal_ok_def journal_def lines_in_def lines_of_def)
  moreover have "tl_AccountID l \<in> ac_ID ` set (t_accounts d')" if "l \<in> set (lines_of (tn_ID t) d')" for l
    using ok that by (simp add: books_ok_def accounts_ok_def lines_of_def)
  ultimately show ?thesis
    by (simp add: entry_lines_def exact_def list_all_iff)
qed

text \<open>C17: The journal is append-only: after any run of requests a posted transaction is still there,
  posted and unchanged, with the same lines.\<close>

theorem posted_entries_are_kept:
  assumes "books_ok d" and "finance_run d d'" and "t \<in> set (t_transactions d)" and "tn_IsPosted t"
  shows "t \<in> set (t_transactions d') \<and> lines_of (tn_ID t) d' = lines_of (tn_ID t) d"
proof -
  have "journal_step\<^sup>*\<^sup>* (journal d) (journal d')" "journal_ok (journal d)"
    using finance_run_moves [OF assms(2)] assms(1) by (simp_all add: books_move_def books_ok_def)
  then have "kept_in t (t_transactions d') \<and> lines_in (tn_ID t) (t_lines d') = lines_in (tn_ID t) (t_lines d)"
    using journal_steps_keep [of "journal d" "journal d'" t] assms(3) by (simp add: journal_def)
  moreover have "t\<lparr>tn_IsPosted := True\<rparr> = t" using assms(4) by simp
  ultimately show ?thesis by (simp add: kept_in_def lines_in_def lines_of_def)
qed

section \<open>Closed periods\<close>

definition period_open :: "uuid \<Rightarrow> civil \<Rightarrow> 'a finance_db_scheme \<Rightarrow> bool" where
  "period_open org date d \<longleftrightarrow> (case find_period org (c_Year date) (c_Month date) d of
     None \<Rightarrow> True | Some p \<Rightarrow> pd_Status p \<noteq> ''closed'')"

text \<open>C18: In a closed period no entry is made: when the period can be read, a transaction dated in it is
  refused as a conflict that names the month, before anything is written or announced.\<close>

theorem closed_period_refuses:
  assumes "parse_date (cti_Date inp) = Some date" and "\<not> period_open org date d"
    and "2 \<le> length (cti_Lines inp)" and "fault env 0 = None"
  shows "wp env (CreateTransaction org inp actor) (\<lambda>_ _. False)
    (\<lambda>e w'. e = NewConflict (''accounting period is closed for '' @ format_month date)
       \<and> committed w' = d \<and> published w' = []) (start d)"
  using assms
  by (simp add: CreateTransaction_def IsPeriodOpen_def GetPeriod_def wp_bnd wp_guard wp_ret wp_try wp_pool_find
      start_def period_open_def period_closed_def not_less split: option.splits)

section \<open>Entries that cannot fail\<close>

definition used_journal_ids :: "'a finance_db_scheme \<Rightarrow> uuid set" where
  "used_journal_ids d = tn_ID ` set (t_transactions d) \<union> tl_ID ` set (t_lines d)"

lemma ok_CreateTransactionLines:
  assumes "reliable env" and "list_all line_check lines" and "distinct (map tl_ID lines)"
    and "tl_ID ` set lines \<inter> tl_ID ` set (t_lines (view w)) = {}"
    and "\<forall>l \<in> set lines. line_refs l (view w)"
    and "\<And>w'. same_outside w w' \<Longrightarrow> view w' = (view w)\<lparr>t_lines := t_lines (view w) @ lines\<rparr> \<Longrightarrow> Q () w'"
  shows "wp env (CreateTransactionLines lines) Q E w"
  using assms(2-6)
proof (induction lines arbitrary: w Q)
  case Nil
  then show ?case by (simp add: CreateTransactionLines_def wp_ret)
next
  case (Cons l lines)
  have rec: "wp env (CreateTransactionLines lines) Q E w1"
    if "same_outside w w1" and v: "view w1 = (view w)\<lparr>t_lines := t_lines (view w) @ [l]\<rparr>" for w1
  proof (rule Cons.IH)
    show "\<forall>l \<in> set lines. line_refs l (view w1)"
      using Cons.prems(4) v by (auto simp: line_refs_def split: option.splits)
  qed (use Cons.prems that in \<open>auto intro: Cons.prems(5) same_outside_trans\<close>)
  have ins: "insert_line l (view w) = Inr ((), (view w)\<lparr>t_lines := t_lines (view w) @ [l]\<rparr>)"
    using Cons.prems by (simp add: insert_line_def)
  show ?case
    unfolding CreateTransactionLines_def for_each.simps
    by (intro wpI_bnd ok_tx_stmt [OF assms(1)])
      (use ins rec in \<open>auto simp: CreateTransactionLines_def\<close>)
qed

lemma ok_IsPeriodOpen:
  assumes "reliable env" and "period_open org date (committed w)"
    and "\<And>w'. same_outside w w' \<Longrightarrow> pending w' = pending w \<Longrightarrow> Q True w'"
  shows "wp env (IsPeriodOpen org date) Q E w"
  using assms(1,2)
  by (auto simp: IsPeriodOpen_def GetPeriod_def wp_bnd wp_try wp_ret wp_pool_find period_open_def same_outside_def
      split: option.splits intro!: assms(3))

definition enterable :: "create_line_input list \<Rightarrow> 'a finance_db_scheme \<Rightarrow> bool" where
  "enterable ls d \<longleftrightarrow> 2 \<le> length ls \<and> list_all line_ok ls \<and> total_debit ls = total_credit ls
     \<and> list_all (\<lambda>l. cli_AccountID l \<in> ac_ID ` set (t_accounts d)
          \<and> (case cli_EntityID l of None \<Rightarrow> True | Some e \<Rightarrow> e \<in> e_ID ` set (t_entities d))) ls"

lemma built_checks: "list_all2 (built_line org tid) ls lines \<Longrightarrow> list_all line_ok ls \<Longrightarrow> list_all line_check lines"
  by (induction rule: list_all2_induct) (auto simp: built_line_def line_ok_def line_check_def pos_sint)

lemma built_refs:
  assumes "list_all2 (built_line org tid) ls lines" and "enterable ls d"
    and "tid \<in> tn_ID ` set (t_transactions d')" and "t_accounts d' = t_accounts d" and "t_entities d' = t_entities d"
  shows "\<forall>l \<in> set lines. line_refs l d'"
proof -
  have "list_all (\<lambda>l. cli_AccountID l \<in> ac_ID ` set (t_accounts d)
      \<and> (case cli_EntityID l of None \<Rightarrow> True | Some e \<Rightarrow> e \<in> e_ID ` set (t_entities d))) ls"
    using assms(2) by (simp add: enterable_def)
  with assms(1) show "\<forall>l \<in> set lines. line_refs l d'"
    using assms(3,4) unfolding assms(5) [symmetric]
    by (induction rule: list_all2_induct) (auto simp: built_line_def line_refs_def)
qed

lemma ok_CreateTransaction:
  assumes "reliable env" and fresh: "fresh_uuids (used_journal_ids (committed w)) env" and w: "pending w = id"
    and "parse_date (cti_Date inp) = Some date" and "period_open org date (committed w)"
    and ent: "enterable (cti_Lines inp) (committed w)"
    and post: "\<And>txn es w'. tn_OrganizationID txn = org \<Longrightarrow> tn_Date txn = date \<Longrightarrow> \<not> tn_IsPosted txn \<Longrightarrow>
      tn_ReferenceType txn = cti_ReferenceType inp \<Longrightarrow> tn_ReferenceID txn = cti_ReferenceID inp \<Longrightarrow>
      tn_ID txn \<notin> tn_ID ` set (t_transactions (committed w)) \<Longrightarrow>
      list_all2 (built_line org (tn_ID txn)) (cti_Lines inp) (tn_Lines txn) \<Longrightarrow> pending w' = id \<Longrightarrow>
      committed w' = (committed w)\<lparr>t_transactions := t_transactions (committed w) @ [txn\<lparr>tn_Lines := []\<rparr>],
        t_lines := t_lines (committed w) @ tn_Lines txn, t_events := es\<rparr> \<Longrightarrow>
      map ev_Type (published w') = map ev_Type (published w) @ [''finance.transaction.created''] \<Longrightarrow> Q txn w'"
  shows "wp env (CreateTransaction org inp actor) Q E w"
proof -
  have free: "uuids env n \<notin> tn_ID ` set (t_transactions (committed w))" "uuids env n \<notin> tl_ID ` set (t_lines (committed w))" for n
    using fresh_uuidsD(2) [OF fresh, of n] by (auto simp: used_journal_ids_def)
  have inj: "inj (uuids env)" using fresh by (simp add: fresh_uuids_def)
  have ids: "distinct (map tl_ID lines) \<and> tl_ID ` set lines \<inter> tl_ID ` set (t_lines (committed w)) = {}"
    if "map tl_ID lines = map (uuids env) ns" "distinct ns" for lines :: "transaction_line list" and ns
  proof -
    have "tl_ID ` set lines = uuids env ` set ns" using that(1) by (metis list.set_map)
    moreover have "distinct (map tl_ID lines)" using that inj by (simp add: distinct_map inj_def inj_on_def)
    ultimately show ?thesis using free(2) by auto
  qed
  have lines: "\<not> length (cti_Lines inp) < 2" "list_all line_ok (cti_Lines inp)"
    "total_debit (cti_Lines inp) = total_credit (cti_Lines inp)"
    using ent by (simp_all add: enterable_def)
  show ?thesis
    unfolding CreateTransaction_def Let_def finance_publishEvent_def repo_CreateTransaction_def assms(4) option.case
    apply (intro wpI_bnd wpI_guard wpI_ret wpI_new_uuid wpI_now ok_IsPeriodOpen [OF assms(1,5)] wp_check_lines
        view_txn_lines ok_with_tx [OF assms(1)] ok_tx_stmt [OF assms(1)] ok_CreateTransactionLines [OF assms(1)]
        view_publish allI impI)
    using w apply (simp_all add: same_outside_def lines del: upt_Suc)
        apply (drule row_insert_refused, simp add: new_transaction_def free)
       apply (erule built_checks [OF _ lines(2)])
      apply (simp only: distinct_map distinct_upt inj_on_subset [OF inj] subset_UNIV simp_thms)
     apply (drule ids, rule distinct_upt, erule conjunct2)
    apply (erule built_refs [OF _ ent]; simp add: new_transaction_def)
    apply (rule post; (assumption | simp add: new_transaction_def))
    done
qed

section \<open>Automatic entries\<close>

lemma row_update_other: "(\<And>x. x \<in> set xs \<Longrightarrow> \<not> p x) \<Longrightarrow> row_update p f xs = xs"
  by (simp add: row_update_def map_idI)

lemma find_new: "find_transaction org tid (d\<lparr>t_transactions := ts @ [t], t_lines := ls, t_events := es\<rparr>) = Some t"
  if "tn_OrganizationID t = org" and "tn_ID t = tid" and "tid \<notin> tn_ID ` set ts"
proof -
  have "find (\<lambda>t. tn_OrganizationID t = org \<and> tn_ID t = tid) ts = None"
    using that(3) by (auto simp: find_None_iff)
  with that(1,2) show ?thesis by (simp add: find_transaction_def find_append)
qed

lemma ok_PostTransaction:
  assumes "reliable env" and "pending w = id" and "find_transaction org tid (committed w) = Some t"
    and "\<not> tn_IsPosted t" and "double_entry tid (committed w)"
    and "\<And>es w'. committed w' = (committed w)\<lparr>t_transactions := row_update
        (\<lambda>r. tn_OrganizationID r = org \<and> tn_ID r = tid)
        (\<lambda>r. r\<lparr>tn_IsPosted := True, tn_Description := tn_Description t\<rparr>) (t_transactions (committed w)), t_events := es\<rparr> \<Longrightarrow>
      pending w' = id \<Longrightarrow>
      map ev_Type (published w') = map ev_Type (published w) @ [''finance.transaction.posted''] \<Longrightarrow> Q () w'"
  shows "wp env (PostTransaction org tid actor) Q E w"
proof -
  have t: "tn_OrganizationID t = org" "tn_ID t = tid"
    using assms(3) by (auto simp: find_transaction_def dest: find_SomeD)
  have upd: "update_transaction (t\<lparr>tn_IsPosted := True\<rparr>) (committed w) =
    Inr ((), (committed w)\<lparr>t_transactions := row_update (\<lambda>r. tn_OrganizationID r = org \<and> tn_ID r = tid)
      (\<lambda>r. r\<lparr>tn_IsPosted := True, tn_Description := tn_Description t\<rparr>) (t_transactions (committed w))\<rparr>)"
    using assms(5) t by (auto simp: update_transaction_def Let_def)
  show ?thesis
    unfolding PostTransaction_def repo_GetTransaction_def UpdateTransaction_def finance_publishEvent_def
    apply (intro wpI_bnd wpI_guard ok_find [OF assms(1), where x = t] ok_with_tx [OF assms(1)] ok_tx_stmt [OF assms(1)]
        wpI_new_uuid wpI_now view_publish allI impI)
    using assms(2-4) apply (simp_all add: same_outside_def upd assms(6))
    done
qed

definition auto_entry ::
  "uuid \<Rightarrow> civil \<Rightarrow> uuid \<Rightarrow> uuid \<Rightarrow> int64 \<Rightarrow> 'a finance_db_scheme \<Rightarrow> 'a finance_db_scheme \<Rightarrow> bool" where
  "auto_entry org date debit credit amount d d' \<longleftrightarrow> (\<exists>t l1 l2 es.
     d' = d\<lparr>t_transactions := t_transactions d @ [t], t_lines := t_lines d @ [l1, l2], t_events := es\<rparr>
     \<and> tn_OrganizationID t = org \<and> tn_Date t = date \<and> tn_IsPosted t
     \<and> tn_ID t \<notin> tn_ID ` set (t_transactions d)
     \<and> tl_TransactionID l1 = tn_ID t \<and> tl_AccountID l1 = debit \<and> tl_Debit l1 = amount \<and> tl_Credit l1 = 0
     \<and> tl_OrganizationID l1 = org \<and> tl_OrganizationID l2 = org
     \<and> tl_TransactionID l2 = tn_ID t \<and> tl_AccountID l2 = credit \<and> tl_Debit l2 = 0 \<and> tl_Credit l2 = amount)"

lemma ok_CreateAutoTransaction:
  assumes "reliable env" and "fresh_uuids (used_journal_ids (committed w)) env" and w: "pending w = id"
    and books: "books_ok (committed w)" and date: "parse_date date = Some day" and opened: "period_open org day (committed w)"
    and da: "find_code org debit (committed w) = Some da" and ca: "find_code org credit (committed w) = Some ca"
    and amount: "0 < sint amount"
    and post: "\<And>w'. auto_entry org day (ac_ID da) (ac_ID ca) amount (committed w) (committed w') \<Longrightarrow> pending w' = id \<Longrightarrow>
      map ev_Type (published w') = map ev_Type (published w) @ [''finance.transaction.created'', ''finance.transaction.posted''] \<Longrightarrow>
      Q () w'"
  shows "wp env (CreateAutoTransaction org date desc debit credit amount refType refID) Q E w"
proof -
  let ?lines = "[\<lparr>cli_AccountID = ac_ID da, cli_Debit = amount, cli_Credit = 0, cli_Description = '''', cli_EntityID = None\<rparr>,
    \<lparr>cli_AccountID = ac_ID ca, cli_Debit = 0, cli_Credit = amount, cli_Description = '''', cli_EntityID = None\<rparr>]"
  let ?inp = "\<lparr>cti_Date = date, cti_Description = desc, cti_ReferenceType = refType, cti_ReferenceID = refID,
    cti_Lines = ?lines\<rparr>"
  have accts: "da \<in> set (t_accounts (committed w))" "ca \<in> set (t_accounts (committed w))"
    using da ca by (auto simp: find_code_def dest: find_SomeD)
  have nz: "amount \<noteq> 0" using amount by auto
  have ent: "enterable ?lines (committed w)"
    using accts amount nz by (simp add: enterable_def line_ok_def total_debit_def total_credit_def)
  have enter: "wp env (bnd (CreateTransaction org ?inp None) (\<lambda>txn. PostTransaction org (tn_ID txn) None)) Q E w'"
    if w': "committed w' = committed w" "pending w' = id" "published w' = published w" for w'
  proof (intro wpI_bnd ok_CreateTransaction [OF assms(1), where date = day])
    show "fresh_uuids (used_journal_ids (committed w')) env" "pending w' = id" "parse_date (cti_Date ?inp) = Some day"
      "period_open org day (committed w')" "enterable (cti_Lines ?inp) (committed w')"
      using assms(2) w' date opened ent by simp_all
  next
    fix txn es and w1 :: "'a finance_db_scheme world"
    assume txn: "tn_OrganizationID txn = org" "tn_Date txn = day" "\<not> tn_IsPosted txn"
      "tn_ID txn \<notin> tn_ID ` set (t_transactions (committed w'))"
      and built: "list_all2 (built_line org (tn_ID txn)) (cti_Lines ?inp) (tn_Lines txn)"
      and w1: "pending w1 = id"
        "committed w1 = (committed w')\<lparr>t_transactions := t_transactions (committed w') @ [txn\<lparr>tn_Lines := []\<rparr>],
          t_lines := t_lines (committed w') @ tn_Lines txn, t_events := es\<rparr>"
        "map ev_Type (published w1) = map ev_Type (published w') @ [''finance.transaction.created'']"
    obtain l1 l2 where ls: "tn_Lines txn = [l1, l2]"
      and l1: "tl_TransactionID l1 = tn_ID txn" "tl_AccountID l1 = ac_ID da" "tl_Debit l1 = amount" "tl_Credit l1 = 0"
        "tl_OrganizationID l1 = org"
      and l2: "tl_TransactionID l2 = tn_ID txn" "tl_AccountID l2 = ac_ID ca" "tl_Debit l2 = 0" "tl_Credit l2 = amount"
        "tl_OrganizationID l2 = org"
      using built by (auto simp: list_all2_Cons1 built_line_def)
    have "lines_of (tn_ID txn) (committed w') = []"
      using books txn(4) w'(1)
      by (intro lines_in_unused [unfolded lines_in_def, of "t_lines (committed w')", folded lines_of_def])
        (auto simp: books_ok_def journal_ok_def journal_def)
    then have de: "double_entry (tn_ID txn) (committed w1)"
      using l1 l2 by (simp add: double_entry_def lines_of_def w1(2) ls sum_debit_def sum_credit_def)
    have fnd: "find_transaction org (tn_ID txn) (committed w1) = Some (txn\<lparr>tn_Lines := []\<rparr>)"
      using txn by (simp add: w1(2) find_new)
    show "wp env (PostTransaction org (tn_ID txn) None) Q E w1"
    proof (rule ok_PostTransaction [OF assms(1) w1(1) fnd])
      fix es' and w2 :: "'a finance_db_scheme world"
      assume w2: "pending w2 = id" "map ev_Type (published w2) = map ev_Type (published w1) @ [''finance.transaction.posted'']"
        and c: "committed w2 = (committed w1)\<lparr>t_transactions := row_update
          (\<lambda>r. tn_OrganizationID r = org \<and> tn_ID r = tn_ID txn)
          (\<lambda>r. r\<lparr>tn_IsPosted := True, tn_Description := tn_Description (txn\<lparr>tn_Lines := []\<rparr>)\<rparr>)
          (t_transactions (committed w1)), t_events := es'\<rparr>"
      have "row_update (\<lambda>r. tn_OrganizationID r = org \<and> tn_ID r = tn_ID txn)
          (\<lambda>r. r\<lparr>tn_IsPosted := True, tn_Description := tn_Description txn\<rparr>) (t_transactions (committed w'))
        = t_transactions (committed w')"
        using txn(4) by (intro row_update_other) (metis imageI)
      then have "committed w2 = (committed w)\<lparr>t_transactions := t_transactions (committed w) @
          [txn\<lparr>tn_Lines := [], tn_IsPosted := True\<rparr>], t_lines := t_lines (committed w) @ [l1, l2], t_events := es'\<rparr>"
        using txn(1) by (simp add: c w1(2) w'(1) ls row_update_def)
      then have "auto_entry org day (ac_ID da) (ac_ID ca) amount (committed w) (committed w2)"
        unfolding auto_entry_def using txn l1 l2 w'(1)
        by (intro exI [of _ "txn\<lparr>tn_Lines := [], tn_IsPosted := True\<rparr>"] exI [of _ l1] exI [of _ l2] exI [of _ es']) simp
      then show "Q () w2"
        using w2 w1(3) w'(3) by (intro post) simp_all
    qed (use txn de in simp_all)
  qed
  show ?thesis
    unfolding CreateAutoTransaction_def GetAccountByCode_def
    apply (rule wpI_bnd, rule ok_find [OF assms(1), where x = da], rule da)
    apply (rule wpI_bnd, rule ok_find [OF assms(1), where x = ca])
    using ca w apply (simp_all add: same_outside_def enter)
    done
qed

text \<open>An automatic entry is made and posted in one go: with every statement executed, identifiers
  that are new, both accounts there, the period open and a positive amount, one posted transaction
  of that day is added with exactly two lines, the amount on the debit of one account and on the
  credit of the other, and both events are announced.\<close>

lemma CreateAutoTransaction_posts:
  assumes "reliable env" and "fresh_uuids (used_journal_ids d) env" and "books_ok d"
    and "parse_date date = Some day" and "period_open org day d"
    and "find_code org debit d = Some da" and "find_code org credit d = Some ca" and "0 < sint amount"
  shows "wp env (CreateAutoTransaction org date desc debit credit amount refType refID)
    (\<lambda>_ w'. auto_entry org day (ac_ID da) (ac_ID ca) amount d (committed w')
       \<and> map ev_Type (published w') = [''finance.transaction.created'', ''finance.transaction.posted''])
    (\<lambda>_ _. False) (start d)"
  by (rule ok_CreateAutoTransaction [where da = da and ca = ca and day = day])
    (use assms in \<open>simp_all add: start_def\<close>)

lemma built_sums:
  assumes "list_all2 (built_line org tid) ls lines"
  shows "sum_debit lines = (\<Sum>l\<leftarrow>ls. sint (cli_Debit l))" "sum_credit lines = (\<Sum>l\<leftarrow>ls. sint (cli_Credit l))"
  using assms
  by (induction rule: list_all2_induct) (simp_all add: built_line_def sum_debit_def sum_credit_def)

text \<open>The balance check of an entry wraps around and the posting catches it: with every statement
  executed and identifiers that are new, valid lines whose 64-bit totals agree are recorded even
  when their exact totals differ, but then posting the transaction fails as unbalanced and it stays
  a draft.\<close>

lemma wrapped_entry_is_not_posted:
  assumes "reliable env" and "fresh_uuids (used_journal_ids d) env" and "books_ok d"
    and "parse_date (cti_Date inp) = Some date" and "period_open org date d"
    and "enterable (cti_Lines inp) d"
    and "(\<Sum>l\<leftarrow>cti_Lines inp. sint (cli_Debit l)) \<noteq> (\<Sum>l\<leftarrow>cti_Lines inp. sint (cli_Credit l))"
  shows "wp env (bnd (CreateTransaction org inp actor) (\<lambda>txn. PostTransaction org (tn_ID txn) actor))
    (\<lambda>_ _. False)
    (\<lambda>e w'. e = unbalanced \<and> map tn_IsPosted (t_transactions (committed w')) = map tn_IsPosted (t_transactions d) @ [False])
    (start d)"
proof (intro wpI_bnd ok_CreateTransaction [OF assms(1), where date = date])
  fix txn es and w' :: "'a finance_db_scheme world"
  assume txn: "tn_OrganizationID txn = org" "\<not> tn_IsPosted txn"
    "tn_ID txn \<notin> tn_ID ` set (t_transactions (committed (start d)))"
    and built: "list_all2 (built_line org (tn_ID txn)) (cti_Lines inp) (tn_Lines txn)"
    and w': "pending w' = id" "committed w' = (committed (start d))\<lparr>t_transactions :=
      t_transactions (committed (start d)) @ [txn\<lparr>tn_Lines := []\<rparr>],
      t_lines := t_lines (committed (start d)) @ tn_Lines txn, t_events := es\<rparr>"
  have "lines_of (tn_ID txn) d = []"
    using assms(3) txn(3)
    by (intro lines_in_unused [unfolded lines_in_def, of "t_lines d", folded lines_of_def])
      (auto simp: books_ok_def journal_ok_def journal_def start_def)
  moreover have "filter (\<lambda>l. tl_TransactionID l = tn_ID txn) (tn_Lines txn) = tn_Lines txn"
    using built by (induction rule: list_all2_induct) (auto simp: built_line_def)
  ultimately have "lines_of (tn_ID txn) (committed w') = tn_Lines txn"
    by (simp add: w'(2) lines_of_def start_def)
  moreover have "sum_debit (tn_Lines txn) = (\<Sum>l\<leftarrow>cti_Lines inp. sint (cli_Debit l))"
    "sum_credit (tn_Lines txn) = (\<Sum>l\<leftarrow>cti_Lines inp. sint (cli_Credit l))"
    using built_sums [OF built] by simp_all
  ultimately have "\<not> double_entry (tn_ID txn) (committed w')"
    using assms(7) by (simp add: double_entry_def)
  moreover have "find_transaction org (tn_ID txn) (committed w') = Some (txn\<lparr>tn_Lines := []\<rparr>)"
    using txn by (simp add: w'(2) find_new)
  ultimately have "update_transaction (txn\<lparr>tn_Lines := [], tn_IsPosted := True\<rparr>) (committed w') = Inl unbalanced"
    and "find_transaction org (tn_ID txn) (committed w') = Some (txn\<lparr>tn_Lines := []\<rparr>)"
    using txn(2) by (auto simp: update_transaction_def Let_def w'(2))
  then show "wp env (PostTransaction org (tn_ID txn) actor) (\<lambda>_ _. False)
    (\<lambda>e w'. e = unbalanced \<and> map tn_IsPosted (t_transactions (committed w')) = map tn_IsPosted (t_transactions d) @ [False]) w'"
    using assms(1) txn(2)
    by (simp add: PostTransaction_def repo_GetTransaction_def UpdateTransaction_def wp_bnd wp_guard wp_pool_find
        wp_with_tx wp_tx_stmt w'(1)) (simp add: w'(2) start_def)
qed (use assms in \<open>simp_all add: start_def\<close>)

text \<open>A read error opens the period: when the read of the period is the one statement that fails, a
  transaction of two lines dated in a closed period is recorded.\<close>

lemma period_read_error_opens:
  assumes "parse_date (cti_Date inp) = Some date" and "\<not> period_open org date d"
    and ls: "cti_Lines inp = [l1, l2]" and ent: "enterable (cti_Lines inp) d"
    and fresh: "fresh_uuids (used_journal_ids d) env"
  shows "wp (fail_at 0 err env) (CreateTransaction org inp actor)
    (\<lambda>txn w'. tn_Date txn = date \<and> tn_OrganizationID txn = org
       \<and> t_transactions (committed w') = t_transactions d @ [txn\<lparr>tn_Lines := []\<rparr>]
       \<and> length (t_lines (committed w')) = length (t_lines d) + 2)
    (\<lambda>_ _. False) (start d)"
proof -
  have free: "uuids env n \<notin> tn_ID ` set (t_transactions d)" "uuids env n \<notin> tl_ID ` set (t_lines d)" for n
    using fresh_uuidsD(2) [OF fresh, of n] by (auto simp: used_journal_ids_def)
  have inj: "uuids env n = uuids env m \<longleftrightarrow> n = m" for n m
    by (rule fresh_uuidsD(3) [OF fresh])
  have ok: "line_ok l1" "line_ok l2" "total_debit [l1, l2] = total_credit [l1, l2]"
    and refs: "cli_AccountID l1 \<in> ac_ID ` set (t_accounts d)" "cli_AccountID l2 \<in> ac_ID ` set (t_accounts d)"
      "case cli_EntityID l1 of None \<Rightarrow> True | Some e \<Rightarrow> e \<in> e_ID ` set (t_entities d)"
      "case cli_EntityID l2 of None \<Rightarrow> True | Some e \<Rightarrow> e \<in> e_ID ` set (t_entities d)"
    using ent by (simp_all add: enterable_def ls)
  have checks: "line_check (x\<lparr>tl_Debit := cli_Debit l, tl_Credit := cli_Credit l\<rparr>)" if "line_ok l" for x l
    using that by (auto simp: line_ok_def line_check_def pos_sint)
  show ?thesis
    using assms(1) ok refs checks [OF ok(1)] checks [OF ok(2)]
    by (simp add: CreateTransaction_def IsPeriodOpen_def GetPeriod_def ls wp_bnd wp_guard wp_ret wp_try wp_pool_find start_def
        wp_check_line wp_new_uuid wp_now new_txn_line_def wp_with_tx wp_tx_stmt repo_CreateTransaction_def
        CreateTransactionLines_def insert_line_def line_refs_def row_insert_def free inj stmt_effect_def
        finance_publishEvent_def wp_publish new_transaction_def line_check_def Let_def cong: option.case_cong)
qed

section \<open>The trial balance\<close>

lemma left_join_fst:
  assumes "\<And>x. x \<in> set xs \<Longrightarrow> length (filter (on x) ys) \<le> 1"
  shows "map fst (left_join on xs ys) = xs"
  using assms
proof (induction xs)
  case Nil
  then show ?case by (simp add: left_join_def)
next
  case (Cons x xs)
  have "length (filter (on x) ys) \<le> 1" using Cons.prems by simp
  then have "map fst (case filter (on x) ys of [] \<Rightarrow> [(x, None)] | ms \<Rightarrow> map (\<lambda>y. (x, Some y)) ms) = [x]"
    by (auto split: list.split)
  with Cons show ?case by (simp add: left_join_def)
qed

lemma one_match: "distinct (map f xs) \<Longrightarrow> length (filter (\<lambda>x. f x = k \<and> P x) xs) \<le> 1"
  by (induction xs) (auto simp: filter_empty_conv, metis imageI)

lemma report_cong:
  assumes "g (committed w) = h (committed w)"
  shows "report g env w = report h env w"
  unfolding report_def pool_stmt_def assms ..

lemma trial_row_lines:
  assumes "books_ok d"
  shows "map fst (left_join (posted_until date) (account_lines a d) (t_transactions d)) = account_lines a d"
proof (rule left_join_fst)
  fix l
  have "distinct (map tn_ID (t_transactions d))"
    using assms by (simp add: books_ok_def journal_ok_def journal_def)
  then show "length (filter (posted_until date l) (t_transactions d)) \<le> 1"
    unfolding posted_until_def by (rule one_match)
qed

text \<open>The trial balance does not look at its date, nor at what is posted: the outer join keeps the
  lines it was meant to leave out, so any two dates give the same rows (or the same error).\<close>

lemma trial_balance_ignores_date:
  assumes "books_ok d"
  shows "GetTrialBalance org date env (start d) = GetTrialBalance org date' env (start d)"
proof -
  have "trial_row date d = trial_row date' d"
    by (rule ext) (simp add: trial_row_def trial_row_lines [OF assms])
  then show ?thesis
    unfolding GetTrialBalance_def by (intro report_cong) (simp add: start_def)
qed

text \<open>Sums by key.\<close>

lemma sum_by_key:
  fixes f :: "'x \<Rightarrow> int"
  assumes "distinct ks" and "\<And>x. x \<in> set xs \<Longrightarrow> key x \<in> set ks"
  shows "(\<Sum>k\<leftarrow>ks. \<Sum>x\<leftarrow>filter (\<lambda>x. key x = k) xs. f x) = (\<Sum>x\<leftarrow>xs. f x)"
  using assms(2)
proof (induction xs)
  case Nil
  then show ?case by simp
next
  case (Cons x xs)
  have none: "k \<notin> set ks' \<Longrightarrow> (\<Sum>j\<leftarrow>ks'. if k = j then f x else 0) = 0" for k ks'
    by (induction ks') auto
  have one: "(\<Sum>k\<leftarrow>ks. if key x = k then f x else 0) = f x"
    using assms(1) Cons.prems [of x] none by (induction ks) auto
  have "(\<Sum>k\<leftarrow>ks. \<Sum>y\<leftarrow>filter (\<lambda>y. key y = k) (x # xs). f y)
      = (\<Sum>k\<leftarrow>ks. (if key x = k then f x else 0) + (\<Sum>y\<leftarrow>filter (\<lambda>y. key y = k) xs. f y))"
    by (intro arg_cong [of _ _ sum_list] map_cong) simp_all
  also have "\<dots> = f x + (\<Sum>y\<leftarrow>xs. f y)"
    using Cons one by (simp add: sum_list_addf)
  finally show ?case by simp
qed

lemma sum_by_part:
  fixes f :: "'x \<Rightarrow> int"
  assumes "distinct (map k rs)" and "\<And>x. x \<in> set xs \<Longrightarrow> key x \<in> k ` set rs"
    and part: "\<And>r. r \<in> set rs \<Longrightarrow> part r = filter (\<lambda>x. key x = k r) xs"
  shows "(\<Sum>r\<leftarrow>rs. \<Sum>x\<leftarrow>part r. f x) = (\<Sum>x\<leftarrow>xs. f x)"
proof -
  have "(\<Sum>r\<leftarrow>rs. \<Sum>x\<leftarrow>part r. f x) = (\<Sum>r\<leftarrow>rs. \<Sum>x\<leftarrow>filter (\<lambda>x. key x = k r) xs. f x)"
    by (intro arg_cong [of _ _ sum_list] map_cong refl) (simp add: part)
  also have "\<dots> = (\<Sum>x\<leftarrow>xs. f x)"
    using sum_by_key [OF assms(1), of xs key f] assms(2) by (simp add: comp_def)
  finally show ?thesis .
qed

lemma insert_by_set [simp]: "set (insert_by le x ys) = insert x (set ys)"
  by (induction ys) auto

lemma order_by_set [simp]: "set (order_by le xs) = set xs"
  by (induction xs) (simp_all add: order_by_def)

lemma insert_by_distinct:
  "distinct (map f (insert_by le x ys)) \<longleftrightarrow> f x \<notin> f ` set ys \<and> distinct (map f ys)"
  by (induction ys) auto

lemma order_by_distinct: "distinct (map f xs) \<Longrightarrow> distinct (map f (order_by le xs))"
proof (induction xs)
  case (Cons x xs)
  then show ?case
    using order_by_set [of le xs] by (simp add: order_by_def insert_by_distinct)
qed (simp add: order_by_def)

lemma scan_rows_Inr:
  "scan_rows f rs = Inr xs \<Longrightarrow> (\<And>r x. r \<in> set rs \<Longrightarrow> f r = Inr x \<Longrightarrow> g x = h r) \<Longrightarrow> map g xs = map h rs"
  by (induction f rs arbitrary: xs rule: scan_rows.induct) (auto split: sum.splits)

lemma scan_int64_Inr: "scan_int64 n = Inr x \<Longrightarrow> sint x = n"
  by (auto simp: scan_int64_def sint64_of_int split: if_splits)

text \<open>Everything the organization has entered is posted, and on accounts of its own.\<close>

definition in_order :: "uuid \<Rightarrow> 'a finance_db_scheme \<Rightarrow> bool" where
  "in_order org d \<longleftrightarrow> list_all (\<lambda>t. tn_OrganizationID t = org \<longrightarrow> tn_IsPosted t) (t_transactions d)
     \<and> list_all (\<lambda>l. tl_OrganizationID l = org \<longrightarrow>
          list_ex (\<lambda>a. ac_ID a = tl_AccountID l \<and> ac_OrganizationID a = org) (t_accounts d)) (t_lines d)"

definition org_lines :: "uuid \<Rightarrow> 'a finance_db_scheme \<Rightarrow> transaction_line list" where
  "org_lines org d = filter (\<lambda>l. tl_OrganizationID l = org) (t_lines d)"

lemma sum_over_accounts:
  assumes "books_ok d" and "in_order org d"
  shows "(\<Sum>a\<leftarrow>order_by le (filter (\<lambda>a. ac_OrganizationID a = org) (t_accounts d)). \<Sum>l\<leftarrow>account_lines a d. f l)
    = (\<Sum>l\<leftarrow>org_lines org d. f l :: int)"
proof -
  let ?as = "order_by le (filter (\<lambda>a. ac_OrganizationID a = org) (t_accounts d))"
  have "distinct (map ac_ID ?as)"
    using assms(1) by (intro order_by_distinct) (simp add: books_ok_def accounts_ok_def distinct_map_filter)
  moreover have "tl_AccountID l \<in> ac_ID ` set ?as" if "l \<in> set (org_lines org d)" for l
    using assms(2) that by (force simp: in_order_def org_lines_def list_all_iff list_ex_iff)
  ultimately show ?thesis
    by (rule sum_by_part) (auto simp: account_lines_def org_lines_def intro!: filter_cong)
qed

lemma org_lines_exact:
  assumes "books_ok d" and "in_order org d"
  shows "sum_debit (org_lines org d) = sum_credit (org_lines org d)"
proof -
  let ?ts = "filter (\<lambda>t. tn_OrganizationID t = org) (t_transactions d)"
  have j: "journal_ok (journal d)" using assms(1) by (simp add: books_ok_def)
  have ent: "entry_lines t (lines_of (tn_ID t) d) \<and> exact (lines_of (tn_ID t) d)" if "t \<in> set ?ts" for t
    using j assms(2) that
    by (simp add: journal_ok_def journal_def lines_in_def lines_of_def in_order_def list_all_iff)
  have dist: "distinct (map tn_ID ?ts)"
    using j by (simp add: journal_ok_def journal_def distinct_map_filter)
  have own: "tl_TransactionID l \<in> tn_ID ` set ?ts" if "l \<in> set (org_lines org d)" for l
  proof -
    have "tl_TransactionID l \<in> tn_ID ` set (t_transactions d)"
      using j that by (simp add: journal_ok_def journal_def org_lines_def)
    then obtain t where t: "t \<in> set (t_transactions d)" "tn_ID t = tl_TransactionID l"
      by (metis imageE)
    have "entry_lines t (lines_of (tn_ID t) d)"
      using j t(1) by (simp add: journal_ok_def journal_def lines_in_def lines_of_def)
    then have "tn_OrganizationID t = org"
      using that t(2) by (auto simp: entry_lines_def list_all_iff lines_of_def org_lines_def)
    with t show ?thesis by force
  qed
  have part: "lines_of (tn_ID t) d = filter (\<lambda>l. tl_TransactionID l = tn_ID t) (org_lines org d)" if "t \<in> set ?ts" for t
    using ent [OF that] that
    by (auto simp: entry_lines_def list_all_iff lines_of_def org_lines_def intro!: filter_cong)
  have "(\<Sum>t\<leftarrow>?ts. \<Sum>l\<leftarrow>lines_of (tn_ID t) d. f l) = (\<Sum>l\<leftarrow>org_lines org d. f l)" for f :: "transaction_line \<Rightarrow> int"
    by (rule sum_by_part [OF dist own part])
  moreover have "(\<Sum>t\<leftarrow>?ts. sum_debit (lines_of (tn_ID t) d)) = (\<Sum>t\<leftarrow>?ts. sum_credit (lines_of (tn_ID t) d))"
    using ent by (intro arg_cong [of _ _ sum_list] map_cong) (auto simp: exact_def)
  ultimately show ?thesis by (simp add: sum_debit_def sum_credit_def)
qed

text \<open>The trial balance balances: when everything an organization has entered is posted and on its
  own accounts, the debit column and the credit column of the report have the same exact total.\<close>

lemma trial_balance_balances:
  assumes "books_ok d" and "in_order org d"
  shows "wp env (GetTrialBalance org date)
    (\<lambda>rows _. (\<Sum>r\<leftarrow>rows. sint (tb_Debit r)) = (\<Sum>r\<leftarrow>rows. sint (tb_Credit r))) (\<lambda>_ _. True) (start d)"
proof -
  let ?as = "order_by (\<lambda>a b. str_le (ac_Code a) (ac_Code b)) (filter (\<lambda>a. ac_OrganizationID a = org) (t_accounts d))"
  have cols: "sint (tb_Debit r) = sum_debit (account_lines a d) \<and> sint (tb_Credit r) = sum_credit (account_lines a d)"
    if "trial_row date d a = Inr r" for a r
    using that by (auto simp: trial_row_def trial_row_lines [OF assms(1)] Let_def dest: scan_int64_Inr split: sum.splits)
  have "(\<Sum>r\<leftarrow>rows. sint (tb_Debit r)) = (\<Sum>r\<leftarrow>rows. sint (tb_Credit r))"
    if rows: "scan_rows (trial_row date d) ?as = Inr rows" for rows
  proof -
    have "map (\<lambda>r. sint (tb_Debit r)) rows = map (\<lambda>a. sum_debit (account_lines a d)) ?as"
      and "map (\<lambda>r. sint (tb_Credit r)) rows = map (\<lambda>a. sum_credit (account_lines a d)) ?as"
      using cols by (auto intro!: scan_rows_Inr [OF rows])
    then show ?thesis
      using sum_over_accounts [OF assms] org_lines_exact [OF assms] by (simp add: sum_debit_def sum_credit_def)
  qed
  then show ?thesis
    by (auto simp: GetTrialBalance_def report_def wp_pool_stmt start_def split: option.splits sum.splits)
qed

section \<open>Concrete books\<close>

definition sample_account :: "uuid \<Rightarrow> string \<Rightarrow> string \<Rightarrow> account" where
  "sample_account aid code ty = \<lparr>ac_ID = aid, ac_OrganizationID = 1, ac_Code = code, ac_Name = code, ac_Type = ty,
     ac_ParentID = None, ac_IsSystem = True, ac_Currency = ''RUB'', ac_CreatedAt = 0\<rparr>"

definition sample_txn :: transaction where
  "sample_txn = \<lparr>tn_ID = 70, tn_OrganizationID = 1, tn_Date = \<lparr>c_Year = 1970, c_Month = 1, c_Day = 1\<rparr>,
     tn_Description = '''', tn_ReferenceType = None, tn_ReferenceID = None, tn_IsPosted = True,
     tn_ActorID = None, tn_CreatedAt = 0, tn_Lines = []\<rparr>"

definition sample_txn_line :: "uuid \<Rightarrow> uuid \<Rightarrow> int64 \<Rightarrow> int64 \<Rightarrow> transaction_line" where
  "sample_txn_line lid acct debit credit = \<lparr>tl_ID = lid, tl_TransactionID = 70, tl_OrganizationID = 1,
     tl_AccountID = acct, tl_Debit = debit, tl_Credit = credit, tl_Description = '''', tl_EntityID = None\<rparr>"

definition sample_books :: finance_db where
  "sample_books = \<lparr>t_events = [], t_entities = [], t_components = [], t_stock = [], t_movements = [],
     t_inventories = [], t_inv_items = [], t_orders = [], t_order_items = [], t_order_seqs = [],
     t_refunds = [], t_refund_items = [],
     t_accounts = [sample_account 62 ''62'' ''asset'', sample_account 90 ''90'' ''revenue''],
     t_transactions = [sample_txn], t_lines = [sample_txn_line 71 62 500 0, sample_txn_line 72 90 0 500],
     t_invoices = [], t_periods = [(blank_period 1 1969 12)\<lparr>pd_Status := ''closed''\<rparr>], t_cash = []\<rparr>"

definition january_closed :: finance_db where
  "january_closed = committed (snd (serve_finance 1 None (FClose 1970 1) (env_ok numeric_15_4) (start sample_books)))"

definition entry_input :: "string \<Rightarrow> (uuid \<times> int64 \<times> int64) list \<Rightarrow> create_transaction_input" where
  "entry_input date ls = \<lparr>cti_Date = date, cti_Description = '''', cti_ReferenceType = None, cti_ReferenceID = None,
     cti_Lines = map (\<lambda>(acct, debit, credit). \<lparr>cli_AccountID = acct, cli_Debit = debit, cli_Credit = credit,
       cli_Description = '''', cli_EntityID = None\<rparr>) ls\<rparr>"

lemmas sample_books_defs = sample_books_def sample_account_def sample_txn_def sample_txn_line_def

lemma sample_books_ok: "books_ok sample_books"
  by (simp add: books_ok_def journal_ok_def journal_def accounts_ok_def lines_in_def entry_lines_def one_sided_def
      exact_def sum_debit_def sum_credit_def sample_books_defs)

lemma sample_books_fresh: "fresh_uuids (used_journal_ids sample_books) (env_ok col)"
  by (rule env_ok_fresh) (simp add: used_journal_ids_def sample_books_defs)

lemma january_run: "finance_run sample_books january_closed"
  unfolding january_closed_def by (intro finance_run.intros)

lemma parse_new_year: "parse_date ''1970-01-02'' = Some \<lparr>c_Year = 1970, c_Month = 1, c_Day = 2\<rparr>"
  by code_simp

lemma parse_december: "parse_date ''1969-12-31'' = Some \<lparr>c_Year = 1969, c_Month = 12, c_Day = 31\<rparr>"
  by code_simp

lemma january_open: "period_open 1 \<lparr>c_Year = 1970, c_Month = 1, c_Day = 2\<rparr> sample_books"
  by (simp add: period_open_def find_period_def row_get_def sample_books_def period_key_def blank_period_def)

lemma december_closed: "\<not> period_open 1 \<lparr>c_Year = 1969, c_Month = 12, c_Day = 31\<rparr> sample_books"
  by (simp add: period_open_def find_period_def row_get_def sample_books_def period_key_def blank_period_def)

lemma pair_enterable: "enterable (cti_Lines (entry_input date [(62, 7, 0), (90, 0, 7)])) sample_books"
  by (simp add: enterable_def entry_input_def line_ok_def total_debit_def total_credit_def sample_books_defs)

lemma january_txn: "sample_txn \<in> set (t_transactions january_closed)"
  by (simp add: january_closed_def ClosePeriod_def GetPeriod_def finance_publishEvent_def UpsertPeriod_def run_simps
      query_def find_period_def row_get_def sample_books_def period_key_def blank_period_def)

theorem finance_service_refines_journal_witness:
  "journal_step\<^sup>*\<^sup>* (journal sample_books) (journal january_closed)"
  unfolding january_closed_def by (rule finance_service_refines_journal [OF sample_books_ok])

theorem posted_entries_balance_witness:
  "sum_debit (lines_of 70 january_closed) = sum_credit (lines_of 70 january_closed) \<and> 2 \<le> length (lines_of 70 january_closed)"
  using posted_entries_balance [OF sample_books_ok january_run january_txn] by (simp add: sample_txn_def)

theorem posted_entries_are_kept_witness:
  "sample_txn \<in> set (t_transactions january_closed) \<and> length (lines_of 70 january_closed) = 2"
  using posted_entries_are_kept [OF sample_books_ok january_run, of sample_txn]
  by (simp add: sample_books_defs lines_of_def)

theorem closed_period_refuses_witness:
  "wp (env_ok numeric_15_4) (CreateTransaction 1 (entry_input ''1969-12-31'' [(62, 7, 0), (90, 0, 7)]) None) (\<lambda>_ _. False)
    (\<lambda>e w'. e = NewConflict (''accounting period is closed for '' @ ''1969-12'')
       \<and> committed w' = sample_books \<and> published w' = []) (start sample_books)"
proof -
  have "format_month \<lparr>c_Year = 1969, c_Month = 12, c_Day = 31\<rparr> = ''1969-12''" by code_simp
  then show ?thesis
    using closed_period_refuses [where inp = "entry_input ''1969-12-31'' [(62, 7, 0), (90, 0, 7)]", OF _ december_closed,
        of "env_ok numeric_15_4" None] parse_december
    by (simp add: entry_input_def)
qed

theorem CreateAutoTransaction_posts_witness:
  "wp (env_ok numeric_15_4) (CreateAutoTransaction 1 ''1970-01-02'' ''Order created'' ''62'' ''90'' 2000 None None)
    (\<lambda>_ w'. auto_entry 1 \<lparr>c_Year = 1970, c_Month = 1, c_Day = 2\<rparr> 62 90 2000 sample_books (committed w')
       \<and> map ev_Type (published w') = [''finance.transaction.created'', ''finance.transaction.posted''])
    (\<lambda>_ _. False) (start sample_books)"
  using CreateAutoTransaction_posts [OF _ sample_books_fresh sample_books_ok parse_new_year january_open,
      of numeric_15_4 "''62''" "sample_account 62 ''62'' ''asset''" "''90''" "sample_account 90 ''90'' ''revenue''" 2000]
  by (simp add: find_code_def sample_books_defs)

theorem wrapped_entry_is_not_posted_witness:
  "wp (env_ok numeric_15_4)
    (bnd (CreateTransaction 1 (entry_input ''1970-01-02''
        [(62, 9223372036854775807, 0), (62, 9223372036854775807, 0), (62, 3, 0), (90, 0, 1)]) None)
      (\<lambda>txn. PostTransaction 1 (tn_ID txn) None))
    (\<lambda>_ _. False)
    (\<lambda>e w'. e = unbalanced \<and> map tn_IsPosted (t_transactions (committed w')) = map tn_IsPosted (t_transactions sample_books) @ [False])
    (start sample_books)"
  by (rule wrapped_entry_is_not_posted [where date = "\<lparr>c_Year = 1970, c_Month = 1, c_Day = 2\<rparr>"])
    (use sample_books_fresh sample_books_ok parse_new_year january_open in
      \<open>simp_all add: entry_input_def enterable_def line_ok_def total_debit_def total_credit_def sample_books_defs\<close>)

theorem period_read_error_opens_witness:
  "wp (fail_at 0 (NewInternal ''timeout'') (env_ok numeric_15_4))
    (CreateTransaction 1 (entry_input ''1969-12-31'' [(62, 7, 0), (90, 0, 7)]) None)
    (\<lambda>txn w'. tn_Date txn = \<lparr>c_Year = 1969, c_Month = 12, c_Day = 31\<rparr> \<and> tn_OrganizationID txn = 1
       \<and> t_transactions (committed w') = t_transactions sample_books @ [txn\<lparr>tn_Lines := []\<rparr>]
       \<and> length (t_lines (committed w')) = length (t_lines sample_books) + 2)
    (\<lambda>_ _. False) (start sample_books)"
  by (rule period_read_error_opens [OF _ december_closed _ pair_enterable sample_books_fresh])
    (simp_all add: entry_input_def parse_december del: parse_date.simps)

theorem trial_balance_ignores_date_witness:
  "GetTrialBalance 1 \<lparr>c_Year = 1969, c_Month = 1, c_Day = 1\<rparr> (env_ok numeric_15_4) (start sample_books)
     = GetTrialBalance 1 \<lparr>c_Year = 1970, c_Month = 12, c_Day = 1\<rparr> (env_ok numeric_15_4) (start sample_books)"
  by (rule trial_balance_ignores_date [OF sample_books_ok])

theorem trial_balance_balances_witness:
  "wp (env_ok numeric_15_4) (GetTrialBalance 1 \<lparr>c_Year = 1970, c_Month = 12, c_Day = 1\<rparr>)
    (\<lambda>rows _. (\<Sum>r\<leftarrow>rows. sint (tb_Debit r)) = (\<Sum>r\<leftarrow>rows. sint (tb_Credit r))) (\<lambda>_ _. True) (start sample_books)"
  by (rule trial_balance_balances [OF sample_books_ok]) (simp add: in_order_def sample_books_defs)

end
