(* ===== verification/Dsl.thy ===== *)
theory Dsl
  imports Types Money
begin

text \<open>
  \<open>pkg/dsl\<close>: process definitions and their validation. A Go map is the list of its entries, in
  the order in which the run at hand ranges over it, with one entry per key; what depends on
  that order is what depends on it in the code. Values of type \<open>any\<close> are JSON values: that is
  what a definition decoded from a request, from the table or from YAML holds.

  The messages of the validator are the constructors of \<open>issue\<close>, before \<open>fmt\<close> spells them.
\<close>

record condition =
  cn_Field :: string
  cn_Operator :: string
  cn_Value :: json

text \<open>\<open>Params\<close> is \<open>JNull\<close> for the nil map.\<close>

record action =
  an_Type :: string
  an_Params :: json

record transition_rule =
  tr_To :: string
  tr_Event :: string
  tr_Condition :: "condition option"
  tr_Actions :: "action list"

record timeout =
  to_Duration :: string
  to_To :: string

record pstate =
  ps_Name :: string
  ps_Terminal :: bool
  ps_Timeout :: "timeout option"
  ps_OnEnter :: "action list"
  ps_OnExit :: "action list"
  ps_Transitions :: "transition_rule list"

record process_def =
  df_ID :: string
  df_Name :: string
  df_Description :: string
  df_TriggerOn :: string
  df_EntityKind :: string
  df_InitState :: string
  df_States :: "(string \<times> pstate) list"

definition validOperators :: "string list" where
  "validOperators = [''eq'', ''neq'', ''gt'', ''lt'', ''gte'', ''lte'', ''in'', ''not_in'', ''exists'']"

definition validActionTypes :: "string list" where
  "validActionTypes = [''emit_event'', ''update_status'', ''update_component'', ''notify'', ''webhook'']"

datatype issue =
    MustNotBeEmpty
  | MustHaveState
  | MustHaveTerminal
  | NoSuchState string
  | UnknownOperator string
  | UnknownAction string

record validation_error =
  ve_Field :: string
  ve_Message :: issue

definition add_if :: "bool \<Rightarrow> string \<Rightarrow> issue \<Rightarrow> validation_error list" where
  "add_if c field msg = (if c then [\<lparr>ve_Field = field, ve_Message = msg\<rparr>] else [])"

definition indexed :: "string \<Rightarrow> nat \<Rightarrow> string" where
  "indexed prefix i = prefix @ ''['' @ dec_nat i @ '']''"

definition validateActions :: "action list \<Rightarrow> string \<Rightarrow> validation_error list" where
  "validateActions actions prefix = concat (map (\<lambda>(i, a).
     add_if (an_Type a \<notin> set validActionTypes) (indexed prefix i @ ''.type'') (UnknownAction (an_Type a)))
     (enumerate 0 actions))"

definition no_state :: "process_def \<Rightarrow> string \<Rightarrow> bool" where
  "no_state def s \<longleftrightarrow> map_of (df_States def) s = None"

definition validateTransition :: "process_def \<Rightarrow> string \<Rightarrow> transition_rule \<Rightarrow> validation_error list" where
  "validateTransition def prefix tr =
     add_if (tr_Event tr = '''') (prefix @ ''.event'') MustNotBeEmpty
     @ add_if (no_state def (tr_To tr)) (prefix @ ''.to'') (NoSuchState (tr_To tr))
     @ (case tr_Condition tr of None \<Rightarrow> []
        | Some c \<Rightarrow>
            add_if (cn_Field c = '''') (prefix @ ''.condition.field'') MustNotBeEmpty
            @ add_if (cn_Operator c \<notin> set validOperators) (prefix @ ''.condition.operator'')
                (UnknownOperator (cn_Operator c)))
     @ validateActions (tr_Actions tr) (prefix @ ''.actions'')"

definition validateState :: "process_def \<Rightarrow> string \<times> pstate \<Rightarrow> validation_error list" where
  "validateState def = (\<lambda>(name, state). let prefix = ''states.'' @ name in
     (case ps_Timeout state of None \<Rightarrow> []
      | Some t \<Rightarrow> add_if (to_Duration t = '''') (prefix @ ''.timeout.duration'') MustNotBeEmpty
          @ add_if (no_state def (to_To t)) (prefix @ ''.timeout.to'') (NoSuchState (to_To t)))
     @ validateActions (ps_OnEnter state) (prefix @ ''.on_enter'')
     @ validateActions (ps_OnExit state) (prefix @ ''.on_exit'')
     @ concat (map (\<lambda>(i, tr). validateTransition def (indexed (prefix @ ''.transitions'') i) tr)
         (enumerate 0 (ps_Transitions state))))"

definition Validate :: "process_def \<Rightarrow> validation_error list" where
  "Validate def =
    (let errs = add_if (df_ID def = '''') ''id'' MustNotBeEmpty
       @ add_if (df_Name def = '''') ''name'' MustNotBeEmpty
       @ add_if (df_TriggerOn def = '''') ''trigger_on'' MustNotBeEmpty
       @ add_if (df_EntityKind def = '''') ''entity_kind'' MustNotBeEmpty
     in if df_States def = [] then errs @ add_if True ''states'' MustHaveState
        else errs
          @ add_if (no_state def (df_InitState def)) ''init_state'' (NoSuchState (df_InitState def))
          @ concat (map (validateState def) (df_States def))
          @ add_if (\<not> list_ex (\<lambda>s. ps_Terminal (snd s)) (df_States def)) ''states'' MustHaveTerminal)"

section \<open>What validation guarantees\<close>

text \<open>Every action of a definition, every transition, and the graph they span.\<close>

definition actions_of :: "pstate \<Rightarrow> action list" where
  "actions_of s = ps_OnEnter s @ ps_OnExit s @ concat (map tr_Actions (ps_Transitions s))"

definition edges :: "process_def \<Rightarrow> (string \<times> string) set" where
  "edges def = {(s, tr_To tr) | s st tr. (s, st) \<in> set (df_States def) \<and> tr \<in> set (ps_Transitions st)}"

definition valid_state :: "process_def \<Rightarrow> pstate \<Rightarrow> bool" where
  "valid_state def s \<longleftrightarrow>
     (\<forall>a \<in> set (actions_of s). an_Type a \<in> set validActionTypes)
     \<and> (\<forall>t. ps_Timeout s = Some t \<longrightarrow> to_Duration t \<noteq> '''' \<and> to_To t \<in> fst ` set (df_States def))
     \<and> (\<forall>tr \<in> set (ps_Transitions s). tr_Event tr \<noteq> '''' \<and> tr_To tr \<in> fst ` set (df_States def)
          \<and> (\<forall>c. tr_Condition tr = Some c \<longrightarrow> cn_Field c \<noteq> '''' \<and> cn_Operator c \<in> set validOperators))"

definition valid_def :: "process_def \<Rightarrow> bool" where
  "valid_def def \<longleftrightarrow>
     df_ID def \<noteq> '''' \<and> df_Name def \<noteq> '''' \<and> df_TriggerOn def \<noteq> '''' \<and> df_EntityKind def \<noteq> ''''
     \<and> df_InitState def \<in> fst ` set (df_States def)
     \<and> (\<forall>s \<in> snd ` set (df_States def). valid_state def s)
     \<and> (\<exists>s \<in> snd ` set (df_States def). ps_Terminal s)"

lemma add_if_empty [simp]: "add_if c field msg = [] \<longleftrightarrow> \<not> c"
  by (simp add: add_if_def)

lemma enumerate_all: "(\<forall>(i, x) \<in> set (enumerate n xs). P x) \<longleftrightarrow> (\<forall>x \<in> set xs. P x)"
  by (induction xs arbitrary: n) auto

lemma concat_enumerate_empty:
  assumes "\<And>i x. f (i, x) = [] \<longleftrightarrow> P x"
  shows "concat (map f (enumerate n xs)) = [] \<longleftrightarrow> (\<forall>x \<in> set xs. P x)"
  using assms by (induction xs arbitrary: n) auto

lemma validateActions_empty:
  "validateActions actions prefix = [] \<longleftrightarrow> (\<forall>a \<in> set actions. an_Type a \<in> set validActionTypes)"
  unfolding validateActions_def by (rule concat_enumerate_empty) simp

lemma no_state_iff: "no_state def s \<longleftrightarrow> s \<notin> fst ` set (df_States def)"
  by (simp add: no_state_def map_of_eq_None_iff)

lemma validateTransition_empty:
  "validateTransition def prefix tr = [] \<longleftrightarrow> tr_Event tr \<noteq> '''' \<and> tr_To tr \<in> fst ` set (df_States def)
     \<and> (\<forall>c. tr_Condition tr = Some c \<longrightarrow> cn_Field c \<noteq> '''' \<and> cn_Operator c \<in> set validOperators)
     \<and> (\<forall>a \<in> set (tr_Actions tr). an_Type a \<in> set validActionTypes)"
  by (auto simp: validateTransition_def validateActions_empty no_state_iff split: option.split)

lemma validateState_empty: "validateState def (name, s) = [] \<longleftrightarrow> valid_state def s"
proof -
  have "concat (map (\<lambda>(i, tr). validateTransition def (indexed prefix i) tr) (enumerate 0 (ps_Transitions s))) = []
    \<longleftrightarrow> (\<forall>tr \<in> set (ps_Transitions s). tr_Event tr \<noteq> '''' \<and> tr_To tr \<in> fst ` set (df_States def)
     \<and> (\<forall>c. tr_Condition tr = Some c \<longrightarrow> cn_Field c \<noteq> '''' \<and> cn_Operator c \<in> set validOperators)
     \<and> (\<forall>a \<in> set (tr_Actions tr). an_Type a \<in> set validActionTypes))" for prefix
    by (rule concat_enumerate_empty) (simp add: validateTransition_empty)
  then show ?thesis
    unfolding validateState_def Let_def prod.case append_is_Nil_conv validateActions_empty
    by (auto simp: valid_state_def actions_of_def no_state_iff split: option.splits)
qed

lemma Validate_empty: "Validate def = [] \<longleftrightarrow> valid_def def"
proof -
  have "concat (map (validateState def) (df_States def)) = [] \<longleftrightarrow> (\<forall>s \<in> snd ` set (df_States def). valid_state def s)"
    using validateState_empty by fastforce
  then show ?thesis
    by (cases "df_States def = []")
      (auto simp: Validate_def valid_def_def Let_def no_state_iff list_ex_iff)
qed

text \<open>From a state of a valid definition the graph leads to states of the definition only.\<close>

lemma valid_edges:
  "valid_def def \<Longrightarrow> (s, s') \<in> edges def \<Longrightarrow> s' \<in> fst ` set (df_States def)"
  by (force simp: valid_def_def valid_state_def edges_def)

lemma valid_paths:
  "(s, s') \<in> (edges def)\<^sup>* \<Longrightarrow> valid_def def \<Longrightarrow> s \<in> fst ` set (df_States def) \<Longrightarrow> s' \<in> fst ` set (df_States def)"
  by (induction rule: rtrancl_induct) (auto intro: valid_edges)

text \<open>C40: The validator accepts exactly the well-formed definitions: the four names are given, the initial
  state and the target of every transition and timeout exist, every action and operator is known,
  every transition has an event, every condition a field, and there is a terminal state.\<close>

theorem Validate_accepts: "Validate def = [] \<longleftrightarrow> valid_def def"
  by (rule Validate_empty)

end
