(* ===== verification/Process.thy ===== *)
theory Process
  imports Dsl Finance EventBus "HOL-Library.AList"
begin

text \<open>
  \<open>internal/core/process/engine.go\<close> over \<open>internal/storage/postgres/process_repo.go\<close>: the engine
  that runs process definitions as state machines. An instance belongs to an entity; an event on
  the entity may start an instance and may advance the active ones.

  The table of definitions in memory, \<open>e.defs\<close>, is passed and returned explicitly; it is the list
  of the entries of a Go map from \<open>trigger_on\<close>, in the order of iteration. The \<open>JSONB\<close> history is
  kept as the list it encodes. \<open>show_float\<close> stands for the shortest decimal \<open>fmt\<close> prints of a
  double.
\<close>

record history_entry =
  hi_From :: string
  hi_To :: string
  hi_Event :: string
  hi_Timestamp :: time

record pinstance =
  in_ID :: uuid
  in_OrganizationID :: uuid
  in_DefinitionID :: string
  in_EntityID :: uuid
  in_CurrentState :: string
  in_Status :: string
  in_Context :: json
  in_History :: "history_entry list"
  in_StartedAt :: time
  in_UpdatedAt :: time
  in_CompletedAt :: "time option"

record def_record =
  dr_ID :: string
  dr_OrganizationID :: "uuid option"
  dr_Name :: string
  dr_Description :: string
  dr_Definition :: process_def
  dr_IsActive :: bool
  dr_Version :: int
  dr_CreatedAt :: time
  dr_UpdatedAt :: time

record process_db = finance_db +
  t_definitions :: "def_record list"
  t_instances :: "pinstance list"

type_synonym defs = "(string \<times> process_def) list"

section \<open>The repository\<close>

definition definition_key :: "def_record \<Rightarrow> string \<times> uuid" where
  "definition_key r = (dr_ID r, case dr_OrganizationID r of None \<Rightarrow> uuid_nil | Some o1 \<Rightarrow> o1)"

text \<open>The \<open>DO UPDATE\<close> leaves the organization and the time of creation.\<close>

definition UpsertDefinition :: "def_record \<Rightarrow> ('a process_db_scheme, unit) op" where
  "UpsertDefinition r = pool_stmt (exec (\<lambda>d. d\<lparr>t_definitions :=
     (if definition_key r \<in> definition_key ` set (t_definitions d)
      then row_update (\<lambda>x. definition_key x = definition_key r)
             (\<lambda>x. r\<lparr>dr_OrganizationID := dr_OrganizationID x, dr_CreatedAt := dr_CreatedAt x\<rparr>) (t_definitions d)
      else t_definitions d @ [r])\<rparr>))"

text \<open>\<open>ORDER BY organization_id DESC NULLS LAST LIMIT 1\<close> over the organization's own and the shared one.\<close>

definition process_GetDefinition :: "string \<Rightarrow> uuid option \<Rightarrow> ('a process_db_scheme, def_record) op" where
  "process_GetDefinition did org = pool_find (\<lambda>d.
     case order_by (\<lambda>x y. dr_OrganizationID y = None \<or> dr_OrganizationID x \<noteq> None)
            (filter (\<lambda>r. dr_ID r = did \<and> (dr_OrganizationID r = None \<or> dr_OrganizationID r = org)) (t_definitions d)) of
       [] \<Rightarrow> None | r # _ \<Rightarrow> Some r) (NewNotFound ''process definition not found'')"

definition process_ListDefinitions :: "uuid \<Rightarrow> ('a process_db_scheme, def_record list) op" where
  "process_ListDefinitions org = pool_stmt (query (\<lambda>d.
     order_by (\<lambda>x y. str_le (dr_Name x) (dr_Name y))
       (filter (\<lambda>r. dr_OrganizationID r = Some org \<or> dr_OrganizationID r = None) (t_definitions d))))"

definition repo_DeleteDefinition :: "string \<Rightarrow> uuid \<Rightarrow> ('a process_db_scheme, unit) op" where
  "repo_DeleteDefinition did org =
    (let p = (\<lambda>r. dr_ID r = did \<and> dr_OrganizationID r = Some org)
     in bnd (pool_stmt (\<lambda>d. Inr (row_count p (t_definitions d),
              d\<lparr>t_definitions := filter (\<lambda>r. \<not> p r) (t_definitions d)\<rparr>))) (\<lambda>n.
        guard (n = 0) (NewNotFound ''process definition not found'')))"

definition CreateInstance :: "pinstance \<Rightarrow> ('a process_db_scheme, unit) op" where
  "CreateInstance i = pool_stmt (row_insert t_instances (\<lambda>is d. d\<lparr>t_instances := is\<rparr>) in_ID
     (i\<lparr>in_CompletedAt := None\<rparr>))"

definition find_instance :: "uuid \<Rightarrow> 'a process_db_scheme \<Rightarrow> pinstance option" where
  "find_instance iid d = row_get in_ID iid (t_instances d)"

definition GetInstance :: "uuid \<Rightarrow> ('a process_db_scheme, pinstance) op" where
  "GetInstance iid = pool_find (find_instance iid) (NewNotFound ''process instance not found'')"

definition active_on :: "uuid \<Rightarrow> 'a process_db_scheme \<Rightarrow> pinstance list" where
  "active_on eid d = filter (\<lambda>i. in_EntityID i = eid \<and> in_Status i = ''active'') (t_instances d)"

definition GetActiveByEntity :: "uuid \<Rightarrow> ('a process_db_scheme, pinstance list) op" where
  "GetActiveByEntity eid = pool_stmt (query (active_on eid))"

definition UpdateInstance :: "pinstance \<Rightarrow> ('a process_db_scheme, unit) op" where
  "UpdateInstance i = pool_stmt (exec (\<lambda>d. d\<lparr>t_instances := row_update (\<lambda>x. in_ID x = in_ID i)
     (\<lambda>x. x\<lparr>in_CurrentState := in_CurrentState i, in_Status := in_Status i, in_Context := in_Context i,
            in_History := in_History i, in_UpdatedAt := in_UpdatedAt i, in_CompletedAt := in_CompletedAt i\<rparr>)
     (t_instances d)\<rparr>))"

section \<open>Conditions\<close>

definition toFloat :: "json \<Rightarrow> f64" where
  "toFloat v = (case as_float v of None \<Rightarrow> f64_zero | Some x \<Rightarrow> x)"

text \<open>
  Values of type \<open>any\<close>: \<open>JInt\<close> is a Go \<open>int\<close>, as decoding of YAML gives it in a condition of a shipped
  definition; \<open>JFloat\<close> is a \<open>float64\<close>, which decoding of JSON makes of every number (and nil of one
  that is out of range). The conditions of definitions that come as JSON hold no \<open>JInt\<close>.
\<close>

lemma size_member [termination_simp]: "(k, v) \<in> set kvs \<Longrightarrow> size v < Suc (size_list (size_prod size size) kvs)"
  by (induction kvs) auto

fun from_json :: "json \<Rightarrow> json" where
  "from_json (JInt n) = (case f64_of_int n of Fin r \<Rightarrow> JFloat (Fin r) | _ \<Rightarrow> JNull)"
| "from_json (JArr xs) = JArr (map from_json xs)"
| "from_json (JObj kvs) = JObj (map (\<lambda>(k, v). (k, from_json v)) kvs)"
| "from_json v = v"

text \<open>\<open>fmt.Sprintf("%v", v)\<close>; maps are printed in the order of their keys.\<close>

fun joined :: "string list \<Rightarrow> string" where
  "joined [] = ''''"
| "joined [s] = s"
| "joined (s # t # ts) = s @ '' '' @ joined (t # ts)"

fun sprint :: "(f64 \<Rightarrow> string) \<Rightarrow> json \<Rightarrow> string" where
  "sprint show_float JNull = ''<nil>''"
| "sprint show_float (JBool b) = (if b then ''true'' else ''false'')"
| "sprint show_float (JInt n) = dec n"
| "sprint show_float (JFloat x) = show_float x"
| "sprint show_float (JStr s) = s"
| "sprint show_float (JUuid u) = uuid_string u"
| "sprint show_float (JArr xs) = ''['' @ joined (map (sprint show_float) xs) @ '']''"
| "sprint show_float (JObj kvs) = ''map['' @ joined (map (\<lambda>(k, s). k @ '':'' @ s)
     (order_by (\<lambda>x y. str_le (fst x) (fst y)) (map (\<lambda>(k, v). (k, sprint show_float v)) kvs))) @ '']''"

definition inSlice :: "(f64 \<Rightarrow> string) \<Rightarrow> json \<Rightarrow> json \<Rightarrow> bool" where
  "inSlice show_float v xs = (case as_arr xs of None \<Rightarrow> False
     | Some items \<Rightarrow> list_ex (\<lambda>item. sprint show_float item = sprint show_float v) items)"

text \<open>\<open>data\<close> is \<open>None\<close> for the nil map; a missing member reads as nil.\<close>

definition evaluateCondition :: "(f64 \<Rightarrow> string) \<Rightarrow> condition \<Rightarrow> (string \<times> json) list option \<Rightarrow> bool" where
  "evaluateCondition show_float cond data =
    (case data of
       None \<Rightarrow> cn_Operator cond = ''exists'' \<and> cn_Value cond = JBool False
     | Some kvs \<Rightarrow>
       let val = (case map_of kvs (cn_Field cond) of None \<Rightarrow> JNull | Some v \<Rightarrow> v);
           exists = (map_of kvs (cn_Field cond) \<noteq> None);
           oper = cn_Operator cond
       in if oper = ''exists'' then exists = (cn_Value cond = JBool True)
          else if oper = ''eq'' then sprint show_float val = sprint show_float (cn_Value cond)
          else if oper = ''neq'' then sprint show_float val \<noteq> sprint show_float (cn_Value cond)
          else if oper = ''gt'' then fless (toFloat (cn_Value cond)) (toFloat val)
          else if oper = ''lt'' then fless (toFloat val) (toFloat (cn_Value cond))
          else if oper = ''gte'' then fle (toFloat (cn_Value cond)) (toFloat val)
          else if oper = ''lte'' then fle (toFloat val) (toFloat (cn_Value cond))
          else if oper = ''in'' then inSlice show_float val (cn_Value cond)
          else if oper = ''not_in'' then \<not> inSlice show_float val (cn_Value cond)
          else False)"

section \<open>Actions\<close>

definition engine_emit :: "event \<Rightarrow> string \<Rightarrow> json \<Rightarrow> ('a core_db_scheme, unit) op" where
  "engine_emit source ty data =
    bnd new_uuid (\<lambda>evid.
    bnd now (\<lambda>t.
    publish \<lparr>ev_ID = evid, ev_OrganizationID = ev_OrganizationID source, ev_EntityID = ev_EntityID source,
             ev_Type = ty, ev_Data = marshal data, ev_ActorID = None, ev_Timestamp = t, ev_Version = 1\<rparr>))"

definition string_param :: "string \<Rightarrow> json \<Rightarrow> string" where
  "string_param k params = (case jget k params of None \<Rightarrow> '''' | Some v \<Rightarrow>
     (case as_str v of None \<Rightarrow> '''' | Some s \<Rightarrow> s))"

definition object_param :: "string \<Rightarrow> json \<Rightarrow> json" where
  "object_param k params = (case jget k params of Some (JObj kvs) \<Rightarrow> JObj kvs | _ \<Rightarrow> JNull)"

definition executeEmitEvent :: "event \<Rightarrow> json \<Rightarrow> ('a core_db_scheme, unit) op" where
  "executeEmitEvent source params =
    (if string_param ''event_type'' params = '''' then ret ()
     else engine_emit source (string_param ''event_type'' params) (object_param ''data'' params))"

definition executeUpdateStatus :: "event \<Rightarrow> json \<Rightarrow> ('a core_db_scheme, unit) op" where
  "executeUpdateStatus source params =
    (if string_param ''status'' params = '''' then ret ()
     else engine_emit source ''entity.status_update_requested''
            (JObj [(''status'', JStr (string_param ''status'' params))]))"

definition executeNotify :: "event \<Rightarrow> json \<Rightarrow> ('a core_db_scheme, unit) op" where
  "executeNotify source params = engine_emit source ''notification.created'' params"

definition executeActions :: "event \<Rightarrow> action list \<Rightarrow> ('a core_db_scheme, unit) op" where
  "executeActions ev actions = for_each actions (\<lambda>a.
     if an_Type a = ''emit_event'' then executeEmitEvent ev (an_Params a)
     else if an_Type a = ''update_status'' then executeUpdateStatus ev (an_Params a)
     else if an_Type a = ''notify'' then executeNotify ev (an_Params a)
     else ret ())"

section \<open>The engine\<close>

definition RegisterDefinition :: "process_def \<Rightarrow> defs \<Rightarrow> defs" where
  "RegisterDefinition def defs = AList.update (df_TriggerOn def) def defs"

definition LoadDefinitions :: "uuid \<Rightarrow> defs \<Rightarrow> ('a process_db_scheme, defs) op" where
  "LoadDefinitions org defs = bnd (process_ListDefinitions org) (\<lambda>rs.
     ret (foldl (\<lambda>ds r. if dr_IsActive r then RegisterDefinition (dr_Definition r) ds else ds) defs rs))"

definition findDefinition :: "string \<Rightarrow> defs \<Rightarrow> process_def option" where
  "findDefinition did defs = map_option snd (find (\<lambda>e. df_ID (snd e) = did) defs)"

definition new_instance :: "uuid \<Rightarrow> time \<Rightarrow> event \<Rightarrow> uuid \<Rightarrow> process_def \<Rightarrow> pinstance" where
  "new_instance iid t ev eid def = \<lparr>in_ID = iid, in_OrganizationID = ev_OrganizationID ev,
     in_DefinitionID = df_ID def, in_EntityID = eid, in_CurrentState = df_InitState def, in_Status = ''active'',
     in_Context = JObj [], in_History = [], in_StartedAt = t, in_UpdatedAt = t, in_CompletedAt = None\<rparr>"

definition startProcess :: "event \<Rightarrow> uuid \<Rightarrow> process_def \<Rightarrow> ('a process_db_scheme, unit) op" where
  "startProcess ev eid def =
    bnd now (\<lambda>t.
    bnd new_uuid (\<lambda>iid.
    bnd (CreateInstance (new_instance iid t ev eid def)) (\<lambda>_.
    case map_of (df_States def) (df_InitState def) of
      None \<Rightarrow> ret ()
    | Some state \<Rightarrow> executeActions ev (ps_OnEnter state))))"

text \<open>The map the event's data decode into: nil unless they are an object.\<close>

definition event_data :: "event \<Rightarrow> (string \<times> json) list option" where
  "event_data ev = (case from_json (ev_Data ev) of JObj kvs \<Rightarrow> Some kvs | _ \<Rightarrow> None)"

definition enabled :: "(f64 \<Rightarrow> string) \<Rightarrow> event \<Rightarrow> transition_rule \<Rightarrow> bool" where
  "enabled show_float ev tr \<longleftrightarrow> tr_Event tr = ev_Type ev
     \<and> (case tr_Condition tr of None \<Rightarrow> True | Some c \<Rightarrow> evaluateCondition show_float c (event_data ev))"

definition zero_state :: pstate where
  "zero_state = \<lparr>ps_Name = '''', ps_Terminal = False, ps_Timeout = None, ps_OnEnter = [], ps_OnExit = [],
     ps_Transitions = []\<rparr>"

definition moved :: "pinstance \<Rightarrow> event \<Rightarrow> string \<Rightarrow> time \<Rightarrow> time \<Rightarrow> pinstance" where
  "moved inst ev target t0 t1 = inst\<lparr>
     in_History := in_History inst @ [\<lparr>hi_From = in_CurrentState inst, hi_To = target, hi_Event = ev_Type ev,
                                       hi_Timestamp = t0\<rparr>],
     in_CurrentState := target, in_UpdatedAt := t1\<rparr>"

definition completed :: "pinstance \<Rightarrow> time \<Rightarrow> pinstance" where
  "completed inst t = inst\<lparr>in_Status := ''completed'', in_CompletedAt := Some t\<rparr>"

text \<open>The loop over the transitions takes the first that is enabled, and returns.\<close>

definition take_transition ::
  "process_def \<Rightarrow> pstate \<Rightarrow> transition_rule \<Rightarrow> pinstance \<Rightarrow> event \<Rightarrow> ('a process_db_scheme, unit) op" where
  "take_transition def state tr inst ev =
    bnd (executeActions ev (ps_OnExit state)) (\<lambda>_.
    bnd (executeActions ev (tr_Actions tr)) (\<lambda>_.
    bnd now (\<lambda>t0.
    bnd now (\<lambda>t1.
    let inst = moved inst ev (tr_To tr) t0 t1;
        newState = (case map_of (df_States def) (tr_To tr) of None \<Rightarrow> zero_state | Some s \<Rightarrow> s) in
    bnd (if ps_Terminal newState then bnd now (\<lambda>t2. ret (completed inst t2)) else ret inst) (\<lambda>inst.
    bnd (UpdateInstance inst) (\<lambda>_.
    executeActions ev (ps_OnEnter newState)))))))"

definition advanceInstance ::
  "(f64 \<Rightarrow> string) \<Rightarrow> defs \<Rightarrow> event \<Rightarrow> pinstance \<Rightarrow> ('a process_db_scheme, unit) op" where
  "advanceInstance show_float defs ev inst =
    (case findDefinition (in_DefinitionID inst) defs of
       None \<Rightarrow> fail (PlainError ''definition not found'' None)
     | Some def \<Rightarrow>
       (case map_of (df_States def) (in_CurrentState inst) of
          None \<Rightarrow> fail (PlainError ''state not found in definition'' None)
        | Some state \<Rightarrow>
          (case find (enabled show_float ev) (ps_Transitions state) of
             None \<Rightarrow> ret ()
           | Some tr \<Rightarrow> take_transition def state tr inst ev)))"

definition HandleEvent :: "(f64 \<Rightarrow> string) \<Rightarrow> defs \<Rightarrow> event \<Rightarrow> ('a process_db_scheme, unit) op" where
  "HandleEvent show_float defs ev = (case ev_EntityID ev of
     None \<Rightarrow> ret ()
   | Some eid \<Rightarrow>
      bnd (case map_of defs (ev_Type ev) of
             None \<Rightarrow> ret ()
           | Some def \<Rightarrow> bnd (try_op (startProcess ev eid def)) (\<lambda>_. ret ())) (\<lambda>_.
      bnd (GetActiveByEntity eid) (\<lambda>instances.
      for_each instances (\<lambda>i. bnd (try_op (advanceInstance show_float defs ev i)) (\<lambda>_. ret ())))))"

definition TriggerManual ::
  "(f64 \<Rightarrow> string) \<Rightarrow> defs \<Rightarrow> uuid \<Rightarrow> uuid \<Rightarrow> string \<Rightarrow> json \<Rightarrow> ('a process_db_scheme, unit) op" where
  "TriggerManual show_float defs org eid ty data =
    bnd new_uuid (\<lambda>evid.
    bnd now (\<lambda>t.
    HandleEvent show_float defs \<lparr>ev_ID = evid, ev_OrganizationID = org, ev_EntityID = Some eid, ev_Type = ty,
      ev_Data = data, ev_ActorID = None, ev_Timestamp = t, ev_Version = 1\<rparr>))"

text \<open>Saving validates, writes the row and then replaces the entry of the trigger, whoever's it was.\<close>

definition SaveDefinition ::
  "(issue \<Rightarrow> string) \<Rightarrow> def_record \<Rightarrow> defs \<Rightarrow> ('a process_db_scheme, defs) op" where
  "SaveDefinition spell r defs = (case Validate (dr_Definition r) of
     e # _ \<Rightarrow> fail (NewBadRequest (''invalid definition: '' @ spell (ve_Message e)))
   | [] \<Rightarrow> bnd (UpsertDefinition r) (\<lambda>_.
       ret (if dr_IsActive r then AList.update (df_TriggerOn (dr_Definition r)) (dr_Definition r) defs else defs)))"

definition DeleteDefinition :: "string \<Rightarrow> uuid \<Rightarrow> defs \<Rightarrow> ('a process_db_scheme, defs) op" where
  "DeleteDefinition did org defs = bnd (repo_DeleteDefinition did org) (\<lambda>_.
     ret (case find (\<lambda>e. df_ID (snd e) = did) defs of
            None \<Rightarrow> defs
          | Some (trigger, _) \<Rightarrow> AList.delete trigger defs))"

end
