(* ===== verification/ProcessRuns.thy ===== *)
theory ProcessRuns
  imports Process Views "HOL-Library.Sublist"
begin

text \<open>
  What the process engine does to its instances, whatever events arrive, whoever saves or deletes
  definitions and whichever statements fail. An instance's history is a walk; the engine extends
  it, and stops when the instance is completed.
\<close>

section \<open>Only events\<close>

text \<open>The actions of a definition publish and do nothing else to the tables.\<close>

definition only_events :: "'a core_db_scheme \<Rightarrow> 'a core_db_scheme \<Rightarrow> bool" where
  "only_events d d' \<longleftrightarrow> (\<exists>es. d' = d\<lparr>t_events := es\<rparr>)"

interpretation silent: transition only_events
proof unfold_locales
  fix d d' d'' :: "'a core_db_scheme"
  show "only_events d d"
    unfolding only_events_def by (rule exI [of _ "t_events d"]) simp
  show "only_events d d' \<Longrightarrow> only_events d' d'' \<Longrightarrow> only_events d d''"
    by (auto simp: only_events_def)
qed

lemma engine_emit_silent: "moves only_events (engine_emit source ty data)"
  unfolding engine_emit_def
  by (intro silent.moves_rules moves_publish) (auto simp: only_events_def)

lemma executeActions_silent: "moves only_events (executeActions ev actions)"
  unfolding executeActions_def executeEmitEvent_def executeUpdateStatus_def executeNotify_def
  by (intro silent.moves_rules engine_emit_silent)

lemma only_events_instances: "only_events d d' \<Longrightarrow> t_instances d' = t_instances (d :: 'a process_db_scheme)"
  by (auto simp: only_events_def)

text \<open>Nor do they fail: \<open>Publish\<close> has no error.\<close>

lemma for_each_succeeds: "(\<And>x w. fst (f x env w) = Inr ()) \<Longrightarrow> fst (for_each xs f env w) = Inr ()"
  by (induction xs arbitrary: w) (auto simp: ret_def bnd_def split: prod.split sum.split, metis fst_conv sum.distinct(1))

lemma executeActions_succeeds: "fst (executeActions ev actions env w) = Inr ()"
  unfolding executeActions_def
  by (rule for_each_succeeds) (simp add: executeEmitEvent_def executeUpdateStatus_def executeNotify_def engine_emit_def
    bnd_def new_uuid_def now_def ret_def publish_def Let_def)

text \<open>The actions as a step of a longer operation, outside a transaction.\<close>

lemma wp_executeActions:
  assumes "pending w = id"
    and "\<And>w'. pending w' = id \<Longrightarrow> t_instances (committed w') = t_instances (committed w) \<Longrightarrow> Q () w'"
  shows "wp env (executeActions ev actions) Q E (w :: 'a process_db_scheme world)"
proof -
  have "pending (snd (executeActions ev actions env w)) = id
      \<and> only_events (committed w) (committed (snd (executeActions ev actions env w)))"
    using executeActions_silent assms(1) unfolding moves_def by blast
  then show ?thesis
    using executeActions_succeeds [of ev actions env w] assms(2) only_events_instances
    unfolding wp_def by (cases "executeActions ev actions env w") fastforce
qed

section \<open>Instances as walks\<close>

fun walk :: "string \<Rightarrow> history_entry list \<Rightarrow> string option" where
  "walk s [] = Some s"
| "walk s (h # hs) = (if hi_From h = s then walk (hi_To h) hs else None)"

lemma walk_append: "walk s (hs @ hs') = (case walk s hs of None \<Rightarrow> None | Some s' \<Rightarrow> walk s' hs')"
  by (induction hs arbitrary: s) auto

lemma walk_step: "walk s hs = Some (hi_From h) \<Longrightarrow> \<exists>s. walk s (hs @ [h]) = Some (hi_To h)"
  by (rule exI [of _ s]) (simp add: walk_append)

text \<open>An instance is a walk to its current state, active until it is completed.\<close>

definition instance_ok :: "pinstance \<Rightarrow> bool" where
  "instance_ok i \<longleftrightarrow> (\<exists>s. walk s (in_History i) = Some (in_CurrentState i))
     \<and> (in_Status i = ''active'' \<and> in_CompletedAt i = None
        \<or> in_Status i = ''completed'' \<and> in_CompletedAt i \<noteq> None \<and> in_History i \<noteq> [])"

text \<open>What becomes of an instance: the same one, its history extended, and nothing once completed.\<close>

definition grown :: "pinstance \<Rightarrow> pinstance \<Rightarrow> bool" where
  "grown i i' \<longleftrightarrow> in_ID i' = in_ID i \<and> in_OrganizationID i' = in_OrganizationID i
     \<and> in_DefinitionID i' = in_DefinitionID i \<and> in_EntityID i' = in_EntityID i
     \<and> in_StartedAt i' = in_StartedAt i \<and> prefix (in_History i) (in_History i')
     \<and> (in_Status i \<noteq> ''active'' \<longrightarrow> i' = i)"

lemma grown_refl [simp]: "grown i i"
  by (simp add: grown_def)

lemma grown_trans: "grown i i' \<Longrightarrow> grown i' i'' \<Longrightarrow> grown i i''"
  unfolding grown_def by (metis prefix_order.trans)

text \<open>The table: one row per identifier, every row with the property \<open>P\<close>; rows only grow.\<close>

definition all_ok :: "(pinstance \<Rightarrow> bool) \<Rightarrow> 'a process_db_scheme \<Rightarrow> bool" where
  "all_ok P d \<longleftrightarrow> distinct (map in_ID (t_instances d)) \<and> (\<forall>i \<in> set (t_instances d). P i)"

definition grows :: "'a process_db_scheme \<Rightarrow> 'a process_db_scheme \<Rightarrow> bool" where
  "grows d d' \<longleftrightarrow> (\<forall>i \<in> set (t_instances d). \<exists>i' \<in> set (t_instances d'). grown i i')"

definition process_move :: "(pinstance \<Rightarrow> bool) \<Rightarrow> 'a process_db_scheme \<Rightarrow> 'a process_db_scheme \<Rightarrow> bool" where
  "process_move P d d' \<longleftrightarrow> (all_ok P d \<longrightarrow> all_ok P d' \<and> grows d d')"

lemma same_instances_grow: "t_instances d' = t_instances d \<Longrightarrow> grows d d'"
  by (simp add: grows_def) (blast intro: grown_refl)

lemma grows_refl [simp]: "grows d d"
  by (rule same_instances_grow) simp

lemma grows_trans: "grows d d' \<Longrightarrow> grows d' d'' \<Longrightarrow> grows d d''"
  unfolding grows_def by (meson grown_trans)

interpretation procs: transition "process_move P"
  by unfold_locales (auto simp: process_move_def intro: grows_trans)

lemma same_instances_move: "t_instances d' = t_instances d \<Longrightarrow> process_move P d d'"
  by (auto simp: process_move_def all_ok_def intro: same_instances_grow)

section \<open>One event\<close>

definition target_state :: "process_def \<Rightarrow> string \<Rightarrow> pstate" where
  "target_state def s = (case map_of (df_States def) s of None \<Rightarrow> zero_state | Some st \<Rightarrow> st)"

text \<open>What an event may make of an instance, by the definition its \<open>DefinitionID\<close> is found to have.\<close>

inductive instance_step :: "(f64 \<Rightarrow> string) \<Rightarrow> defs \<Rightarrow> event \<Rightarrow> pinstance \<Rightarrow> pinstance \<Rightarrow> bool"
  for show_float defs ev where
  advance: "findDefinition (in_DefinitionID i) defs = Some def \<Longrightarrow>
     map_of (df_States def) (in_CurrentState i) = Some state \<Longrightarrow>
     find (enabled show_float ev) (ps_Transitions state) = Some tr \<Longrightarrow>
     \<not> ps_Terminal (target_state def (tr_To tr)) \<Longrightarrow>
     instance_step show_float defs ev i (moved i ev (tr_To tr) t0 t1)"
| finish: "findDefinition (in_DefinitionID i) defs = Some def \<Longrightarrow>
     map_of (df_States def) (in_CurrentState i) = Some state \<Longrightarrow>
     find (enabled show_float ev) (ps_Transitions state) = Some tr \<Longrightarrow>
     ps_Terminal (target_state def (tr_To tr)) \<Longrightarrow>
     instance_step show_float defs ev i (completed (moved i ev (tr_To tr) t0 t1) t2)"

inductive_cases instance_stepE: "instance_step show_float defs ev i i'"

lemma instance_step_grown: "instance_step show_float defs ev i i' \<Longrightarrow> in_Status i = ''active'' \<Longrightarrow> grown i i'"
  by (erule instance_stepE) (auto simp: grown_def moved_def completed_def)

lemma instance_step_ok:
  "instance_step show_float defs ev i i' \<Longrightarrow> instance_ok i \<Longrightarrow> in_Status i = ''active'' \<Longrightarrow> instance_ok i'"
  by (erule instance_stepE) (auto simp: instance_ok_def moved_def completed_def
     dest: walk_step [where h = "\<lparr>hi_From = in_CurrentState i, hi_To = t, hi_Event = e, hi_Timestamp = u\<rparr>" for t e u, simplified])

lemma instance_step_fields:
  "instance_step show_float defs ev i i' \<Longrightarrow> \<exists>a b c h u v. i' = i\<lparr>in_CurrentState := a, in_Status := b,
     in_Context := c, in_History := h, in_UpdatedAt := u, in_CompletedAt := v\<rparr>"
  by (erule instance_stepE; cases i) (auto simp: moved_def completed_def)

text \<open>Replacing a row, which is what \<open>UpdateInstance\<close> does to the row it was read from.\<close>

definition advanced :: "pinstance \<Rightarrow> pinstance \<Rightarrow> pinstance list \<Rightarrow> pinstance list" where
  "advanced i i' is = map (\<lambda>x. if in_ID x = in_ID i then i' else x) is"

lemma distinct_key: "distinct (map f xs) \<Longrightarrow> x \<in> set xs \<Longrightarrow> y \<in> set xs \<Longrightarrow> f x = f y \<Longrightarrow> x = y"
  by (simp add: distinct_map inj_on_def)

lemma update_replaces:
  assumes "distinct (map in_ID is)" and "i \<in> set is"
    and "i' = i\<lparr>in_CurrentState := a, in_Status := b, in_Context := c, in_History := h, in_UpdatedAt := u,
      in_CompletedAt := v\<rparr>"
  shows "row_update (\<lambda>x. in_ID x = in_ID i') (\<lambda>x. x\<lparr>in_CurrentState := in_CurrentState i', in_Status := in_Status i',
     in_Context := in_Context i', in_History := in_History i', in_UpdatedAt := in_UpdatedAt i',
     in_CompletedAt := in_CompletedAt i'\<rparr>) is = advanced i i' is"
  unfolding row_update_def advanced_def
proof (rule map_cong [OF refl])
  fix x
  assume "x \<in> set is"
  with assms(1,2) have "in_ID x = in_ID i \<Longrightarrow> x = i" by (blast intro: distinct_key)
  then show "(if in_ID x = in_ID i' then x\<lparr>in_CurrentState := in_CurrentState i', in_Status := in_Status i',
     in_Context := in_Context i', in_History := in_History i', in_UpdatedAt := in_UpdatedAt i',
     in_CompletedAt := in_CompletedAt i'\<rparr> else x) = (if in_ID x = in_ID i then i' else x)"
    by (auto simp: assms(3))
qed

lemma wp_UpdateInstance:
  assumes "pending w = id" and "distinct (map in_ID (t_instances (committed w)))"
    and "i \<in> set (t_instances (committed w))"
    and "i' = i\<lparr>in_CurrentState := a, in_Status := b, in_Context := c, in_History := h, in_UpdatedAt := u,
      in_CompletedAt := v\<rparr>"
    and "\<And>w'. pending w' = id \<Longrightarrow> t_instances (committed w') = advanced i i' (t_instances (committed w)) \<Longrightarrow> Q () w'"
    and "\<And>e w'. pending w' = id \<Longrightarrow> t_instances (committed w') = t_instances (committed w) \<Longrightarrow> E e w'"
  shows "wp env (UpdateInstance i') Q E w"
  unfolding UpdateInstance_def
  using assms(1,5,6) update_replaces [OF assms(2-4)]
  by (auto simp: wp_pool_stmt exec_def split: option.split)

text \<open>One turn of the loop: whatever fails, the row is as it was or one step further.\<close>

lemma wp_advanceInstance:
  assumes w: "pending w = id" and dist: "distinct (map in_ID (t_instances (committed w)))"
    and i: "i \<in> set (t_instances (committed w))"
    and same: "\<And>w'. pending w' = id \<Longrightarrow> t_instances (committed w') = t_instances (committed w) \<Longrightarrow> T w'"
    and step: "\<And>i' w'. instance_step show_float defs ev i i' \<Longrightarrow> pending w' = id \<Longrightarrow>
      t_instances (committed w') = advanced i i' (t_instances (committed w)) \<Longrightarrow> T w'"
  shows "wp env (advanceInstance show_float defs ev i) (\<lambda>_. T) (\<lambda>_. T) w"
proof (cases "findDefinition (in_DefinitionID i) defs")
  case None
  then show ?thesis using w same by (simp add: advanceInstance_def wp_fail)
next
  case def: (Some def)
  show ?thesis
  proof (cases "map_of (df_States def) (in_CurrentState i)")
    case None
    with def show ?thesis using w same by (simp add: advanceInstance_def wp_fail)
  next
    case state: (Some state)
    show ?thesis
    proof (cases "find (enabled show_float ev) (ps_Transitions state)")
      case None
      with def state show ?thesis using w same by (simp add: advanceInstance_def wp_ret)
    next
      case tr: (Some tr)
      note steps = instance_step.intros [OF def state tr]
      have upd: "wp env (bnd (UpdateInstance i') (\<lambda>_. executeActions ev as)) (\<lambda>_. T) (\<lambda>_. T) w'"
        if st: "instance_step show_float defs ev i i'" and w': "pending w' = id"
          "t_instances (committed w') = t_instances (committed w)" for i' w' as
      proof -
        obtain a b c h u v where "i' = i\<lparr>in_CurrentState := a, in_Status := b, in_Context := c, in_History := h,
            in_UpdatedAt := u, in_CompletedAt := v\<rparr>"
          using instance_step_fields [OF st] by blast
        then show ?thesis
          by (intro wpI_bnd wp_UpdateInstance [where i = i] wp_executeActions)
            (use st w' dist i in \<open>auto intro: step same\<close>)
      qed
      have "wp env (take_transition def state tr i ev) (\<lambda>_. T) (\<lambda>_. T) w"
        unfolding take_transition_def Let_def target_state_def [symmetric]
        using w same steps upd [unfolded wp_bnd]
        by (intro wpI_bnd wpI_now wp_executeActions wpI_if wpI_ret) (simp_all add: same_outside_def)
      with def state tr show ?thesis by (simp add: advanceInstance_def)
    qed
  qed
qed

text \<open>Starting: a new row, or nothing.\<close>

lemma wp_startProcess:
  assumes w: "pending w = id"
    and same: "\<And>w'. pending w' = id \<Longrightarrow> t_instances (committed w') = t_instances (committed w) \<Longrightarrow> T w'"
    and new: "\<And>iid t w'. iid \<notin> in_ID ` set (t_instances (committed w)) \<Longrightarrow> pending w' = id \<Longrightarrow>
      t_instances (committed w') = t_instances (committed w) @ [new_instance iid t ev eid def] \<Longrightarrow> T w'"
  shows "wp env (startProcess ev eid def) (\<lambda>_. T) (\<lambda>_. T) w"
proof -
  have create: "wp env (CreateInstance (new_instance iid t ev eid def)) (\<lambda>_. T') (\<lambda>_. T) w1"
    if "pending w1 = id" "committed w1 = committed w"
      "\<And>w'. iid \<notin> in_ID ` set (t_instances (committed w)) \<Longrightarrow> pending w' = id \<Longrightarrow>
         t_instances (committed w') = t_instances (committed w) @ [new_instance iid t ev eid def] \<Longrightarrow> T' w'"
    for iid t w1 T'
    using that(1,2) unfolding CreateInstance_def
    by (auto simp: wp_pool_stmt row_insert_def new_instance_def split: option.split intro!: same
        that(3) [unfolded new_instance_def])
  show ?thesis
    unfolding startProcess_def using w new
    by (intro wpI_bnd wpI_now wpI_new_uuid create wpI_case_option wpI_ret wp_executeActions) simp_all
qed

section \<open>The loop over the instances\<close>

definition keyed :: "'a process_db_scheme \<Rightarrow> bool" where
  "keyed d \<longleftrightarrow> distinct (map in_ID (t_instances d))"

lemma advanced_keys:
  "in_ID i' = in_ID i \<Longrightarrow> map in_ID (advanced i i' is) = map in_ID is"
  by (auto simp: advanced_def)

lemma instance_step_key: "instance_step show_float defs ev i i' \<Longrightarrow> in_ID i' = in_ID i"
  by (erule instance_stepE) (auto simp: moved_def completed_def)

lemma advanced_other: "x \<in> set is \<Longrightarrow> in_ID x \<noteq> in_ID i \<Longrightarrow> x \<in> set (advanced i i' is)"
  by (force simp: advanced_def)

lemma advanced_self: "i \<in> set is \<Longrightarrow> i' \<in> set (advanced i i' is)"
  by (force simp: advanced_def)

lemma advanced_set: "x \<in> set (advanced i i' is) \<Longrightarrow> x = i' \<or> x \<in> set is \<and> in_ID x \<noteq> in_ID i"
  by (auto simp: advanced_def split: if_splits)

text \<open>
  A relation between tables that an event moves along when the start of an instance and the
  step of one do, the keys being distinct.
\<close>

locale instance_relation = transition R for R :: "'a process_db_scheme \<Rightarrow> 'a process_db_scheme \<Rightarrow> bool" +
  assumes R_same: "t_instances d' = t_instances d \<Longrightarrow> R d d'"
begin

lemma advance_all:
  assumes step: "\<And>d d' i i'. i \<in> S \<Longrightarrow> keyed d \<Longrightarrow> i \<in> set (t_instances d) \<Longrightarrow> in_Status i = ''active'' \<Longrightarrow>
      instance_step show_float defs ev i i' \<Longrightarrow> t_instances d' = advanced i i' (t_instances d) \<Longrightarrow> R d d'"
    and "pending w = id" and "keyed (committed w)" and "set is \<subseteq> set (t_instances (committed w))"
    and "set is \<subseteq> S" and "distinct (map in_ID is)" and "\<forall>i \<in> set is. in_Status i = ''active''"
    and T: "T = (\<lambda>w'. pending w' = id \<and> keyed (committed w') \<and> R (committed w) (committed w'))"
  shows "wp env (for_each is (\<lambda>i. bnd (try_op (advanceInstance show_float defs ev i)) (\<lambda>_. ret ())))
     (\<lambda>_. T) (\<lambda>_. T) w"
  using assms(2-)
proof (induction "is" arbitrary: w T)
  case Nil
  then show ?case by (simp add: wp_ret R_refl)
next
  case (Cons i rest)
  have go: "wp env (for_each rest (\<lambda>i. bnd (try_op (advanceInstance show_float defs ev i)) (\<lambda>_. ret ())))
      (\<lambda>_. T) (\<lambda>_. T) w'"
    if "pending w' = id" "keyed (committed w')" "set rest \<subseteq> set (t_instances (committed w'))"
      "R (committed w) (committed w')" for w'
    using that Cons.prems(4-6) Cons.prems(7)
    by (intro wp_conseq [OF Cons.IH [OF that(1-3) _ _ _ refl]]) (auto intro: R_trans)
  have i: "i \<in> S" "i \<in> set (t_instances (committed w))" "in_Status i = ''active''" "in_ID i \<notin> in_ID ` set rest"
    using Cons.prems by auto
  show ?case
    unfolding for_each.simps wp_bnd wp_try wp_ret
  proof (rule wp_advanceInstance [OF Cons.prems(1) _ i(2)])
    fix i' and w' :: "'a process_db_scheme world"
    assume st: "instance_step show_float defs ev i i'" and w': "pending w' = id"
      "t_instances (committed w') = advanced i i' (t_instances (committed w))"
    have "x \<in> set (t_instances (committed w'))" if "x \<in> set rest" for x
      unfolding w'(2) using Cons.prems(3) i(4) that by (intro advanced_other) (auto simp: image_iff)
    then have "set rest \<subseteq> set (t_instances (committed w'))" by blast
    moreover have "keyed (committed w')"
      using Cons.prems(2) by (simp add: keyed_def w'(2) advanced_keys [OF instance_step_key [OF st]])
    ultimately show "wp env (for_each rest (\<lambda>i. bnd (try_op (advanceInstance show_float defs ev i)) (\<lambda>_. ret ())))
      (\<lambda>_. T) (\<lambda>_. T) w'"
      using w' st i Cons.prems(2) by (intro go) (auto intro: step)
  next
    fix w' :: "'a process_db_scheme world"
    assume "pending w' = id" "t_instances (committed w') = t_instances (committed w)"
    then show "wp env (for_each rest (\<lambda>i. bnd (try_op (advanceInstance show_float defs ev i)) (\<lambda>_. ret ())))
      (\<lambda>_. T) (\<lambda>_. T) w'"
      using Cons.prems by (intro go) (auto simp: keyed_def intro: R_same)
  qed (use Cons.prems in \<open>simp add: keyed_def\<close>)
qed

lemma advance_active:
  assumes step: "\<And>d d' i i'. keyed d \<Longrightarrow> i \<in> set (t_instances d) \<Longrightarrow> in_Status i = ''active'' \<Longrightarrow>
      instance_step show_float defs ev i i' \<Longrightarrow> t_instances d' = advanced i i' (t_instances d) \<Longrightarrow> R d d'"
    and w: "pending w = id" "keyed (committed w)"
    and T: "\<And>w'. pending w' = id \<Longrightarrow> keyed (committed w') \<Longrightarrow> R (committed w) (committed w') \<Longrightarrow> T w'"
  shows "wp env (bnd (GetActiveByEntity eid) (\<lambda>instances.
      for_each instances (\<lambda>i. bnd (try_op (advanceInstance show_float defs ev i)) (\<lambda>_. ret ())))) (\<lambda>_. T) (\<lambda>_. T) w"
  unfolding GetActiveByEntity_def wp_bnd [of env "pool_stmt _"]
proof (rule wpI_pool_stmt)
  fix xs d assume q: "query (active_on eid) (committed w) = Inr (xs, d)"
  then have "xs = active_on eid (committed w)" "d = committed w" by (auto simp: query_def)
  then show "wp env (for_each xs (\<lambda>i. bnd (try_op (advanceInstance show_float defs ev i)) (\<lambda>_. ret ())))
      (\<lambda>_. T) (\<lambda>_. T) (w\<lparr>tick := Suc (tick w), committed := d\<rparr>)"
    using w by (intro wp_conseq [OF advance_all [where S = UNIV, OF step _ _ _ _ _ _ refl]])
      (auto simp: keyed_def active_on_def intro: T [unfolded keyed_def] distinct_map_filter)
qed (use w in \<open>auto simp: query_def R_refl intro!: T\<close>)

lemma moves_HandleEvent:
  assumes start: "\<And>d d' eid def iid t. keyed d \<Longrightarrow> ev_EntityID ev = Some eid \<Longrightarrow> map_of defs (ev_Type ev) = Some def \<Longrightarrow>
      iid \<notin> in_ID ` set (t_instances d) \<Longrightarrow> t_instances d' = t_instances d @ [new_instance iid t ev eid def] \<Longrightarrow> R d d'"
    and step: "\<And>d d' i i'. keyed d \<Longrightarrow> i \<in> set (t_instances d) \<Longrightarrow> in_Status i = ''active'' \<Longrightarrow>
      instance_step show_float defs ev i i' \<Longrightarrow> t_instances d' = advanced i i' (t_instances d) \<Longrightarrow> R d d'"
    and "pending w = id" and "keyed (committed w)"
    and T: "T = (\<lambda>w'. pending w' = id \<and> keyed (committed w') \<and> R (committed w) (committed w'))"
  shows "wp env (HandleEvent show_float defs ev) (\<lambda>_. T) (\<lambda>_. T) w"
proof (cases "ev_EntityID ev")
  case None
  then show ?thesis using assms(3-5) by (simp add: HandleEvent_def wp_ret R_refl)
next
  case eid: (Some eid)
  have rest: "wp env (bnd (GetActiveByEntity eid) (\<lambda>instances.
      for_each instances (\<lambda>i. bnd (try_op (advanceInstance show_float defs ev i)) (\<lambda>_. ret ())))) (\<lambda>_. T) (\<lambda>_. T) w'"
    if "pending w' = id" "keyed (committed w')" "R (committed w) (committed w')" for w'
    using that by (intro advance_active [OF step]) (auto simp: T intro: R_trans)
  have "wp env (case map_of defs (ev_Type ev) of None \<Rightarrow> ret ()
      | Some def \<Rightarrow> bnd (try_op (startProcess ev eid def)) (\<lambda>_. ret ())) (\<lambda>_. T) (\<lambda>_. T) w"
  proof (cases "map_of defs (ev_Type ev)")
    case None
    then show ?thesis using assms(3-5) by (simp add: wp_ret R_refl)
  next
    case (Some def)
    show ?thesis
      unfolding Some option.case wp_bnd wp_try wp_ret
      using assms(3-5) eid Some
      by (intro wp_startProcess) (auto simp: keyed_def new_instance_def intro: R_same start)
  qed
  then show ?thesis
    unfolding HandleEvent_def eid option.case
    by (intro wpI_bnd [where f = "\<lambda>_. bnd (GetActiveByEntity eid) g" for g]) (auto elim!: wp_conseq intro: rest [unfolded T] simp: T)
qed

end

section \<open>Runs\<close>

lemma advanced_move:
  assumes "keyed d" and "i \<in> set (t_instances d)" and "in_Status i = ''active''"
    and "instance_step show_float defs ev i i'" and "t_instances d' = advanced i i' (t_instances d)"
    and "P i \<Longrightarrow> P i'"
  shows "process_move P d d'"
proof -
  have grown: "grown i i'" using assms(3,4) by (blast intro: instance_step_grown)
  have "\<exists>x' \<in> set (t_instances d'). grown x x'" if "x \<in> set (t_instances d)" for x
  proof (cases "in_ID x = in_ID i")
    case True
    with that assms(1,2) have "x = i" by (auto simp: keyed_def dest: distinct_key)
    with grown assms(2) show ?thesis by (auto simp: assms(5) intro: advanced_self)
  next
    case False
    with that show ?thesis by (auto simp: assms(5) intro!: bexI [of _ x] advanced_other)
  qed
  moreover have "all_ok P d'" if "all_ok P d"
    using that assms(2,6) unfolding all_ok_def assms(5) advanced_keys [OF instance_step_key [OF assms(4)]]
    by (auto dest: advanced_set)
  ultimately show ?thesis by (auto simp: process_move_def grows_def)
qed

lemma appended_move:
  assumes "iid \<notin> in_ID ` set (t_instances d)" and "t_instances d' = t_instances d @ [new_instance iid t ev eid def]"
    and "P (new_instance iid t ev eid def)"
  shows "process_move P d d'"
proof -
  have "grows d d'" unfolding grows_def using assms(2) by (auto intro: bexI [where P = "grown i" for i] grown_refl)
  then show ?thesis using assms by (auto simp: process_move_def all_ok_def new_instance_def)
qed

interpretation rows: instance_relation "process_move P"
  by unfold_locales (rule same_instances_move)

text \<open>A row that no event changes.\<close>

definition stays :: "pinstance \<Rightarrow> 'a process_db_scheme \<Rightarrow> 'a process_db_scheme \<Rightarrow> bool" where
  "stays i d d' \<longleftrightarrow> (i \<in> set (t_instances d) \<longrightarrow> i \<in> set (t_instances d'))"

interpretation row: instance_relation "stays i"
  by unfold_locales (auto simp: stays_def)

text \<open>What is asked of the engine: an event of the bus or of a user, and the definitions' upkeep.\<close>

datatype process_request =
    PEvent event
  | PTrigger uuid uuid string json
  | PSave def_record
  | PDelete string uuid
  | PLoad uuid

fun serve_process ::
  "(f64 \<Rightarrow> string) \<Rightarrow> (issue \<Rightarrow> string) \<Rightarrow> defs \<Rightarrow> process_request \<Rightarrow> ('a process_db_scheme, defs) op" where
  "serve_process show_float spell defs (PEvent ev) = bnd (HandleEvent show_float defs ev) (\<lambda>_. ret defs)"
| "serve_process show_float spell defs (PTrigger org eid ty data) =
     bnd (TriggerManual show_float defs org eid ty data) (\<lambda>_. ret defs)"
| "serve_process show_float spell defs (PSave r) = SaveDefinition spell r defs"
| "serve_process show_float spell defs (PDelete did org) = DeleteDefinition did org defs"
| "serve_process show_float spell defs (PLoad org) = LoadDefinitions org defs"

text \<open>An error leaves the table in memory as it was.\<close>

definition defs_after :: "defs \<Rightarrow> go_error + defs \<Rightarrow> defs" where
  "defs_after defs r = (case r of Inl _ \<Rightarrow> defs | Inr defs' \<Rightarrow> defs')"

inductive process_run ::
  "(f64 \<Rightarrow> string) \<Rightarrow> (issue \<Rightarrow> string) \<Rightarrow> defs \<times> 'a process_db_scheme \<Rightarrow> defs \<times> 'a process_db_scheme \<Rightarrow> bool"
  for show_float spell where
  run_none: "process_run show_float spell s s"
| run_request: "process_run show_float spell s (defs, d) \<Longrightarrow>
     serve_process show_float spell defs req env (start d) = (r, w) \<Longrightarrow>
     process_run show_float spell s (defs_after defs r, committed w)"

definition same_instances :: "'a process_db_scheme \<Rightarrow> 'a process_db_scheme \<Rightarrow> bool" where
  "same_instances d d' \<longleftrightarrow> t_instances d' = t_instances d"

interpretation upkeep: transition same_instances
  by unfold_locales (simp_all add: same_instances_def)

lemma upkeep_moves:
  "moves same_instances (SaveDefinition spell r defs)"
  "moves same_instances (DeleteDefinition did org defs)"
  "moves same_instances (LoadDefinitions org defs)"
  unfolding SaveDefinition_def DeleteDefinition_def LoadDefinitions_def UpsertDefinition_def repo_DeleteDefinition_def
    process_ListDefinitions_def Let_def
  by (auto split: list.split
      intro!: upkeep.moves_rules moves_pool_stmt simp: same_instances_def exec_def)

lemma upkeep_wp:
  assumes "moves same_instances m" and "pending w = id" and "keyed (committed w)"
    and T: "T = (\<lambda>w'. pending w' = id \<and> keyed (committed w') \<and> process_move P (committed w) (committed w'))"
  shows "wp env m (\<lambda>_. T) (\<lambda>_. T) w"
proof -
  have "wp env m (\<lambda>_ w'. pending w' = id \<and> same_instances (committed w) (committed w'))
      (\<lambda>_ w'. pending w' = id \<and> same_instances (committed w) (committed w')) w"
    using assms(1,2) unfolding moves_wp by blast
  then show ?thesis
    by (rule wp_conseq) (use assms(3) T in \<open>auto simp: same_instances_def keyed_def intro: same_instances_move\<close>)
qed

lemma wp_TriggerManual:
  assumes "\<And>ev w'. pending w' = pending w \<Longrightarrow> committed w' = committed w \<Longrightarrow> wp env (HandleEvent show_float defs ev) Q E w'"
  shows "wp env (TriggerManual show_float defs org eid ty data) Q E w"
  unfolding TriggerManual_def by (intro wpI_bnd wpI_new_uuid wpI_now assms) simp_all

lemma serve_process_moves:
  assumes "pending w = id" and "keyed (committed w)"
    and start: "\<And>ev eid def iid t. map_of defs (ev_Type ev) = Some def \<Longrightarrow> P (new_instance iid t ev eid def)"
    and step: "\<And>ev i i'. P i \<Longrightarrow> in_Status i = ''active'' \<Longrightarrow> instance_step show_float defs ev i i' \<Longrightarrow> P i'"
    and T: "T = (\<lambda>w'. pending w' = id \<and> keyed (committed w') \<and> process_move P (committed w) (committed w'))"
  shows "wp env (serve_process show_float spell defs req) (\<lambda>_. T) (\<lambda>_. T) w"
proof -
  have handle: "wp env (HandleEvent show_float defs ev) (\<lambda>_. T) (\<lambda>_. T) w'"
    if "pending w' = id" "committed w' = committed w" for ev w'
    unfolding T that(2) [symmetric] using assms(2) that
    by (intro rows.moves_HandleEvent [OF _ _ _ _ refl]) (auto intro: advanced_move appended_move start step)
  show ?thesis
  proof (cases req)
    case (PEvent ev)
    then show ?thesis using assms(1) by (auto simp: wp_bnd wp_ret [abs_def] intro: handle)
  next
    case (PTrigger org eid ty data)
    then show ?thesis by (simp add: wp_bnd wp_ret [abs_def]) (rule wp_TriggerManual, rule handle; simp add: assms(1))
  qed (use assms(1,2) T in \<open>auto intro!: upkeep_wp upkeep_moves\<close>)
qed

lemma instance_ok_new: "instance_ok (new_instance iid t ev eid def)"
  by (simp add: instance_ok_def new_instance_def)

lemma process_run_moves:
  "process_run show_float spell s s' \<Longrightarrow> all_ok instance_ok (snd s) \<Longrightarrow> all_ok instance_ok (snd s') \<and> grows (snd s) (snd s')"
proof (induction rule: process_run.induct)
  case (run_none s)
  then show ?case by simp
next
  case (run_request s defs d req env r w)
  have ok: "all_ok instance_ok d" "grows (snd s) d" using run_request by simp_all
  have "wp env (serve_process show_float spell defs req)
      (\<lambda>_ w'. pending w' = id \<and> keyed (committed w') \<and> process_move instance_ok (committed (start d)) (committed w'))
      (\<lambda>_ w'. pending w' = id \<and> keyed (committed w') \<and> process_move instance_ok (committed (start d)) (committed w')) (start d)"
    using ok(1) by (intro serve_process_moves [OF _ _ _ _ refl])
      (auto simp: start_def keyed_def all_ok_def intro: instance_ok_new instance_step_ok)
  then have "process_move instance_ok d (committed w)"
    by (simp add: wp_state run_request.hyps(2)) (simp add: start_def)
  with ok show ?case by (auto simp: process_move_def intro: grows_trans)
qed

text \<open>C19: Histories are append-only, under any requests and any failures: after any run of events,
  manual triggers and changes of the definitions every instance there was is still there, the same
  one, its history extended, unchanged when it was completed already; and every instance's history
  is a walk that ends in its current state.\<close>

theorem process_history_is_kept:
  assumes "all_ok instance_ok d" and "process_run show_float spell (defs, d) (defs', d')"
  shows "(\<forall>i \<in> set (t_instances d). \<exists>i' \<in> set (t_instances d'). grown i i') \<and> (\<forall>i \<in> set (t_instances d'). instance_ok i)"
  using process_run_moves [OF assms(2)] assms(1) by (simp add: grows_def all_ok_def)

section \<open>Following the definition\<close>

text \<open>What \<open>loadProcessDefinitions\<close> and \<open>SaveDefinition\<close> see to, and one definition per identifier.\<close>

definition defs_ok :: "defs \<Rightarrow> bool" where
  "defs_ok defs \<longleftrightarrow> distinct (map (\<lambda>e. df_ID (snd e)) defs) \<and> (\<forall>e \<in> set defs. Validate (snd e) = [])"

definition follows :: "defs \<Rightarrow> pinstance \<Rightarrow> bool" where
  "follows defs i \<longleftrightarrow> (\<forall>def. findDefinition (in_DefinitionID i) defs = Some def \<longrightarrow>
     walk (df_InitState def) (in_History i) = Some (in_CurrentState i)
     \<and> (\<forall>h \<in> set (in_History i). (hi_From h, hi_To h) \<in> edges def)
     \<and> in_CurrentState i \<in> fst ` set (df_States def)
     \<and> (in_History i \<noteq> [] \<longrightarrow> (in_Status i = ''completed'' \<longleftrightarrow> ps_Terminal (target_state def (in_CurrentState i)))))"

lemma findDefinition_Some: "findDefinition did defs = Some def \<Longrightarrow> \<exists>t. (t, def) \<in> set defs \<and> df_ID def = did"
  unfolding findDefinition_def by (cases "find (\<lambda>e. df_ID (snd e) = did) defs") (auto dest!: find_SomeD)

lemma findDefinition_here:
  assumes "distinct (map (\<lambda>e. df_ID (snd e)) defs)" and "(t, def) \<in> set defs"
  shows "findDefinition (df_ID def) defs = Some def"
proof (cases "findDefinition (df_ID def) defs")
  case None
  with assms(2) show ?thesis by (force simp: findDefinition_def find_None_iff)
next
  case (Some def')
  then obtain t' where "(t', def') \<in> set defs" "df_ID def' = df_ID def" by (blast dest: findDefinition_Some)
  then have "(t', def') = (t, def)"
    using distinct_key [OF assms(1), of "(t', def')" "(t, def)"] assms(2) by simp
  with Some show ?thesis by simp
qed

lemma follows_new:
  assumes "defs_ok defs" and "map_of defs ty = Some def"
  shows "follows defs (new_instance iid t ev eid def)"
proof -
  have mem: "(ty, def) \<in> set defs" using assms(2) by (rule map_of_SomeD)
  with assms(1) have "findDefinition (df_ID def) defs = Some def" "valid_def def"
    by (auto simp: defs_ok_def Validate_empty intro: findDefinition_here)
  then show ?thesis by (simp add: follows_def new_instance_def valid_def_def)
qed

lemma follows_step:
  assumes "defs_ok defs" and "follows defs i" and "in_Status i = ''active''" and "instance_step show_float defs ev i i'"
  shows "follows defs i'"
proof -
  have ids: "in_DefinitionID i' = in_DefinitionID i"
    using assms(4) by (rule instance_stepE) (simp_all add: moved_def completed_def)
  have "walk (df_InitState def) (in_History i') = Some (in_CurrentState i')
     \<and> (\<forall>h \<in> set (in_History i'). (hi_From h, hi_To h) \<in> edges def)
     \<and> in_CurrentState i' \<in> fst ` set (df_States def)
     \<and> (in_Status i' = ''completed'' \<longleftrightarrow> ps_Terminal (target_state def (in_CurrentState i')))"
    if def: "findDefinition (in_DefinitionID i) defs = Some def" for def
  proof -
    have valid: "valid_def def"
      using assms(1) findDefinition_Some [OF def] by (force simp: defs_ok_def Validate_empty)
    have edge: "(in_CurrentState i, tr_To tr) \<in> edges def"
      if "map_of (df_States def) (in_CurrentState i) = Some state" "find (enabled show_float ev) (ps_Transitions state) = Some tr"
      for state tr
      using that by (force simp: edges_def find_Some_iff dest: map_of_SomeD)
    show ?thesis
      using assms(4)
      by (rule instance_stepE)
        (use assms(2,3) def edge valid_edges [OF valid edge] in
          \<open>auto simp: follows_def moved_def completed_def walk_append\<close>)
  qed
  then show ?thesis by (simp add: follows_def ids)
qed

text \<open>Events arriving one after another, each handled in an environment of its own.\<close>

inductive event_run :: "(f64 \<Rightarrow> string) \<Rightarrow> defs \<Rightarrow> event list \<Rightarrow> 'a process_db_scheme \<Rightarrow> 'a process_db_scheme \<Rightarrow> bool"
  for show_float defs where
  no_event: "event_run show_float defs [] d d"
| next_event: "event_run show_float defs evs d d' \<Longrightarrow>
     event_run show_float defs (evs @ [ev]) d (committed (snd (HandleEvent show_float defs ev env (start d'))))"

lemma event_run_invariant:
  assumes "event_run show_float defs evs d d'" and "all_ok P d"
    and "\<And>ev eid def iid t. map_of defs (ev_Type ev) = Some def \<Longrightarrow> P (new_instance iid t ev eid def)"
    and "\<And>ev i i'. P i \<Longrightarrow> in_Status i = ''active'' \<Longrightarrow> instance_step show_float defs ev i i' \<Longrightarrow> P i'"
  shows "all_ok P d'"
  using assms(1,2)
proof (induction rule: event_run.induct)
  case (next_event evs d d' ev env)
  then have ok: "all_ok P d'" by simp
  have "wp env (HandleEvent show_float defs ev)
      (\<lambda>_ w'. pending w' = id \<and> keyed (committed w') \<and> process_move P (committed (start d')) (committed w'))
      (\<lambda>_ w'. pending w' = id \<and> keyed (committed w') \<and> process_move P (committed (start d')) (committed w')) (start d')"
    by (intro rows.moves_HandleEvent [OF _ _ _ _ refl])
      (use ok in \<open>auto simp: start_def keyed_def all_ok_def intro: advanced_move [unfolded keyed_def] appended_move assms(3,4)\<close>)
  with ok show ?case by (auto simp: wp_state process_move_def start_def)
qed

text \<open>C20: Instances follow their definition: with validated definitions of different identifiers, from an
  empty table and after any events, with any failures, every instance's history is a path in the
  definition's graph from its initial state to the current one, which is a state of the definition;
  it is completed exactly when it has moved into a terminal state.\<close>

theorem instances_follow_definition:
  assumes "defs_ok defs" and "t_instances d = []" and "event_run show_float defs evs d d'"
    and "i \<in> set (t_instances d')" and "findDefinition (in_DefinitionID i) defs = Some def"
  shows "walk (df_InitState def) (in_History i) = Some (in_CurrentState i)
     \<and> (\<forall>h \<in> set (in_History i). (hi_From h, hi_To h) \<in> edges def)
     \<and> in_CurrentState i \<in> fst ` set (df_States def)
     \<and> (in_Status i = ''completed'' \<longleftrightarrow> in_History i \<noteq> [] \<and> ps_Terminal (target_state def (in_CurrentState i)))"
proof -
  have "all_ok (\<lambda>i. follows defs i \<and> instance_ok i) d'"
    using assms(3)
    by (rule event_run_invariant)
      (use assms(1,2) in \<open>auto simp: all_ok_def intro: follows_new follows_step instance_ok_new instance_step_ok\<close>)
  then show ?thesis
    using assms(4,5) by (auto simp: all_ok_def follows_def instance_ok_def)
qed

section \<open>Instances that nothing moves\<close>

lemma event_run_stays:
  assumes "event_run show_float defs evs d d'" and "keyed d" and "i \<in> set (t_instances d)"
    and "\<And>ev i'. ev \<in> set evs \<Longrightarrow> \<not> instance_step show_float defs ev i i'"
  shows "i \<in> set (t_instances d') \<and> keyed d'"
  using assms
proof (induction rule: event_run.induct)
  case (next_event evs d d' ev env)
  then have ok: "keyed d'" "i \<in> set (t_instances d')" and stuck: "\<And>i'. \<not> instance_step show_float defs ev i i'"
    by auto
  have still: "stays i x x'" if "keyed x" "j \<in> set (t_instances x)" "instance_step show_float defs ev j j'"
      "t_instances x' = advanced j j' (t_instances x)" for x x' :: "'a process_db_scheme" and j j'
    using that stuck by (auto simp: stays_def keyed_def intro!: advanced_other dest: distinct_key)
  have "wp env (HandleEvent show_float defs ev)
      (\<lambda>_ w'. pending w' = id \<and> keyed (committed w') \<and> stays i (committed (start d')) (committed w'))
      (\<lambda>_ w'. pending w' = id \<and> keyed (committed w') \<and> stays i (committed (start d')) (committed w')) (start d')"
    by (intro row.moves_HandleEvent [OF _ _ _ _ refl])
      (use ok still in \<open>auto simp: start_def stays_def\<close>)
  with ok show ?case by (auto simp: wp_state stays_def start_def)
qed simp

section \<open>An enabled transition is taken\<close>

definition result_of :: "process_def \<Rightarrow> transition_rule \<Rightarrow> event \<Rightarrow> pinstance \<Rightarrow> pinstance \<Rightarrow> bool" where
  "result_of def tr ev i i' \<longleftrightarrow> (\<exists>t0 t1 t2. i' =
     (if ps_Terminal (target_state def (tr_To tr)) then completed (moved i ev (tr_To tr) t0 t1) t2
      else moved i ev (tr_To tr) t0 t1))"

lemma result_of_key: "result_of def tr ev i i' \<Longrightarrow> in_ID i' = in_ID i"
  by (auto simp: result_of_def moved_def completed_def)

lemma ok_advanceInstance:
  fixes w :: "'a process_db_scheme world"
  assumes rel: "reliable env" and w: "pending w = id" and dist: "keyed (committed w)" and i: "i \<in> set (t_instances (committed w))"
    and def: "findDefinition (in_DefinitionID i) defs = Some def"
    and state: "map_of (df_States def) (in_CurrentState i) = Some state"
    and tr: "find (enabled show_float ev) (ps_Transitions state) = Some tr"
    and T: "\<And>i' w'. result_of def tr ev i i' \<Longrightarrow> pending w' = id \<Longrightarrow>
      t_instances (committed w') = advanced i i' (t_instances (committed w)) \<Longrightarrow> T w'"
  shows "wp env (advanceInstance show_float defs ev i) (\<lambda>_. T) (\<lambda>_. T) w"
proof -
  have upd: "wp env (UpdateInstance i') (\<lambda>_ w'. Q w') E w1"
    if st: "instance_step show_float defs ev i i'" and w1: "pending w1 = id" "t_instances (committed w1) = t_instances (committed w)"
      and Q: "\<And>w'. pending w' = id \<Longrightarrow> t_instances (committed w') = advanced i i' (t_instances (committed w)) \<Longrightarrow> Q w'"
    for i' Q E w1
  proof -
    obtain a b c h u v where "i' = i\<lparr>in_CurrentState := a, in_Status := b, in_Context := c, in_History := h,
        in_UpdatedAt := u, in_CompletedAt := v\<rparr>"
      using instance_step_fields [OF st] by blast
    note upd = update_replaces [OF dist [unfolded keyed_def] i this]
    show ?thesis
      unfolding UpdateInstance_def using rel w1 upd Q by (auto simp: wp_pool_stmt exec_def reliable_def)
  qed
  note steps = instance_step.intros [OF def state tr]
  have fin: "T w'" if "pending w' = id"
      "ps_Terminal (target_state def (tr_To tr)) \<and>
         t_instances (committed w') = advanced i (completed (moved i ev (tr_To tr) t0 t1) t2) (t_instances (committed w))
       \<or> \<not> ps_Terminal (target_state def (tr_To tr)) \<and>
         t_instances (committed w') = advanced i (moved i ev (tr_To tr) t0 t1) (t_instances (committed w))" for t0 t1 t2 w'
    using that by (elim disjE conjE) (rule T [rotated 2], assumption, (simp add: result_of_def, blast), assumption)+
  have "wp env (take_transition def state tr i ev) (\<lambda>_. T) (\<lambda>_. T) w"
    unfolding take_transition_def Let_def target_state_def [symmetric]
    using w steps
    by (intro wpI_bnd wpI_now wp_executeActions wpI_if wpI_ret upd) (auto intro: fin)
  with def state tr show ?thesis by (simp add: advanceInstance_def)
qed

text \<open>Several rows that no event changes.\<close>

definition keeps_rows :: "pinstance set \<Rightarrow> 'a process_db_scheme \<Rightarrow> 'a process_db_scheme \<Rightarrow> bool" where
  "keeps_rows X d d' \<longleftrightarrow> (X \<subseteq> set (t_instances d) \<longrightarrow> X \<subseteq> set (t_instances d'))"

interpretation kept: instance_relation "keeps_rows X"
  by unfold_locales (auto simp: keeps_rows_def)

lemma for_each_append: "for_each (xs @ ys) f = bnd (for_each xs f) (\<lambda>_. for_each ys f)"
  by (induction xs) (auto simp: fun_eq_iff bnd_def ret_def split: prod.split sum.split)

lemma advance_all_succeeds:
  "fst (for_each is (\<lambda>i. bnd (try_op (advanceInstance show_float defs ev i)) (\<lambda>_. ret ())) env w) = Inr ()"
  by (rule for_each_succeeds) (simp add: bnd_def try_op_def ret_def split: prod.split)

lemma wp_success: "fst (m env w) = Inr x \<Longrightarrow> wp env m Q E w \<Longrightarrow> wp env m Q E' w"
  by (auto simp: wp_def split: prod.splits sum.splits)

text \<open>The turns of other instances leave a set of rows alone.\<close>

lemma others_keep:
  fixes w :: "'a process_db_scheme world"
  assumes "pending w = id" and "keyed (committed w)" and "set is \<subseteq> set (t_instances (committed w))"
    and "distinct (map in_ID is)" and "\<forall>i \<in> set is. in_Status i = ''active''"
    and "X \<subseteq> set (t_instances (committed w))" and "in_ID ` X \<inter> in_ID ` set is = {}"
    and T: "\<And>w'. pending w' = id \<Longrightarrow> keyed (committed w') \<Longrightarrow> X \<subseteq> set (t_instances (committed w')) \<Longrightarrow> T w'"
  shows "wp env (for_each is (\<lambda>i. bnd (try_op (advanceInstance show_float defs ev i)) (\<lambda>_. ret ()))) (\<lambda>_. T) E w"
proof -
  have keep: "keeps_rows X d d'"
    if "j \<in> set is" "t_instances d' = advanced j j' (t_instances d)" for d d' :: "'a process_db_scheme" and j j'
    unfolding keeps_rows_def that(2) using that(1) assms(7) by (blast intro: advanced_other)
  show ?thesis
    by (rule wp_success [OF advance_all_succeeds], rule wp_conseq [OF kept.advance_all [where S = "set is" and X = X, OF _ assms(1-3) subset_refl assms(4,5) refl]
        , where E' = "\<lambda>_. T"])
      (use keep assms(6) T in \<open>auto simp: keeps_rows_def\<close>)
qed

lemma ok_advance_all:
  fixes w :: "'a process_db_scheme world"
  assumes rel: "reliable env" and w: "pending w = id" "keyed (committed w)" and i: "i \<in> set (t_instances (committed w))"
    "in_Status i = ''active''" "in_EntityID i = eid"
    and def: "findDefinition (in_DefinitionID i) defs = Some def"
    and state: "map_of (df_States def) (in_CurrentState i) = Some state"
    and tr: "find (enabled show_float ev) (ps_Transitions state) = Some tr"
  shows "wp env (for_each (active_on eid (committed w)) (\<lambda>i. bnd (try_op (advanceInstance show_float defs ev i)) (\<lambda>_. ret ())))
     (\<lambda>_ w'. \<exists>i' \<in> set (t_instances (committed w')). result_of def tr ev i i')
     (\<lambda>_ w'. \<exists>i' \<in> set (t_instances (committed w')). result_of def tr ev i i') w"
proof -
  let ?body = "\<lambda>i. bnd (try_op (advanceInstance show_float defs ev i)) (\<lambda>_. ret ())"
  let ?done = "\<lambda>w'. \<exists>i' \<in> set (t_instances (committed w')). result_of def tr ev i i'"
  have "i \<in> set (active_on eid (committed w))" using i by (simp add: active_on_def)
  then obtain ys zs where split: "active_on eid (committed w) = ys @ i # zs" by (blast dest: split_list)
  have ids: "distinct (map in_ID (ys @ i # zs))"
    unfolding split [symmetric] active_on_def using w(2) by (simp add: keyed_def distinct_map_filter)
  have "set (ys @ i # zs) \<subseteq> set (t_instances (committed w))" "\<forall>j \<in> set (ys @ i # zs). in_Status j = ''active''"
    unfolding split [symmetric] by (auto simp: active_on_def)
  note rows = this ids
  have last: "wp env (for_each zs ?body) (\<lambda>_. ?done) (\<lambda>_. ?done) w2"
    if st: "result_of def tr ev i i'" and w1: "keyed (committed w1)" "set (i # zs) \<subseteq> set (t_instances (committed w1))"
      and w2: "pending w2 = id" "t_instances (committed w2) = advanced i i' (t_instances (committed w1))"
    for i' and w1 w2 :: "'a process_db_scheme world"
  proof (rule others_keep [OF w2(1), where X = "{i'}"])
    note key = result_of_key [OF st]
    show "keyed (committed w2)" using w1(1) by (simp add: keyed_def w2(2) advanced_keys [OF key])
    show "set zs \<subseteq> set (t_instances (committed w2))"
      unfolding w2(2) using w1(2) rows(3) by (auto simp: image_iff intro!: advanced_other)
    show "{i'} \<subseteq> set (t_instances (committed w2))"
      unfolding w2(2) using w1(2) by (auto intro: advanced_self)
    show "in_ID ` {i'} \<inter> in_ID ` set zs = {}" using rows(3) key by auto
  qed (use rows st in auto)
  have middle: "wp env (?body i) (\<lambda>_. wp env (for_each zs ?body) (\<lambda>_. ?done) (\<lambda>_. ?done)) (\<lambda>_. ?done) w1"
    if "pending w1 = id" "keyed (committed w1)" "set (i # zs) \<subseteq> set (t_instances (committed w1))"
    for w1 :: "'a process_db_scheme world"
    unfolding wp_bnd wp_try wp_ret using that
    by (intro ok_advanceInstance [OF rel _ _ _ def state tr] last [OF _ that(2,3)]) simp_all
  show ?thesis
    unfolding split for_each_append for_each.simps wp_bnd [of env "for_each ys ?body"] wp_bnd [of env "?body i"]
    by (rule wp_conseq [OF others_keep [OF w, where X = "set (i # zs)"
        and T = "\<lambda>w1. pending w1 = id \<and> keyed (committed w1) \<and> set (i # zs) \<subseteq> set (t_instances (committed w1))" and E = "\<lambda>_ _. False"]])
      (use rows middle in auto)
qed

lemma HandleEvent_advances:
  fixes d :: "'a process_db_scheme"
  assumes "reliable env" and "keyed d" and "i \<in> set (t_instances d)" and "in_Status i = ''active''"
    and "ev_EntityID ev = Some (in_EntityID i)"
    and "findDefinition (in_DefinitionID i) defs = Some def"
    and "map_of (df_States def) (in_CurrentState i) = Some state"
    and "find (enabled show_float ev) (ps_Transitions state) = Some tr"
  shows "\<exists>i' \<in> set (t_instances (committed (snd (HandleEvent show_float defs ev env (start d))))). \<exists>t0 t1 t2. i' =
     (if ps_Terminal (target_state def (tr_To tr)) then completed (moved i ev (tr_To tr) t0 t1) t2
      else moved i ev (tr_To tr) t0 t1)"
proof -
  let ?done = "\<lambda>w'. \<exists>i' \<in> set (t_instances (committed w')). result_of def tr ev i i'"
  have rest: "wp env (bnd (GetActiveByEntity (in_EntityID i)) (\<lambda>instances.
      for_each instances (\<lambda>i. bnd (try_op (advanceInstance show_float defs ev i)) (\<lambda>_. ret ())))) (\<lambda>_. ?done) (\<lambda>_. ?done) w1"
    if "pending w1 = id" "keyed (committed w1)" "i \<in> set (t_instances (committed w1))" for w1 :: "'a process_db_scheme world"
  proof -
    let ?w = "w1\<lparr>tick := Suc (tick w1)\<rparr>"
    have "wp env (for_each (active_on (in_EntityID i) (committed ?w))
        (\<lambda>i. bnd (try_op (advanceInstance show_float defs ev i)) (\<lambda>_. ret ()))) (\<lambda>_. ?done) (\<lambda>_. ?done) ?w"
      using that by (intro ok_advance_all [OF assms(1) _ _ _ assms(4) refl assms(6-8)]) simp_all
    then show ?thesis
      using assms(1) by (simp add: GetActiveByEntity_def wp_bnd [of env "pool_stmt _"] wp_pool_stmt query_def reliable_def)
  qed
  have "wp env (HandleEvent show_float defs ev) (\<lambda>_. ?done) (\<lambda>_. ?done) (start d)"
  proof (cases "map_of defs (ev_Type ev)")
    case None
    then show ?thesis
      unfolding HandleEvent_def assms(5) option.case wp_bnd [of env "case_option _ _ _"]
      using assms(2,3) by (simp add: wp_ret rest start_def)
  next
    case (Some def')
    then show ?thesis
      unfolding HandleEvent_def assms(5) option.case Some wp_bnd [of env "bnd _ _"] wp_bnd [of env "try_op _"] wp_try wp_ret
      using assms(2,3) by (intro wp_startProcess rest) (auto simp: start_def keyed_def new_instance_def)
  qed
  then show ?thesis by (simp add: wp_state result_of_def)
qed

text \<open>C21: An event takes an instance along: with every statement executed, an active instance of the event's
  entity whose state has a transition for the event, its condition met, is moved along the first
  such transition, and is completed when that leads to a terminal state; other instances of the
  entity and a definition the event starts do not get in the way.\<close>

theorem event_advances_instance:
  fixes d :: "'a process_db_scheme"
  assumes "reliable env" and "keyed d" and "i \<in> set (t_instances d)" and "in_Status i = ''active''"
    and "ev_EntityID ev = Some (in_EntityID i)"
    and "findDefinition (in_DefinitionID i) defs = Some def"
    and "map_of (df_States def) (in_CurrentState i) = Some state"
    and "find (enabled show_float ev) (ps_Transitions state) = Some tr"
  shows "\<exists>i' \<in> set (t_instances (committed (snd (HandleEvent show_float defs ev env (start d))))). \<exists>t0 t1 t2. i' =
     (if ps_Terminal (target_state def (tr_To tr)) then completed (moved i ev (tr_To tr) t0 t1) t2
      else moved i ev (tr_To tr) t0 t1)"
  using assms by (rule HandleEvent_advances)

end
