(* ===== verification/Wiring.thy ===== *)
theory Wiring
  imports Books ProcessRuns
begin

text \<open>
  How the modules hear of each other: the subscriptions of \<open>setupEventSubscriptions\<close> in
  \<open>cmd/server/main.go\<close>, and the adapter that lends the warehouse to the orders. The bus runs each
  handler in a goroutine of its own; \<open>handle_event\<close> runs those of one event in the order of
  their registration, one of the schedules. Every handler logs an error and drops it.

  \<open>uuid_parse\<close> stands for \<open>uuid.Parse\<close> of the \<open>google/uuid\<close> package on strings that no module
  builds from an identifier (those are \<open>JUuid\<close>). Member names are matched exactly.
\<close>

section \<open>Decoding\<close>

definition as_uuid :: "(string \<Rightarrow> uuid option) \<Rightarrow> json \<Rightarrow> uuid option" where
  "as_uuid uuid_parse j = (case j of JUuid u \<Rightarrow> Some u | JStr s \<Rightarrow> uuid_parse s | _ \<Rightarrow> None)"

text \<open>A member of a struct: left at its zero value when it is absent or null.\<close>

definition member :: "'a \<Rightarrow> (json \<Rightarrow> 'a option) \<Rightarrow> string \<Rightarrow> json \<Rightarrow> 'a option" where
  "member zero conv k j = (case jget k j of None \<Rightarrow> Some zero | Some JNull \<Rightarrow> Some zero | Some v \<Rightarrow> conv v)"

definition decode_item :: "(string \<Rightarrow> uuid option) \<Rightarrow> json \<Rightarrow> (uuid \<times> f64) option" where
  "decode_item uuid_parse j = (case j of
     JNull \<Rightarrow> Some (uuid_nil, f64_zero)
   | JObj _ \<Rightarrow> (case (member uuid_nil (as_uuid uuid_parse) ''product_id'' j, member f64_zero as_float ''quantity'' j) of
                 (Some p, Some q) \<Rightarrow> Some (p, q) | _ \<Rightarrow> None)
   | _ \<Rightarrow> None)"

definition decode_items :: "(string \<Rightarrow> uuid option) \<Rightarrow> json \<Rightarrow> (uuid \<times> f64) list option" where
  "decode_items uuid_parse j = (case as_arr j of None \<Rightarrow> None | Some xs \<Rightarrow> those (map (decode_item uuid_parse) xs))"

record stock_data =
  sd_Items :: "(uuid \<times> f64) list"
  sd_WarehouseID :: "uuid option"
  sd_Total :: f64
  sd_RefundMethod :: string

definition decode_stock_data :: "(string \<Rightarrow> uuid option) \<Rightarrow> json \<Rightarrow> stock_data option" where
  "decode_stock_data uuid_parse j = (case j of
     JNull \<Rightarrow> Some \<lparr>sd_Items = [], sd_WarehouseID = None, sd_Total = f64_zero, sd_RefundMethod = ''''\<rparr>
   | JObj _ \<Rightarrow> (case (member [] (decode_items uuid_parse) ''items'' j,
                     member None (map_option Some \<circ> as_uuid uuid_parse) ''warehouse_id'' j) of
        (Some items, Some wh) \<Rightarrow> Some \<lparr>sd_Items = items, sd_WarehouseID = wh, sd_Total = f64_zero, sd_RefundMethod = ''''\<rparr>
      | _ \<Rightarrow> None)
   | _ \<Rightarrow> None)"

text \<open>The struct of \<open>order.refunded\<close> has the total and the method besides.\<close>

definition decode_refund_data :: "(string \<Rightarrow> uuid option) \<Rightarrow> json \<Rightarrow> stock_data option" where
  "decode_refund_data uuid_parse j =
    (case (decode_stock_data uuid_parse j, member f64_zero as_float ''total'' j, member '''' as_str ''refund_method'' j) of
       (Some data, Some amount, Some meth) \<Rightarrow> Some (data\<lparr>sd_Total := amount, sd_RefundMethod := meth\<rparr>)
     | _ \<Rightarrow> None)"

text \<open>\<open>v, _ := data[k].(float64)\<close> and \<open>.(string)\<close> on a \<open>map[string]any\<close>.\<close>

definition number_at :: "string \<Rightarrow> json \<Rightarrow> f64" where
  "number_at k j = (case jget k j of None \<Rightarrow> f64_zero | Some v \<Rightarrow>
     (case as_float v of None \<Rightarrow> f64_zero | Some x \<Rightarrow> x))"

definition string_at :: "string \<Rightarrow> json \<Rightarrow> string" where
  "string_at k j = (case jget k j of None \<Rightarrow> '''' | Some v \<Rightarrow> (case as_str v of None \<Rightarrow> '''' | Some x \<Rightarrow> x))"

section \<open>The handlers\<close>

definition drop_error :: "('d, 'a) op \<Rightarrow> ('d, unit) op" where
  "drop_error m = bnd (try_op m) (\<lambda>_. ret ())"

definition on_confirmed :: "(string \<Rightarrow> uuid option) \<Rightarrow> event \<Rightarrow> ('a warehouse_db_scheme, unit) op" where
  "on_confirmed uuid_parse ev = (case decode_stock_data uuid_parse (ev_Data ev) of
     None \<Rightarrow> ret ()
   | Some data \<Rightarrow> (case sd_WarehouseID data of
        None \<Rightarrow> ret ()
      | Some wh \<Rightarrow> for_each (sd_Items data) (\<lambda>(pid, q). drop_error (Reserve (ev_OrganizationID ev)
          \<lparr>rv_ProductID = pid, rv_WarehouseID = wh, rv_Quantity = q, rv_ReferenceID = None\<rparr>))))"

definition on_cancelled_stock :: "(string \<Rightarrow> uuid option) \<Rightarrow> event \<Rightarrow> ('a warehouse_db_scheme, unit) op" where
  "on_cancelled_stock uuid_parse ev = (case decode_stock_data uuid_parse (ev_Data ev) of
     None \<Rightarrow> ret ()
   | Some data \<Rightarrow> (case sd_WarehouseID data of
        None \<Rightarrow> ret ()
      | Some wh \<Rightarrow> for_each (sd_Items data) (\<lambda>(pid, q). drop_error (Unreserve (ev_OrganizationID ev)
          \<lparr>rv_ProductID = pid, rv_WarehouseID = wh, rv_Quantity = q, rv_ReferenceID = None\<rparr>))))"

definition auto_post ::
  "event \<Rightarrow> string \<Rightarrow> string \<Rightarrow> string \<Rightarrow> int64 \<Rightarrow> string \<Rightarrow> ('a finance_db_scheme, unit) op" where
  "auto_post ev desc debit credit amount refType = drop_error (CreateAutoTransaction (ev_OrganizationID ev)
     (format_date (civil_of_time (ev_Timestamp ev))) desc debit credit amount (Some refType) (ev_EntityID ev))"

text \<open>\<open>int64(math.Round(x))\<close>.\<close>

definition rounded :: "f64 \<Rightarrow> int64" where
  "rounded x = int64_of_f64 (f64_Round x)"

definition on_created :: "event \<Rightarrow> ('a finance_db_scheme, unit) op" where
  "on_created ev = (let x = number_at ''total'' (ev_Data ev) in
     if fless f64_zero x
     then auto_post ev ''Order created'' ''62'' ''90'' (rounded x) ''order'' else ret ())"

definition on_paid :: "event \<Rightarrow> ('a finance_db_scheme, unit) op" where
  "on_paid ev = (let amount = number_at ''amount'' (ev_Data ev) in
     if fless f64_zero amount
     then auto_post ev ''Order payment'' (if string_at ''method'' (ev_Data ev) = ''cash'' then ''50'' else ''51'')
       ''62'' (rounded amount) ''payment'' else ret ())"

definition on_received :: "event \<Rightarrow> ('a finance_db_scheme, unit) op" where
  "on_received ev = (let cost = number_at ''total_cost'' (ev_Data ev) in
     if fless f64_zero cost
     then auto_post ev ''Stock received'' ''41'' ''60'' (rounded cost) ''stock'' else ret ())"

definition on_timesheet :: "event \<Rightarrow> ('a finance_db_scheme, unit) op" where
  "on_timesheet ev =
    (let hours = number_at ''hours_worked'' (ev_Data ev); rate = number_at ''hourly_rate'' (ev_Data ev) in
     if fless f64_zero hours \<and> fless f64_zero rate
     then auto_post ev ''Timesheet approved'' ''44'' ''70'' (rounded (fmul (fmul hours rate) (Fin 100))) ''timesheet''
     else ret ())"

text \<open>The order's total as the event has it, else as the order service has it.\<close>

definition cancelled_total :: "(string \<Rightarrow> uuid option) \<Rightarrow> event \<Rightarrow> ('a order_db_scheme, int64 option) op" where
  "cancelled_total uuid_parse ev =
    (if fless f64_zero (number_at ''total'' (ev_Data ev))
     then ret (Some (rounded (number_at ''total'' (ev_Data ev))))
     else case jget ''order_id'' (ev_Data ev) of
       None \<Rightarrow> ret (Some 0)
     | Some j \<Rightarrow>
         if j = JStr '''' \<or> as_str j = None \<and> (\<forall>u. j \<noteq> JUuid u) then ret (Some 0)
         else (case as_uuid uuid_parse j of
           None \<Rightarrow> ret None
         | Some oid \<Rightarrow> bnd (try_op (order_Get (ev_OrganizationID ev) oid False)) (\<lambda>r.
             ret (case r of Inl _ \<Rightarrow> None | Inr ord \<Rightarrow> Some (o_Total ord)))))"

definition reversal_text :: string where
  "reversal_text = ''Order cancelled '' @ [CHR 0xE2, CHR 0x80, CHR 0x94] @ '' reversal''"

definition on_cancelled_finance :: "(string \<Rightarrow> uuid option) \<Rightarrow> event \<Rightarrow> ('a finance_db_scheme, unit) op" where
  "on_cancelled_finance uuid_parse ev = bnd (cancelled_total uuid_parse ev) (\<lambda>r. case r of
     None \<Rightarrow> ret ()
   | Some amount \<Rightarrow>
       if 0 < sint amount then auto_post ev reversal_text ''90'' ''62'' amount ''reversal'' else ret ())"

definition refund_receive :: "uuid \<Rightarrow> uuid \<times> f64 \<Rightarrow> receive_input" where
  "refund_receive wh = (\<lambda>(pid, q). \<lparr>ri_ProductID = pid, ri_WarehouseID = wh, ri_Quantity = q, ri_Unit = '''',
     ri_CostPerUnit = None, ri_Reason = ''Order refund return'', ri_ActorID = None\<rparr>)"

definition on_refunded :: "(string \<Rightarrow> uuid option) \<Rightarrow> event \<Rightarrow> ('a finance_db_scheme, unit) op" where
  "on_refunded uuid_parse ev = (case decode_refund_data uuid_parse (ev_Data ev) of
     None \<Rightarrow> ret ()
   | Some data \<Rightarrow>
      bnd (case sd_WarehouseID data of
             None \<Rightarrow> ret ()
           | Some wh \<Rightarrow> for_each (sd_Items data) (\<lambda>it.
               drop_error (Receive (ev_OrganizationID ev) (refund_receive wh it)))) (\<lambda>_.
      if fless f64_zero (sd_Total data)
      then auto_post ev ''Order refund'' ''62'' (if sd_RefundMethod data = ''cash'' then ''50'' else ''51'')
             (rounded (sd_Total data)) ''refund''
      else ret ()))"

section \<open>The subscriptions\<close>

type_synonym 'd reaction = "event \<Rightarrow> ('d, unit) op"

definition setupEventSubscriptions ::
  "(f64 \<Rightarrow> string) \<Rightarrow> (string \<Rightarrow> uuid option) \<Rightarrow> defs \<Rightarrow> 'a process_db_scheme reaction subscription list" where
  "setupEventSubscriptions show_float uuid_parse defs =
     SubscribeAll (HandleEvent show_float defs)
    (Subscribe ''order.refunded'' (on_refunded uuid_parse)
    (Subscribe ''order.cancelled'' (on_cancelled_finance uuid_parse)
    (Subscribe ''hr.timesheet.approved'' on_timesheet
    (Subscribe ''warehouse.stock.received'' on_received
    (Subscribe ''order.paid'' on_paid
    (Subscribe ''order.created'' on_created
    (Subscribe ''order.cancelled'' (on_cancelled_stock uuid_parse)
    (Subscribe ''order.confirmed'' (on_confirmed uuid_parse) []))))))))"

text \<open>The handlers of an event in the order of their subscriptions; the bus logs their errors.\<close>

definition deliver_event ::
  "'d reaction subscription list \<Rightarrow> event \<Rightarrow> ('d, unit) op" where
  "deliver_event ss ev = for_each (matching ss ev) (\<lambda>h. drop_error (h ev))"

text \<open>\<open>warehouseAdapter\<close>: the fields of an order's \<open>CheckItem\<close> are those of the warehouse's.\<close>

definition adapter_CheckAvailability :: "uuid \<Rightarrow> check_item list \<Rightarrow> ('a warehouse_db_scheme, unit) op" where
  "adapter_CheckAvailability org items = CheckAvailability org (map (\<lambda>it. \<lparr>ck_ProductID = ck_ProductID it,
     ck_WarehouseID = ck_WarehouseID it, ck_Quantity = ck_Quantity it\<rparr>) items)"

end
