(* ===== verification/Fulfillment.thy ===== *)
theory Fulfillment
  imports ProcessRuns OrderRuns
begin

text \<open>
  The process engine next to the other parts: the shipped definition of the order process against
  the events the order service announces, and what saving a definition does to the instances and
  the organizations that used the one it replaces.
\<close>

section \<open>What an operation announces\<close>

definition announces :: "string set \<Rightarrow> ('d, 'a) op \<Rightarrow> bool" where
  "announces A m \<longleftrightarrow> (\<forall>env w. \<exists>evs. published (snd (m env w)) = published w @ evs \<and> (\<forall>ev \<in> set evs. ev_Type ev \<in> A))"

named_theorems announce_intros \<open>how what an operation announces is put together\<close>

lemma announces_quiet: "(\<And>env w. published (snd (m env w)) = published w) \<Longrightarrow> announces A m"
  by (simp add: announces_def)

lemma announces_simple [announce_intros]:
  "announces A (ret x)" "announces A (fail e)" "announces A (guard c e)" "announces A new_uuid" "announces A now"
  "announces A (pool_stmt s)" "announces A (tx_stmt s)"
  by (rule announces_quiet, simp add: ret_def fail_def guard_def new_uuid_def now_def pool_stmt_def tx_stmt_def Let_def
      split: option.split sum.split)+

lemma announces_bnd [announce_intros]:
  assumes "announces A m" and "\<And>x. announces A (f x)"
  shows "announces A (bnd m f)"
  unfolding announces_def
proof (intro allI)
  fix env w
  obtain r w1 where m: "m env w = (r, w1)" by (cases "m env w")
  with assms(1) obtain evs where evs: "published w1 = published w @ evs" "\<forall>ev \<in> set evs. ev_Type ev \<in> A"
    unfolding announces_def by (metis snd_conv)
  show "\<exists>evs. published (snd (bnd m f env w)) = published w @ evs \<and> (\<forall>ev \<in> set evs. ev_Type ev \<in> A)"
  proof (cases r)
    case (Inl e)
    with m evs show ?thesis by (simp add: bnd_def)
  next
    case (Inr x)
    obtain evs' where "published (snd (f x env w1)) = published w1 @ evs'" "\<forall>ev \<in> set evs'. ev_Type ev \<in> A"
      using assms(2) [of x] unfolding announces_def by blast
    with m evs Inr show ?thesis by (auto simp: bnd_def intro!: exI [of _ "evs @ evs'"])
  qed
qed

lemma announces_try [announce_intros]: "announces A m \<Longrightarrow> announces A (try_op m)"
  unfolding announces_def try_op_def by (auto split: prod.split) (metis snd_conv)

lemma announces_if [announce_intros]: "announces A m \<Longrightarrow> announces A m' \<Longrightarrow> announces A (if c then m else m')"
  by simp

lemma announces_case_option [announce_intros]:
  "announces A m \<Longrightarrow> (\<And>x. announces A (f x)) \<Longrightarrow> announces A (case r of None \<Rightarrow> m | Some x \<Rightarrow> f x)"
  by (cases r) simp_all

lemma announces_case_sum [announce_intros]:
  "(\<And>x. announces A (f x)) \<Longrightarrow> (\<And>x. announces A (h x)) \<Longrightarrow> announces A (case r of Inl x \<Rightarrow> f x | Inr x \<Rightarrow> h x)"
  by (cases r) simp_all

lemma announces_for_each [announce_intros]: "(\<And>x. announces A (f x)) \<Longrightarrow> announces A (for_each xs f)"
  by (induction xs) (auto intro: announce_intros)

lemma announces_map_op [announce_intros]: "(\<And>x. announces A (f x)) \<Longrightarrow> announces A (map_op f xs)"
  by (induction xs) (auto intro!: announce_intros)

lemma announces_find [announce_intros]: "announces A (pool_find g e)"
  unfolding pool_find_def by (intro announce_intros)

lemma announces_with_tx [announce_intros]:
  fixes m :: "('a, 'b) op"
  assumes "announces A m" shows "announces A (with_tx m)"
  unfolding announces_def
proof (intro allI)
  fix env and w :: "'a world"
  let ?w = "w\<lparr>tick := Suc (tick w), pending := id\<rparr>"
  obtain r w1 where m: "m env ?w = (r, w1)" by (cases "m env ?w")
  obtain evs where "published (snd (m env ?w)) = published ?w @ evs" "\<forall>ev \<in> set evs. ev_Type ev \<in> A"
    using assms unfolding announces_def by blast
  then show "\<exists>evs. published (snd (with_tx m env w)) = published w @ evs \<and> (\<forall>ev \<in> set evs. ev_Type ev \<in> A)"
    using m by (auto simp: with_tx_def Let_def split: option.split sum.split)
qed

lemma announces_publish [announce_intros]: "ev_Type ev \<in> A \<Longrightarrow> announces A (publish ev)"
  by (auto simp: announces_def publish_def Let_def pool_stmt_def split: option.split sum.split)

section \<open>The events of the order service\<close>

definition order_event_types :: "string set" where
  "order_event_types = {''entity.created'', ''order.created'', ''order.submitted'', ''order.confirmed'', ''order.paid'',
     ''order.shipped'', ''order.delivered'', ''order.cancelled'', ''order.refunded''}"

lemma announces_order_publishEvent [announce_intros]:
  "ty \<in> A \<Longrightarrow> announces A (order_publishEvent org entity ty actor data)"
  unfolding order_publishEvent_def by (intro announce_intros) simp

lemma announces_check_customer [announce_intros]: "announces A (check_customer org customer)"
  unfolding check_customer_def Get_def GetByID_def ListComponents_def by (intro announce_intros)

lemma announces_CheckAvailability [announce_intros]: "announces A (CheckAvailability org items)"
  unfolding CheckAvailability_def GetStockLevel_def Let_def by (intro announce_intros)

lemma announces_entity_Create [announce_intros]:
  "''entity.created'' \<in> A \<Longrightarrow> announces A (Create org inp actor)"
  unfolding Create_def CreateTx_def AppendTx_def Let_def by (intro announce_intros) (simp add: entity_event_def)

text \<open>An operation that looks at its environment first.\<close>

lemma announces_reader: "(\<And>e. announces A (m e)) \<Longrightarrow> announces A (\<lambda>env. m env env)"
  by (simp add: announces_def)

lemma announces_CreateOrderItems [announce_intros]: "announces A (CreateOrderItems items)"
  unfolding CreateOrderItems_def [abs_def]
  by (rule announces_reader [where m = "\<lambda>e. for_each items (\<lambda>item. tx_stmt (g e item))" for g])
    (intro announce_intros)

lemmas order_announce_defs = GetOrder_def GetOrderItems_def UpdateOrder_def Let_def order_Create_def Submit_def Confirm_def
  Pay_def order_Ship_def Deliver_def Cancel_def Refund_def order_Update_def NextOrderNumber_def CreateOrder_def
  UpdateOrderItems_def CreateRefund_def CreateRefundItems_def refund_line_def new_line_def

lemma serve_order_announces: "announces order_event_types (serve_order org actor req)"
  by (cases req) (auto simp: order_announce_defs order_event_types_def split: prod.split
    cong: option.case_cong intro!: announce_intros)

text \<open>In particular nobody announces \<open>order.assembling\<close>.\<close>

lemma serve_order_published:
  "ev \<in> set (published (snd (serve_order org actor req env (start d)))) \<Longrightarrow> ev_Type ev \<in> order_event_types"
  using serve_order_announces [of org actor req] unfolding announces_def
  by (auto dest!: spec [of _ env] spec [of _ "start d"] simp: start_def)

section \<open>The shipped order process\<close>

definition set_status :: "string \<Rightarrow> action" where
  "set_status s = \<lparr>an_Type = ''update_status'', an_Params = JObj [(''status'', JStr s)]\<rparr>"

definition notification :: "string \<Rightarrow> string \<Rightarrow> action" where
  "notification title severity = \<lparr>an_Type = ''emit_event'', an_Params = JObj [(''event_type'', JStr ''notification.created''),
     (''data'', JObj [(''title'', JStr title), (''severity'', JStr severity)])]\<rparr>"

definition on_event :: "string \<Rightarrow> string \<Rightarrow> action list \<Rightarrow> transition_rule" where
  "on_event ev to actions = \<lparr>tr_To = to, tr_Event = ev, tr_Condition = None, tr_Actions = actions\<rparr>"

definition state_of :: "string \<Rightarrow> bool \<Rightarrow> action list \<Rightarrow> transition_rule list \<Rightarrow> pstate" where
  "state_of name terminal enter trs = \<lparr>ps_Name = name, ps_Terminal = terminal, ps_Timeout = None, ps_OnEnter = enter,
     ps_OnExit = [], ps_Transitions = trs\<rparr>"

definition order_fulfillment :: process_def where
  "order_fulfillment = \<lparr>df_ID = ''order_fulfillment'', df_Name = ''Order Fulfillment'',
     df_Description = ''Full order lifecycle from creation to delivery or cancellation'',
     df_TriggerOn = ''order.created'', df_EntityKind = ''order'', df_InitState = ''new'',
     df_States =
      [(''new'', state_of ''New Order'' False []
         [on_event ''order.confirmed'' ''confirmed'' [notification ''Order confirmed'' ''info''],
          on_event ''order.cancelled'' ''cancelled'' []]),
       (''confirmed'', state_of ''Confirmed'' False [set_status ''confirmed'']
         [on_event ''order.paid'' ''paid'' [], on_event ''order.cancelled'' ''cancelled'' []]),
       (''paid'', state_of ''Paid'' False [set_status ''paid'', notification ''Order paid'' ''success'']
         [on_event ''order.assembling'' ''assembling'' []]),
       (''assembling'', state_of ''Assembling'' False [set_status ''assembling'']
         [on_event ''order.shipped'' ''shipped'' []]),
       (''shipped'', state_of ''Shipped'' False [set_status ''shipped'']
         [on_event ''order.delivered'' ''delivered'' [], on_event ''order.returned'' ''returned'' []]),
       (''delivered'', state_of ''Delivered'' True [set_status ''delivered''] []),
       (''returned'', state_of ''Returned'' True [set_status ''returned''] []),
       (''cancelled'', state_of ''Cancelled'' True [set_status ''cancelled''] [])]\<rparr>"

lemmas order_fulfillment_defs = order_fulfillment_def state_of_def on_event_def set_status_def notification_def

lemma paid_state: "map_of (df_States order_fulfillment) ''paid'' = Some (state_of ''Paid'' False
    [set_status ''paid'', notification ''Order paid'' ''success''] [on_event ''order.assembling'' ''assembling'' []])"
  by (simp add: order_fulfillment_def)

text \<open>The shipped order process stops at paid: an instance of it in the state \<open>paid\<close> stays as it is
  whatever the order service is asked to do with any orders and whatever fails, because the one
  transition out of \<open>paid\<close> waits for \<open>order.assembling\<close>, which the service never announces: neither
  shipping nor delivering nor cancelling the order moves or completes its process.\<close>

lemma order_process_stops_at_paid:
  fixes d d' :: "'a process_db_scheme"
  assumes "findDefinition ''order_fulfillment'' defs = Some order_fulfillment" and "keyed d"
    and i: "i \<in> set (t_instances d)" "in_DefinitionID i = ''order_fulfillment''" "in_CurrentState i = ''paid''"
    and "event_run show_float defs evs d d'"
    and evs: "\<forall>ev \<in> set evs. \<exists>org actor req env (d0 :: 'a process_db_scheme).
      ev \<in> set (published (snd (serve_order org actor req env (start d0))))"
  shows "i \<in> set (t_instances d')"
proof -
  have "\<not> instance_step show_float defs ev i i'" if "ev \<in> set evs" for ev i'
  proof
    assume "instance_step show_float defs ev i i'"
    then obtain tr where "find (enabled show_float ev) [on_event ''order.assembling'' ''assembling'' []] = Some tr"
      using assms(1) i paid_state by (auto elim!: instance_stepE simp: state_of_def)
    then have "ev_Type ev = ''order.assembling''"
      by (simp add: enabled_def on_event_def split: if_splits)
    moreover have "ev_Type ev \<in> order_event_types"
      using evs that by (blast dest: serve_order_published)
    ultimately show False by (simp add: order_event_types_def)
  qed
  then show ?thesis using assms(2,6) i(1) by (blast dest: event_run_stays)
qed

section \<open>Saving over a definition\<close>

lemma SaveDefinition_defs:
  assumes "SaveDefinition spell r defs env w = (Inr defs', w')" and "dr_IsActive r"
  shows "defs' = AList.update (df_TriggerOn (dr_Definition r)) (dr_Definition r) defs"
    and "Validate (dr_Definition r) = []"
  using assms by (auto simp: SaveDefinition_def fail_def bnd_def ret_def split: list.splits prod.splits sum.splits)

text \<open>Saving a definition strands the instances of the one whose trigger it takes: the older definition
  is no longer found in memory, so no event, ever so many and with whatever data, advances or
  completes an instance of it again.\<close>

lemma replaced_definition_strands:
  assumes "SaveDefinition spell r defs env w0 = (Inr defs', w)" and "dr_IsActive r"
    and old: "map_of defs (df_TriggerOn (dr_Definition r)) = Some def" and "df_ID def \<noteq> df_ID (dr_Definition r)"
    and "distinct (map fst defs)" and ids: "distinct (map (\<lambda>e. df_ID (snd e)) defs)"
    and "keyed d" and "i \<in> set (t_instances d)" and "in_DefinitionID i = df_ID def"
    and "event_run show_float defs' evs d d'"
  shows "i \<in> set (t_instances d')"
proof -
  let ?t = "df_TriggerOn (dr_Definition r)"
  have "findDefinition (df_ID def) defs' = None"
  proof (rule ccontr)
    assume "findDefinition (df_ID def) defs' \<noteq> None"
    then obtain t def' where def': "(t, def') \<in> set defs'" "df_ID def' = df_ID def"
      by (auto dest: findDefinition_Some)
    have "map_of defs' t = Some def'"
      using def'(1) assms(5) unfolding SaveDefinition_defs(1) [OF assms(1,2)]
      by (intro map_of_is_SomeI distinct_update)
    then have *: "(if t = ?t then Some (dr_Definition r) else map_of defs t) = Some def'"
      unfolding SaveDefinition_defs(1) [OF assms(1,2)] by (simp add: update_conv' split: if_splits)
    then have "t \<noteq> ?t" using def'(2) assms(4) by auto
    with * have "(t, def') \<in> set defs" "(?t, def) \<in> set defs" using old by (auto dest: map_of_SomeD)
    then have "(t, def') = (?t, def)" using def'(2) by (intro distinct_key [OF ids]) simp_all
    with \<open>t \<noteq> ?t\<close> show False by simp
  qed
  then have "\<not> instance_step show_float defs' ev i i'" for ev i'
    using assms(9) by (auto elim: instance_stepE)
  then show ?thesis using assms(7,8,10) by (blast dest: event_run_stays)
qed

lemma ok_startProcess:
  assumes "reliable env" and "pending w = id" and "keyed (committed w)"
    and "fresh_uuids (in_ID ` set (t_instances (committed w))) env"
    and "\<And>iid t w'. pending w' = id \<Longrightarrow> iid \<notin> in_ID ` set (t_instances (committed w)) \<Longrightarrow>
      t_instances (committed w') = t_instances (committed w) @ [new_instance iid t ev eid def] \<Longrightarrow> T w'"
  shows "wp env (startProcess ev eid def) (\<lambda>_. T) (\<lambda>_. T) w"
proof -
  have new: "uuids env n \<notin> in_ID ` set (t_instances (committed w))" for n
    using assms(4) by (rule fresh_uuidsD(2))
  have create: "wp env (CreateInstance (new_instance (uuids env n) t ev eid def)) (\<lambda>_. T') E w1"
    if "pending w1 = id" "committed w1 = committed w" "\<And>w'. pending w' = id \<Longrightarrow>
      t_instances (committed w') = t_instances (committed w) @ [new_instance (uuids env n) t ev eid def] \<Longrightarrow> T' w'"
    for n t w1 T' E
    unfolding CreateInstance_def using assms(1) new [of n] that(1,2)
    by (auto simp: wp_pool_stmt row_insert_def reliable_def new_instance_def intro!: that(3) [unfolded new_instance_def])
  show ?thesis
    unfolding startProcess_def
    by (intro wpI_bnd wpI_now wpI_new_uuid create wpI_case_option wpI_ret wp_executeActions assms(5) [OF _ new])
      (simp_all add: assms(2))
qed

text \<open>A definition saved by one organization runs for all of them: it takes the place its trigger has in
  memory, and the next event of that type, of whatever organization, starts an instance of it for
  that organization's entity.\<close>

lemma saved_definition_runs_elsewhere:
  fixes d :: "'a process_db_scheme"
  assumes "SaveDefinition spell r defs env0 w0 = (Inr defs', w)" and "dr_IsActive r"
    and "dr_OrganizationID r = Some org" and "ev_OrganizationID ev \<noteq> org"
    and "ev_Type ev = df_TriggerOn (dr_Definition r)" and "ev_EntityID ev = Some eid"
    and "reliable env" and "keyed d" and "fresh_uuids (in_ID ` set (t_instances d)) env"
  shows "\<exists>i \<in> set (t_instances (committed (snd (HandleEvent show_float defs' ev env (start d))))).
     in_ID i \<notin> in_ID ` set (t_instances d) \<and> in_OrganizationID i = ev_OrganizationID ev
     \<and> in_EntityID i = eid \<and> in_DefinitionID i = df_ID (dr_Definition r)"
proof -
  let ?new = "\<lambda>w'. \<exists>i \<in> set (t_instances (committed w')). in_ID i \<notin> in_ID ` set (t_instances d)
     \<and> in_OrganizationID i = ev_OrganizationID ev \<and> in_EntityID i = eid \<and> in_DefinitionID i = df_ID (dr_Definition r)"
  have def: "map_of defs' (ev_Type ev) = Some (dr_Definition r)"
    unfolding SaveDefinition_defs(1) [OF assms(1,2)] assms(5) by (simp add: update_conv')
  have kept: "?new w'" if "?new w1" "process_move (\<lambda>_. True) (committed w1) (committed w')" "keyed (committed w1)"
    for w1 w' :: "'a process_db_scheme world"
  proof -
    have "grows (committed w1) (committed w')"
      using that(2,3) by (simp add: process_move_def all_ok_def keyed_def)
    with that(1) show ?thesis unfolding grows_def grown_def by metis
  qed
  let ?T = "\<lambda>w'. pending w' = id \<and> keyed (committed w') \<and> ?new w'"
  have started: "wp env (startProcess ev eid (dr_Definition r)) (\<lambda>_. ?T) (\<lambda>_. ?T) (start d)"
    using assms(7-9) by (intro ok_startProcess) (auto simp: start_def new_instance_def keyed_def)
  have rest: "wp env (bnd (GetActiveByEntity eid) (\<lambda>instances.
      for_each instances (\<lambda>i. bnd (try_op (advanceInstance show_float defs' ev i)) (\<lambda>_. ret ())))) (\<lambda>_. ?new) (\<lambda>_. ?new) w1"
    if "?T w1" for w1 :: "'a process_db_scheme world"
  proof (rule rows.advance_active [where P = "\<lambda>_. True"])
    fix w' :: "'a process_db_scheme world"
    assume "process_move (\<lambda>_. True) (committed w1) (committed w')"
    then show "?new w'" by (rule kept [OF conjunct2 [OF conjunct2 [OF that]] _ conjunct1 [OF conjunct2 [OF that]]])
  qed (use that in \<open>auto intro: advanced_move\<close>)
  have "wp env (HandleEvent show_float defs' ev) (\<lambda>_. ?new) (\<lambda>_. ?new) (start d)"
    unfolding HandleEvent_def assms(6) def option.case wp_bnd [of env "bnd _ _"] wp_bnd [of env "try_op _"] wp_try wp_ret
    by (rule wp_conseq [OF started]) (erule rest)+
  then show ?thesis by (simp add: wp_state)
qed

section \<open>Concrete instances\<close>

definition no_processes :: process_db where
  "no_processes = \<lparr>t_events = [], t_entities = [], t_components = [], t_stock = [], t_movements = [],
     t_inventories = [], t_inv_items = [], t_orders = [sample_order\<lparr>o_Status := ''paid''\<rparr>], t_order_items = [sample_line],
     t_order_seqs = [], t_refunds = [], t_refund_items = [], t_accounts = [], t_transactions = [], t_lines = [],
     t_invoices = [], t_periods = [], t_cash = [], t_definitions = [], t_instances = []\<rparr>"

definition order_event :: "string \<Rightarrow> event" where
  "order_event ty = \<lparr>ev_ID = 9, ev_OrganizationID = 1, ev_EntityID = Some 5, ev_Type = ty, ev_Data = JObj [],
     ev_ActorID = None, ev_Timestamp = 0, ev_Version = 1\<rparr>"

definition order_defs :: defs where
  "order_defs = [(''order.created'', order_fulfillment)]"

fun handled :: "(f64 \<Rightarrow> string) \<Rightarrow> defs \<Rightarrow> env \<Rightarrow> event list \<Rightarrow> 'a process_db_scheme \<Rightarrow> 'a process_db_scheme" where
  "handled show_float defs env [] d = d"
| "handled show_float defs env (ev # evs) d =
     handled show_float defs env evs (committed (snd (HandleEvent show_float defs ev env (start d))))"

lemma event_run_trans: "event_run show_float defs evs' d' d'' \<Longrightarrow> event_run show_float defs evs d d' \<Longrightarrow>
    event_run show_float defs (evs @ evs') d d''"
  by (induction rule: event_run.induct) (auto intro: event_run.intros simp flip: append_assoc)

lemma handled_run: "event_run show_float defs evs d (handled show_float defs env evs d)"
proof (induction evs arbitrary: d)
  case (Cons ev evs)
  have "event_run show_float defs ([] @ [ev]) d (committed (snd (HandleEvent show_float defs ev env (start d))))"
    by (intro event_run.intros)
  from event_run_trans [OF Cons.IH this] show ?case by simp
qed (simp add: event_run.intros)

definition order_started :: process_db where
  "order_started = handled (\<lambda>_. '''') order_defs (env_ok numeric_15_4) [order_event ''order.created''] no_processes"

definition order_confirmed :: process_db where
  "order_confirmed = handled (\<lambda>_. '''') order_defs (env_ok numeric_15_4) [order_event ''order.confirmed''] order_started"

definition started_instance :: pinstance where
  "started_instance = new_instance 1001 0 (order_event ''order.created'') 5 order_fulfillment"

lemma order_started_instances: "t_instances order_started = [started_instance]"
  by (simp add: order_started_def started_instance_def order_defs_def HandleEvent_def order_event_def startProcess_def
      CreateInstance_def run_simps GetActiveByEntity_def active_on_def query_def no_processes_def row_insert_def
      new_instance_def order_fulfillment_defs executeActions_def advanceInstance_def findDefinition_def enabled_def)

lemma order_defs_find: "findDefinition ''order_fulfillment'' order_defs = Some order_fulfillment"
  by (simp add: findDefinition_def order_defs_def order_fulfillment_def)

lemma order_fulfillment_valid: "Validate order_fulfillment = []"
  by code_simp

lemma order_defs_ok: "defs_ok order_defs"
  using order_fulfillment_valid by (simp add: defs_ok_def order_defs_def)

lemma order_run: "event_run (\<lambda>_. '''') order_defs ([order_event ''order.created''] @ [order_event ''order.confirmed''])
    no_processes order_confirmed"
  unfolding order_confirmed_def order_started_def by (rule event_run_trans [OF handled_run handled_run])

lemma confirm_step:
  "findDefinition (in_DefinitionID started_instance) order_defs = Some order_fulfillment"
  "map_of (df_States order_fulfillment) (in_CurrentState started_instance) = Some (state_of ''New Order'' False []
         [on_event ''order.confirmed'' ''confirmed'' [notification ''Order confirmed'' ''info''],
          on_event ''order.cancelled'' ''cancelled'' []])"
  "find (enabled (\<lambda>_. '''') (order_event ''order.confirmed'')) (ps_Transitions (state_of ''New Order'' False []
         [on_event ''order.confirmed'' ''confirmed'' [notification ''Order confirmed'' ''info''],
          on_event ''order.cancelled'' ''cancelled'' []]))
     = Some (on_event ''order.confirmed'' ''confirmed'' [notification ''Order confirmed'' ''info''])"
  using order_defs_find
  by (simp_all add: started_instance_def new_instance_def order_fulfillment_defs enabled_def order_event_def)

theorem event_advances_instance_witness:
  "\<exists>i' \<in> set (t_instances order_confirmed). in_CurrentState i' = ''confirmed'' \<and> in_ID i' = 1001 \<and> in_Status i' = ''active''"
  using event_advances_instance [where d = order_started, OF _ _ _ _ _ confirm_step, of "env_ok numeric_15_4"]
  by (force simp: order_confirmed_def order_started_instances keyed_def started_instance_def new_instance_def order_event_def
      target_state_def order_fulfillment_defs moved_def)

lemma confirmed_instance:
  "\<exists>i \<in> set (t_instances order_confirmed). in_CurrentState i = ''confirmed'' \<and> in_DefinitionID i = ''order_fulfillment''
     \<and> length (in_History i) = 1"
  using HandleEvent_advances [where d = order_started, OF _ _ _ _ _ confirm_step, of "env_ok numeric_15_4"]
  by (force simp: order_confirmed_def order_started_instances keyed_def started_instance_def new_instance_def order_event_def
      target_state_def order_fulfillment_defs moved_def)

theorem instances_follow_definition_witness:
  "\<exists>i \<in> set (t_instances order_confirmed). in_CurrentState i = ''confirmed''
     \<and> (''new'', ''confirmed'') \<in> edges order_fulfillment \<and> in_Status i \<noteq> ''completed''"
proof -
  obtain i where i: "i \<in> set (t_instances order_confirmed)" "in_CurrentState i = ''confirmed''"
    "in_DefinitionID i = ''order_fulfillment''" "length (in_History i) = 1"
    using confirmed_instance by blast
  then obtain h where h: "in_History i = [h]" by (auto simp: length_Suc_conv)
  have "findDefinition (in_DefinitionID i) order_defs = Some order_fulfillment"
    using i(3) order_defs_find by simp
  from instances_follow_definition [OF order_defs_ok _ order_run i(1) this] i(1,2) h show ?thesis
    by (auto simp: no_processes_def order_fulfillment_def target_state_def state_of_def split: if_splits)
qed

lemma confirmed_request: "process_run (\<lambda>_. '''') (\<lambda>_. '''') (order_defs, order_started) (order_defs, order_confirmed)"
proof -
  let ?ev = "order_event ''order.confirmed''"
  obtain r w where run: "HandleEvent (\<lambda>_. '''') order_defs ?ev (env_ok numeric_15_4) (start order_started) = (r, w)"
    by (cases "HandleEvent (\<lambda>_. '''') order_defs ?ev (env_ok numeric_15_4) (start order_started)")
  then have "serve_process (\<lambda>_. '''') (\<lambda>_. '''') order_defs (PEvent ?ev) (env_ok numeric_15_4) (start order_started)
      = (map_sum id (\<lambda>_. order_defs) r, w)"
    by (simp add: bnd_def ret_def split: sum.split)
  then have "process_run (\<lambda>_. '''') (\<lambda>_. '''') (order_defs, order_started)
      (defs_after order_defs (map_sum id (\<lambda>_. order_defs) r), committed w)"
    by (rule run_request [OF run_none])
  then show ?thesis
    using run by (cases r) (simp_all add: order_confirmed_def defs_after_def)
qed

theorem process_history_is_kept_witness:
  "\<exists>i' \<in> set (t_instances order_confirmed). grown started_instance i' \<and> instance_ok i'"
proof -
  have "all_ok instance_ok order_started"
    by (simp add: all_ok_def order_started_instances started_instance_def instance_ok_new)
  from process_history_is_kept [OF this confirmed_request] show ?thesis
    by (auto simp: order_started_instances)
qed

definition paid_instance :: pinstance where
  "paid_instance = started_instance\<lparr>in_CurrentState := ''paid''\<rparr>"

definition paid_processes :: process_db where
  "paid_processes = no_processes\<lparr>t_instances := [paid_instance]\<rparr>"

definition shipped_events :: "event list" where
  "shipped_events = published (snd (serve_order 1 None (OShip 20 ''track'') (env_ok numeric_15_4) (start paid_processes)))"

lemma shipped_event: "map ev_Type shipped_events = [''order.shipped'']"
  by (simp add: shipped_events_def order_Ship_def order_method_defs run_simps find_order_def row_get_def query_def
      paid_processes_def no_processes_def sample_order_def set_order_def put_order_def order_row_def row_update_def)

theorem order_process_stops_at_paid_witness:
  "map ev_Type shipped_events = [''order.shipped'']
     \<and> paid_instance \<in> set (t_instances (handled (\<lambda>_. '''') order_defs (env_ok numeric_15_4) shipped_events paid_processes))"
proof (rule conjI [OF shipped_event], rule order_process_stops_at_paid [OF order_defs_find])
  show "event_run (\<lambda>_. '''') order_defs shipped_events paid_processes
      (handled (\<lambda>_. '''') order_defs (env_ok numeric_15_4) shipped_events paid_processes)"
    by (rule handled_run)
  show "\<forall>ev \<in> set shipped_events. \<exists>org actor req env d0.
      ev \<in> set (published (snd (serve_order org actor req env (start (d0 :: process_db)))))"
    unfolding shipped_events_def by blast
qed (simp_all add: paid_processes_def paid_instance_def started_instance_def new_instance_def keyed_def order_fulfillment_def)

definition other_def :: process_def where
  "other_def = order_fulfillment\<lparr>df_ID := ''mine''\<rparr>"

definition other_record :: def_record where
  "other_record = \<lparr>dr_ID = ''mine'', dr_OrganizationID = Some 2, dr_Name = '''', dr_Description = '''',
     dr_Definition = other_def, dr_IsActive = True, dr_Version = 1, dr_CreatedAt = 0, dr_UpdatedAt = 0\<rparr>"

lemma other_def_valid: "Validate other_def = []"
  by code_simp

lemma save_other: "\<exists>w. SaveDefinition (\<lambda>_. '''') other_record order_defs (env_ok numeric_15_4) (start paid_processes)
    = (Inr [(''order.created'', other_def)], w)"
  by (simp add: SaveDefinition_def other_record_def other_def_valid UpsertDefinition_def pool_stmt_def exec_def run_simps
      order_defs_def) (simp add: other_def_def order_fulfillment_def)

theorem replaced_definition_strands_witness:
  "paid_instance \<in> set (t_instances (handled (\<lambda>_. '''') [(''order.created'', other_def)] (env_ok numeric_15_4)
     [order_event ''order.assembling'', order_event ''order.shipped''] paid_processes))"
proof -
  obtain w where w: "SaveDefinition (\<lambda>_. '''') other_record order_defs (env_ok numeric_15_4) (start paid_processes)
    = (Inr [(''order.created'', other_def)], w)" using save_other by blast
  show ?thesis
    by (rule replaced_definition_strands [OF w, where def = order_fulfillment, OF _ _ _ _ _ _ _ _ handled_run])
      (simp_all add: other_record_def other_def_def order_fulfillment_def order_defs_def keyed_def paid_processes_def
        paid_instance_def started_instance_def new_instance_def)
qed

theorem saved_definition_runs_elsewhere_witness:
  "\<exists>i \<in> set (t_instances (committed (snd (HandleEvent (\<lambda>_. '''') [(''order.created'', other_def)]
       (order_event ''order.created'') (env_ok numeric_15_4) (start no_processes))))).
     in_OrganizationID i = 1 \<and> in_EntityID i = 5 \<and> in_DefinitionID i = ''mine''"
proof -
  obtain w where w: "SaveDefinition (\<lambda>_. '''') other_record order_defs (env_ok numeric_15_4) (start paid_processes)
    = (Inr [(''order.created'', other_def)], w)" using save_other by blast
  have "fresh_uuids (in_ID ` set (t_instances no_processes)) (env_ok numeric_15_4)"
    by (rule env_ok_fresh) (simp add: no_processes_def)
  from saved_definition_runs_elsewhere [OF w, where d = no_processes, OF _ _ _ _ _ _ _ this, of 2 "order_event ''order.created''" 5
      "\<lambda>_. ''''"]
  show ?thesis
    by (fastforce simp: other_record_def other_def_def order_fulfillment_def order_event_def keyed_def no_processes_def)
qed

end
