(* ===== verification/Reactions.thy ===== *)
theory Reactions
  imports Wiring Fulfillment
begin

text \<open>
  What the modules do to each other through the bus: the accounting of an order that is placed and
  cancelled, and the stock of an order that is cancelled before it was confirmed.
\<close>

section \<open>Dropped errors\<close>

lemma drop_error_wp: "wp env m (\<lambda>_. T) (\<lambda>_. T) w \<Longrightarrow> wp env (drop_error m) (\<lambda>_. T) E w"
  by (simp add: drop_error_def wp_bnd wp_try wp_ret [abs_def])

lemma ok_drop_error: "wp env m (\<lambda>_. T) (\<lambda>_ _. False) w \<Longrightarrow> wp env (drop_error m) (\<lambda>_. T) E w"
  by (rule drop_error_wp) (erule wp_conseq; simp)

lemma ok_state: "wp env m (\<lambda>_. P) (\<lambda>_ _. False) w \<Longrightarrow> P (snd (m env w))"
  by (auto simp: wp_def split: prod.splits sum.splits)

lemma ok_committed: "wp env m (\<lambda>_ w'. P (committed w')) (\<lambda>_ _. False) w \<Longrightarrow> P (committed (snd (m env w)))"
  by (auto simp: wp_def split: prod.splits sum.splits)

section \<open>Amounts through JSON\<close>




section \<open>The reversal of an order's entry\<close>









section \<open>Stock released that was never reserved\<close>






section \<open>Stock released that was never reserved\<close>

lemma ok_Upsert:
  assumes "reliable env" and "stored_level (column env) sl = Some row"
    and "\<And>w'. same_outside w w' \<Longrightarrow> pending w' = put_stock row \<circ> pending w \<Longrightarrow> Q () w'"
  shows "wp env (UpsertStockLevel sl) Q E w"
  using assms
  by (auto simp: wp_def UpsertStockLevel_def tx_stmt_def Let_def stmt_effect_def comp_def same_outside_def)

lemma ok_empty_reserve:
  assumes "reliable env" and "stored_level (column env) sl \<noteq> None" and "column env f64_zero = Some f64_zero"
    and at: "stock_at (org, rv_ProductID inp, rv_WarehouseID inp) d = Some sl"
    and "sl_Reserved sl = Fin r" and "rv_Quantity inp = Fin n" and "0 < n" and "r \<le> n"
    and "start d = w"
  shows "wp env (Unreserve org inp) (\<lambda>_ w'. \<exists>sl'. stock_at (org, rv_ProductID inp, rv_WarehouseID inp) (committed w') = Some sl'
      \<and> sl_Reserved sl' = Fin 0) (\<lambda>_ _. False) w"
proof -
  have key: "stock_key sl = (org, rv_ProductID inp, rv_WarehouseID inp)"
    using stock.get_key [OF at] .
  have taken: "(if fless (sl_Reserved sl) (rv_Quantity inp) then f64_zero else fsub (sl_Reserved sl) (rv_Quantity inp)) = Fin 0"
    using assms(5,6,8) by (auto simp: f64_zero_def)
  have "\<exists>row. stored_level (column env) (with_available sl\<lparr>sl_Reserved := Fin 0, sl_UpdatedAt := t\<rparr>) = Some row" for t
    using assms(2,3) by (auto simp: stored_level_def with_available_def f64_zero_def split: option.splits)
  then obtain row where row: "\<And>t. stored_level (column env) (with_available sl\<lparr>sl_Reserved := Fin 0, sl_UpdatedAt := t\<rparr>) = Some (row t)"
    by metis
  have fields: "sl_Reserved (row t) = Fin 0" "stock_key (row t) = (org, rv_ProductID inp, rv_WarehouseID inp)" for t
    using stored_levelD [OF row [of t]] assms(3) key by (simp_all add: f64_zero_def)
  have start: "committed w = d" "published w = []" using assms(9) by (auto simp: start_def)
  have written: "wp env (bnd now (\<lambda>t. bnd (UpsertStockLevel (with_available sl\<lparr>sl_Reserved := Fin 0, sl_UpdatedAt := t\<rparr>)) f)) Q E w1"
    if "\<And>t w'. same_outside w1 w' \<Longrightarrow> pending w' = put_stock (row t) \<circ> pending w1 \<Longrightarrow> wp env (f ()) Q E w'" for f Q E w1
    by (intro wpI_bnd wpI_now ok_Upsert [OF assms(1) row] that) (simp_all add: same_outside_def)
  show ?thesis
    unfolding Unreserve_def GetStockLevel_def publishEvent_def with_available_sel taken
    apply (rule wpI_bnd, rule wpI_guard)
     apply (use assms(6,7) in \<open>simp add: f64_zero_def\<close>)
    apply (rule ok_with_tx [OF assms(1)], rule wpI_bnd, rule wpI_try, rule wpI_bnd, rule ok_find [OF assms(1), where x = sl])
     apply (simp add: start at)
    apply (intro wpI_ret)
    apply (simp only: sum.case with_available_sel taken)
    apply (rule written)
    apply (intro wpI_bnd wpI_new_uuid wpI_now view_publish)
    apply (auto simp: same_outside_def view_def fields)
    done
qed

lemma Cancel_announces_lines:
  assumes "reliable env" and ord: "find_order org oid d = Some ord" and "o_Status ord \<in> {''draft'', ''new''}"
    and "o_WarehouseID ord = Some wh" and items: "items_of oid d = [it]" and "oi_Quantity it = Fin n"
  shows "wp env (Cancel org oid reason actor) (\<lambda>_ w'. t_stock (committed w') = t_stock d \<and> (\<exists>ev. published w' = [ev]
      \<and> ev_Type ev = ''order.cancelled'' \<and> ev_OrganizationID ev = org
      \<and> decode_stock_data uuid_parse (ev_Data ev) = Some \<lparr>sd_Items = [(oi_ProductID it, Fin n)],
           sd_WarehouseID = Some wh, sd_Total = f64_zero, sd_RefundMethod = ''''\<rparr>)) (\<lambda>_ _. False) (start d)"
proof -
  have q: "wp env (GetOrderItems oid) Q E w" if "committed w = d"
      "\<And>w'. same_outside w w' \<Longrightarrow> pending w' = pending w \<Longrightarrow> Q [it] w'" for Q E and w :: "'a order_db_scheme world"
    unfolding GetOrderItems_def by (rule ok_query [OF assms(1)]) (use that items in simp)
  show ?thesis
    unfolding Cancel_def GetOrder_def order_publishEvent_def UpdateOrder_def Let_def
    apply (rule wpI_bnd, rule ok_find [OF assms(1), where x = ord])
     apply (simp add: start_def ord)
    apply (intro wpI_bnd wpI_guard q wpI_now ok_with_tx [OF assms(1)] ok_tx_stmt [OF assms(1)] wpI_ret wpI_new_uuid view_publish
        allI impI)
    using assms(3) apply (auto simp: same_outside_def start_def exec_def put_order_def assms(4,6) uuid_field_def marshal_def
        jint64_def decode_stock_data_def member_def jget_def decode_items_def decode_item_def as_uuid_def)
    done
qed

text \<open>Cancelling an order that was never confirmed releases stock nobody reserved for it: with every
  statement executed, the event a cancelled draft announces makes the warehouse take the order's
  quantity out of the reserve of its product all the same, and with it what was reserved for
  other orders.\<close>

lemma cancelled_draft_releases_stock:
  assumes "reliable env" and "reliable env'"
    and "find_order org oid d = Some ord" and "o_Status ord \<in> {''draft'', ''new''}" and "o_WarehouseID ord = Some wh"
    and "items_of oid d = [it]" and "oi_Quantity it = Fin n" and "0 < n"
    and "stock_at (org, oi_ProductID it, wh) d = Some sl" and "stored_level (column env') sl \<noteq> None"
    and "column env' f64_zero = Some f64_zero" and "sl_Reserved sl = Fin r" and "0 < r" and "r \<le> n"
    and d': "d' = committed (snd (Cancel org oid reason actor env (start d)))"
  shows "\<exists>ev. published (snd (Cancel org oid reason actor env (start d))) = [ev] \<and> ev_Type ev = ''order.cancelled''
     \<and> map_option sl_Reserved (stock_at (org, oi_ProductID it, wh)
          (committed (snd (on_cancelled_stock uuid_parse ev env' (start d'))))) = Some (Fin 0)"
proof -
  let ?run = "snd (Cancel org oid reason actor env (start d))"
  have "t_stock d' = t_stock d \<and> (\<exists>ev. published ?run = [ev]
      \<and> ev_Type ev = ''order.cancelled'' \<and> ev_OrganizationID ev = org
      \<and> decode_stock_data uuid_parse (ev_Data ev) = Some \<lparr>sd_Items = [(oi_ProductID it, Fin n)],
           sd_WarehouseID = Some wh, sd_Total = f64_zero, sd_RefundMethod = ''''\<rparr>)"
    unfolding d' by (rule ok_state [OF Cancel_announces_lines [OF assms(1,3-7)]])
  then obtain ev where stock: "t_stock d' = t_stock d" and ev: "published ?run = [ev]" "ev_Type ev = ''order.cancelled''"
      "ev_OrganizationID ev = org" "decode_stock_data uuid_parse (ev_Data ev) = Some \<lparr>sd_Items = [(oi_ProductID it, Fin n)],
           sd_WarehouseID = Some wh, sd_Total = f64_zero, sd_RefundMethod = ''''\<rparr>"
    by blast
  let ?inp = "\<lparr>rv_ProductID = oi_ProductID it, rv_WarehouseID = wh, rv_Quantity = Fin n, rv_ReferenceID = None\<rparr>"
  have "wp env' (Unreserve org ?inp) (\<lambda>_ w'. \<exists>sl'. stock_at (org, oi_ProductID it, wh) (committed w') = Some sl'
      \<and> sl_Reserved sl' = Fin 0) (\<lambda>_ _. False) (start d')"
    using ok_empty_reserve [OF assms(2,10,11), of org ?inp d' r n "start d'"] assms(8,9,12,14)
    by (simp add: stock_at_def stock)
  from ok_drop_error [OF this] have "wp env' (on_cancelled_stock uuid_parse ev)
      (\<lambda>_ w'. \<exists>sl'. stock_at (org, oi_ProductID it, wh) (committed w') = Some sl' \<and> sl_Reserved sl' = Fin 0)
      (\<lambda>_ _. False) (start d')"
    by (simp add: on_cancelled_stock_def ev wp_bnd wp_ret [abs_def])
  then have "\<exists>sl'. stock_at (org, oi_ProductID it, wh) (committed (snd (on_cancelled_stock uuid_parse ev env' (start d')))) = Some sl'
      \<and> sl_Reserved sl' = Fin 0"
    by (rule ok_committed)
  with ev(1,2) show ?thesis by auto
qed

definition reserved_elsewhere :: process_db where
  "reserved_elsewhere = no_processes\<lparr>t_orders := [sample_order\<lparr>o_Status := ''draft'', o_WarehouseID := Some 3\<rparr>],
     t_stock := [(blank_level 1 2 3 ''kg'' 0)\<lparr>sl_Quantity := Fin 10, sl_Reserved := Fin 1\<rparr>]\<rparr>"

definition cancelled_elsewhere :: process_db where
  "cancelled_elsewhere = committed (snd (Cancel 1 20 '''' None (env_ok numeric_15_4) (start reserved_elsewhere)))"

theorem cancelled_draft_releases_stock_witness:
  "\<exists>ev. published (snd (Cancel 1 20 '''' None (env_ok numeric_15_4) (start reserved_elsewhere))) = [ev]
     \<and> ev_Type ev = ''order.cancelled'' \<and> map_option sl_Reserved (stock_at (1, oi_ProductID sample_line, 3)
       (committed (snd (on_cancelled_stock (\<lambda>_. None) ev (env_ok numeric_15_4) (start cancelled_elsewhere))))) = Some (Fin 0)"
  by (rule cancelled_draft_releases_stock [where it = sample_line and ord = "sample_order\<lparr>o_Status := ''draft'',
        o_WarehouseID := Some 3\<rparr>" and sl = "(blank_level 1 2 3 ''kg'' 0)\<lparr>sl_Quantity := Fin 10, sl_Reserved := Fin 1\<rparr>"
        and n = 2 and r = 1, OF _ _ _ _ _ _ _ _ _ _ _ _ _ _ cancelled_elsewhere_def])
    (simp_all add: reserved_elsewhere_def no_processes_def find_order_def order_row_def sample_order_def items_of_def
      sample_line_def stock_at_def row_get_def stock_key_def blank_level_def stored_level_def numeric_15_4_numeral f64_zero_def)

end
