(* ===== verification/Logistics.thy ===== *)
theory Logistics
  imports Dates Views
begin

text \<open>
  \<open>internal/module/logistics/service.go\<close> over \<open>internal/storage/postgres/logistics_repo.go\<close>:
  delivery routes, their stops and the positions of vehicles.

  No method opens a transaction: every statement goes through the pool and commits on its own, so
  a method that fails half-way leaves what it has written. Foreign keys are not modelled: what
  they refuse is one more way for a statement to fail.
\<close>

record route_stop =
  rs_ID :: uuid
  rs_RouteID :: uuid
  rs_OrganizationID :: uuid
  rs_LocationID :: "uuid option"
  rs_Address :: string
  rs_Latitude :: "f64 option"
  rs_Longitude :: "f64 option"
  rs_SortOrder :: nat
  rs_PlannedArrival :: "time option"
  rs_ActualArrival :: "time option"
  rs_Status :: string
  rs_DeliveryIDs :: "uuid list option"
  rs_Notes :: string

record route =
  rt_ID :: uuid
  rt_OrganizationID :: uuid
  rt_Name :: string
  rt_VehicleID :: "uuid option"
  rt_DriverID :: "uuid option"
  rt_Status :: string
  rt_PlannedStart :: "time option"
  rt_PlannedEnd :: "time option"
  rt_ActualStart :: "time option"
  rt_ActualEnd :: "time option"
  rt_CreatedAt :: time
  rt_Stops :: "route_stop list"

record geo_point =
  gp_Latitude :: f64
  gp_Longitude :: f64
  gp_Speed :: f64
  gp_Heading :: f64
  gp_RecordedAt :: time

record geo_row = geo_point +
  gr_OrganizationID :: uuid
  gr_EntityID :: uuid

record logistics_db = core_db +
  t_routes :: "route list"
  t_route_stops :: "route_stop list"
  t_geo_tracks :: "geo_row list"

record create_stop_input =
  csi_LocationID :: "uuid option"
  csi_Address :: string
  csi_Latitude :: "f64 option"
  csi_Longitude :: "f64 option"
  csi_PlannedArrival :: "time option"
  csi_DeliveryIDs :: "uuid list option"
  csi_Notes :: string

record create_route_input =
  cro_Name :: string
  cro_VehicleID :: "uuid option"
  cro_DriverID :: "uuid option"
  cro_PlannedStart :: "time option"
  cro_PlannedEnd :: "time option"
  cro_Stops :: "create_stop_input list"

section \<open>The repository\<close>

definition repo_CreateRoute :: "route \<Rightarrow> ('a logistics_db_scheme, unit) op" where
  "repo_CreateRoute r = pool_stmt (row_insert t_routes (\<lambda>xs d. d\<lparr>t_routes := xs\<rparr>) rt_ID (r\<lparr>rt_Stops := []\<rparr>))"

definition find_route :: "uuid \<Rightarrow> uuid \<Rightarrow> 'a logistics_db_scheme \<Rightarrow> route option" where
  "find_route org rid d = find (\<lambda>r. rt_OrganizationID r = org \<and> rt_ID r = rid) (t_routes d)"

definition repo_GetRoute :: "uuid \<Rightarrow> uuid \<Rightarrow> ('a logistics_db_scheme, route) op" where
  "repo_GetRoute org rid = pool_find (find_route org rid) (NewNotFound ''route not found'')"

text \<open>The columns \<open>UpdateRoute\<close> and \<open>UpdateStop\<close> write.\<close>

definition set_route :: "route \<Rightarrow> route \<Rightarrow> route" where
  "set_route r x = x\<lparr>rt_Status := rt_Status r, rt_ActualStart := rt_ActualStart r,
     rt_ActualEnd := rt_ActualEnd r\<rparr>"

definition put_route :: "route \<Rightarrow> 'a logistics_db_scheme \<Rightarrow> 'a logistics_db_scheme" where
  "put_route r d = d\<lparr>t_routes := row_update
     (\<lambda>x. rt_OrganizationID x = rt_OrganizationID r \<and> rt_ID x = rt_ID r) (set_route r) (t_routes d)\<rparr>"

definition UpdateRoute :: "route \<Rightarrow> ('a logistics_db_scheme, unit) op" where
  "UpdateRoute r = pool_stmt (exec (put_route r))"

definition CreateStops :: "route_stop list \<Rightarrow> ('a logistics_db_scheme, unit) op" where
  "CreateStops stops = for_each stops (\<lambda>s.
     pool_stmt (row_insert t_route_stops (\<lambda>xs d. d\<lparr>t_route_stops := xs\<rparr>) rs_ID s))"

definition find_stop :: "uuid \<Rightarrow> uuid \<Rightarrow> 'a logistics_db_scheme \<Rightarrow> route_stop option" where
  "find_stop org sid d = find (\<lambda>s. rs_OrganizationID s = org \<and> rs_ID s = sid) (t_route_stops d)"

definition GetStop :: "uuid \<Rightarrow> uuid \<Rightarrow> ('a logistics_db_scheme, route_stop) op" where
  "GetStop org sid = pool_find (find_stop org sid) (NewNotFound ''stop not found'')"

definition stops_of :: "uuid \<Rightarrow> 'a logistics_db_scheme \<Rightarrow> route_stop list" where
  "stops_of rid d = sort_key rs_SortOrder (filter (\<lambda>s. rs_RouteID s = rid) (t_route_stops d))"

definition ListStops :: "uuid \<Rightarrow> ('a logistics_db_scheme, route_stop list) op" where
  "ListStops rid = pool_stmt (query (stops_of rid))"

definition set_stop :: "route_stop \<Rightarrow> route_stop \<Rightarrow> route_stop" where
  "set_stop s x = x\<lparr>rs_Status := rs_Status s, rs_ActualArrival := rs_ActualArrival s\<rparr>"

definition put_stop :: "route_stop \<Rightarrow> 'a logistics_db_scheme \<Rightarrow> 'a logistics_db_scheme" where
  "put_stop s d = d\<lparr>t_route_stops := row_update
     (\<lambda>x. rs_OrganizationID x = rs_OrganizationID s \<and> rs_ID x = rs_ID s) (set_stop s) (t_route_stops d)\<rparr>"

definition UpdateStop :: "route_stop \<Rightarrow> ('a logistics_db_scheme, unit) op" where
  "UpdateStop s = pool_stmt (exec (put_stop s))"

text \<open>
  Positions are kept by entity and time, to the microsecond of a \<open>TIMESTAMPTZ\<close>; a second position
  at the same time replaces the first, in the row (and for the organization) of the first.
\<close>

definition geo_key :: "geo_row \<Rightarrow> uuid \<times> time" where
  "geo_key g = (gr_EntityID g, gp_RecordedAt g)"

definition geo_row_of :: "uuid \<Rightarrow> uuid \<Rightarrow> geo_point \<Rightarrow> geo_row" where
  "geo_row_of org eid p = geo_point.extend (geo_point.truncate p\<lparr>gp_RecordedAt := pg_time (gp_RecordedAt p)\<rparr>)
     \<lparr>gr_OrganizationID = org, gr_EntityID = eid\<rparr>"

definition set_geo :: "geo_row \<Rightarrow> geo_row \<Rightarrow> geo_row" where
  "set_geo g x = x\<lparr>gp_Latitude := gp_Latitude g, gp_Longitude := gp_Longitude g,
     gp_Speed := gp_Speed g, gp_Heading := gp_Heading g\<rparr>"

definition InsertGeoPoint :: "uuid \<Rightarrow> uuid \<Rightarrow> geo_point \<Rightarrow> ('a logistics_db_scheme, unit) op" where
  "InsertGeoPoint org eid p = (let g = geo_row_of org eid p in
     pool_stmt (exec (\<lambda>d. d\<lparr>t_geo_tracks :=
       (if geo_key g \<in> geo_key ` set (t_geo_tracks d)
        then row_update (\<lambda>x. geo_key x = geo_key g) (set_geo g) (t_geo_tracks d)
        else t_geo_tracks d @ [g])\<rparr>)))"

definition repo_GetTrack :: "uuid \<Rightarrow> uuid \<Rightarrow> time \<Rightarrow> time \<Rightarrow> ('a logistics_db_scheme, geo_point list) op" where
  "repo_GetTrack org eid t0 t1 = pool_stmt (query (\<lambda>d.
     map geo_point.truncate (sort_key gp_RecordedAt (filter (\<lambda>g. gr_OrganizationID g = org
       \<and> gr_EntityID g = eid \<and> pg_time t0 \<le> gp_RecordedAt g \<and> gp_RecordedAt g \<le> pg_time t1) (t_geo_tracks d)))))"

section \<open>The service\<close>

definition logistics_publishEvent :: "uuid \<Rightarrow> string \<Rightarrow> json \<Rightarrow> uuid option \<Rightarrow> ('a core_db_scheme, unit) op" where
  "logistics_publishEvent org ty data actor =
    bnd new_uuid (\<lambda>evid.
    bnd now (\<lambda>t.
    publish \<lparr>ev_ID = evid, ev_OrganizationID = org, ev_EntityID = None, ev_Type = ty,
             ev_Data = marshal data, ev_ActorID = actor, ev_Timestamp = t, ev_Version = 0\<rparr>))"

definition new_stop :: "uuid \<Rightarrow> uuid \<Rightarrow> uuid \<Rightarrow> nat \<times> create_stop_input \<Rightarrow> route_stop" where
  "new_stop org rid sid = (\<lambda>(i, inp).
     \<lparr>rs_ID = sid, rs_RouteID = rid, rs_OrganizationID = org, rs_LocationID = csi_LocationID inp,
      rs_Address = csi_Address inp, rs_Latitude = csi_Latitude inp, rs_Longitude = csi_Longitude inp,
      rs_SortOrder = i, rs_PlannedArrival = csi_PlannedArrival inp, rs_ActualArrival = None,
      rs_Status = ''pending'', rs_DeliveryIDs = csi_DeliveryIDs inp, rs_Notes = csi_Notes inp\<rparr>)"

definition new_route :: "uuid \<Rightarrow> uuid \<Rightarrow> time \<Rightarrow> create_route_input \<Rightarrow> route" where
  "new_route org rid t inp =
     \<lparr>rt_ID = rid, rt_OrganizationID = org, rt_Name = cro_Name inp, rt_VehicleID = cro_VehicleID inp,
      rt_DriverID = cro_DriverID inp, rt_Status = ''planned'', rt_PlannedStart = cro_PlannedStart inp,
      rt_PlannedEnd = cro_PlannedEnd inp, rt_ActualStart = None, rt_ActualEnd = None,
      rt_CreatedAt = t, rt_Stops = []\<rparr>"

definition CreateRoute :: "uuid \<Rightarrow> create_route_input \<Rightarrow> uuid option \<Rightarrow> ('a logistics_db_scheme, route) op" where
  "CreateRoute org inp actor =
    bnd (guard (cro_Name inp = '''') (NewBadRequest ''name is required'')) (\<lambda>_.
    bnd new_uuid (\<lambda>rid.
    bnd now (\<lambda>t.
    let r = new_route org rid t inp in
    bnd (repo_CreateRoute r) (\<lambda>_.
    bnd (if cro_Stops inp \<noteq> []
         then bnd (map_op (\<lambda>x. bnd new_uuid (\<lambda>sid. ret (new_stop org rid sid x)))
                     (enumerate 0 (cro_Stops inp))) (\<lambda>stops.
              bnd (CreateStops stops) (\<lambda>_. ret stops))
         else ret []) (\<lambda>stops.
    bnd (logistics_publishEvent org ''logistics.route.created''
           (JObj [(''route_id'', JUuid rid), (''name'', JStr (rt_Name r))]) actor) (\<lambda>_.
    ret (r\<lparr>rt_Stops := stops\<rparr>)))))))"

definition GetRoute :: "uuid \<Rightarrow> uuid \<Rightarrow> ('a logistics_db_scheme, route) op" where
  "GetRoute org rid =
    bnd (repo_GetRoute org rid) (\<lambda>r.
    bnd (ListStops rid) (\<lambda>stops.
    ret (r\<lparr>rt_Stops := stops\<rparr>)))"

definition StartRoute :: "uuid \<Rightarrow> uuid \<Rightarrow> uuid option \<Rightarrow> ('a logistics_db_scheme, route) op" where
  "StartRoute org rid actor =
    bnd (repo_GetRoute org rid) (\<lambda>r.
    bnd (guard (rt_Status r \<noteq> ''planned'')
          (NewConflict ''route can only be started from planned status'')) (\<lambda>_.
    bnd now (\<lambda>t.
    let r = r\<lparr>rt_Status := ''in_progress'', rt_ActualStart := Some t\<rparr> in
    bnd (UpdateRoute r) (\<lambda>_.
    bnd (logistics_publishEvent org ''logistics.route.started'' (JObj [(''route_id'', JUuid rid)]) actor) (\<lambda>_.
    ret r)))))"

definition CompleteRoute :: "uuid \<Rightarrow> uuid \<Rightarrow> uuid option \<Rightarrow> ('a logistics_db_scheme, route) op" where
  "CompleteRoute org rid actor =
    bnd (repo_GetRoute org rid) (\<lambda>r.
    bnd (guard (rt_Status r \<noteq> ''in_progress'')
          (NewConflict ''route can only be completed from in_progress status'')) (\<lambda>_.
    bnd now (\<lambda>t.
    let r = r\<lparr>rt_Status := ''completed'', rt_ActualEnd := Some t\<rparr> in
    bnd (UpdateRoute r) (\<lambda>_.
    bnd (logistics_publishEvent org ''logistics.route.completed'' (JObj [(''route_id'', JUuid rid)]) actor) (\<lambda>_.
    ret r)))))"

text \<open>\<open>for _, prev := range stops\<close>: every stop before this one must be completed.\<close>

definition ArriveAtStop ::
  "uuid \<Rightarrow> uuid \<Rightarrow> uuid \<Rightarrow> uuid option \<Rightarrow> ('a logistics_db_scheme, route_stop) op" where
  "ArriveAtStop org rid sid actor =
    bnd (GetStop org sid) (\<lambda>s.
    bnd (guard (rs_RouteID s \<noteq> rid) (NewNotFound ''stop not found on this route'')) (\<lambda>_.
    bnd (guard (rs_Status s \<noteq> ''pending'') (NewConflict ''stop has already been visited'')) (\<lambda>_.
    bnd (ListStops rid) (\<lambda>stops.
    bnd (for_each stops (\<lambda>p. guard (rs_SortOrder p < rs_SortOrder s \<and> rs_Status p \<noteq> ''completed'')
          (NewConflict ''previous stops must be completed first''))) (\<lambda>_.
    bnd now (\<lambda>t.
    let s = s\<lparr>rs_Status := ''arrived'', rs_ActualArrival := Some t\<rparr> in
    bnd (UpdateStop s) (\<lambda>_.
    bnd (logistics_publishEvent org ''logistics.stop.arrived''
           (JObj [(''route_id'', JUuid rid), (''stop_id'', JUuid sid)]) actor) (\<lambda>_.
    ret s))))))))"

definition CompleteStop ::
  "uuid \<Rightarrow> uuid \<Rightarrow> uuid \<Rightarrow> uuid option \<Rightarrow> ('a logistics_db_scheme, route_stop) op" where
  "CompleteStop org rid sid actor =
    bnd (GetStop org sid) (\<lambda>s.
    bnd (guard (rs_RouteID s \<noteq> rid) (NewNotFound ''stop not found on this route'')) (\<lambda>_.
    bnd (guard (rs_Status s \<noteq> ''arrived'')
          (NewConflict ''stop must be in arrived status to complete'')) (\<lambda>_.
    let s = s\<lparr>rs_Status := ''completed''\<rparr> in
    bnd (UpdateStop s) (\<lambda>_.
    bnd (logistics_publishEvent org ''logistics.stop.completed''
           (JObj [(''route_id'', JUuid rid), (''stop_id'', JUuid sid),
                  (''delivery_ids'', jnull_or (\<lambda>ids. JArr (map JUuid ids)) (rs_DeliveryIDs s))]) actor) (\<lambda>_.
    ret s)))))"

definition UpdateGeo :: "uuid \<Rightarrow> uuid \<Rightarrow> geo_point \<Rightarrow> uuid option \<Rightarrow> ('a logistics_db_scheme, unit) op" where
  "UpdateGeo org eid p actor =
    bnd (if gp_RecordedAt p = time_zero then bnd now (\<lambda>t. ret (p\<lparr>gp_RecordedAt := t\<rparr>)) else ret p) (\<lambda>p.
    bnd (InsertGeoPoint org eid p) (\<lambda>_.
    logistics_publishEvent org ''logistics.geo.updated''
      (JObj [(''entity_id'', JUuid eid), (''latitude'', JFloat (gp_Latitude p)),
             (''longitude'', JFloat (gp_Longitude p)), (''speed'', JFloat (gp_Speed p)),
             (''heading'', JFloat (gp_Heading p))]) actor))"

definition GetTrack :: "uuid \<Rightarrow> uuid \<Rightarrow> time \<Rightarrow> time \<Rightarrow> ('a logistics_db_scheme, geo_point list) op" where
  "GetTrack org eid t0 t1 = repo_GetTrack org eid t0 t1"

end
