(* ===== verification/Pooled.thy ===== *)
theory Pooled
  imports Views
begin

text \<open>
  Services that open no transaction: every statement of a method commits on its own. The rule for
  such a statement, and runs of requests, each served by its method in an environment of its own
  that may let any of its statements fail.
\<close>

lemma view_pool_stmt:
  assumes "\<And>e w'. same_outside w w' \<Longrightarrow> pending w' = pending w \<Longrightarrow> E e w'"
    and "\<And>x d w'. s (committed w) = Inr (x, d) \<Longrightarrow> committed w' = d \<Longrightarrow> published w' = published w \<Longrightarrow>
      pending w' = pending w \<Longrightarrow> Q x w'"
  shows "wp env (pool_stmt s) Q E w"
  by (rule wpI_pool_stmt) (auto simp: same_outside_def intro!: assms)

lemma view_update:
  assumes "\<And>e w'. same_outside w w' \<Longrightarrow> pending w' = pending w \<Longrightarrow> E e w'"
    and "\<And>w'. committed w' = u (committed w) \<Longrightarrow> published w' = published w \<Longrightarrow> pending w' = pending w \<Longrightarrow> Q () w'"
  shows "wp env (pool_stmt (exec u)) Q E w"
  by (rule view_pool_stmt) (auto intro: assms)

lemma view_guards:
  assumes "\<And>x. x \<in> set xs \<Longrightarrow> c x \<Longrightarrow> E (e x) w" and "\<forall>x \<in> set xs. \<not> c x \<Longrightarrow> Q () w"
  shows "wp env (for_each xs (\<lambda>x. guard (c x) (e x))) Q E w"
  using assms
proof (induction xs)
  case (Cons x xs)
  have "wp env (for_each xs (\<lambda>x. guard (c x) (e x))) Q E w" if "\<not> c x"
    using Cons.prems that by (intro Cons.IH) simp_all
  then show ?case using Cons.prems(1) [of x] by (simp add: wp_bnd wp_guard)
qed (simp add: wp_ret)

lemma ok_update:
  assumes "reliable env"
    and "\<And>w'. committed w' = u (committed w) \<Longrightarrow> published w' = published w \<Longrightarrow> pending w' = pending w \<Longrightarrow> Q () w'"
  shows "wp env (pool_stmt (exec u)) Q E w"
  using assms(1) by (auto simp: wp_pool_stmt intro!: assms(2))

text \<open>Building a list, one fresh identifier per element.\<close>

lemma view_map_new:
  assumes "\<And>ys w'. list_all2 (\<lambda>x y. \<exists>u. y = f u x) xs ys \<Longrightarrow> same_outside w w' \<Longrightarrow> pending w' = pending w \<Longrightarrow> Q ys w'"
  shows "wp env (map_op (\<lambda>x. bnd new_uuid (\<lambda>u. ret (f u x))) xs) Q E w"
  using assms
proof (induction xs arbitrary: Q w)
  case (Cons x xs)
  let ?u = "uuids env (tick w)"
  have "Q (f ?u x # ys) w'" if "list_all2 (\<lambda>x y. \<exists>u. y = f u x) xs ys" "same_outside w w'" "pending w' = pending w"
    for ys w'
    using that by (intro Cons.prems) auto
  then show ?case
    by (auto simp: wp_bnd wp_new_uuid wp_ret intro!: Cons.IH)
qed (simp add: wp_ret)

section \<open>Updates of one row\<close>

definition replaced :: "('r \<Rightarrow> 'k) \<Rightarrow> 'r \<Rightarrow> 'r \<Rightarrow> 'r list \<Rightarrow> 'r list" where
  "replaced key r r' rs = map (\<lambda>x. if key x = key r then r' else x) rs"

lemma row_update_replaced:
  assumes "distinct (map key rs)" and "r \<in> set rs" and "p r" and "\<And>x. p x \<Longrightarrow> key x = key r"
    and "f r = r'"
  shows "row_update p f rs = replaced key r r' rs"
  unfolding row_update_def replaced_def
proof (rule map_cong [OF refl])
  fix x assume "x \<in> set rs"
  then have "key x = key r \<Longrightarrow> x = r" using assms(1,2) by (simp add: distinct_map inj_on_def)
  then show "(if p x then f x else x) = (if key x = key r then r' else x)"
    using assms(3,5) assms(4) [of x] by (cases "p x") auto
qed

lemma replaced_keys: "key r' = key r \<Longrightarrow> map key (replaced key r r' rs) = map key rs"
  unfolding replaced_def map_map comp_def by (rule map_cong) simp_all

lemma replaced_other:
  assumes "distinct (map key rs)" and "r \<in> set rs" and "g r' = g r"
  shows "map g (replaced key r r' rs) = map g rs"
  unfolding replaced_def map_map
proof (rule map_cong [OF refl])
  fix x assume "x \<in> set rs"
  then have "key x = key r \<Longrightarrow> x = r" using assms(1,2) by (simp add: distinct_map inj_on_def)
  then show "(g \<circ> (\<lambda>x. if key x = key r then r' else x)) x = g x" using assms(3) by auto
qed

lemma replaced_set: "x \<in> set (replaced key r r' rs) \<Longrightarrow> x = r' \<or> x \<in> set rs \<and> key x \<noteq> key r"
  by (auto simp: replaced_def split: if_splits)

lemma replaced_twice: "key r' = key r \<Longrightarrow> replaced key r' r'' (replaced key r r' rs) = replaced key r r'' rs"
  by (simp add: replaced_def)

text \<open>Rows stay under their key and change by steps.\<close>

definition evolves :: "('r \<Rightarrow> 'k) \<Rightarrow> ('r \<Rightarrow> 'r \<Rightarrow> bool) \<Rightarrow> 'r list \<Rightarrow> 'r list \<Rightarrow> bool" where
  "evolves key step rs rs' \<longleftrightarrow> (\<forall>r \<in> set rs. \<exists>r' \<in> set rs'. key r' = key r \<and> step\<^sup>*\<^sup>* r r')"

lemma evolves_refl [simp]: "evolves key step rs rs"
  by (auto simp: evolves_def)

lemma evolves_append [simp]: "evolves key step rs (rs @ rs')"
  by (auto simp: evolves_def)

lemma evolves_trans: "evolves key step rs rs' \<Longrightarrow> evolves key step rs' rs'' \<Longrightarrow> evolves key step rs rs''"
  unfolding evolves_def by (metis rtranclp_trans)

lemma evolves_replaced:
  assumes "distinct (map key rs)" and "r \<in> set rs" and "step r r'" and "key r' = key r"
  shows "evolves key step rs (replaced key r r' rs)"
  unfolding evolves_def
proof
  fix x assume x: "x \<in> set rs"
  show "\<exists>y \<in> set (replaced key r r' rs). key y = key x \<and> step\<^sup>*\<^sup>* x y"
  proof (cases "key x = key r")
    case True
    with assms(1,2) x have "x = r" by (simp add: distinct_map inj_on_def)
    moreover have "r' \<in> set (replaced key r r' rs)" using assms(2) by (auto simp: replaced_def)
    ultimately show ?thesis using assms(3,4) by auto
  next
    case False
    then have "x \<in> set (replaced key r r' rs)" using x by (force simp: replaced_def)
    then show ?thesis by auto
  qed
qed

lemma evolvesE:
  assumes "evolves key step rs rs'" and "r \<in> set rs"
  obtains r' where "r' \<in> set rs'" "key r' = key r" "step\<^sup>*\<^sup>* r r'"
  using assms by (auto simp: evolves_def)

section \<open>Runs of requests\<close>

fun run :: "(env \<Rightarrow> 'r \<Rightarrow> 'd \<Rightarrow> 'd) \<Rightarrow> (env \<times> 'r) list \<Rightarrow> 'd \<Rightarrow> 'd" where
  "run serve [] d = d"
| "run serve ((env, r) # rs) d = run serve rs (serve env r d)"

text \<open>
  What a service owes: served from a state that satisfies its invariant, a request leaves one that
  does, and moves the state along a relation of its own.
\<close>

locale service = transition R for R :: "'d \<Rightarrow> 'd \<Rightarrow> bool" +
  fixes serve :: "env \<Rightarrow> 'r \<Rightarrow> 'd \<Rightarrow> 'd" and sound :: "'d \<Rightarrow> bool"
  assumes serve_sound: "sound d \<Longrightarrow> sound (serve env r d)"
    and serve_moves: "sound d \<Longrightarrow> R d (serve env r d)"
begin

lemma run_sound: "sound d \<Longrightarrow> sound (run serve rs d)"
  by (induction rs arbitrary: d) (auto simp: serve_sound)

lemma run_moves: "sound d \<Longrightarrow> R d (run serve rs d)"
proof (induction rs arbitrary: d)
  case (Cons x rs)
  then have "R (serve (fst x) (snd x) d) (run serve rs (serve (fst x) (snd x) d))"
    by (simp add: serve_sound)
  with serve_moves [OF Cons.prems] show ?case
    by (cases x) (auto intro: R_trans)
qed (simp add: R_refl)

end

text \<open>From what a method guarantees to the state it leaves.\<close>

lemma wp_left: "wp env m (\<lambda>_ w'. P (committed w')) (\<lambda>_ w'. P (committed w')) (start d) \<Longrightarrow>
    P (committed (snd (m env (start d))))"
  by (simp add: wp_state)

end
