(* ===== verification/Deliveries.thy ===== *)
theory Deliveries
  imports Logistics Pooled
begin

text \<open>
  What delivery routes promise: the stops of a route are visited one at a time and in their order,
  whatever is requested and whatever fails; and a driver who visits them in order completes them.
\<close>

section \<open>The invariant\<close>

definition stop_ok :: "route_stop \<Rightarrow> bool" where
  "stop_ok s \<longleftrightarrow> rs_Status s \<in> {''pending'', ''arrived'', ''completed''}
     \<and> (rs_ActualArrival s = None \<longleftrightarrow> rs_Status s = ''pending'')"

definition route_ok :: "route \<Rightarrow> bool" where
  "route_ok r \<longleftrightarrow> rt_Status r \<in> {''planned'', ''in_progress'', ''completed''}
     \<and> (rt_ActualStart r = None \<longleftrightarrow> rt_Status r = ''planned'')
     \<and> (rt_ActualEnd r \<noteq> None \<longleftrightarrow> rt_Status r = ''completed'') \<and> rt_Stops r = []"

text \<open>Whoever stands before a visited stop of the same route is completed.\<close>

definition in_order :: "route_stop list \<Rightarrow> bool" where
  "in_order ss \<longleftrightarrow> (\<forall>s \<in> set ss. \<forall>s' \<in> set ss. rs_RouteID s = rs_RouteID s' \<and> rs_SortOrder s < rs_SortOrder s'
     \<and> rs_Status s' \<noteq> ''pending'' \<longrightarrow> rs_Status s = ''completed'')"

definition stop_place :: "route_stop \<Rightarrow> uuid \<times> nat" where
  "stop_place s = (rs_RouteID s, rs_SortOrder s)"

definition deliveries_ok :: "'a logistics_db_scheme \<Rightarrow> bool" where
  "deliveries_ok d \<longleftrightarrow> distinct (map rt_ID (t_routes d)) \<and> distinct (map rs_ID (t_route_stops d))
     \<and> distinct (map stop_place (t_route_stops d))
     \<and> (\<forall>r \<in> set (t_routes d). route_ok r) \<and> (\<forall>s \<in> set (t_route_stops d). stop_ok s)
     \<and> (\<forall>s \<in> set (t_route_stops d). (rs_RouteID s, rs_OrganizationID s) \<in> (\<lambda>r. (rt_ID r, rt_OrganizationID r)) ` set (t_routes d))
     \<and> in_order (t_route_stops d)"

lemma deliveries_ok_events [simp]: "deliveries_ok (d\<lparr>t_events := es\<rparr>) = deliveries_ok d"
  "deliveries_ok (d\<lparr>t_geo_tracks := gs\<rparr>) = deliveries_ok d"
  by (simp_all add: deliveries_ok_def)

text \<open>What becomes of a stop: it keeps its place and goes from pending to arrived to completed.\<close>

inductive stop_step :: "route_stop \<Rightarrow> route_stop \<Rightarrow> bool" where
  arrive: "rs_Status s = ''pending'' \<Longrightarrow> stop_step s (s\<lparr>rs_Status := ''arrived'', rs_ActualArrival := Some t\<rparr>)"
| complete: "rs_Status s = ''arrived'' \<Longrightarrow> stop_step s (s\<lparr>rs_Status := ''completed''\<rparr>)"

inductive route_step :: "route \<Rightarrow> route \<Rightarrow> bool" where
  begin_route: "rt_Status r = ''planned'' \<Longrightarrow>
    route_step r (r\<lparr>rt_Status := ''in_progress'', rt_ActualStart := Some t\<rparr>)"
| end_route: "rt_Status r = ''in_progress'' \<Longrightarrow>
    route_step r (r\<lparr>rt_Status := ''completed'', rt_ActualEnd := Some t\<rparr>)"

lemma stop_step_same: "stop_step s s' \<Longrightarrow> rs_ID s' = rs_ID s \<and> rs_RouteID s' = rs_RouteID s
    \<and> rs_OrganizationID s' = rs_OrganizationID s \<and> rs_SortOrder s' = rs_SortOrder s"
  by (cases rule: stop_step.cases) auto

lemma stop_step_ok: "stop_step s s' \<Longrightarrow> stop_ok s \<Longrightarrow> stop_ok s'"
  by (induction rule: stop_step.induct) (auto simp: stop_ok_def)

lemma route_step_same: "route_step r r' \<Longrightarrow> rt_ID r' = rt_ID r \<and> rt_OrganizationID r' = rt_OrganizationID r"
  by (cases rule: route_step.cases) auto

lemma route_step_ok: "route_step r r' \<Longrightarrow> route_ok r \<Longrightarrow> route_ok r'"
  by (induction rule: route_step.induct) (auto simp: route_ok_def)

section \<open>The methods keep the invariant\<close>

lemma find_routeD: "find_route org rid d = Some r \<Longrightarrow> r \<in> set (t_routes d) \<and> rt_ID r = rid \<and> rt_OrganizationID r = org"
  by (auto simp: find_route_def dest: find_SomeD)

lemma find_stopD: "find_stop org sid d = Some s \<Longrightarrow> s \<in> set (t_route_stops d) \<and> rs_ID s = sid \<and> rs_OrganizationID s = org"
  by (auto simp: find_stop_def dest: find_SomeD)

definition before_done :: "route_stop list \<Rightarrow> route_stop \<Rightarrow> bool" where
  "before_done ss s \<longleftrightarrow> (\<forall>x \<in> set ss. rs_RouteID x = rs_RouteID s \<and> rs_SortOrder x < rs_SortOrder s \<longrightarrow>
     rs_Status x = ''completed'')"

lemma in_order_replaced:
  assumes "in_order ss" and "s \<in> set ss" and step: "stop_step s s'" and before: "before_done ss s"
    and dist: "distinct (map rs_ID ss)"
  shows "in_order (replaced rs_ID s s' ss)"
  unfolding in_order_def
proof (intro ballI impI)
  fix x y
  assume x: "x \<in> set (replaced rs_ID s s' ss)" and y: "y \<in> set (replaced rs_ID s s' ss)"
    and xy: "rs_RouteID x = rs_RouteID y \<and> rs_SortOrder x < rs_SortOrder y \<and> rs_Status y \<noteq> ''pending''"
  note same = stop_step_same [OF step]
  have ord: "rs_Status a = ''completed''" if "a \<in> set ss" "b \<in> set ss" "rs_RouteID a = rs_RouteID b"
    "rs_SortOrder a < rs_SortOrder b" "rs_Status b \<noteq> ''pending''" for a b
    using assms(1) that unfolding in_order_def by blast
  have sx: "x = s' \<or> x \<in> set ss \<and> rs_ID x \<noteq> rs_ID s" and sy: "y = s' \<or> y \<in> set ss \<and> rs_ID y \<noteq> rs_ID s"
    by (rule replaced_set [OF x], rule replaced_set [OF y])
  show "rs_Status x = ''completed''"
  proof (cases "x = s'")
    case True
    with sy xy have y: "y \<in> set ss" by auto
    have "rs_Status s = ''completed''"
      using ord [OF assms(2) y] xy same True by simp
    with step show ?thesis by (auto elim: stop_step.cases)
  next
    case False
    with sx have x: "x \<in> set ss" by simp
    show ?thesis
    proof (cases "y = s'")
      case True
      then show ?thesis using before x xy same by (auto simp: before_done_def)
    next
      case False
      with sy show ?thesis using ord [OF x, of y] xy by simp
    qed
  qed
qed

lemma deliveries_put_stop:
  assumes ok: "deliveries_ok d" and s: "s \<in> set (t_route_stops d)" and step: "stop_step s s'"
    and before: "before_done (t_route_stops d) s"
  shows "deliveries_ok (put_stop s' d) \<and> t_route_stops (put_stop s' d) = replaced rs_ID s s' (t_route_stops d)"
proof -
  note same = stop_step_same [OF step]
  have dist: "distinct (map rs_ID (t_route_stops d))" using ok by (simp add: deliveries_ok_def)
  have "set_stop s' s = s'" using step by (cases rule: stop_step.cases) (simp_all add: set_stop_def)
  then have eq: "t_route_stops (put_stop s' d) = replaced rs_ID s s' (t_route_stops d)"
    unfolding put_stop_def by (simp, intro row_update_replaced [OF dist s]) (simp_all add: same)
  have "map stop_place (replaced rs_ID s s' (t_route_stops d)) = map stop_place (t_route_stops d)"
    "map rs_ID (replaced rs_ID s s' (t_route_stops d)) = map rs_ID (t_route_stops d)"
    by (simp_all add: replaced_other [OF dist s] stop_place_def same)
  moreover have "stop_ok x" if "x \<in> set (replaced rs_ID s s' (t_route_stops d))" for x
    using replaced_set [OF that] ok stop_step_ok [OF step] s by (auto simp: deliveries_ok_def)
  moreover have "(rs_RouteID x, rs_OrganizationID x) \<in> (\<lambda>r. (rt_ID r, rt_OrganizationID r)) ` set (t_routes d)"
    if "x \<in> set (replaced rs_ID s s' (t_route_stops d))" for x
    using replaced_set [OF that] ok s same by (auto simp: deliveries_ok_def)
  moreover have "in_order (replaced rs_ID s s' (t_route_stops d))"
    using ok by (intro in_order_replaced [OF _ s step before dist]) (simp add: deliveries_ok_def)
  moreover have "t_routes (put_stop s' d) = t_routes d" by (simp add: put_stop_def)
  ultimately show ?thesis using ok eq by (simp add: deliveries_ok_def)
qed

text \<open>A stop that has been reached has everything before it completed.\<close>

lemma arrived_before_done:
  "deliveries_ok d \<Longrightarrow> s \<in> set (t_route_stops d) \<Longrightarrow> rs_Status s \<noteq> ''pending'' \<Longrightarrow> before_done (t_route_stops d) s"
  unfolding deliveries_ok_def in_order_def before_done_def by blast

lemma listed_before_done:
  "\<forall>p \<in> set (stops_of (rs_RouteID s) d). \<not> (rs_SortOrder p < rs_SortOrder s \<and> rs_Status p \<noteq> ''completed'') \<Longrightarrow>
     before_done (t_route_stops d) s"
  by (auto simp: before_done_def stops_of_def)

definition delivery_moves :: "'a logistics_db_scheme \<Rightarrow> 'a logistics_db_scheme \<Rightarrow> bool" where
  "delivery_moves d d' \<longleftrightarrow> evolves rs_ID stop_step (t_route_stops d) (t_route_stops d')
     \<and> evolves rt_ID route_step (t_routes d) (t_routes d')"

lemma delivery_moves_refl: "delivery_moves d d"
  by (simp add: delivery_moves_def)

lemma delivery_moves_events [simp]:
  "delivery_moves d (d'\<lparr>t_events := es\<rparr>) = delivery_moves d d'"
  "delivery_moves d (d'\<lparr>t_geo_tracks := gs\<rparr>) = delivery_moves d d'"
  by (simp_all add: delivery_moves_def)

lemma delivery_moves_trans: "delivery_moves d d' \<Longrightarrow> delivery_moves d' d'' \<Longrightarrow> delivery_moves d d''"
  unfolding delivery_moves_def by (blast intro: evolves_trans)

definition good_delivery :: "'a logistics_db_scheme \<Rightarrow> 'a logistics_db_scheme \<Rightarrow> bool" where
  "good_delivery d d' \<longleftrightarrow> deliveries_ok d' \<and> delivery_moves d d'"

lemma good_delivery_events [simp]:
  "good_delivery d (d'\<lparr>t_events := es\<rparr>) = good_delivery d d'"
  "good_delivery d (d'\<lparr>t_geo_tracks := gs\<rparr>) = good_delivery d d'"
  by (simp_all add: good_delivery_def)

lemma good_delivery_refl: "deliveries_ok d \<Longrightarrow> good_delivery d d"
  by (simp add: good_delivery_def delivery_moves_refl)

abbreviation delivers :: "env \<Rightarrow> 'a logistics_db_scheme \<Rightarrow> ('a logistics_db_scheme, 'b) op \<Rightarrow> bool" where
  "delivers env d m \<equiv> wp env m (\<lambda>_ w'. good_delivery d (committed w')) (\<lambda>_ w'. good_delivery d (committed w')) (start d)"

text \<open>What the next update of a stop does.\<close>

lemma good_put_stop:
  assumes "deliveries_ok d" and "s \<in> set (t_route_stops d)" and "stop_step s s'" and "before_done (t_route_stops d) s"
  shows "good_delivery d (put_stop s' d)"
proof -
  have "evolves rs_ID stop_step (t_route_stops d) (replaced rs_ID s s' (t_route_stops d))"
    using assms stop_step_same by (intro evolves_replaced) (auto simp: deliveries_ok_def)
  moreover have "t_routes (put_stop s' d) = t_routes d" by (simp add: put_stop_def)
  ultimately show ?thesis
    using deliveries_put_stop [OF assms] by (simp add: good_delivery_def delivery_moves_def)
qed

lemma good_put_route:
  assumes ok: "deliveries_ok d" and r: "r \<in> set (t_routes d)" and step: "route_step r r'"
  shows "good_delivery d (put_route r' d)"
proof -
  let ?d = "put_route r' d"
  note same = route_step_same [OF step]
  have dist: "distinct (map rt_ID (t_routes d))" using ok by (simp add: deliveries_ok_def)
  have "set_route r' r = r'"
    using step by (cases rule: route_step.cases) (simp_all add: set_route_def)
  then have eq: "t_routes ?d = replaced rt_ID r r' (t_routes d)"
    by (simp add: put_route_def, intro row_update_replaced [OF dist r]) (simp_all add: same)
  have keys: "map rt_ID (replaced rt_ID r r' (t_routes d)) = map rt_ID (t_routes d)"
    "map (\<lambda>r. (rt_ID r, rt_OrganizationID r)) (replaced rt_ID r r' (t_routes d))
       = map (\<lambda>r. (rt_ID r, rt_OrganizationID r)) (t_routes d)"
    by (simp_all add: replaced_other [OF dist r] same)
  have "route_ok x" if "x \<in> set (replaced rt_ID r r' (t_routes d))" for x
    using replaced_set [OF that] ok route_step_ok [OF step] r by (auto simp: deliveries_ok_def)
  moreover have "(\<lambda>r. (rt_ID r, rt_OrganizationID r)) ` set (replaced rt_ID r r' (t_routes d))
      = (\<lambda>r. (rt_ID r, rt_OrganizationID r)) ` set (t_routes d)"
    using keys(2) by (metis set_map)
  moreover have "t_route_stops ?d = t_route_stops d" by (simp add: put_route_def)
  moreover have "evolves rt_ID route_step (t_routes d) (replaced rt_ID r r' (t_routes d))"
    using evolves_replaced [where key = rt_ID and step = route_step, OF dist r step] same by simp
  ultimately show ?thesis using ok eq keys(1) by (simp add: good_delivery_def deliveries_ok_def delivery_moves_def)
qed

lemmas delivery_method_defs = repo_GetRoute_def UpdateRoute_def GetStop_def ListStops_def UpdateStop_def
  logistics_publishEvent_def Let_def

lemma StartRoute_good: "deliveries_ok d \<Longrightarrow> delivers env d (StartRoute org rid actor)"
  unfolding StartRoute_def delivery_method_defs
  by (intro view_rules view_update)
    (auto simp: start_def same_outside_def good_delivery_refl dest!: find_routeD
      intro!: good_put_route route_step.begin_route)

lemma CompleteRoute_good: "deliveries_ok d \<Longrightarrow> delivers env d (CompleteRoute org rid actor)"
  unfolding CompleteRoute_def delivery_method_defs
  by (intro view_rules view_update)
    (auto simp: start_def same_outside_def good_delivery_refl dest!: find_routeD
      intro!: good_put_route route_step.end_route)

lemma ArriveAtStop_good: "deliveries_ok d \<Longrightarrow> delivers env d (ArriveAtStop org rid sid actor)"
  unfolding ArriveAtStop_def delivery_method_defs
  by (intro view_rules view_update view_guards)
    (auto simp: start_def same_outside_def good_delivery_refl dest!: find_stopD
      intro!: good_put_stop stop_step.arrive listed_before_done)

lemma CompleteStop_good: "deliveries_ok d \<Longrightarrow> delivers env d (CompleteStop org rid sid actor)"
  unfolding CompleteStop_def delivery_method_defs
  by (intro view_rules view_update)
    (auto simp: start_def same_outside_def good_delivery_refl dest!: find_stopD
      intro!: good_put_stop stop_step.complete arrived_before_done)

lemma UpdateGeo_good: "deliveries_ok d \<Longrightarrow> delivers env d (UpdateGeo org eid p actor)"
  unfolding UpdateGeo_def InsertGeoPoint_def delivery_method_defs
  by (intro view_rules view_update)
    (auto simp: start_def same_outside_def good_delivery_refl)

text \<open>The stops of a new route: pending, in the order of the request.\<close>

abbreviation built_stops :: "uuid \<Rightarrow> uuid \<Rightarrow> create_stop_input list \<Rightarrow> route_stop list \<Rightarrow> bool" where
  "built_stops org rid ins \<equiv> list_all2 (\<lambda>x s. \<exists>sid. s = new_stop org rid sid x) (enumerate 0 ins)"

lemma new_stop_fields [simp]:
  "stop_ok (new_stop org rid sid x)" "rs_Status (new_stop org rid sid x) = ''pending''"
  "rs_RouteID (new_stop org rid sid x) = rid" "rs_OrganizationID (new_stop org rid sid x) = org"
  "stop_place (new_stop org rid sid x) = (rid, fst x)"
  by (simp_all add: new_stop_def stop_ok_def stop_place_def split: prod.split)

lemma built_stop:
  "built_stops org rid ins stops \<Longrightarrow> s \<in> set stops \<Longrightarrow>
     stop_ok s \<and> rs_Status s = ''pending'' \<and> rs_RouteID s = rid \<and> rs_OrganizationID s = org"
  by (auto simp: list_all2_conv_all_nth in_set_conv_nth)

lemma built_places: "built_stops org rid ins stops \<Longrightarrow> map stop_place stops = map (Pair rid) [0..<length ins]"
  by (auto simp: list_all2_conv_all_nth nth_enumerate_eq intro!: nth_equalityI)

lemma view_CreateStops:
  fixes w :: "'a logistics_db_scheme world"
  assumes "\<And>e w' ys zs. stops = ys @ zs \<Longrightarrow> distinct (map rs_ID (old @ ys)) \<Longrightarrow>
      committed w' = (committed w)\<lparr>t_route_stops := old @ ys\<rparr> \<Longrightarrow> E e w'"
    and "\<And>w'. distinct (map rs_ID (old @ stops)) \<Longrightarrow> committed w' = (committed w)\<lparr>t_route_stops := old @ stops\<rparr> \<Longrightarrow> Q () w'"
    and "t_route_stops (committed w) = old" and "distinct (map rs_ID old)"
  shows "wp env (CreateStops stops) Q E w"
  using assms
proof (induction stops arbitrary: w old)
  case Nil
  then show ?case by (auto simp: CreateStops_def wp_ret)
next
  case (Cons s ss)
  note prems = Cons.prems
  show ?case
    unfolding CreateStops_def for_each.simps
  proof (intro wpI_bnd view_pool_stmt)
    fix e and w' :: "'a logistics_db_scheme world"
    assume "same_outside w w'"
    then show "E e w'" using prems(3,4) by (intro prems(1) [of "[]" "s # ss"]) (auto simp: same_outside_def)
  next
    fix x d and w' :: "'a logistics_db_scheme world"
    assume ins: "row_insert t_route_stops (\<lambda>xs d. d\<lparr>t_route_stops := xs\<rparr>) rs_ID s (committed w) = Inr (x, d)"
      and w': "committed w' = d"
    then have new: "rs_ID s \<notin> rs_ID ` set old" and d: "committed w' = (committed w)\<lparr>t_route_stops := old @ [s]\<rparr>"
      using prems(3) by (auto simp: row_insert_Inr)
    have "wp env (CreateStops ss) Q E w'"
    proof (rule Cons.IH [where old = "old @ [s]"])
      show "E e w''" if "ss = ys @ zs" "distinct (map rs_ID ((old @ [s]) @ ys))"
        "committed w'' = (committed w')\<lparr>t_route_stops := (old @ [s]) @ ys\<rparr>" for e w'' ys zs
        using that d by (intro prems(1) [of "s # ys" zs]) simp_all
      show "Q () w''" if "distinct (map rs_ID ((old @ [s]) @ ss))"
        "committed w'' = (committed w')\<lparr>t_route_stops := (old @ [s]) @ ss\<rparr>" for w''
        using that d by (intro prems(2)) simp_all
    qed (use prems(4) new d in auto)
    then show "wp env (for_each ss (\<lambda>s. pool_stmt (row_insert t_route_stops (\<lambda>xs d. d\<lparr>t_route_stops := xs\<rparr>) rs_ID s))) Q E w'"
      by (simp add: CreateStops_def)
  qed
qed

lemma good_new_route:
  assumes ok: "deliveries_ok d" and r: "rt_ID r \<notin> rt_ID ` set (t_routes d)" "route_ok r"
    and built: "built_stops (rt_OrganizationID r) (rt_ID r) ins stops" and stops: "stops = ys @ zs"
    and dist: "distinct (map rs_ID (t_route_stops d @ ys))"
    and d': "t_routes d' = t_routes d @ [r]" "t_route_stops d' = t_route_stops d @ ys"
  shows "good_delivery d d'"
proof -
  have "map stop_place ys @ map stop_place zs = map (Pair (rt_ID r)) [0..<length ins]"
    using built_places [OF built] stops by simp
  then have "map stop_place ys = map (Pair (rt_ID r)) (take (length ys) [0..<length ins])"
    by (metis append_eq_conv_conj length_map take_map)
  then have places: "distinct (map stop_place ys)"
    by (simp add: distinct_map inj_on_def)
  note ys = built_stop [OF built]
  have old: "rs_RouteID s \<noteq> rt_ID r" if "s \<in> set (t_route_stops d)" for s
  proof -
    have "(rs_RouteID s, rs_OrganizationID s) \<in> (\<lambda>r. (rt_ID r, rt_OrganizationID r)) ` set (t_routes d)"
      using ok that by (simp add: deliveries_ok_def)
    then show ?thesis using r(1) by force
  qed
  have "distinct (map stop_place (t_route_stops d @ ys))"
    using ok places old ys by (auto simp: deliveries_ok_def stop_place_def stops)
  moreover have "in_order (t_route_stops d @ ys)"
    using ok old ys unfolding deliveries_ok_def in_order_def stops by (auto simp: stops)
  ultimately have "deliveries_ok d'"
    using ok r dist ys unfolding deliveries_ok_def d' by (auto simp: stops)
  then show ?thesis by (simp add: good_delivery_def delivery_moves_def d')
qed

lemma new_route_fields [simp]:
  "rt_ID (new_route org rid t inp) = rid" "rt_OrganizationID (new_route org rid t inp) = org"
  "route_ok (new_route org rid t inp)" "(new_route org rid t inp)\<lparr>rt_Stops := []\<rparr> = new_route org rid t inp"
  by (simp_all add: new_route_def route_ok_def)

lemma good_created_route:
  assumes "deliveries_ok d" and "rid \<notin> rt_ID ` set (t_routes d)" and "built_stops org rid ins (ys @ zs)"
    and "distinct (map rs_ID ys)" and "rs_ID ` set (t_route_stops d) \<inter> rs_ID ` set ys = {}"
  shows "good_delivery d (d\<lparr>t_routes := t_routes d @ [new_route org rid t inp], t_route_stops := t_route_stops d @ ys\<rparr>)"
  by (rule good_new_route [where r = "new_route org rid t inp"]) (use assms in \<open>simp_all add: deliveries_ok_def\<close>)

lemma deliveries_ok_ids: "deliveries_ok d \<Longrightarrow> distinct (map rs_ID (t_route_stops d))"
  by (simp add: deliveries_ok_def)

lemma good_empty_route:
  assumes "deliveries_ok d" and "rid \<notin> rt_ID ` set (t_routes d)"
  shows "good_delivery d (d\<lparr>t_routes := t_routes d @ [new_route org rid t inp]\<rparr>)"
  by (rule good_new_route [where r = "new_route org rid t inp" and ins = "[]" and ys = "[]"])
    (use assms in \<open>simp_all add: deliveries_ok_def\<close>)

lemma CreateRoute_good:
  assumes ok: "deliveries_ok d"
  shows "delivers env d (CreateRoute org inp actor)"
  unfolding CreateRoute_def repo_CreateRoute_def logistics_publishEvent_def Let_def
  apply (intro view_rules view_pool_stmt view_map_new view_CreateStops)
  using ok apply (auto simp: start_def same_outside_def good_delivery_refl good_empty_route deliveries_ok_ids
      intro: good_created_route good_created_route [where zs = "[]", simplified])
  done

section \<open>Runs of requests\<close>

datatype logistics_request =
    LCreateRoute create_route_input
  | LStart uuid
  | LComplete uuid
  | LArrive uuid uuid
  | LCompleteStop uuid uuid
  | LGeo uuid geo_point

text \<open>A request with the organization and the user of its session.\<close>

fun serve_logistics ::
  "env \<Rightarrow> uuid \<times> uuid option \<times> logistics_request \<Rightarrow> 'a logistics_db_scheme \<Rightarrow> 'a logistics_db_scheme" where
  "serve_logistics env (org, actor, LCreateRoute inp) d = committed (snd (CreateRoute org inp actor env (start d)))"
| "serve_logistics env (org, actor, LStart rid) d = committed (snd (StartRoute org rid actor env (start d)))"
| "serve_logistics env (org, actor, LComplete rid) d = committed (snd (CompleteRoute org rid actor env (start d)))"
| "serve_logistics env (org, actor, LArrive rid sid) d = committed (snd (ArriveAtStop org rid sid actor env (start d)))"
| "serve_logistics env (org, actor, LCompleteStop rid sid) d = committed (snd (CompleteStop org rid sid actor env (start d)))"
| "serve_logistics env (org, actor, LGeo eid p) d = committed (snd (UpdateGeo org eid p actor env (start d)))"

lemma serve_logistics_good: "deliveries_ok d \<Longrightarrow> good_delivery d (serve_logistics env r d)"
proof (induction env r d rule: serve_logistics.induct)
qed (simp_all add: wp_left CreateRoute_good StartRoute_good CompleteRoute_good ArriveAtStop_good
    CompleteStop_good UpdateGeo_good)

interpretation deliveries: service delivery_moves serve_logistics deliveries_ok
  using serve_logistics_good [unfolded good_delivery_def]
  by unfold_locales (blast intro: delivery_moves_refl delivery_moves_trans)+

lemma stop_steps_arrival:
  "stop_step\<^sup>*\<^sup>* s s' \<Longrightarrow> stop_ok s \<Longrightarrow> rs_Status s \<noteq> ''pending'' \<Longrightarrow> rs_ActualArrival s' = rs_ActualArrival s"
proof (induction rule: converse_rtranclp_induct)
  case (step s s'')
  then show ?case by (cases rule: stop_step.cases) (auto simp: stop_ok_def)
qed simp

lemma stop_steps_completed: "stop_step\<^sup>*\<^sup>* s s' \<Longrightarrow> rs_Status s = ''completed'' \<Longrightarrow> s' = s"
  by (erule converse_rtranclpE) (auto elim: stop_step.cases)

section \<open>Driving a route\<close>

text \<open>What a driver's application asks for at one stop after the other.\<close>

definition drive :: "uuid \<Rightarrow> uuid \<Rightarrow> uuid option \<Rightarrow> uuid list \<Rightarrow> ('a logistics_db_scheme, unit) op" where
  "drive org rid actor sids = for_each sids (\<lambda>sid.
     bnd (ArriveAtStop org rid sid actor) (\<lambda>_.
     bnd (CompleteStop org rid sid actor) (\<lambda>_. ret ())))"

lemma find_stop_row:
  assumes "deliveries_ok d" and "s \<in> set (t_route_stops d)"
  shows "find_stop (rs_OrganizationID s) (rs_ID s) d = Some s"
proof -
  have "x = s" if "x \<in> set (t_route_stops d)" "rs_ID x = rs_ID s" for x
    using assms that by (simp add: deliveries_ok_def distinct_map inj_on_def)
  then show ?thesis
    using assms(2) unfolding find_stop_def
    by (cases "find (\<lambda>x. rs_OrganizationID x = rs_OrganizationID s \<and> rs_ID x = rs_ID s) (t_route_stops d)")
      (auto simp: find_None_iff dest: find_SomeD)
qed

lemma ok_ArriveAtStop:
  assumes "reliable env" and "pending w = id" and ok: "deliveries_ok (committed w)"
    and s: "s \<in> set (t_route_stops (committed w))" and pend: "rs_Status s = ''pending''"
    and before: "before_done (t_route_stops (committed w)) s"
    and Q: "\<And>w' s' x. pending w' = id \<Longrightarrow> deliveries_ok (committed w') \<Longrightarrow> s' \<in> set (t_route_stops (committed w')) \<Longrightarrow>
      t_route_stops (committed w') = replaced rs_ID s s' (t_route_stops (committed w)) \<Longrightarrow>
      rs_Status s' = ''arrived'' \<Longrightarrow> stop_step s s' \<Longrightarrow> Q x w'"
  shows "wp env (ArriveAtStop (rs_OrganizationID s) (rs_RouteID s) (rs_ID s) actor) Q (\<lambda>_ _. False) w"
proof -
  have first: "\<forall>p \<in> set (stops_of (rs_RouteID s) (committed w)).
      \<not> (rs_SortOrder p < rs_SortOrder s \<and> rs_Status p \<noteq> ''completed'')"
    using before by (auto simp: before_done_def stops_of_def)
  have fine: "Q x w'" if "committed w' = (put_stop s' (committed w))\<lparr>t_events := es\<rparr>" "pending w' = id"
    "s' = s\<lparr>rs_Status := ''arrived'', rs_ActualArrival := Some t\<rparr>" for x w' s' es t
  proof -
    have step: "stop_step s s'" using stop_step.arrive [OF pend] that(3) by simp
    note put = deliveries_put_stop [OF ok s step before]
    have "s' \<in> set (replaced rs_ID s s' (t_route_stops (committed w)))"
      using s by (force simp: replaced_def)
    with put that show ?thesis by (intro Q [of w' s'] step) simp_all
  qed
  show ?thesis
    unfolding ArriveAtStop_def GetStop_def ListStops_def UpdateStop_def logistics_publishEvent_def Let_def
    by (intro wpI_bnd wpI_guard wpI_ret wpI_new_uuid wpI_now ok_query [OF assms(1)] ok_update [OF assms(1)]
        ok_find [OF assms(1), where x = s] view_publish view_guards)
      (use first in \<open>auto simp: same_outside_def find_stop_row [OF ok s] pend assms(2) intro!: fine\<close>)
qed

lemma ok_CompleteStop:
  assumes "reliable env" and "pending w = id" and ok: "deliveries_ok (committed w)"
    and s: "s \<in> set (t_route_stops (committed w))" and arr: "rs_Status s = ''arrived''"
    and Q: "\<And>w' s' x. pending w' = id \<Longrightarrow> deliveries_ok (committed w') \<Longrightarrow>
      t_route_stops (committed w') = replaced rs_ID s s' (t_route_stops (committed w)) \<Longrightarrow>
      rs_Status s' = ''completed'' \<Longrightarrow> stop_step s s' \<Longrightarrow> Q x w'"
  shows "wp env (CompleteStop (rs_OrganizationID s) (rs_RouteID s) (rs_ID s) actor) Q (\<lambda>_ _. False) w"
proof -
  have fine: "Q x w'" if "committed w' = (put_stop s' (committed w))\<lparr>t_events := es\<rparr>" "pending w' = id"
    "s' = s\<lparr>rs_Status := ''completed''\<rparr>" for x w' s' es
  proof -
    have step: "stop_step s s'" using stop_step.complete [OF arr] that(3) by simp
    have "before_done (t_route_stops (committed w)) s" using arrived_before_done [OF ok s] arr by simp
    from deliveries_put_stop [OF ok s step this] that show ?thesis by (intro Q [of w' s'] step) simp_all
  qed
  show ?thesis
    unfolding CompleteStop_def GetStop_def UpdateStop_def logistics_publishEvent_def Let_def
    by (intro wpI_bnd wpI_guard wpI_ret wpI_new_uuid wpI_now ok_update [OF assms(1)]
        ok_find [OF assms(1), where x = s] view_publish)
      (auto simp: same_outside_def find_stop_row [OF ok s] arr assms(2) intro!: fine)
qed

text \<open>The state of the drive: of the route's stops the visited ones are completed, the rest pending.\<close>

definition stop_card :: "route_stop \<Rightarrow> uuid \<times> uuid \<times> uuid \<times> nat" where
  "stop_card s = (rs_ID s, rs_RouteID s, rs_OrganizationID s, rs_SortOrder s)"

definition driven :: "uuid \<Rightarrow> uuid set \<Rightarrow> 'a logistics_db_scheme \<Rightarrow> bool" where
  "driven rid done d \<longleftrightarrow> (\<forall>s \<in> set (t_route_stops d). rs_RouteID s = rid \<longrightarrow>
     rs_Status s = (if rs_ID s \<in> done then ''completed'' else ''pending''))"

lemma stop_card_step: "stop_step s s' \<Longrightarrow> stop_card s' = stop_card s"
  using stop_step_same by (simp add: stop_card_def)

lemma ok_visit:
  fixes w :: "'a logistics_db_scheme world"
  assumes rel: "reliable env" and "pending w = id" and ok: "deliveries_ok (committed w)"
    and s: "s \<in> set (t_route_stops (committed w))" and drv: "driven (rs_RouteID s) done (committed w)"
    and new: "rs_ID s \<notin> done" and before: "before_done (t_route_stops (committed w)) s"
    and Q: "\<And>w' u. pending w' = id \<Longrightarrow> deliveries_ok (committed w') \<Longrightarrow>
      map stop_card (t_route_stops (committed w')) = map stop_card (t_route_stops (committed w)) \<Longrightarrow>
      driven (rs_RouteID s) (insert (rs_ID s) done) (committed w') \<Longrightarrow> Q u w'"
  shows "wp env (bnd (ArriveAtStop (rs_OrganizationID s) (rs_RouteID s) (rs_ID s) actor) (\<lambda>_.
     bnd (CompleteStop (rs_OrganizationID s) (rs_RouteID s) (rs_ID s) actor) (\<lambda>_. ret ()))) Q (\<lambda>_ _. False) w"
proof (intro wpI_bnd ok_ArriveAtStop [OF rel assms(2) ok s _ before])
  show "rs_Status s = ''pending''" using drv s new by (auto simp: driven_def)
next
  fix w1 :: "'a logistics_db_scheme world" and s1 x
  assume 1: "pending w1 = id" "deliveries_ok (committed w1)" "s1 \<in> set (t_route_stops (committed w1))"
    "t_route_stops (committed w1) = replaced rs_ID s s1 (t_route_stops (committed w))"
    "rs_Status s1 = ''arrived''" "stop_step s s1"
  note same = stop_step_same [OF 1(6)]
  have "wp env (CompleteStop (rs_OrganizationID s1) (rs_RouteID s1) (rs_ID s1) actor)
      (\<lambda>x. wp env (ret ()) Q (\<lambda>_ _. False)) (\<lambda>_ _. False) w1"
  proof (rule ok_CompleteStop [OF rel 1(1-3,5)], rule wpI_ret)
    fix w2 :: "'a logistics_db_scheme world" and s2
    assume 2: "pending w2 = id" "deliveries_ok (committed w2)"
      "t_route_stops (committed w2) = replaced rs_ID s1 s2 (t_route_stops (committed w1))"
      "rs_Status s2 = ''completed''" "stop_step s1 s2"
    have dist: "distinct (map rs_ID (t_route_stops (committed w)))" using ok by (rule deliveries_ok_ids)
    have eq: "t_route_stops (committed w2) = replaced rs_ID s s2 (t_route_stops (committed w))"
      using 2(3) 1(4) same by (simp add: replaced_twice)
    have card: "stop_card s2 = stop_card s" using stop_card_step 1(6) 2(5) by simp
    then have "map stop_card (t_route_stops (committed w2)) = map stop_card (t_route_stops (committed w))"
      unfolding eq by (intro replaced_other [OF dist s])
    moreover have "driven (rs_RouteID s) (insert (rs_ID s) done) (committed w2)"
      unfolding driven_def eq
    proof (intro ballI impI)
      fix x assume x: "x \<in> set (replaced rs_ID s s2 (t_route_stops (committed w)))" and r: "rs_RouteID x = rs_RouteID s"
      from replaced_set [OF x] show "rs_Status x = (if rs_ID x \<in> insert (rs_ID s) done then ''completed'' else ''pending'')"
        using r drv 2(4) card by (auto simp: driven_def stop_card_def)
    qed
    ultimately show "Q () w2" using 2(1,2) by (intro Q)
  qed
  then show "wp env (CompleteStop (rs_OrganizationID s) (rs_RouteID s) (rs_ID s) actor)
      (\<lambda>x. wp env (ret ()) Q (\<lambda>_ _. False)) (\<lambda>_ _. False) w1"
    by (simp add: same)
qed

lemma stops_of_distinct: "deliveries_ok d \<Longrightarrow> distinct (map rs_ID (stops_of rid d))"
  by (auto simp: stops_of_def deliveries_ok_def distinct_map inj_on_def)

lemma stops_of_before:
  assumes "stops_of rid d = ys @ z # zs" and "x \<in> set (t_route_stops d)" and "rs_RouteID x = rid"
    and "rs_SortOrder x < rs_SortOrder z"
  shows "x \<in> set ys"
proof -
  have "sorted (map rs_SortOrder (stops_of rid d))" by (simp add: stops_of_def)
  then have "rs_SortOrder z \<le> rs_SortOrder y" if "y \<in> set (z # zs)" for y
    using that by (auto simp: assms(1) sorted_append)
  moreover have "x \<in> set (stops_of rid d)" using assms(2,3) by (simp add: stops_of_def)
  ultimately show ?thesis using assms(1,4) by fastforce
qed

lemma ok_drive:
  fixes d :: "'a logistics_db_scheme" and w :: "'a logistics_db_scheme world"
  assumes rel: "reliable env" and d: "deliveries_ok d"
    and org: "\<forall>s \<in> set (t_route_stops d). rs_RouteID s = rid \<longrightarrow> rs_OrganizationID s = org"
    and "stops_of rid d = ys @ zs" and "pending w = id" and "deliveries_ok (committed w)"
    and "map stop_card (t_route_stops (committed w)) = map stop_card (t_route_stops d)"
    and "driven rid (rs_ID ` set ys) (committed w)"
  shows "wp env (drive org rid actor (map rs_ID zs)) (\<lambda>_ w'. driven rid (rs_ID ` set (ys @ zs)) (committed w')
      \<and> map stop_card (t_route_stops (committed w')) = map stop_card (t_route_stops d)) (\<lambda>_ _. False) w"
  using assms(4-8)
proof (induction zs arbitrary: ys w)
  case Nil
  then show ?case by (simp add: drive_def wp_ret)
next
  case (Cons z zs)
  note eqs = Cons.prems(4)
  have mem: "\<exists>x0 \<in> set (t_route_stops d). stop_card x0 = stop_card x" if "x \<in> set (t_route_stops (committed w))" for x
    using that eqs by (metis (no_types, lifting) imageE image_eqI set_map)
  have z: "z \<in> set (stops_of rid d)" using Cons.prems(1) by simp
  then have "z \<in> set (t_route_stops d)" "rs_RouteID z = rid" by (simp_all add: stops_of_def)
  then obtain s where s: "s \<in> set (t_route_stops (committed w))" "stop_card s = stop_card z"
    using eqs by (metis (no_types, lifting) imageE image_eqI set_map)
  with org \<open>z \<in> set (t_route_stops d)\<close> \<open>rs_RouteID z = rid\<close>
  have ids: "rs_ID s = rs_ID z" "rs_RouteID s = rid" "rs_OrganizationID s = org" "rs_SortOrder s = rs_SortOrder z"
    by (auto simp: stop_card_def)
  have new: "rs_ID s \<notin> rs_ID ` set ys"
    using stops_of_distinct [OF d, of rid] Cons.prems(1) ids by simp
  have before: "before_done (t_route_stops (committed w)) s"
    unfolding before_done_def
  proof (intro ballI impI)
    fix x assume x: "x \<in> set (t_route_stops (committed w))"
      and lt: "rs_RouteID x = rs_RouteID s \<and> rs_SortOrder x < rs_SortOrder s"
    obtain x0 where x0: "x0 \<in> set (t_route_stops d)" "stop_card x0 = stop_card x" using mem [OF x] by blast
    then have "x0 \<in> set ys"
      using lt ids by (intro stops_of_before [OF Cons.prems(1)]) (auto simp: stop_card_def)
    then have "rs_ID x \<in> rs_ID ` set ys"
      using x0(2) by (intro image_eqI [of _ _ x0]) (simp_all add: stop_card_def)
    then show "rs_Status x = ''completed''" using Cons.prems(5) x lt ids by (auto simp: driven_def)
  qed
  have step: "wp env (drive org rid actor (map rs_ID zs)) (\<lambda>_ w'. driven rid (rs_ID ` set (ys @ z # zs)) (committed w')
      \<and> map stop_card (t_route_stops (committed w')) = map stop_card (t_route_stops d)) (\<lambda>_ _. False) w'"
    if "pending w' = id" "deliveries_ok (committed w')"
      "map stop_card (t_route_stops (committed w')) = map stop_card (t_route_stops (committed w))"
      "driven rid (insert (rs_ID z) (rs_ID ` set ys)) (committed w')" for w' :: "'a logistics_db_scheme world"
    using Cons.IH [of "ys @ [z]" w'] Cons.prems that by simp
  show ?case
    unfolding drive_def list.map for_each.simps
  proof (rule wpI_bnd, subst (1 2) ids(1) [symmetric], subst (1 2) ids(3) [symmetric], subst (1 2) ids(2) [symmetric],
      rule ok_visit [OF rel Cons.prems(2,3) s(1) _ new before])
    show "driven (rs_RouteID s) (rs_ID ` set ys) (committed w)" using Cons.prems(5) ids by simp
  qed (use step in \<open>simp add: ids drive_def\<close>)
qed

lemma cards_length:
  fixes d d' :: "'a logistics_db_scheme"
  assumes "map stop_card (t_route_stops d') = map stop_card (t_route_stops d)"
  shows "length (stops_of rid d') = length (stops_of rid d)"
proof -
  have "length (stops_of rid d) = length (filter (\<lambda>c. fst (snd c) = rid) (map stop_card (t_route_stops d)))"
    for d :: "'a logistics_db_scheme"
    by (simp add: stops_of_def filter_map comp_def stop_card_def)
  from this [of d] this [of d'] show ?thesis by (simp only: assms)
qed

lemma driven_statuses:
  fixes d d' :: "'a logistics_db_scheme"
  assumes "driven rid (rs_ID ` set (stops_of rid d)) d'"
    and "map stop_card (t_route_stops d') = map stop_card (t_route_stops d)"
  shows "map rs_Status (stops_of rid d') = map (\<lambda>_. ''completed'') (stops_of rid d)"
proof -
  have "rs_Status s = ''completed''" if "s \<in> set (stops_of rid d')" for s
  proof -
    have s: "s \<in> set (t_route_stops d')" "rs_RouteID s = rid" using that by (simp_all add: stops_of_def)
    then obtain s0 where s0: "s0 \<in> set (t_route_stops d)" "stop_card s0 = stop_card s"
      using assms(2) by (metis (no_types, lifting) imageE image_eqI set_map)
    then have "rs_ID s \<in> rs_ID ` set (stops_of rid d)"
      using s(2) by (intro image_eqI [of _ _ s0]) (auto simp: stop_card_def stops_of_def)
    then show ?thesis using assms(1) s by (simp add: driven_def)
  qed
  then have "map rs_Status (stops_of rid d') = replicate (length (stops_of rid d')) ''completed''"
    by (intro nth_equalityI) (simp_all add: nth_mem)
  then show ?thesis by (simp add: cards_length [OF assms(2)] map_replicate_const)
qed

section \<open>Properties\<close>

text \<open>C23: Stops are visited one at a time and in order: after any requests, whichever of their statements
  failed, whatever stands before a visited stop of a route is completed, and at most one stop of a
  route is being visited.\<close>

theorem stops_visited_in_order:
  assumes "deliveries_ok d" and "d' = run serve_logistics rs d"
    and "s \<in> set (t_route_stops d')" and "s' \<in> set (t_route_stops d')" and "rs_RouteID s = rs_RouteID s'"
  shows "(rs_SortOrder s < rs_SortOrder s' \<and> rs_Status s' \<noteq> ''pending'' \<longrightarrow> rs_Status s = ''completed'')
    \<and> (rs_Status s = ''arrived'' \<and> rs_Status s' = ''arrived'' \<longrightarrow> s = s')"
proof -
  have ok: "deliveries_ok d'" using deliveries.run_sound [OF assms(1)] assms(2) by simp
  then have "in_order (t_route_stops d')" by (simp add: deliveries_ok_def)
  then have ord: "rs_SortOrder a < rs_SortOrder b \<Longrightarrow> rs_Status b \<noteq> ''pending'' \<Longrightarrow> rs_Status a = ''completed''"
    if "a \<in> set (t_route_stops d')" "b \<in> set (t_route_stops d')" "rs_RouteID a = rs_RouteID b" for a b
    using that unfolding in_order_def by blast
  have place: "stop_place s = stop_place s' \<Longrightarrow> s = s'"
    using ok assms(3,4) by (simp add: deliveries_ok_def distinct_map inj_on_def)
  show ?thesis
  proof (intro conjI impI; elim conjE)
    assume "rs_SortOrder s < rs_SortOrder s'" and "rs_Status s' \<noteq> ''pending''"
    then show "rs_Status s = ''completed''" by (rule ord [OF assms(3-5)])
  next
    assume "rs_Status s = ''arrived''" and "rs_Status s' = ''arrived''"
    moreover from this have "\<not> rs_SortOrder s < rs_SortOrder s'" "\<not> rs_SortOrder s' < rs_SortOrder s"
      using ord [OF assms(3-5)] ord [OF assms(4,3) assms(5) [symmetric]] by auto
    ultimately have "rs_SortOrder s = rs_SortOrder s'" by simp
    then show "s = s'" by (intro place) (simp add: stop_place_def assms(5))
  qed
qed

text \<open>Every stop is kept, at its place on its route; it only moves from pending through arrived to
  completed, keeps its time of arrival from then on, and once completed is final.\<close>

lemma stops_only_advance:
  assumes "deliveries_ok d" and "s \<in> set (t_route_stops d)"
  shows "\<exists>s' \<in> set (t_route_stops (run serve_logistics rs d)). rs_ID s' = rs_ID s \<and> stop_step\<^sup>*\<^sup>* s s'
    \<and> (rs_Status s \<noteq> ''pending'' \<longrightarrow> rs_ActualArrival s' = rs_ActualArrival s)
    \<and> (rs_Status s = ''completed'' \<longrightarrow> s' = s)"
proof -
  have "delivery_moves d (run serve_logistics rs d)" by (rule deliveries.run_moves [OF assms(1)])
  then obtain s' where "s' \<in> set (t_route_stops (run serve_logistics rs d))" "rs_ID s' = rs_ID s" "stop_step\<^sup>*\<^sup>* s s'"
    using assms(2) unfolding delivery_moves_def by (blast elim: evolvesE)
  moreover have "stop_ok s" using assms by (simp add: deliveries_ok_def)
  ultimately show ?thesis using stop_steps_arrival stop_steps_completed by blast
qed

text \<open>A driver who arrives at and completes the stops of a route one after the other, with every
  statement executed, completes them all. The status of the route plays no part in it: the stops of
  a route that was never started, or is already completed, can be visited just the same.\<close>

lemma driving_completes_stops:
  assumes "reliable env" and "deliveries_ok d" and "find_route org rid d = Some r"
    and "map rs_Status (stops_of rid d) = map (\<lambda>_. ''pending'') (stops_of rid d)"
  shows "case drive org rid actor (map rs_ID (stops_of rid d)) env (start d) of
      (Inl _, _) \<Rightarrow> False
    | (Inr _, w') \<Rightarrow> map rs_Status (stops_of rid (committed w')) = map (\<lambda>_. ''completed'') (stops_of rid d)"
proof -
  have "rs_OrganizationID s = org" if "s \<in> set (t_route_stops d)" "rs_RouteID s = rid" for s
  proof -
    have "\<exists>r' \<in> set (t_routes d). rt_ID r' = rid \<and> rt_OrganizationID r' = rs_OrganizationID s"
    proof -
      have "(rs_RouteID s, rs_OrganizationID s) \<in> (\<lambda>r. (rt_ID r, rt_OrganizationID r)) ` set (t_routes d)"
        using assms(2) that(1) by (simp add: deliveries_ok_def)
      then show ?thesis using that by auto
    qed
    moreover have "r \<in> set (t_routes d)" "rt_ID r = rid" "rt_OrganizationID r = org"
      using find_routeD [OF assms(3)] by simp_all
    moreover have "distinct (map rt_ID (t_routes d))" using assms(2) by (simp add: deliveries_ok_def)
    ultimately show ?thesis by (metis distinct_map inj_onD)
  qed
  moreover have "driven rid {} d"
    using assms(4) by (auto simp: driven_def stops_of_def)
  ultimately have "wp env (drive org rid actor (map rs_ID (stops_of rid d)))
      (\<lambda>_ w'. driven rid (rs_ID ` set ([] @ stops_of rid d)) (committed w')
        \<and> map stop_card (t_route_stops (committed w')) = map stop_card (t_route_stops d)) (\<lambda>_ _. False) (start d)"
    by (intro ok_drive [OF assms(1,2)]) (simp_all add: start_def assms(2))
  then show ?thesis
    by (auto simp: wp_def driven_statuses split: prod.splits sum.splits)
qed

section \<open>Witnesses\<close>

text \<open>A planned route with two stops, the first of which is then reached.\<close>

definition sample_stop :: "uuid \<Rightarrow> nat \<Rightarrow> route_stop" where
  "sample_stop sid i = \<lparr>rs_ID = sid, rs_RouteID = 7, rs_OrganizationID = 1, rs_LocationID = None, rs_Address = ''Dock'',
     rs_Latitude = None, rs_Longitude = None, rs_SortOrder = i, rs_PlannedArrival = None, rs_ActualArrival = None,
     rs_Status = ''pending'', rs_DeliveryIDs = None, rs_Notes = ''''\<rparr>"

definition sample_deliveries :: logistics_db where
  "sample_deliveries = \<lparr>t_events = [], t_routes = [new_route 1 7 0 \<lparr>cro_Name = ''Ring'', cro_VehicleID = None,
     cro_DriverID = None, cro_PlannedStart = None, cro_PlannedEnd = None, cro_Stops = []\<rparr>],
     t_route_stops = [sample_stop 10 0, sample_stop 11 1], t_geo_tracks = []\<rparr>"

lemma sample_stop_fields [simp]:
  "stop_ok (sample_stop sid i)" "rs_ID (sample_stop sid i) = sid" "stop_place (sample_stop sid i) = (7, i)"
  "rs_Status (sample_stop sid i) = ''pending''" "rs_RouteID (sample_stop sid i) = 7"
  "rs_OrganizationID (sample_stop sid i) = 1" "rs_SortOrder (sample_stop sid i) = i"
  by (simp_all add: sample_stop_def stop_ok_def stop_place_def)

lemma sample_deliveries_ok: "deliveries_ok sample_deliveries"
  by (simp add: deliveries_ok_def in_order_def sample_deliveries_def)

lemma sample_stops: "stops_of 7 sample_deliveries = [sample_stop 10 0, sample_stop 11 1]"
  by (simp add: stops_of_def sample_deliveries_def)

definition reached_deliveries :: logistics_db where
  "reached_deliveries = run serve_logistics [(env_ok Some, (1, None, LArrive 7 10))] sample_deliveries"

lemma reached_stops:
  "t_route_stops reached_deliveries =
     [(sample_stop 10 0)\<lparr>rs_Status := ''arrived'', rs_ActualArrival := Some 2\<rparr>, sample_stop 11 1]"
  unfolding reached_deliveries_def
  by (simp add: ArriveAtStop_def delivery_method_defs run_simps find_stop_def sample_deliveries_def put_stop_def
      set_stop_def row_update_def stops_of_def)

theorem stops_visited_in_order_witness:
  "rs_Status (sample_stop 10 0\<lparr>rs_Status := ''arrived'', rs_ActualArrival := Some 2\<rparr>) \<noteq> rs_Status (sample_stop 11 1)"
  using stops_visited_in_order [OF sample_deliveries_ok reached_deliveries_def, of
      "(sample_stop 10 0)\<lparr>rs_Status := ''arrived'', rs_ActualArrival := Some 2\<rparr>" "sample_stop 11 1"]
  by (simp add: reached_stops)

theorem stops_only_advance_witness:
  "\<exists>s' \<in> set (t_route_stops (run serve_logistics [(env_ok Some, (1, None, LArrive 7 10))] sample_deliveries)).
     rs_ID s' = 10 \<and> stop_step\<^sup>*\<^sup>* (sample_stop 10 0) s'"
  using stops_only_advance [OF sample_deliveries_ok, of "sample_stop 10 0"
      "[(env_ok Some, (1, None, LArrive 7 10))]"]
  by (auto simp: sample_deliveries_def)

theorem driving_completes_stops_witness:
  "case drive 1 7 None [10, 11] (env_ok Some) (start sample_deliveries) of
      (Inl _, _) \<Rightarrow> False
    | (Inr _, w') \<Rightarrow> map rs_Status (stops_of 7 (committed w')) = [''completed'', ''completed'']"
proof -
  have "find_route 1 7 sample_deliveries = Some (hd (t_routes sample_deliveries))"
    by (simp add: find_route_def sample_deliveries_def)
  from driving_completes_stops [where env = "env_ok Some" and actor = None, OF _ sample_deliveries_ok this]
  show ?thesis by (simp only: sample_stops list.map sample_stop_fields env_ok_simps simp_thms)
qed

end
