(* ===== verification/Hr.thy ===== *)
theory Hr
  imports Dates Pooled
begin

text \<open>
  \<open>internal/module/hr/service.go\<close> over \<open>internal/storage/postgres/hr_repo.go\<close>: employees (entities
  with components), shifts, timesheets, payrolls and absences.

  No method opens a transaction of its own; every statement on the module's tables goes through
  the pool. The times of shifts and timesheets are \<open>TIMESTAMPTZ\<close> columns, which keep microseconds;
  hours are \<open>NUMERIC(5,2)\<close>. Foreign keys are not modelled: what they refuse is one more way for a
  statement to fail.
\<close>

record shift =
  sh_ID :: uuid
  sh_OrganizationID :: uuid
  sh_EmployeeID :: uuid
  sh_LocationID :: "uuid option"
  sh_StartTime :: time
  sh_EndTime :: time
  sh_BreakMinutes :: int64
  sh_Status :: string
  sh_Notes :: string
  sh_CreatedAt :: time

record timesheet =
  tm_ID :: uuid
  tm_OrganizationID :: uuid
  tm_EmployeeID :: uuid
  tm_ShiftID :: "uuid option"
  tm_ClockIn :: time
  tm_ClockOut :: "time option"
  tm_HoursWorked :: "f64 option"
  tm_Status :: string
  tm_CreatedAt :: time

record payroll =
  py_ID :: uuid
  py_OrganizationID :: uuid
  py_EmployeeID :: uuid
  py_Year :: int64
  py_Month :: int64
  py_GrossSalary :: int64
  py_NDFL :: int64
  py_Deductions :: int64
  py_NetSalary :: int64
  py_Status :: string
  py_ApprovedAt :: "time option"
  py_ApprovedBy :: "uuid option"
  py_CreatedAt :: time

record absence =
  ab_ID :: uuid
  ab_OrganizationID :: uuid
  ab_EmployeeID :: uuid
  ab_Type :: string
  ab_StartDate :: civil
  ab_EndDate :: civil
  ab_Days :: int
  ab_Status :: string
  ab_Notes :: string
  ab_ApprovedBy :: "uuid option"
  ab_CreatedAt :: time

type_synonym jmap = "(string \<times> json) list"

record employee =
  em_Entity :: entity
  em_Employment :: "jmap option"
  em_Salary :: "jmap option"
  em_Contact :: "jmap option"

record hr_db = entity_db +
  t_shifts :: "shift list"
  t_timesheets :: "timesheet list"
  t_payrolls :: "payroll list"
  t_absences :: "absence list"

record create_shift_input =
  csh_EmployeeID :: uuid
  csh_LocationID :: "uuid option"
  csh_StartTime :: time
  csh_EndTime :: time
  csh_BreakMinutes :: int64
  csh_Notes :: string

record update_shift_input =
  ush_StartTime :: "time option"
  ush_EndTime :: "time option"
  ush_BreakMinutes :: "int64 option"
  ush_Status :: "string option"
  ush_Notes :: "string option"

record hire_input =
  hi_Name :: string
  hi_Position :: string
  hi_DepartmentID :: "uuid option"
  hi_Salary :: "jmap option"
  hi_Contact :: "jmap option"
  hi_Employment :: "jmap option"

record update_employee_input =
  uei_Name :: "string option"
  uei_Salary :: "jmap option"
  uei_Contact :: "jmap option"
  uei_Employment :: "jmap option"

record create_payroll_input =
  cpi_EmployeeID :: uuid
  cpi_Year :: int64
  cpi_Month :: int64
  cpi_Deductions :: int64

record create_absence_input =
  cab_EmployeeID :: uuid
  cab_Type :: string
  cab_StartDate :: string
  cab_EndDate :: string
  cab_Notes :: string

section \<open>Durations\<close>

text \<open>\<open>time.Time.Sub\<close> saturates; \<open>Duration.Hours\<close> is the whole hours and the rest as a fraction.\<close>

definition time_sub :: "time \<Rightarrow> time \<Rightarrow> int64" where
  "time_sub a b = word_of_int (max (- (2 ^ 63)) (min (2 ^ 63 - 1) (a - b)))"

definition Hours :: "int64 \<Rightarrow> f64" where
  "Hours d = fadd (f64_of_int (sint d sdiv 3600000000000))
     (fdiv (f64_of_int (sint d smod 3600000000000)) (Fin 3600000000000))"

definition minute :: int64 where
  "minute = 60000000000"

text \<open>The column \<open>NUMERIC(5,2)\<close>: two decimals, fewer than a thousand.\<close>

fun numeric_5_2 :: "f64 \<Rightarrow> f64 option" where
  "numeric_5_2 (Fin x) = (let k = rha (x * 100) in if \<bar>k\<bar> < 10 ^ 5 then Some (Fin (rnd (of_int k / 100))) else None)"
| "numeric_5_2 (Inf s) = None"
| "numeric_5_2 NaN = Some NaN"

definition numeric_5_2_overflow :: go_error where
  "numeric_5_2_overflow = PlainError ''numeric field overflow'' None"

text \<open>An \<open>INT\<close> column: the driver refuses what does not fit 32 bits.\<close>

definition int4_ok :: "int64 \<Rightarrow> bool" where
  "int4_ok n \<longleftrightarrow> - (2 ^ 31) \<le> sint n \<and> sint n < 2 ^ 31"

definition greater_than_int4 :: go_error where
  "greater_than_int4 = PlainError ''is out of range for int4'' None"

text \<open>\<open>time.RFC3339\<close>, for an instant in UTC.\<close>

definition rfc3339 :: "time \<Rightarrow> string" where
  "rfc3339 t = (let s = t div 1000000000 mod 86400 in
     format_date (civil_of_time t) @ ''T'' @ padded 2 (s div 3600) @ '':'' @ padded 2 (s div 60 mod 60) @ '':''
     @ padded 2 (s mod 60) @ ''Z'')"

text \<open>The number of a day, for the differences of dates.\<close>

definition day_number :: "civil \<Rightarrow> int" where
  "day_number c = (let y = c_Year c - 1 in
     365 * y + y div 4 - y div 100 + y div 400 + sum_list (map (days_in (c_Year c)) [1..c_Month c - 1]) + c_Day c)"

definition midnight :: "civil \<Rightarrow> time" where
  "midnight c = (day_number c - 719163) * (24 * 60 * 60 * 1000000000)"

section \<open>The repository\<close>

definition stored_shift :: "shift \<Rightarrow> shift" where
  "stored_shift s = s\<lparr>sh_StartTime := pg_time (sh_StartTime s), sh_EndTime := pg_time (sh_EndTime s)\<rparr>"

definition repo_CreateShift :: "shift \<Rightarrow> ('a hr_db_scheme, unit) op" where
  "repo_CreateShift s = pool_stmt (\<lambda>d. if int4_ok (sh_BreakMinutes s)
     then row_insert t_shifts (\<lambda>xs d. d\<lparr>t_shifts := xs\<rparr>) sh_ID (stored_shift s) d
     else Inl greater_than_int4)"

definition shift_row :: "uuid \<Rightarrow> uuid \<Rightarrow> shift \<Rightarrow> bool" where
  "shift_row org sid s \<longleftrightarrow> sh_OrganizationID s = org \<and> sh_ID s = sid"

definition GetShift :: "uuid \<Rightarrow> uuid \<Rightarrow> ('a hr_db_scheme, shift) op" where
  "GetShift org sid = pool_find (\<lambda>d. find (shift_row org sid) (t_shifts d)) (NewNotFound ''shift not found'')"

definition set_shift :: "shift \<Rightarrow> shift \<Rightarrow> shift" where
  "set_shift s x = x\<lparr>sh_StartTime := sh_StartTime s, sh_EndTime := sh_EndTime s,
     sh_BreakMinutes := sh_BreakMinutes s, sh_Status := sh_Status s, sh_Notes := sh_Notes s\<rparr>"

definition repo_UpdateShift :: "shift \<Rightarrow> ('a hr_db_scheme, unit) op" where
  "repo_UpdateShift s = pool_stmt (\<lambda>d. if int4_ok (sh_BreakMinutes s)
     then Inr ((), d\<lparr>t_shifts := row_update (shift_row (sh_OrganizationID s) (sh_ID s))
            (set_shift (stored_shift s)) (t_shifts d)\<rparr>)
     else Inl greater_than_int4)"

definition repo_DeleteShift :: "uuid \<Rightarrow> uuid \<Rightarrow> ('a hr_db_scheme, unit) op" where
  "repo_DeleteShift org sid =
    bnd (pool_stmt (\<lambda>d. Inr (row_count (shift_row org sid) (t_shifts d),
           d\<lparr>t_shifts := filter (\<lambda>s. \<not> shift_row org sid s) (t_shifts d)\<rparr>))) (\<lambda>n.
    guard (n = 0) (NewNotFound ''shift not found''))"

text \<open>\<open>start_time < $4 AND end_time > $3\<close>, and not the shift itself.\<close>

definition overlapping :: "uuid \<Rightarrow> uuid \<Rightarrow> time \<Rightarrow> time \<Rightarrow> uuid option \<Rightarrow> shift \<Rightarrow> bool" where
  "overlapping org emp t0 t1 exclude s \<longleftrightarrow> sh_OrganizationID s = org \<and> sh_EmployeeID s = emp
     \<and> sh_StartTime s < pg_time t1 \<and> pg_time t0 < sh_EndTime s
     \<and> (case exclude of None \<Rightarrow> True | Some x \<Rightarrow> sh_ID s \<noteq> x)"

definition HasOverlappingShift ::
  "uuid \<Rightarrow> uuid \<Rightarrow> time \<Rightarrow> time \<Rightarrow> uuid option \<Rightarrow> ('a hr_db_scheme, bool) op" where
  "HasOverlappingShift org emp t0 t1 exclude =
     pool_stmt (query (\<lambda>d. list_ex (overlapping org emp t0 t1 exclude) (t_shifts d)))"

text \<open>A timesheet as it is stored: the times cut to microseconds, the hours rounded, or refused.\<close>

definition stored_timesheet :: "timesheet \<Rightarrow> timesheet option" where
  "stored_timesheet t =
    (let t = t\<lparr>tm_ClockIn := pg_time (tm_ClockIn t), tm_ClockOut := map_option pg_time (tm_ClockOut t)\<rparr>
     in case tm_HoursWorked t of None \<Rightarrow> Some t
        | Some h \<Rightarrow> map_option (\<lambda>h. t\<lparr>tm_HoursWorked := Some h\<rparr>) (numeric_5_2 h))"

definition CreateTimesheet :: "timesheet \<Rightarrow> ('a hr_db_scheme, unit) op" where
  "CreateTimesheet t = pool_stmt (\<lambda>d. case stored_timesheet t of
       None \<Rightarrow> Inl numeric_5_2_overflow
     | Some t \<Rightarrow> row_insert t_timesheets (\<lambda>xs d. d\<lparr>t_timesheets := xs\<rparr>) tm_ID t d)"

definition timesheet_row :: "uuid \<Rightarrow> uuid \<Rightarrow> timesheet \<Rightarrow> bool" where
  "timesheet_row org tid t \<longleftrightarrow> tm_OrganizationID t = org \<and> tm_ID t = tid"

definition GetTimesheet :: "uuid \<Rightarrow> uuid \<Rightarrow> ('a hr_db_scheme, timesheet) op" where
  "GetTimesheet org tid =
     pool_find (\<lambda>d. find (timesheet_row org tid) (t_timesheets d)) (NewNotFound ''timesheet not found'')"

definition set_timesheet :: "timesheet \<Rightarrow> timesheet \<Rightarrow> timesheet" where
  "set_timesheet t x = x\<lparr>tm_ClockOut := tm_ClockOut t, tm_HoursWorked := tm_HoursWorked t, tm_Status := tm_Status t\<rparr>"

definition put_timesheet :: "timesheet \<Rightarrow> 'a hr_db_scheme \<Rightarrow> 'a hr_db_scheme" where
  "put_timesheet t d = d\<lparr>t_timesheets :=
     row_update (timesheet_row (tm_OrganizationID t) (tm_ID t)) (set_timesheet t) (t_timesheets d)\<rparr>"

definition UpdateTimesheet :: "timesheet \<Rightarrow> ('a hr_db_scheme, unit) op" where
  "UpdateTimesheet t = pool_stmt (\<lambda>d. case stored_timesheet t of
       None \<Rightarrow> Inl numeric_5_2_overflow | Some t \<Rightarrow> Inr ((), put_timesheet t d))"

definition GetOpenTimesheet :: "uuid \<Rightarrow> uuid \<Rightarrow> ('a hr_db_scheme, timesheet option) op" where
  "GetOpenTimesheet org emp = pool_stmt (query (\<lambda>d.
     find (\<lambda>t. tm_OrganizationID t = org \<and> tm_EmployeeID t = emp \<and> tm_Status t = ''open'') (t_timesheets d)))"

definition payroll_period :: "payroll \<Rightarrow> uuid \<times> uuid \<times> int64 \<times> int64" where
  "payroll_period p = (py_OrganizationID p, py_EmployeeID p, py_Year p, py_Month p)"

text \<open>The unique index \<open>idx_payrolls_unique_period\<close> and the check of the month.\<close>

definition CreatePayroll :: "payroll \<Rightarrow> ('a hr_db_scheme, unit) op" where
  "CreatePayroll p = pool_stmt (\<lambda>d.
     if \<not> int4_ok (py_Year p) then Inl greater_than_int4
     else if payroll_period p \<in> payroll_period ` set (t_payrolls d) then Inl duplicate_key
     else row_insert t_payrolls (\<lambda>xs d. d\<lparr>t_payrolls := xs\<rparr>) py_ID p d)"

definition GetPayroll :: "uuid \<Rightarrow> uuid \<Rightarrow> ('a hr_db_scheme, payroll) op" where
  "GetPayroll org pid = pool_find (\<lambda>d. find (\<lambda>p. py_OrganizationID p = org \<and> py_ID p = pid) (t_payrolls d))
     (NewNotFound ''payroll not found'')"

definition set_payroll :: "payroll \<Rightarrow> payroll \<Rightarrow> payroll" where
  "set_payroll p x = x\<lparr>py_Status := py_Status p, py_ApprovedAt := py_ApprovedAt p, py_ApprovedBy := py_ApprovedBy p\<rparr>"

definition UpdatePayroll :: "payroll \<Rightarrow> ('a hr_db_scheme, unit) op" where
  "UpdatePayroll p = pool_stmt (exec (\<lambda>d. d\<lparr>t_payrolls := row_update
     (\<lambda>x. py_OrganizationID x = py_OrganizationID p \<and> py_ID x = py_ID p) (set_payroll p) (t_payrolls d)\<rparr>))"

definition CreateAbsence :: "absence \<Rightarrow> ('a hr_db_scheme, unit) op" where
  "CreateAbsence a = pool_stmt (row_insert t_absences (\<lambda>xs d. d\<lparr>t_absences := xs\<rparr>) ab_ID a)"

definition GetAbsence :: "uuid \<Rightarrow> uuid \<Rightarrow> ('a hr_db_scheme, absence) op" where
  "GetAbsence org aid = pool_find (\<lambda>d. find (\<lambda>a. ab_OrganizationID a = org \<and> ab_ID a = aid) (t_absences d))
     (NewNotFound ''absence not found'')"

definition set_absence :: "absence \<Rightarrow> absence \<Rightarrow> absence" where
  "set_absence a x = x\<lparr>ab_Status := ab_Status a, ab_ApprovedBy := ab_ApprovedBy a\<rparr>"

definition UpdateAbsence :: "absence \<Rightarrow> ('a hr_db_scheme, unit) op" where
  "UpdateAbsence a = pool_stmt (exec (\<lambda>d. d\<lparr>t_absences := row_update
     (\<lambda>x. ab_OrganizationID x = ab_OrganizationID a \<and> ab_ID x = ab_ID a) (set_absence a) (t_absences d)\<rparr>))"

section \<open>The service\<close>

definition hr_publishEvent ::
  "uuid \<Rightarrow> uuid \<Rightarrow> string \<Rightarrow> json \<Rightarrow> uuid option \<Rightarrow> ('a core_db_scheme, unit) op" where
  "hr_publishEvent org eid ty data actor =
    bnd new_uuid (\<lambda>evid.
    bnd now (\<lambda>t.
    publish \<lparr>ev_ID = evid, ev_OrganizationID = org, ev_EntityID = Some eid, ev_Type = ty,
             ev_Data = marshal data, ev_ActorID = actor, ev_Timestamp = t, ev_Version = 0\<rparr>))"

text \<open>\<open>m[k] = v\<close>, and \<open>json.Unmarshal\<close> of a component into a map.\<close>

definition jset :: "string \<Rightarrow> json \<Rightarrow> jmap \<Rightarrow> jmap" where
  "jset k v m = (if k \<in> fst ` set m then map (\<lambda>(k', x). if k' = k then (k, v) else (k', x)) m else m @ [(k, v)])"

definition as_map :: "json \<Rightarrow> jmap option" where
  "as_map j = (case j of JObj kvs \<Rightarrow> Some kvs | _ \<Rightarrow> None)"

definition set_map :: "uuid \<Rightarrow> uuid \<Rightarrow> string \<Rightarrow> jmap option \<Rightarrow> uuid option \<Rightarrow> ('a hr_db_scheme, unit) op" where
  "set_map org eid ty m actor = (case m of
     None \<Rightarrow> ret ()
   | Some kvs \<Rightarrow> bnd (SetComponent org eid ty (marshal (JObj kvs)) actor) (\<lambda>_. ret ()))"

definition HireEmployee :: "uuid \<Rightarrow> hire_input \<Rightarrow> uuid option \<Rightarrow> ('a hr_db_scheme, employee) op" where
  "HireEmployee org inp actor =
    bnd (guard (hi_Name inp = '''') (NewBadRequest ''name is required'')) (\<lambda>_.
    bnd (guard (hi_Position inp = '''') (NewBadRequest ''position is required'')) (\<lambda>_.
    bnd (Create org \<lparr>ci_Kind = ''employee'', ci_Name = hi_Name inp, ci_ParentID = None, ci_Meta = None\<rparr> actor) (\<lambda>e.
    let emp = (case hi_Employment inp of None \<Rightarrow> [] | Some m \<Rightarrow> m);
        emp = jset ''position'' (JStr (hi_Position inp)) emp;
        emp = (case hi_DepartmentID inp of None \<Rightarrow> emp | Some dep \<Rightarrow> jset ''department_id'' (JUuid dep) emp) in
    bnd (if ''hire_date'' \<in> fst ` set emp then ret emp
         else bnd now (\<lambda>t. ret (jset ''hire_date'' (JStr (format_date (civil_of_time t))) emp))) (\<lambda>emp.
    bnd (SetComponent org (e_ID e) ''employment'' (marshal (JObj emp)) actor) (\<lambda>_.
    bnd (set_map org (e_ID e) ''salary'' (hi_Salary inp) actor) (\<lambda>_.
    bnd (set_map org (e_ID e) ''contact'' (hi_Contact inp) actor) (\<lambda>_.
    bnd (hr_publishEvent org (e_ID e) ''hr.employee.hired''
           (JObj [(''employee_id'', JUuid (e_ID e)), (''name'', JStr (hi_Name inp)),
                  (''position'', JStr (hi_Position inp))]) actor) (\<lambda>_.
    ret \<lparr>em_Entity = e, em_Employment = Some emp, em_Salary = hi_Salary inp, em_Contact = hi_Contact inp\<rparr>))))))))"

text \<open>The loop over the components of the entity.\<close>

definition employee_component :: "employee \<Rightarrow> component \<Rightarrow> employee" where
  "employee_component emp c =
    (if c_Type c = ''employment'' then emp\<lparr>em_Employment := as_map (c_Data c)\<rparr>
     else if c_Type c = ''salary'' then emp\<lparr>em_Salary := as_map (c_Data c)\<rparr>
     else if c_Type c = ''contact'' then emp\<lparr>em_Contact := as_map (c_Data c)\<rparr>
     else emp)"

definition GetEmployee :: "uuid \<Rightarrow> uuid \<Rightarrow> ('a entity_db_scheme, employee) op" where
  "GetEmployee org eid =
    bnd (Get org eid True) (\<lambda>e.
    bnd (guard (e_Kind e \<noteq> ''employee'') (NewNotFound ''employee not found'')) (\<lambda>_.
    ret (foldl employee_component
           \<lparr>em_Entity = e, em_Employment = None, em_Salary = None, em_Contact = None\<rparr> (e_Components e))))"

definition no_change :: update_input where
  "no_change = \<lparr>ui_Name = None, ui_Status = None, ui_ParentID = None, ui_Meta = None, ui_SortOrder = None\<rparr>"

definition UpdateEmployee :: "uuid \<Rightarrow> uuid \<Rightarrow> update_employee_input \<Rightarrow> uuid option \<Rightarrow> ('a hr_db_scheme, employee) op" where
  "UpdateEmployee org eid inp actor =
    bnd (Get org eid False) (\<lambda>e.
    bnd (guard (e_Kind e \<noteq> ''employee'') (NewNotFound ''employee not found'')) (\<lambda>_.
    bnd (case uei_Name inp of None \<Rightarrow> ret ()
         | Some n \<Rightarrow> bnd (Update org (e_ID e) (no_change\<lparr>ui_Name := Some n\<rparr>) actor) (\<lambda>_. ret ())) (\<lambda>_.
    bnd (set_map org (e_ID e) ''employment'' (uei_Employment inp) actor) (\<lambda>_.
    bnd (set_map org (e_ID e) ''salary'' (uei_Salary inp) actor) (\<lambda>_.
    bnd (set_map org (e_ID e) ''contact'' (uei_Contact inp) actor) (\<lambda>_.
    GetEmployee org eid))))))"

definition TerminateEmployee :: "uuid \<Rightarrow> uuid \<Rightarrow> string \<Rightarrow> uuid option \<Rightarrow> ('a hr_db_scheme, unit) op" where
  "TerminateEmployee org eid reason actor =
    bnd (Get org eid False) (\<lambda>e.
    bnd (guard (e_Kind e \<noteq> ''employee'') (NewNotFound ''employee not found'')) (\<lambda>_.
    bnd (guard (e_Status e = ''terminated'') (NewConflict ''employee already terminated'')) (\<lambda>_.
    bnd (Update org eid (no_change\<lparr>ui_Status := Some ''terminated''\<rparr>) actor) (\<lambda>_.
    hr_publishEvent org eid ''hr.employee.terminated''
      (JObj [(''employee_id'', JUuid eid), (''reason'', JStr reason)]) actor))))"

definition CreateShift :: "uuid \<Rightarrow> create_shift_input \<Rightarrow> uuid option \<Rightarrow> ('a hr_db_scheme, shift) op" where
  "CreateShift org inp actor =
    bnd (guard (csh_EmployeeID inp = uuid_nil) (NewBadRequest ''employee_id is required'')) (\<lambda>_.
    bnd (guard (csh_StartTime inp = time_zero \<or> csh_EndTime inp = time_zero)
          (NewBadRequest ''start_time and end_time are required'')) (\<lambda>_.
    bnd (guard (\<not> csh_StartTime inp < csh_EndTime inp)
          (NewBadRequest ''end_time must be after start_time'')) (\<lambda>_.
    bnd (HasOverlappingShift org (csh_EmployeeID inp) (csh_StartTime inp) (csh_EndTime inp) None) (\<lambda>overlap.
    bnd (guard overlap (NewConflict ''shift overlaps with existing shift for this employee'')) (\<lambda>_.
    bnd new_uuid (\<lambda>sid.
    bnd now (\<lambda>t.
    let s = \<lparr>sh_ID = sid, sh_OrganizationID = org, sh_EmployeeID = csh_EmployeeID inp,
             sh_LocationID = csh_LocationID inp, sh_StartTime = csh_StartTime inp, sh_EndTime = csh_EndTime inp,
             sh_BreakMinutes = csh_BreakMinutes inp, sh_Status = ''scheduled'', sh_Notes = csh_Notes inp,
             sh_CreatedAt = t\<rparr> in
    bnd (repo_CreateShift s) (\<lambda>_.
    bnd (hr_publishEvent org (csh_EmployeeID inp) ''hr.shift.created''
           (JObj [(''shift_id'', JUuid sid), (''employee_id'', JUuid (csh_EmployeeID inp)),
                  (''start_time'', JStr (rfc3339 (csh_StartTime inp))),
                  (''end_time'', JStr (rfc3339 (csh_EndTime inp)))]) actor) (\<lambda>_.
    ret s)))))))))"

definition given :: "'a option \<Rightarrow> 'a \<Rightarrow> 'a" where
  "given new old = (case new of None \<Rightarrow> old | Some x \<Rightarrow> x)"

definition revised_shift :: "update_shift_input \<Rightarrow> shift \<Rightarrow> shift" where
  "revised_shift inp s = s\<lparr>sh_StartTime := given (ush_StartTime inp) (sh_StartTime s),
     sh_EndTime := given (ush_EndTime inp) (sh_EndTime s),
     sh_BreakMinutes := given (ush_BreakMinutes inp) (sh_BreakMinutes s),
     sh_Status := given (ush_Status inp) (sh_Status s), sh_Notes := given (ush_Notes inp) (sh_Notes s)\<rparr>"

definition UpdateShift :: "uuid \<Rightarrow> uuid \<Rightarrow> update_shift_input \<Rightarrow> uuid option \<Rightarrow> ('a hr_db_scheme, shift) op" where
  "UpdateShift org sid inp actor =
    bnd (GetShift org sid) (\<lambda>s.
    let s = revised_shift inp s in
    bnd (guard (\<not> sh_StartTime s < sh_EndTime s) (NewBadRequest ''end_time must be after start_time'')) (\<lambda>_.
    bnd (HasOverlappingShift org (sh_EmployeeID s) (sh_StartTime s) (sh_EndTime s) (Some sid)) (\<lambda>overlap.
    bnd (guard overlap (NewConflict ''shift overlaps with existing shift for this employee'')) (\<lambda>_.
    bnd (repo_UpdateShift s) (\<lambda>_.
    ret s)))))"

definition DeleteShift :: "uuid \<Rightarrow> uuid \<Rightarrow> ('a hr_db_scheme, unit) op" where
  "DeleteShift org sid = repo_DeleteShift org sid"

definition ClockIn :: "uuid \<Rightarrow> uuid \<Rightarrow> uuid option \<Rightarrow> uuid option \<Rightarrow> ('a hr_db_scheme, timesheet) op" where
  "ClockIn org emp shiftID actor =
    bnd (guard (emp = uuid_nil) (NewBadRequest ''employee_id is required'')) (\<lambda>_.
    bnd (GetOpenTimesheet org emp) (\<lambda>existing.
    bnd (guard (existing \<noteq> None) (NewConflict ''employee already clocked in'')) (\<lambda>_.
    bnd new_uuid (\<lambda>tid.
    bnd now (\<lambda>t.
    bnd now (\<lambda>t'.
    let ts = \<lparr>tm_ID = tid, tm_OrganizationID = org, tm_EmployeeID = emp, tm_ShiftID = shiftID, tm_ClockIn = t,
              tm_ClockOut = None, tm_HoursWorked = None, tm_Status = ''open'', tm_CreatedAt = t'\<rparr> in
    bnd (CreateTimesheet ts) (\<lambda>_.
    bnd (hr_publishEvent org emp ''hr.shift.started''
           (JObj [(''timesheet_id'', JUuid tid), (''employee_id'', JUuid emp)]) actor) (\<lambda>_.
    ret ts))))))))"

text \<open>The hours between two instants less the break, to the hundredth.\<close>

definition worked_hours :: "time \<Rightarrow> time \<Rightarrow> int64 \<Rightarrow> f64" where
  "worked_hours t0 t1 break =
    (let worked = time_sub t1 t0 - break;
         worked = (if slt worked 0 then 0 else worked)
     in fdiv (f64_Round (fmul (Hours worked) (Fin 100))) (Fin 100))"

text \<open>The break of the shift, if the shift can be read.\<close>

definition shift_break :: "uuid \<Rightarrow> timesheet \<Rightarrow> ('a hr_db_scheme, int64) op" where
  "shift_break org ts = (case tm_ShiftID ts of
     None \<Rightarrow> ret 0
   | Some sid \<Rightarrow> bnd (try_op (GetShift org sid)) (\<lambda>r.
       ret (case r of Inl _ \<Rightarrow> 0 | Inr s \<Rightarrow> sh_BreakMinutes s * minute)))"

definition ClockOut :: "uuid \<Rightarrow> uuid \<Rightarrow> uuid option \<Rightarrow> ('a hr_db_scheme, timesheet) op" where
  "ClockOut org tid actor =
    bnd (GetTimesheet org tid) (\<lambda>ts.
    bnd (guard (tm_Status ts \<noteq> ''open'') (NewConflict ''timesheet is not open'')) (\<lambda>_.
    bnd now (\<lambda>t.
    bnd (shift_break org ts) (\<lambda>break.
    let hours = worked_hours (tm_ClockIn ts) t break;
        ts = ts\<lparr>tm_ClockOut := Some t, tm_Status := ''closed'', tm_HoursWorked := Some hours\<rparr> in
    bnd (UpdateTimesheet ts) (\<lambda>_.
    bnd (hr_publishEvent org (tm_EmployeeID ts) ''hr.shift.completed''
           (JObj [(''timesheet_id'', JUuid (tm_ID ts)), (''employee_id'', JUuid (tm_EmployeeID ts)),
                  (''hours_worked'', JFloat hours)]) actor) (\<lambda>_.
    ret ts))))))"

text \<open>The monthly salary in kopecks over 176 hours, in roubles.\<close>

definition hourly_rate :: "employee \<Rightarrow> jmap" where
  "hourly_rate emp = (case em_Salary emp of None \<Rightarrow> []
     | Some m \<Rightarrow> (case Option.bind (map_of m ''base_salary'') as_float of None \<Rightarrow> []
        | Some base \<Rightarrow> if fless f64_zero base
            then [(''hourly_rate'', JFloat (fdiv (fdiv base (Fin 100)) (Fin 176)))] else []))"

definition ApproveTimesheet :: "uuid \<Rightarrow> uuid \<Rightarrow> uuid option \<Rightarrow> ('a hr_db_scheme, unit) op" where
  "ApproveTimesheet org tid actor =
    bnd (GetTimesheet org tid) (\<lambda>ts.
    bnd (guard (tm_Status ts \<noteq> ''closed'') (NewConflict ''only closed timesheets can be approved'')) (\<lambda>_.
    let ts = ts\<lparr>tm_Status := ''approved''\<rparr> in
    bnd (UpdateTimesheet ts) (\<lambda>_.
    bnd (try_op (GetEmployee org (tm_EmployeeID ts))) (\<lambda>r.
    hr_publishEvent org (tm_EmployeeID ts) ''hr.timesheet.approved''
      (JObj ([(''timesheet_id'', JUuid (tm_ID ts)), (''employee_id'', JUuid (tm_EmployeeID ts)),
              (''hours_worked'', jnull_or JFloat (tm_HoursWorked ts))]
             @ (case r of Inl _ \<Rightarrow> [] | Inr emp \<Rightarrow> hourly_rate emp))) actor))))"

definition gross_salary :: "employee \<Rightarrow> int64" where
  "gross_salary emp = (case em_Salary emp of None \<Rightarrow> 0
     | Some m \<Rightarrow> (case Option.bind (map_of m ''base_salary'') as_float of None \<Rightarrow> 0 | Some base \<Rightarrow> int64_of_f64 base))"

text \<open>13% of the salary; the constant is the double nearest to it.\<close>

definition ndfl_of :: "int64 \<Rightarrow> int64" where
  "ndfl_of gross = int64_of_f64 (f64_Round (fmul (f64_of_int64 gross) (f64_round (13 / 100))))"

definition net_salary :: "int64 \<Rightarrow> int64 \<Rightarrow> int64" where
  "net_salary gross deductions = (let net = gross - ndfl_of gross - deductions in if slt net 0 then 0 else net)"

definition CalculatePayroll :: "uuid \<Rightarrow> create_payroll_input \<Rightarrow> uuid option \<Rightarrow> ('a hr_db_scheme, payroll) op" where
  "CalculatePayroll org inp actor =
    bnd (guard (slt (cpi_Month inp) 1 \<or> slt 12 (cpi_Month inp))
          (NewBadRequest ''month must be between 1 and 12'')) (\<lambda>_.
    bnd (try_op (GetEmployee org (cpi_EmployeeID inp))) (\<lambda>r.
    case r of Inl _ \<Rightarrow> fail (NewBadRequest ''employee not found'')
    | Inr emp \<Rightarrow>
      (let gross = gross_salary emp in
       bnd (guard (gross = 0) (NewBadRequest ''employee has no base_salary set'')) (\<lambda>_.
       bnd new_uuid (\<lambda>pid.
       bnd now (\<lambda>t.
       let p = \<lparr>py_ID = pid, py_OrganizationID = org, py_EmployeeID = cpi_EmployeeID inp, py_Year = cpi_Year inp,
                py_Month = cpi_Month inp, py_GrossSalary = gross, py_NDFL = ndfl_of gross,
                py_Deductions = cpi_Deductions inp, py_NetSalary = net_salary gross (cpi_Deductions inp),
                py_Status = ''draft'', py_ApprovedAt = None, py_ApprovedBy = None, py_CreatedAt = t\<rparr> in
       bnd (CreatePayroll p) (\<lambda>_.
       bnd (hr_publishEvent org (cpi_EmployeeID inp) ''hr.payroll.calculated''
              (JObj [(''payroll_id'', JUuid pid), (''employee_id'', JUuid (cpi_EmployeeID inp)),
                     (''gross_salary'', jint64 gross), (''ndfl'', jint64 (ndfl_of gross)),
                     (''net_salary'', jint64 (py_NetSalary p)), (''year'', jint64 (cpi_Year inp)),
                     (''month'', jint64 (cpi_Month inp))]) actor) (\<lambda>_.
       ret p))))))))"

definition ApprovePayroll :: "uuid \<Rightarrow> uuid \<Rightarrow> uuid option \<Rightarrow> ('a hr_db_scheme, payroll) op" where
  "ApprovePayroll org pid actor =
    bnd (GetPayroll org pid) (\<lambda>p.
    bnd (guard (py_Status p \<noteq> ''draft'') (NewConflict ''only draft payrolls can be approved'')) (\<lambda>_.
    bnd now (\<lambda>t.
    let p = p\<lparr>py_Status := ''approved'', py_ApprovedAt := Some t, py_ApprovedBy := actor\<rparr> in
    bnd (UpdatePayroll p) (\<lambda>_.
    bnd (hr_publishEvent org (py_EmployeeID p) ''hr.payroll.approved''
           (JObj [(''payroll_id'', JUuid (py_ID p)), (''employee_id'', JUuid (py_EmployeeID p)),
                  (''net_salary'', jint64 (py_NetSalary p))]) actor) (\<lambda>_.
    ret p)))))"

text \<open>\<open>int(endDate.Sub(startDate).Hours()/24) + 1\<close>.\<close>

definition absence_days :: "civil \<Rightarrow> civil \<Rightarrow> int" where
  "absence_days c0 c1 =
     sint (int64_of_f64 (fdiv (Hours (time_sub (midnight c1) (midnight c0))) (Fin 24)) + 1)"

definition RequestAbsence :: "uuid \<Rightarrow> create_absence_input \<Rightarrow> uuid option \<Rightarrow> ('a hr_db_scheme, absence) op" where
  "RequestAbsence org inp actor =
    bnd (guard (cab_Type inp \<notin> {''vacation'', ''sick_leave'', ''personal'', ''unpaid''})
          (NewBadRequest ''type must be vacation, sick_leave, personal, or unpaid'')) (\<lambda>_.
    case parse_date (cab_StartDate inp) of
      None \<Rightarrow> fail (NewBadRequest ''invalid start_date format'')
    | Some c0 \<Rightarrow> (case parse_date (cab_EndDate inp) of
        None \<Rightarrow> fail (NewBadRequest ''invalid end_date format'')
      | Some c1 \<Rightarrow>
        bnd (guard (\<not> midnight c0 < midnight c1 \<and> c1 \<noteq> c0) (NewBadRequest ''end_date must be >= start_date'')) (\<lambda>_.
        bnd new_uuid (\<lambda>aid.
        bnd now (\<lambda>t.
        let a = \<lparr>ab_ID = aid, ab_OrganizationID = org, ab_EmployeeID = cab_EmployeeID inp, ab_Type = cab_Type inp,
                 ab_StartDate = c0, ab_EndDate = c1, ab_Days = absence_days c0 c1, ab_Status = ''pending'',
                 ab_Notes = cab_Notes inp, ab_ApprovedBy = None, ab_CreatedAt = t\<rparr> in
        bnd (CreateAbsence a) (\<lambda>_.
        bnd (hr_publishEvent org (cab_EmployeeID inp) ''hr.absence.requested''
               (JObj [(''absence_id'', JUuid aid), (''employee_id'', JUuid (cab_EmployeeID inp)),
                      (''type'', JStr (cab_Type inp)), (''start_date'', JStr (cab_StartDate inp)),
                      (''end_date'', JStr (cab_EndDate inp)), (''days'', JInt (ab_Days a))]) actor) (\<lambda>_.
        ret a)))))))"

definition ApproveAbsence :: "uuid \<Rightarrow> uuid \<Rightarrow> uuid option \<Rightarrow> ('a hr_db_scheme, absence) op" where
  "ApproveAbsence org aid actor =
    bnd (GetAbsence org aid) (\<lambda>a.
    bnd (guard (ab_Status a \<noteq> ''pending'') (NewConflict ''only pending absences can be approved'')) (\<lambda>_.
    let a = a\<lparr>ab_Status := ''approved'', ab_ApprovedBy := actor\<rparr> in
    bnd (UpdateAbsence a) (\<lambda>_.
    bnd (hr_publishEvent org (ab_EmployeeID a) ''hr.absence.approved''
           (JObj [(''absence_id'', JUuid (ab_ID a)), (''employee_id'', JUuid (ab_EmployeeID a)),
                  (''type'', JStr (ab_Type a)), (''days'', JInt (ab_Days a))]) actor) (\<lambda>_.
    ret a))))"

definition RejectAbsence :: "uuid \<Rightarrow> uuid \<Rightarrow> uuid option \<Rightarrow> ('a hr_db_scheme, absence) op" where
  "RejectAbsence org aid actor =
    bnd (GetAbsence org aid) (\<lambda>a.
    bnd (guard (ab_Status a \<noteq> ''pending'') (NewConflict ''only pending absences can be rejected'')) (\<lambda>_.
    let a = a\<lparr>ab_Status := ''rejected''\<rparr> in
    bnd (UpdateAbsence a) (\<lambda>_.
    ret a)))"

end
