(* ===== verification/HrRuns.thy ===== *)
theory HrRuns
  imports Hr
begin

text \<open>
  What the HR service keeps: no employee has overlapping shifts or two open timesheets, timesheets,
  payrolls and absences only advance, and what was approved stays.
\<close>

section \<open>The invariants of the tables\<close>

definition overlap :: "shift \<Rightarrow> shift \<Rightarrow> bool" where
  "overlap s s' \<longleftrightarrow> sh_OrganizationID s = sh_OrganizationID s' \<and> sh_EmployeeID s = sh_EmployeeID s'
     \<and> sh_StartTime s < sh_EndTime s' \<and> sh_StartTime s' < sh_EndTime s"

definition shifts_ok :: "shift list \<Rightarrow> bool" where
  "shifts_ok ss \<longleftrightarrow> distinct (map sh_ID ss) \<and> (\<forall>s \<in> set ss. sh_StartTime s \<le> sh_EndTime s)
     \<and> (\<forall>s \<in> set ss. \<forall>s' \<in> set ss. overlap s s' \<longrightarrow> s = s')"

definition hours_ok :: "f64 option \<Rightarrow> bool" where
  "hours_ok h \<longleftrightarrow> (case h of Some (Fin x) \<Rightarrow> 0 \<le> x \<and> x < 1000 | _ \<Rightarrow> False)"

definition timesheet_ok :: "timesheet \<Rightarrow> bool" where
  "timesheet_ok t \<longleftrightarrow> (if tm_Status t = ''open'' then tm_ClockOut t = None \<and> tm_HoursWorked t = None
     else tm_Status t \<in> {''closed'', ''approved''} \<and> tm_ClockOut t \<noteq> None \<and> hours_ok (tm_HoursWorked t))"

definition open_for :: "timesheet \<Rightarrow> timesheet \<Rightarrow> bool" where
  "open_for t t' \<longleftrightarrow> tm_Status t = ''open'' \<and> tm_Status t' = ''open''
     \<and> tm_OrganizationID t = tm_OrganizationID t' \<and> tm_EmployeeID t = tm_EmployeeID t'"

definition timesheets_ok :: "timesheet list \<Rightarrow> bool" where
  "timesheets_ok ts \<longleftrightarrow> distinct (map tm_ID ts) \<and> (\<forall>t \<in> set ts. timesheet_ok t)
     \<and> (\<forall>t \<in> set ts. \<forall>t' \<in> set ts. open_for t t' \<longrightarrow> t = t')"

definition payroll_ok :: "payroll \<Rightarrow> bool" where
  "payroll_ok p \<longleftrightarrow> py_Status p \<in> {''draft'', ''approved''} \<and> (py_ApprovedAt p \<noteq> None \<longleftrightarrow> py_Status p = ''approved'')
     \<and> py_GrossSalary p \<noteq> 0 \<and> py_NDFL p = ndfl_of (py_GrossSalary p)
     \<and> py_NetSalary p = net_salary (py_GrossSalary p) (py_Deductions p)"

definition payrolls_ok :: "payroll list \<Rightarrow> bool" where
  "payrolls_ok ps \<longleftrightarrow> distinct (map py_ID ps) \<and> distinct (map payroll_period ps) \<and> (\<forall>p \<in> set ps. payroll_ok p)"

definition absence_ok :: "absence \<Rightarrow> bool" where
  "absence_ok a \<longleftrightarrow> ab_Status a \<in> {''pending'', ''approved'', ''rejected''}
     \<and> ab_Type a \<in> {''vacation'', ''sick_leave'', ''personal'', ''unpaid''}
     \<and> midnight (ab_StartDate a) \<le> midnight (ab_EndDate a)
     \<and> ab_Days a = absence_days (ab_StartDate a) (ab_EndDate a)"

definition absences_ok :: "absence list \<Rightarrow> bool" where
  "absences_ok as \<longleftrightarrow> distinct (map ab_ID as) \<and> (\<forall>a \<in> set as. absence_ok a)"

definition hr_ok :: "'a hr_db_scheme \<Rightarrow> bool" where
  "hr_ok d \<longleftrightarrow> shifts_ok (t_shifts d) \<and> timesheets_ok (t_timesheets d) \<and> payrolls_ok (t_payrolls d)
     \<and> absences_ok (t_absences d)"

section \<open>The steps of the rows\<close>

inductive timesheet_step :: "timesheet \<Rightarrow> timesheet \<Rightarrow> bool" where
  clock_out: "tm_Status t = ''open'' \<Longrightarrow>
    timesheet_step t (t\<lparr>tm_ClockOut := Some u, tm_HoursWorked := Some h, tm_Status := ''closed''\<rparr>)"
| approve_timesheet: "tm_Status t = ''closed'' \<Longrightarrow>
    timesheet_step t (t\<lparr>tm_ClockOut := u, tm_HoursWorked := h, tm_Status := ''approved''\<rparr>)"

inductive payroll_step :: "payroll \<Rightarrow> payroll \<Rightarrow> bool" where
  approve_payroll: "py_Status p = ''draft'' \<Longrightarrow>
    payroll_step p (p\<lparr>py_Status := ''approved'', py_ApprovedAt := Some t, py_ApprovedBy := u\<rparr>)"

inductive absence_step :: "absence \<Rightarrow> absence \<Rightarrow> bool" where
  approve_absence: "ab_Status a = ''pending'' \<Longrightarrow> absence_step a (a\<lparr>ab_Status := ''approved'', ab_ApprovedBy := u\<rparr>)"
| reject_absence: "ab_Status a = ''pending'' \<Longrightarrow> absence_step a (a\<lparr>ab_Status := ''rejected''\<rparr>)"

definition hr_moves :: "'a hr_db_scheme \<Rightarrow> 'a hr_db_scheme \<Rightarrow> bool" where
  "hr_moves d d' \<longleftrightarrow> evolves tm_ID timesheet_step (t_timesheets d) (t_timesheets d')
     \<and> evolves py_ID payroll_step (t_payrolls d) (t_payrolls d')
     \<and> evolves ab_ID absence_step (t_absences d) (t_absences d')"

lemma hr_moves_refl: "hr_moves d d"
  by (simp add: hr_moves_def)

lemma hr_moves_trans: "hr_moves d d' \<Longrightarrow> hr_moves d' d'' \<Longrightarrow> hr_moves d d''"
  unfolding hr_moves_def by (blast intro: evolves_trans)

definition good_hr :: "'a hr_db_scheme \<Rightarrow> 'a hr_db_scheme \<Rightarrow> bool" where
  "good_hr d d' \<longleftrightarrow> hr_ok d' \<and> hr_moves d d'"

lemma good_hr_refl: "hr_ok d \<Longrightarrow> good_hr d d"
  by (simp add: good_hr_def hr_moves_refl)

lemma good_hr_events [simp]: "good_hr d (d'\<lparr>t_events := es\<rparr>) = good_hr d d'"
  by (simp add: good_hr_def hr_ok_def hr_moves_def)

text \<open>The table a statement leaves is sound, its rows have advanced: one table at a time.\<close>

lemma good_shifts: "hr_ok d \<Longrightarrow> shifts_ok ss \<Longrightarrow> good_hr d (d\<lparr>t_shifts := ss\<rparr>)"
  by (simp add: good_hr_def hr_ok_def hr_moves_def)

lemma good_timesheets:
  "hr_ok d \<Longrightarrow> timesheets_ok ts \<and> evolves tm_ID timesheet_step (t_timesheets d) ts \<Longrightarrow> good_hr d (d\<lparr>t_timesheets := ts\<rparr>)"
  by (simp add: good_hr_def hr_ok_def hr_moves_def)

lemma good_payrolls:
  "hr_ok d \<Longrightarrow> payrolls_ok ps \<and> evolves py_ID payroll_step (t_payrolls d) ps \<Longrightarrow> good_hr d (d\<lparr>t_payrolls := ps\<rparr>)"
  by (simp add: good_hr_def hr_ok_def hr_moves_def)

lemma good_absences:
  "hr_ok d \<Longrightarrow> absences_ok as \<and> evolves ab_ID absence_step (t_absences d) as \<Longrightarrow> good_hr d (d\<lparr>t_absences := as\<rparr>)"
  by (simp add: good_hr_def hr_ok_def hr_moves_def)

section \<open>Shifts\<close>

lemma list_ex_not: "\<not> list_ex p xs \<longleftrightarrow> (\<forall>x \<in> set xs. \<not> p x)"
  by (auto simp: list_ex_iff)

lemma stored_shift_fields [simp]:
  "sh_ID (stored_shift s) = sh_ID s" "sh_OrganizationID (stored_shift s) = sh_OrganizationID s"
  "sh_EmployeeID (stored_shift s) = sh_EmployeeID s" "sh_StartTime (stored_shift s) = pg_time (sh_StartTime s)"
  "sh_EndTime (stored_shift s) = pg_time (sh_EndTime s)"
  by (simp_all add: stored_shift_def)

lemma shifts_ok_new:
  assumes ok: "shifts_ok ss" and "sh_ID s \<notin> sh_ID ` set ss" and le: "sh_StartTime s \<le> sh_EndTime s"
    and free: "\<forall>x \<in> set ss. \<not> overlapping (sh_OrganizationID s) (sh_EmployeeID s) (sh_StartTime s) (sh_EndTime s) None x"
  shows "shifts_ok (ss @ [stored_shift s])"
proof -
  have "\<not> overlap x (stored_shift s)" "\<not> overlap (stored_shift s) x" if "x \<in> set ss" for x
    using free that by (auto simp: overlapping_def overlap_def)
  then show ?thesis
    using ok assms(2) pg_time_mono [OF le] unfolding shifts_ok_def by auto
qed

lemma shifts_ok_filter: "shifts_ok ss \<Longrightarrow> shifts_ok (filter p ss)"
  by (auto simp: shifts_ok_def distinct_map inj_on_def)

lemma shifts_ok_revised:
  assumes ok: "shifts_ok ss" and r: "r \<in> set ss" and same: "sh_ID s = sh_ID r" "sh_OrganizationID s = sh_OrganizationID r"
      "sh_EmployeeID s = sh_EmployeeID r"
    and le: "sh_StartTime s \<le> sh_EndTime s"
    and free: "\<forall>x \<in> set ss. \<not> overlapping (sh_OrganizationID s) (sh_EmployeeID s) (sh_StartTime s) (sh_EndTime s) (Some (sh_ID s)) x"
  shows "shifts_ok (row_update (shift_row (sh_OrganizationID s) (sh_ID s)) (set_shift (stored_shift s)) ss)"
proof -
  let ?r = "set_shift (stored_shift s) r"
  have dist: "distinct (map sh_ID ss)" using ok by (simp add: shifts_ok_def)
  have eq: "row_update (shift_row (sh_OrganizationID s) (sh_ID s)) (set_shift (stored_shift s)) ss = replaced sh_ID r ?r ss"
    by (rule row_update_replaced [OF dist r]) (simp_all add: shift_row_def same)
  have fields: "sh_ID ?r = sh_ID r" "sh_OrganizationID ?r = sh_OrganizationID s" "sh_EmployeeID ?r = sh_EmployeeID s"
    "sh_StartTime ?r = pg_time (sh_StartTime s)" "sh_EndTime ?r = pg_time (sh_EndTime s)"
    by (simp_all add: set_shift_def same)
  have other: "\<not> overlap x ?r" "\<not> overlap ?r x" if "x \<in> set ss" "sh_ID x \<noteq> sh_ID r" for x
    using free that by (auto simp: overlapping_def overlap_def fields same(1))
  have "x = y" if "overlap x y" and x: "x \<in> set (replaced sh_ID r ?r ss)" and y: "y \<in> set (replaced sh_ID r ?r ss)" for x y
    using replaced_set [OF x] replaced_set [OF y] that(1) other ok unfolding shifts_ok_def by metis
  moreover have "sh_StartTime x \<le> sh_EndTime x" if "x \<in> set (replaced sh_ID r ?r ss)" for x
    using replaced_set [OF that] ok pg_time_mono [OF le] fields by (auto simp: shifts_ok_def)
  moreover have "distinct (map sh_ID (replaced sh_ID r ?r ss))"
    using dist by (simp add: replaced_keys [where r' = ?r, OF fields(1)])
  ultimately show ?thesis unfolding eq shifts_ok_def by blast
qed

abbreviation serves :: "env \<Rightarrow> 'a hr_db_scheme \<Rightarrow> ('a hr_db_scheme, 'b) op \<Rightarrow> bool" where
  "serves env d m \<equiv> wp env m (\<lambda>_ w'. good_hr d (committed w')) (\<lambda>_ w'. good_hr d (committed w')) (start d)"

lemma hr_okD: "hr_ok d \<Longrightarrow> shifts_ok (t_shifts d)" "hr_ok d \<Longrightarrow> timesheets_ok (t_timesheets d)"
  "hr_ok d \<Longrightarrow> payrolls_ok (t_payrolls d)" "hr_ok d \<Longrightarrow> absences_ok (t_absences d)"
  by (simp_all add: hr_ok_def)

lemma CreateShift_good:
  assumes ok: "hr_ok d"
  shows "serves env d (CreateShift org inp actor)"
  unfolding CreateShift_def HasOverlappingShift_def repo_CreateShift_def hr_publishEvent_def Let_def
  apply (intro view_rules view_pool_stmt)
  using ok apply (auto simp: start_def same_outside_def good_hr_refl list_ex_not split: if_splits
      intro!: good_shifts shifts_ok_new dest: hr_okD)
  done

lemma find_shiftD: "find (shift_row org sid) ss = Some s \<Longrightarrow> s \<in> set ss \<and> sh_OrganizationID s = org \<and> sh_ID s = sid"
  by (auto simp: shift_row_def dest: find_SomeD)

lemma revised_shift_fields [simp]:
  "sh_ID (revised_shift inp s) = sh_ID s" "sh_OrganizationID (revised_shift inp s) = sh_OrganizationID s"
  "sh_EmployeeID (revised_shift inp s) = sh_EmployeeID s"
  by (simp_all add: revised_shift_def)

lemma good_revised_shift:
  assumes "hr_ok d" and "s \<in> set (t_shifts d)"
    and "sh_StartTime (revised_shift inp s) < sh_EndTime (revised_shift inp s)"
    and "\<forall>x \<in> set (t_shifts d). \<not> overlapping (sh_OrganizationID s) (sh_EmployeeID s)
      (sh_StartTime (revised_shift inp s)) (sh_EndTime (revised_shift inp s)) (Some (sh_ID s)) x"
  shows "good_hr d (d\<lparr>t_shifts := row_update (shift_row (sh_OrganizationID s) (sh_ID s))
    (set_shift (stored_shift (revised_shift inp s))) (t_shifts d)\<rparr>)"
  using shifts_ok_revised [OF hr_okD(1) [OF assms(1)] assms(2), of "revised_shift inp s"] assms
  by (intro good_shifts) simp_all

lemma UpdateShift_good:
  assumes ok: "hr_ok d"
  shows "serves env d (UpdateShift org sid inp actor)"
  unfolding UpdateShift_def HasOverlappingShift_def repo_UpdateShift_def GetShift_def Let_def
  apply (intro view_rules view_pool_stmt)
  using ok apply (auto simp: start_def same_outside_def good_hr_refl list_ex_not split: if_splits
      dest!: find_shiftD)
  apply (metis good_revised_shift)
  done

lemma DeleteShift_good:
  assumes ok: "hr_ok d"
  shows "serves env d (DeleteShift org sid)"
  unfolding DeleteShift_def repo_DeleteShift_def
  apply (intro view_rules view_pool_stmt)
  using ok apply (auto simp: start_def same_outside_def good_hr_refl intro!: good_shifts shifts_ok_filter dest: hr_okD)
  done

section \<open>Timesheets\<close>

text \<open>Hours are never negative, and the column keeps them below a thousand.\<close>

lemma numeric_5_2_hours:
  assumes "numeric_5_2 h = Some h'" and "h = Fin x" and "0 \<le> x"
  shows "hours_ok (Some h')"
proof -
  from assms obtain k where k: "k = rha (x * 100)" "\<bar>k\<bar> < 10 ^ 5" "h' = Fin (rnd (of_int k / 100))"
    by (auto simp: Let_def split: if_splits)
  have "0 \<le> k" using rha_mono [of 0 "x * 100"] assms(3) k(1) rha_of_int [of 0] by simp
  then have lo: "0 \<le> rnd (of_int k / 100)" using rnd_mono [of 0 "of_int k / 100"] by simp
  have "k \<le> 99999" using k(2) by simp
  then have "rnd (of_int k / 100) \<le> rnd (99999 / 100)" by (intro rnd_mono divide_right_mono) simp_all
  also have "\<dots> < 1000"
  proof -
    have "\<bar>rnd (99999 / 100) - 99999 / 100\<bar> \<le> 1 / 1000"
      by (rule order_trans [OF rnd_error_below [of "99999 / 100" 10]]) (simp_all add: powi2_minus_numeral)
    then show ?thesis by (simp only: abs_le_iff) linarith
  qed
  finally show ?thesis using lo by (simp add: hours_ok_def k(3))
qed

lemma f64_round_nonneg: "0 \<le> x \<Longrightarrow> fle (Fin 0) (f64_round x)"
  using rnd_nonneg [of x] by (auto simp: f64_round_def Let_def fle_def feq_def)

lemma sint_nonneg_bounds: "0 \<le> sint (w::int64) \<Longrightarrow> sint w < 2 ^ 63"
  using sint64_range by simp

lemma rnd_upper: "0 \<le> x \<Longrightarrow> x \<le> 2 powi k \<Longrightarrow> - 1000 \<le> k \<Longrightarrow> rnd x \<le> 2 powi k"
  using rnd_mono [of x "2 powi k"] rnd_exact [of 1 k] by simp

lemma Fin_round:
  assumes "0 \<le> x" and "x \<le> 2 powi k" and "- 1000 \<le> k" and "k < 1024"
  shows "f64_round x = Fin (rnd x) \<and> 0 \<le> rnd x \<and> rnd x \<le> 2 powi k"
  using f64_round_bounded [of x k] rnd_nonneg [of x] rnd_upper [of x k] assms by simp

lemma nonneg_sdiv:
  "0 \<le> a \<Longrightarrow> 0 < b \<Longrightarrow> (a::int) sdiv b = a div b" "0 \<le> a \<Longrightarrow> 0 < b \<Longrightarrow> (a::int) smod b = a mod b"
  by (simp_all add: signed_divide_int_def signed_modulo_int_def minus_div_mult_eq_mod abs_if sgn_if)

lemma Hours_Fin:
  assumes "0 \<le> sint w"
  shows "\<exists>x. Hours w = Fin x \<and> 0 \<le> x \<and> x \<le> 2 powi 22"
proof -
  let ?h = "sint w div 3600000000000" and ?n = "sint w mod 3600000000000"
  have h: "0 \<le> ?h" "?h \<le> 2562047" using assms sint64_range(2) [of w] by simp_all
  have n: "0 \<le> ?n" "?n < 3600000000000" by simp_all
  have "f64_of_int ?h = Fin (of_int ?h)" "f64_of_int ?n = Fin (of_int ?n)"
    using h n by (simp_all add: f64_of_int_small)
  moreover have n1: "f64_round (of_int ?n / 3600000000000) = Fin (rnd (of_int ?n / 3600000000000)) \<and>
      0 \<le> rnd (of_int ?n / 3600000000000) \<and> rnd (of_int ?n / 3600000000000) \<le> 2 powi 0"
  proof (rule Fin_round)
    have "(of_int ?n :: rat) \<le> of_int 3600000000000" using n(2) by (simp only: of_int_le_iff)
    then show "of_int ?n / 3600000000000 \<le> (2::rat) powi 0" by simp
  qed (use n in simp_all)
  moreover have "(of_int ?h :: rat) \<le> of_int 2562047" using h(2) by (simp only: of_int_le_iff)
  then have "f64_round (of_int ?h + rnd (of_int ?n / 3600000000000)) = Fin (rnd (of_int ?h + rnd (of_int ?n / 3600000000000))) \<and>
      0 \<le> rnd (of_int ?h + rnd (of_int ?n / 3600000000000)) \<and> rnd (of_int ?h + rnd (of_int ?n / 3600000000000)) \<le> 2 powi 22"
    using n1 h(1) by (intro Fin_round) simp_all
  ultimately show ?thesis
    using assms by (simp add: Hours_def nonneg_sdiv)
qed

lemma rha_nonneg: "0 \<le> x \<Longrightarrow> 0 \<le> rha x"
  by (simp add: rha_def)

lemma worked_hours_Fin: "\<exists>x. worked_hours t0 t1 b = Fin x \<and> 0 \<le> x"
proof -
  let ?w = "if slt (time_sub t1 t0 - b) 0 then 0 else time_sub t1 t0 - b"
  have "0 \<le> sint ?w" by (simp add: slt_def)
  then obtain x where x: "Hours ?w = Fin x" "0 \<le> x" "x \<le> 2 powi 22" using Hours_Fin by blast
  have "f64_round (x * 100) = Fin (rnd (x * 100)) \<and> 0 \<le> rnd (x * 100) \<and> rnd (x * 100) \<le> 2 powi 29"
    using x(2,3) by (intro Fin_round) simp_all
  then have y: "f64_Round (fmul (Hours ?w) (Fin 100)) = Fin (of_int (rha (rnd (x * 100))))"
    and bound: "0 \<le> rnd (x * 100)" "rnd (x * 100) \<le> of_int (2 ^ 29)" by (simp_all add: x(1))
  have k: "0 \<le> rha (rnd (x * 100))" "rha (rnd (x * 100)) \<le> 2 ^ 29"
    using rha_nonneg [OF bound(1)] rha_mono [OF bound(2)] by (simp_all only: rha_of_int)
  have "f64_round (of_int (rha (rnd (x * 100))) / 100) = Fin (rnd (of_int (rha (rnd (x * 100))) / 100))
      \<and> 0 \<le> rnd (of_int (rha (rnd (x * 100))) / 100) \<and> rnd (of_int (rha (rnd (x * 100))) / 100) \<le> 2 powi 29"
  proof (rule Fin_round)
    have "(of_int (rha (rnd (x * 100))) :: rat) \<le> of_int (2 ^ 29)" using k(2) by (simp only: of_int_le_iff)
    then show "of_int (rha (rnd (x * 100))) / 100 \<le> (2::rat) powi 29" by simp
  qed (use k(1) in simp_all)
  then show ?thesis unfolding worked_hours_def Let_def y by simp
qed

lemma timesheets_ok_new:
  assumes ok: "timesheets_ok ts" and "tm_ID t \<notin> tm_ID ` set ts" and "timesheet_ok t" and "tm_Status t = ''open''"
    and none: "find (\<lambda>x. tm_OrganizationID x = tm_OrganizationID t \<and> tm_EmployeeID x = tm_EmployeeID t
      \<and> tm_Status x = ''open'') ts = None"
  shows "timesheets_ok (ts @ [t])"
proof -
  have "\<not> open_for x t" "\<not> open_for t x" if "x \<in> set ts" for x
    using none that by (auto simp: open_for_def find_None_iff)
  then show ?thesis using ok assms(2,3) by (auto simp: timesheets_ok_def)
qed

lemma timesheet_step_same: "timesheet_step t t' \<Longrightarrow> tm_ID t' = tm_ID t \<and> tm_OrganizationID t' = tm_OrganizationID t
    \<and> tm_EmployeeID t' = tm_EmployeeID t \<and> tm_ShiftID t' = tm_ShiftID t \<and> tm_ClockIn t' = tm_ClockIn t
    \<and> tm_CreatedAt t' = tm_CreatedAt t \<and> tm_Status t' \<noteq> ''open''"
  by (cases rule: timesheet_step.cases) auto

lemma timesheets_ok_step:
  assumes ok: "timesheets_ok ts" and t: "t \<in> set ts" and step: "timesheet_step t t'" and t': "timesheet_ok t'"
  shows "timesheets_ok (replaced tm_ID t t' ts) \<and> evolves tm_ID timesheet_step ts (replaced tm_ID t t' ts)"
proof -
  note same = timesheet_step_same [OF step]
  have dist: "distinct (map tm_ID ts)" using ok by (simp add: timesheets_ok_def)
  have "x = y" if x: "x \<in> set (replaced tm_ID t t' ts)" and y: "y \<in> set (replaced tm_ID t t' ts)" and "open_for x y" for x y
    using replaced_set [OF x] replaced_set [OF y] that(3) same ok unfolding timesheets_ok_def open_for_def by metis
  moreover have "timesheet_ok x" if "x \<in> set (replaced tm_ID t t' ts)" for x
    using replaced_set [OF that] ok t' by (auto simp: timesheets_ok_def)
  moreover have "distinct (map tm_ID (replaced tm_ID t t' ts))"
    using dist same by (simp add: replaced_keys [where r' = t'])
  ultimately have "timesheets_ok (replaced tm_ID t t' ts)" unfolding timesheets_ok_def by blast
  then show ?thesis using evolves_replaced [where key = tm_ID and step = timesheet_step, OF dist t step] same by simp
qed

text \<open>An update of a timesheet that takes a step.\<close>

lemma good_put_timesheet:
  assumes ok: "hr_ok d" and t: "t \<in> set (t_timesheets d)" and step: "timesheet_step t (set_timesheet u t)"
    and "timesheet_ok (set_timesheet u t)" and "tm_ID u = tm_ID t" and "tm_OrganizationID u = tm_OrganizationID t"
  shows "good_hr d (put_timesheet u d)"
proof -
  have ts: "timesheets_ok (t_timesheets d)" using ok by (rule hr_okD)
  then have "row_update (timesheet_row (tm_OrganizationID u) (tm_ID u)) (set_timesheet u) (t_timesheets d)
      = replaced tm_ID t (set_timesheet u t) (t_timesheets d)"
    by (intro row_update_replaced) (auto simp: timesheets_ok_def t timesheet_row_def assms(5,6))
  then show ?thesis
    using good_timesheets [OF ok timesheets_ok_step [OF ts t step assms(4)]] by (simp add: put_timesheet_def)
qed

lemma find_timesheetD:
  "find (timesheet_row org tid) ts = Some t \<Longrightarrow> t \<in> set ts \<and> tm_OrganizationID t = org \<and> tm_ID t = tid"
  by (auto simp: timesheet_row_def dest: find_SomeD)

lemma good_clock_out:
  assumes ok: "hr_ok d" and t: "t \<in> set (t_timesheets d)" and "tm_Status t = ''open''"
    and "stored_timesheet (t\<lparr>tm_ClockOut := Some u, tm_Status := ''closed'', tm_HoursWorked := Some h\<rparr>) = Some t'"
    and "h = Fin x" and "0 \<le> x"
  shows "good_hr d (put_timesheet t' d)"
proof -
  obtain h' where h': "numeric_5_2 h = Some h'" and t': "t' = t\<lparr>tm_ClockIn := pg_time (tm_ClockIn t),
      tm_ClockOut := Some (pg_time u), tm_HoursWorked := Some h', tm_Status := ''closed''\<rparr>"
    using assms(4) by (auto simp: stored_timesheet_def Let_def)
  have set: "set_timesheet t' t = t\<lparr>tm_ClockOut := Some (pg_time u), tm_HoursWorked := Some h', tm_Status := ''closed''\<rparr>"
    by (simp add: set_timesheet_def t')
  show ?thesis
  proof (rule good_put_timesheet [OF ok t])
    show "timesheet_step t (set_timesheet t' t)" unfolding set by (rule clock_out [OF assms(3)])
    show "timesheet_ok (set_timesheet t' t)"
      unfolding set by (simp add: timesheet_ok_def numeric_5_2_hours [OF h' assms(5,6)])
  qed (simp_all add: t')
qed

lemma good_approval:
  assumes ok: "hr_ok d" and t: "t \<in> set (t_timesheets d)" and "tm_Status t = ''closed''"
    and st: "stored_timesheet (t\<lparr>tm_Status := ''approved''\<rparr>) = Some t'"
  shows "good_hr d (put_timesheet t' d)"
proof -
  have "timesheet_ok t" using ok t by (simp add: hr_ok_def timesheets_ok_def)
  then obtain u x where tc: "tm_ClockOut t = Some u" "tm_HoursWorked t = Some (Fin x)" "0 \<le> x"
    using assms(3) by (auto simp: timesheet_ok_def hours_ok_def split: option.splits f64.splits)
  then obtain h' where h': "numeric_5_2 (Fin x) = Some h'" and t': "t' = t\<lparr>tm_ClockIn := pg_time (tm_ClockIn t),
      tm_ClockOut := Some (pg_time u), tm_HoursWorked := Some h', tm_Status := ''approved''\<rparr>"
    using st by (auto simp: stored_timesheet_def Let_def)
  have set: "set_timesheet t' t = t\<lparr>tm_ClockOut := Some (pg_time u), tm_HoursWorked := Some h', tm_Status := ''approved''\<rparr>"
    by (simp add: set_timesheet_def t')
  show ?thesis
  proof (rule good_put_timesheet [OF ok t])
    show "timesheet_step t (set_timesheet t' t)" unfolding set by (rule approve_timesheet [OF assms(3)])
    show "timesheet_ok (set_timesheet t' t)"
      unfolding set by (simp add: timesheet_ok_def numeric_5_2_hours [OF h' _ tc(3)])
  qed (simp_all add: t')
qed

lemma good_clock_in:
  assumes ok: "hr_ok d" and "tm_ID r \<notin> tm_ID ` set (t_timesheets d)"
    and "find (\<lambda>x. tm_OrganizationID x = org \<and> tm_EmployeeID x = emp \<and> tm_Status x = ''open'') (t_timesheets d) = None"
    and "stored_timesheet \<lparr>tm_ID = tid, tm_OrganizationID = org, tm_EmployeeID = emp, tm_ShiftID = sid, tm_ClockIn = t,
      tm_ClockOut = None, tm_HoursWorked = None, tm_Status = ''open'', tm_CreatedAt = t'\<rparr> = Some r"
  shows "good_hr d (d\<lparr>t_timesheets := t_timesheets d @ [r]\<rparr>)"
proof -
  have "timesheets_ok (t_timesheets d @ [r])"
    using assms(2-4) by (intro timesheets_ok_new [OF hr_okD(2) [OF ok]])
      (auto simp: stored_timesheet_def Let_def timesheet_ok_def)
  then show ?thesis by (intro good_timesheets [OF ok]) simp
qed

lemma clocked_out:
  assumes "hr_ok d" and "t \<in> set (t_timesheets d)" and "tm_Status t = ''open''"
    and "stored_timesheet (t\<lparr>tm_ClockOut := Some u, tm_Status := ''closed'', tm_HoursWorked := Some (worked_hours t0 t1 b)\<rparr>) = Some t'"
    and "put_timesheet t' d = d'"
  shows "good_hr d d'"
proof -
  obtain x where "worked_hours t0 t1 b = Fin x" "0 \<le> x" using worked_hours_Fin by blast
  with good_clock_out [OF assms(1-3)] assms(4) have "good_hr d (put_timesheet t' d)" by simp
  then show ?thesis by (simp add: assms(5))
qed

lemma approved_timesheet:
  "hr_ok d \<Longrightarrow> t \<in> set (t_timesheets d) \<Longrightarrow> tm_Status t = ''closed'' \<Longrightarrow>
    stored_timesheet (t\<lparr>tm_Status := ''approved''\<rparr>) = Some t' \<Longrightarrow> put_timesheet t' d = d' \<Longrightarrow> good_hr d d'"
  using good_approval by blast

lemma reads_GetByID [reads_intros]: "reads (GetByID org eid)"
  unfolding GetByID_def by (intro reads_intros)

lemma reads_Get [reads_intros]: "reads (Get org eid b)"
  unfolding Get_def ListComponents_def by (intro reads_intros)

lemma reads_GetEmployee [reads_intros]: "reads (GetEmployee org eid)"
  unfolding GetEmployee_def by (intro reads_intros)

lemma reads_GetShift [reads_intros]: "reads (GetShift org sid)"
  unfolding GetShift_def by (intro reads_intros)

lemma reads_shift_break: "reads (shift_break org ts)"
  unfolding shift_break_def by (intro reads_intros)

lemma ClockIn_good:
  assumes ok: "hr_ok d"
  shows "serves env d (ClockIn org emp sid actor)"
  unfolding ClockIn_def GetOpenTimesheet_def CreateTimesheet_def hr_publishEvent_def Let_def
  apply (intro view_rules view_pool_stmt)
  using ok apply (auto simp: start_def same_outside_def good_hr_refl split: option.splits)
   apply (rule good_clock_in; assumption)+
  done

lemma ClockOut_good:
  assumes ok: "hr_ok d"
  shows "serves env d (ClockOut org tid actor)"
  unfolding ClockOut_def GetTimesheet_def UpdateTimesheet_def hr_publishEvent_def Let_def
  apply (intro view_rules view_pool_stmt view_reads [OF reads_shift_break])
  using ok apply (simp_all add: start_def same_outside_def good_hr_refl)
  apply (auto split: option.splits dest!: find_timesheetD)
  apply (rule clocked_out; assumption)+
  done

lemma ApproveTimesheet_good:
  assumes ok: "hr_ok d"
  shows "serves env d (ApproveTimesheet org tid actor)"
  unfolding ApproveTimesheet_def GetTimesheet_def UpdateTimesheet_def hr_publishEvent_def Let_def
  apply (intro view_rules view_pool_stmt view_reads [OF reads_GetEmployee])
  using ok apply (simp_all add: start_def same_outside_def good_hr_refl)
  apply (auto split: option.splits dest!: find_timesheetD)
  apply (rule approved_timesheet; assumption)+
  done

section \<open>Payrolls and absences\<close>

lemma good_new_payroll:
  assumes ok: "hr_ok d" and "py_ID p \<notin> py_ID ` set (t_payrolls d)"
    and "payroll_period p \<notin> payroll_period ` set (t_payrolls d)" and "payroll_ok p"
  shows "good_hr d (d\<lparr>t_payrolls := t_payrolls d @ [p]\<rparr>)"
  using hr_okD(3) [OF ok] assms(2-4) by (intro good_payrolls [OF ok]) (auto simp: payrolls_ok_def)

lemma payroll_step_same: "payroll_step p p' \<Longrightarrow> py_ID p' = py_ID p \<and> payroll_period p' = payroll_period p
    \<and> py_GrossSalary p' = py_GrossSalary p \<and> py_NDFL p' = py_NDFL p \<and> py_Deductions p' = py_Deductions p
    \<and> py_NetSalary p' = py_NetSalary p"
  by (cases rule: payroll_step.cases) (auto simp: payroll_period_def)

lemma payroll_step_ok: "payroll_step p p' \<Longrightarrow> payroll_ok p \<Longrightarrow> payroll_ok p'"
  by (induction rule: payroll_step.induct) (simp add: payroll_ok_def)

lemma good_put_payroll:
  assumes ok: "hr_ok d" and p: "p \<in> set (t_payrolls d)" and step: "payroll_step p (set_payroll u p)"
  shows "good_hr d (d\<lparr>t_payrolls := row_update (\<lambda>x. py_OrganizationID x = py_OrganizationID p \<and> py_ID x = py_ID p)
    (set_payroll u) (t_payrolls d)\<rparr>)"
proof -
  let ?ps = "replaced py_ID p (set_payroll u p) (t_payrolls d)"
  have ps: "payrolls_ok (t_payrolls d)" using ok by (rule hr_okD)
  then have dist: "distinct (map py_ID (t_payrolls d))" by (simp add: payrolls_ok_def)
  have eq: "row_update (\<lambda>x. py_OrganizationID x = py_OrganizationID p \<and> py_ID x = py_ID p) (set_payroll u) (t_payrolls d) = ?ps"
    by (rule row_update_replaced [OF dist p]) simp_all
  note keep = payroll_step_same [OF step]
  have "payroll_ok x" if "x \<in> set ?ps" for x
    using replaced_set [OF that] ps payroll_step_ok [OF step] p by (auto simp: payrolls_ok_def)
  moreover have "map payroll_period ?ps = map payroll_period (t_payrolls d)" "map py_ID ?ps = map py_ID (t_payrolls d)"
    using keep by (simp_all add: replaced_other [OF dist p])
  ultimately have "payrolls_ok ?ps" using ps by (simp add: payrolls_ok_def)
  moreover have "evolves py_ID payroll_step (t_payrolls d) ?ps"
    using evolves_replaced [where key = py_ID and step = payroll_step, OF dist p step] keep by simp
  ultimately show ?thesis unfolding eq by (intro good_payrolls [OF ok]) simp
qed

lemma CalculatePayroll_good:
  assumes ok: "hr_ok d"
  shows "serves env d (CalculatePayroll org inp actor)"
  unfolding CalculatePayroll_def CreatePayroll_def hr_publishEvent_def Let_def
  apply (intro view_rules view_pool_stmt view_reads [OF reads_GetEmployee])
  using ok apply (auto simp: start_def same_outside_def good_hr_refl split: if_splits
      intro!: good_new_payroll)
  apply (auto simp: payroll_ok_def)
  done

lemma ApprovePayroll_good:
  assumes ok: "hr_ok d"
  shows "serves env d (ApprovePayroll org pid actor)"
  unfolding ApprovePayroll_def GetPayroll_def UpdatePayroll_def hr_publishEvent_def Let_def
  apply (intro view_rules view_update)
  using ok apply (auto simp: start_def same_outside_def good_hr_refl dest!: find_SomeD)
  apply (rule good_put_payroll; simp add: set_payroll_def approve_payroll)
  done

lemma good_new_absence:
  assumes ok: "hr_ok d" and "ab_ID a \<notin> ab_ID ` set (t_absences d)" and "absence_ok a"
  shows "good_hr d (d\<lparr>t_absences := t_absences d @ [a]\<rparr>)"
  using hr_okD(4) [OF ok] assms(2,3) by (intro good_absences [OF ok]) (auto simp: absences_ok_def)

lemma absence_step_same: "absence_step a a' \<Longrightarrow> ab_ID a' = ab_ID a \<and> ab_OrganizationID a' = ab_OrganizationID a"
  by (cases rule: absence_step.cases) auto

lemma absence_step_ok: "absence_step a a' \<Longrightarrow> absence_ok a \<Longrightarrow> absence_ok a'"
  by (induction rule: absence_step.induct) (simp_all add: absence_ok_def)

lemma good_put_absence:
  assumes ok: "hr_ok d" and a: "a \<in> set (t_absences d)" and step: "absence_step a (set_absence u a)"
  shows "good_hr d (d\<lparr>t_absences := row_update (\<lambda>x. ab_OrganizationID x = ab_OrganizationID a \<and> ab_ID x = ab_ID a)
    (set_absence u) (t_absences d)\<rparr>)"
proof -
  let ?as = "replaced ab_ID a (set_absence u a) (t_absences d)"
  have as: "absences_ok (t_absences d)" using ok by (rule hr_okD)
  then have dist: "distinct (map ab_ID (t_absences d))" by (simp add: absences_ok_def)
  have eq: "row_update (\<lambda>x. ab_OrganizationID x = ab_OrganizationID a \<and> ab_ID x = ab_ID a) (set_absence u) (t_absences d) = ?as"
    by (rule row_update_replaced [OF dist a]) simp_all
  note keep = absence_step_same [OF step]
  have "absence_ok x" if "x \<in> set ?as" for x
    using replaced_set [OF that] as absence_step_ok [OF step] a by (auto simp: absences_ok_def)
  moreover have "map ab_ID ?as = map ab_ID (t_absences d)"
    using keep by (simp add: replaced_other [OF dist a])
  ultimately have "absences_ok ?as" using as by (simp add: absences_ok_def)
  moreover have "evolves ab_ID absence_step (t_absences d) ?as"
    using evolves_replaced [where key = ab_ID and step = absence_step, OF dist a step] keep by simp
  ultimately show ?thesis unfolding eq by (intro good_absences [OF ok]) simp
qed

lemma RequestAbsence_good:
  assumes ok: "hr_ok d"
  shows "serves env d (RequestAbsence org inp actor)"
  unfolding RequestAbsence_def CreateAbsence_def hr_publishEvent_def Let_def
  apply (intro view_rules view_pool_stmt)
  using ok apply (auto simp: start_def same_outside_def good_hr_refl intro!: good_new_absence)
  apply (auto simp: absence_ok_def)
  done

lemma ApproveAbsence_good:
  assumes ok: "hr_ok d"
  shows "serves env d (ApproveAbsence org aid actor)"
  unfolding ApproveAbsence_def GetAbsence_def UpdateAbsence_def hr_publishEvent_def Let_def
  apply (intro view_rules view_update)
  using ok apply (auto simp: start_def same_outside_def good_hr_refl dest!: find_SomeD)
  apply (rule good_put_absence; simp add: set_absence_def approve_absence)
  done

lemma RejectAbsence_good:
  assumes ok: "hr_ok d"
  shows "serves env d (RejectAbsence org aid actor)"
  unfolding RejectAbsence_def GetAbsence_def UpdateAbsence_def Let_def
  apply (intro view_rules view_update)
  using ok apply (auto simp: start_def same_outside_def good_hr_refl dest!: find_SomeD)
  apply (rule good_put_absence; simp add: set_absence_def reject_absence)
  done

section \<open>Employees\<close>

text \<open>The methods on employees work on entities and components and leave the module's tables alone.\<close>

definition hr_tables :: "'a hr_db_scheme \<Rightarrow> shift list \<times> timesheet list \<times> payroll list \<times> absence list" where
  "hr_tables d = (t_shifts d, t_timesheets d, t_payrolls d, t_absences d)"

lemma hr_tables_simps [simp]:
  "hr_tables (d\<lparr>t_events := es\<rparr>) = hr_tables d" "hr_tables (d\<lparr>t_entities := en\<rparr>) = hr_tables d"
  "hr_tables (d\<lparr>t_components := cs\<rparr>) = hr_tables d"
  by (simp_all add: hr_tables_def)

lemma frame_entity_ops [frame_intros]:
  "frame hr_tables (Create org inp actor)" "frame hr_tables (SetComponent org eid ty data actor)"
  "frame hr_tables (Update org eid upd actor)" "frame hr_tables (Get org eid b)"
  unfolding Create_def SetComponent_def Update_def Get_def GetByID_def CreateTx_def SetComponentTx_def repo_Update_def
    ListComponents_def Let_def
  by (intro frame_intros; auto simp: query_def split: if_splits)+

lemma frame_employee_ops:
  "frame hr_tables (HireEmployee org hinp actor)" "frame hr_tables (UpdateEmployee org eid uinp actor)"
  "frame hr_tables (TerminateEmployee org eid reason actor)"
  unfolding HireEmployee_def UpdateEmployee_def TerminateEmployee_def GetEmployee_def set_map_def hr_publishEvent_def Let_def
  by (intro frame_intros; simp)+

lemma good_same_tables: "hr_ok d \<Longrightarrow> hr_tables d' = hr_tables d \<Longrightarrow> good_hr d d'"
  by (simp add: good_hr_def hr_ok_def hr_moves_def hr_tables_def)

section \<open>Runs of requests\<close>

datatype hr_request =
    HHire hire_input
  | HUpdateEmployee uuid update_employee_input
  | HTerminate uuid string
  | HCreateShift create_shift_input
  | HUpdateShift uuid update_shift_input
  | HDeleteShift uuid
  | HClockIn uuid "uuid option"
  | HClockOut uuid
  | HApproveTimesheet uuid
  | HCalculatePayroll create_payroll_input
  | HApprovePayroll uuid
  | HRequestAbsence create_absence_input
  | HApproveAbsence uuid
  | HRejectAbsence uuid

fun serve_hr :: "env \<Rightarrow> uuid \<times> uuid option \<times> hr_request \<Rightarrow> 'a hr_db_scheme \<Rightarrow> 'a hr_db_scheme" where
  "serve_hr env (org, actor, HHire inp) d = committed (snd (HireEmployee org inp actor env (start d)))"
| "serve_hr env (org, actor, HUpdateEmployee eid inp) d = committed (snd (UpdateEmployee org eid inp actor env (start d)))"
| "serve_hr env (org, actor, HTerminate eid reason) d = committed (snd (TerminateEmployee org eid reason actor env (start d)))"
| "serve_hr env (org, actor, HCreateShift inp) d = committed (snd (CreateShift org inp actor env (start d)))"
| "serve_hr env (org, actor, HUpdateShift sid inp) d = committed (snd (UpdateShift org sid inp actor env (start d)))"
| "serve_hr env (org, actor, HDeleteShift sid) d = committed (snd (DeleteShift org sid env (start d)))"
| "serve_hr env (org, actor, HClockIn emp sid) d = committed (snd (ClockIn org emp sid actor env (start d)))"
| "serve_hr env (org, actor, HClockOut tid) d = committed (snd (ClockOut org tid actor env (start d)))"
| "serve_hr env (org, actor, HApproveTimesheet tid) d = committed (snd (ApproveTimesheet org tid actor env (start d)))"
| "serve_hr env (org, actor, HCalculatePayroll inp) d = committed (snd (CalculatePayroll org inp actor env (start d)))"
| "serve_hr env (org, actor, HApprovePayroll pid) d = committed (snd (ApprovePayroll org pid actor env (start d)))"
| "serve_hr env (org, actor, HRequestAbsence inp) d = committed (snd (RequestAbsence org inp actor env (start d)))"
| "serve_hr env (org, actor, HApproveAbsence aid) d = committed (snd (ApproveAbsence org aid actor env (start d)))"
| "serve_hr env (org, actor, HRejectAbsence aid) d = committed (snd (RejectAbsence org aid actor env (start d)))"

lemma serve_hr_good: "hr_ok d \<Longrightarrow> good_hr d (serve_hr env r d)"
proof (induction env r d rule: serve_hr.induct)
qed (simp_all add: wp_left CreateShift_good UpdateShift_good DeleteShift_good ClockIn_good ClockOut_good
    ApproveTimesheet_good CalculatePayroll_good ApprovePayroll_good RequestAbsence_good ApproveAbsence_good
    RejectAbsence_good good_same_tables frame_run [OF frame_employee_ops(1)] frame_run [OF frame_employee_ops(2)]
    frame_run [OF frame_employee_ops(3)])

interpretation hr: service hr_moves serve_hr hr_ok
  using serve_hr_good [unfolded good_hr_def]
  by unfold_locales (blast intro: hr_moves_refl hr_moves_trans)+

section \<open>Amounts and days\<close>

lemma timesheet_steps_approved: "timesheet_step\<^sup>*\<^sup>* t t' \<Longrightarrow> tm_Status t = ''approved'' \<Longrightarrow> t' = t"
  by (erule converse_rtranclpE) (auto elim: timesheet_step.cases)

lemma payroll_steps_approved: "payroll_step\<^sup>*\<^sup>* p p' \<Longrightarrow> py_Status p = ''approved'' \<Longrightarrow> p' = p"
  by (erule converse_rtranclpE) (auto elim: payroll_step.cases)

lemma absence_steps_decided: "absence_step\<^sup>*\<^sup>* a a' \<Longrightarrow> ab_Status a \<noteq> ''pending'' \<Longrightarrow> a' = a"
  by (erule converse_rtranclpE) (auto elim: absence_step.cases)

text \<open>The tax of a salary below \<open>2 ^ 45\<close> kopecks is within half a kopeck and the rounding of 13%.\<close>

lemma product_near:
  fixes g c :: rat
  assumes "0 < g" and "g < 2 ^ 45" and "\<bar>c - 13 / 100\<bar> \<le> 1 / 2 ^ 56"
  shows "\<bar>g * c - g * (13 / 100)\<bar> \<le> 1 / 2 ^ 11" and "\<bar>g * c\<bar> < 2 powi 43"
proof -
  have "\<bar>g * c - g * (13 / 100)\<bar> = g * \<bar>c - 13 / 100\<bar>"
    using assms by (simp only: right_diff_distrib [symmetric] abs_mult abs_of_pos)
  also have "\<dots> \<le> 2 ^ 45 * (1 / 2 ^ 56)" using assms by (intro mult_mono) simp_all
  finally show gc: "\<bar>g * c - g * (13 / 100)\<bar> \<le> 1 / 2 ^ 11" by simp
  define x where "x = g * c"
  have "- (1 / 2 ^ 11) \<le> x - g * (13 / 100)" "x - g * (13 / 100) \<le> 1 / 2 ^ 11"
    using gc unfolding x_def by (simp_all only: abs_le_iff) linarith+
  then have "x < 8796093022208" "- 8796093022208 < x" using assms(1,2) by simp_all
  then show "\<bar>g * c\<bar> < 2 powi 43" by (simp add: abs_less_iff x_def [symmetric])
qed

lemma near_sum:
  fixes a b c d :: rat
  assumes "\<bar>b - d\<bar> \<le> 1 / 2 ^ 11" and "\<bar>a - b\<bar> \<le> 1 / 2 ^ 11" and "\<bar>c - a\<bar> \<le> 1 / 2"
  shows "\<bar>c - d\<bar> \<le> 1 / 2 + 1 / 2 ^ 10"
proof -
  have "\<bar>c - d\<bar> \<le> \<bar>c - a\<bar> + (\<bar>a - b\<bar> + \<bar>b - d\<bar>)" by linarith
  also have "\<dots> \<le> 1 / 2 + (1 / 2 ^ 11 + 1 / 2 ^ 11)" by (intro add_mono assms)
  finally show ?thesis by simp
qed

lemma near_bounds:
  fixes g n :: rat
  assumes "0 < g" and "g < 2 ^ 45" and "\<bar>n - g * (13 / 100)\<bar> \<le> 1 / 2 + 1 / 2 ^ 10"
  shows "- (2 ^ 63) \<le> n" and "n < 2 ^ 63" and "\<bar>100 * n - 13 * g\<bar> \<le> 51"
proof -
  have "n - g * (13 / 100) \<le> 513 / 1024" "- (n - g * (13 / 100)) \<le> 513 / 1024"
    using abs_le_D1 [OF assms(3)] abs_le_D2 [OF assms(3)] by simp_all
  then show "- (2 ^ 63) \<le> n" "n < 2 ^ 63" "\<bar>100 * n - 13 * g\<bar> \<le> 51"
    using assms(1,2) unfolding abs_le_iff by simp_all
qed

lemma ndfl_near:
  assumes "0 < sint g" and "sint g < 2 ^ 45"
  shows "\<bar>100 * sint (ndfl_of g) - 13 * sint g\<bar> \<le> 51"
proof -
  define G :: rat where "G = of_int (sint g)"
  let ?c = "rnd (13 / 100)"
  have c: "\<bar>?c - 13 / 100\<bar> \<le> 1 / 2 ^ 56"
    using rnd_error_below [of "13 / 100" "- 2"] by (simp add: powi2_minus_numeral)
  have "G < of_int (2 ^ 45)" unfolding G_def using assms(2) by (simp only: of_int_less_iff)
  moreover have "of_int 0 < G" unfolding G_def using assms(1) by (simp only: of_int_less_iff)
  ultimately have g: "0 < G" "G < 2 ^ 45" by simp_all
  note gc = product_near [OF g c]
  have r: "f64_round (G * ?c) = Fin (rnd (G * ?c))"
    using gc(2) by (intro f64_round_bounded [of _ 43]) simp_all
  have err: "\<bar>rnd (G * ?c) - G * ?c\<bar> \<le> 1 / 2 ^ 11"
    using rnd_error_below [OF gc(2)] by (simp add: powi2_minus_numeral)
  let ?n = "rha (rnd (G * ?c))"
  have n: "\<bar>of_int ?n - rnd (G * ?c)\<bar> \<le> 1 / 2" by (rule rha_error)
  note near = near_bounds [OF g near_sum [OF gc(1) err n]]
  have "f64_of_int64 g = Fin G"
    using assms unfolding f64_of_int64_def G_def by (intro f64_of_int_small) simp
  moreover have "f64_round (13 / 100) = Fin ?c" by (rule f64_round_bounded [of _ 0]) simp_all
  ultimately have "ndfl_of g = int64_of_f64 (Fin (of_int ?n))"
    by (simp add: ndfl_of_def r)
  moreover have "- (2 ^ 63) \<le> ?n \<and> ?n < 2 ^ 63"
    using near(1,2) by (simp only: of_int_less_iff [symmetric, where 'a = rat] of_int_le_iff [symmetric, where 'a = rat]) simp
  ultimately have "sint (ndfl_of g) = ?n" by (simp add: sint64_of_int)
  moreover have "\<bar>100 * ?n - 13 * sint g\<bar> \<le> 51"
  proof -
    have "(of_int \<bar>100 * ?n - 13 * sint g\<bar> :: rat) = \<bar>100 * of_int ?n - 13 * G\<bar>"
      unfolding G_def by (simp only: of_int_abs of_int_diff of_int_mult of_int_numeral)
    then have "(of_int \<bar>100 * ?n - 13 * sint g\<bar> :: rat) \<le> of_int 51"
      using near(3) by (simp only: of_int_numeral)
    then show ?thesis by (simp only: of_int_le_iff)
  qed
  ultimately show ?thesis by simp
qed

lemma net_salary_value:
  assumes "0 < sint g" and "sint g < 2 ^ 45" and "0 \<le> sint x" and "sint x < 2 ^ 45"
  shows "sint (net_salary g x) = max 0 (sint g - sint (ndfl_of g) - sint x)"
proof -
  have n: "0 \<le> sint (ndfl_of g)" "sint (ndfl_of g) \<le> 2 ^ 45" using ndfl_near [OF assms(1,2)] assms by simp_all
  have 1: "sint (g - ndfl_of g) = sint g - sint (ndfl_of g)" using n assms by (intro sint64_minus) simp_all
  have "sint (g - ndfl_of g - x) = sint g - sint (ndfl_of g) - sint x"
    using n assms by (subst sint64_minus) (simp_all add: 1)
  then show ?thesis by (simp add: net_salary_def slt_def Let_def max_def)
qed

lemma absence_days_eq:
  assumes "midnight c0 \<le> midnight c1" and "day_number c1 - day_number c0 \<le> 106751"
  shows "absence_days c0 c1 = day_number c1 - day_number c0 + 1"
proof -
  let ?n = "day_number c1 - day_number c0"
  have n: "0 \<le> ?n" "?n \<le> 106751" using assms by (simp_all add: midnight_def)
  have diff: "midnight c1 - midnight c0 = ?n * 86400000000000" by (simp add: midnight_def algebra_simps)
  have w: "sint (time_sub (midnight c1) (midnight c0)) = ?n * 86400000000000"
    using n unfolding time_sub_def diff by (subst sint64_of_int) simp_all
  have "?n * 86400000000000 = ?n * 24 * 3600000000000" by simp
  then have "?n * 86400000000000 div 3600000000000 = ?n * 24" "?n * 86400000000000 mod 3600000000000 = 0"
    by (simp_all only: nonzero_mult_div_cancel_right mod_mult_self2_is_0 zero_neq_numeral not_False_eq_True)
  then have "Hours (time_sub (midnight c1) (midnight c0)) = f64_round (of_int (?n * 24))"
    using n unfolding Hours_def w by (simp add: nonneg_sdiv f64_of_int_small algebra_simps)
  also have "\<dots> = Fin (of_int (?n * 24))" using n by (intro f64_round_of_int) simp
  finally have h: "Hours (time_sub (midnight c1) (midnight c0)) = Fin (of_int (?n * 24))" .
  have q: "(of_int (?n * 24) / 24 :: rat) = of_int ?n" by (simp only: of_int_mult of_int_numeral) simp
  have "fdiv (Hours (time_sub (midnight c1) (midnight c0))) (Fin 24) = f64_round (of_int ?n)"
    unfolding h q [symmetric] by (simp only: fdiv.simps) simp
  also have "\<dots> = Fin (of_int ?n)" using n by (intro f64_round_of_int) simp
  finally have "int64_of_f64 (fdiv (Hours (time_sub (midnight c1) (midnight c0))) (Fin 24)) = word_of_int ?n"
    using n by (simp only:) (rule int64_of_f64_of_int, simp_all)
  moreover have "sint (word_of_int ?n :: int64) = ?n" using n by (intro sint64_of_int) simp_all
  then have "sint (word_of_int ?n + 1 :: int64) = ?n + 1"
    using n by (subst sint64_plus) (simp_all del: of_int_diff)
  ultimately show ?thesis by (simp add: absence_days_def)
qed

section \<open>A timesheet that was forgotten\<close>

lemma Hours_ge:
  assumes "3600000000000000 \<le> sint w"
  shows "\<exists>x. Hours w = Fin x \<and> 1000 \<le> x \<and> x \<le> 2 powi 22"
proof -
  obtain x where x: "Hours w = Fin x" "x \<le> 2 powi 22" using Hours_Fin [of w] assms by auto
  let ?h = "sint w div 3600000000000" and ?n = "sint w mod 3600000000000"
  have h: "1000 \<le> ?h" "?h \<le> 2562047" using assms sint64_range(2) [of w] by simp_all
  have n: "0 \<le> ?n" "?n < 3600000000000" by simp_all
  have f: "f64_of_int ?h = Fin (of_int ?h)" "f64_of_int ?n = Fin (of_int ?n)"
    using h n by (simp_all add: f64_of_int_small)
  have "(of_int ?n :: rat) \<le> of_int 3600000000000" using n(2) by (simp only: of_int_le_iff)
  then have q: "f64_round (of_int ?n / 3600000000000) = Fin (rnd (of_int ?n / 3600000000000))"
      "0 \<le> rnd (of_int ?n / 3600000000000)"
    using Fin_round [of "of_int ?n / 3600000000000" 0] n(1) by simp_all
  have "f64_round (of_int ?h + rnd (of_int ?n / 3600000000000)) = Fin x"
    using x(1) f q(1) assms by (simp add: Hours_def nonneg_sdiv)
  then have "x = rnd (of_int ?h + rnd (of_int ?n / 3600000000000))"
    by (auto simp: f64_round_def Let_def split: if_splits)
  moreover have "(of_int 1000 :: rat) \<le> of_int ?h" using h(1) by (simp only: of_int_le_iff)
  then have "rnd (of_int 1000) \<le> rnd (of_int ?h + rnd (of_int ?n / 3600000000000))"
    using q(2) by (intro rnd_mono) simp
  ultimately show ?thesis using x rnd_of_int [of 1000] by simp
qed

lemma long_hours_overflow:
  assumes "t0 + 3600000000000000 \<le> t1"
  shows "numeric_5_2 (worked_hours t0 t1 0) = None"
proof -
  have w: "3600000000000000 \<le> sint (time_sub t1 t0)"
    using assms unfolding time_sub_def by (subst sint64_of_int) simp_all
  then obtain x where x: "Hours (time_sub t1 t0) = Fin x" "1000 \<le> x" "x \<le> 2 powi 22" using Hours_ge by blast
  have y: "f64_round (x * 100) = Fin (rnd (x * 100))" "rnd (x * 100) \<le> 2 powi 29"
    using Fin_round [of "x * 100" 29] x by simp_all
  have "rnd (of_int 100000) \<le> rnd (x * 100)" using x(2) by (intro rnd_mono) simp
  then have low: "of_int 100000 \<le> rnd (x * 100)" using rnd_of_int [of 100000] by simp
  let ?k = "rha (rnd (x * 100))"
  have k: "100000 \<le> ?k" using rha_mono [OF low] by (simp only: rha_of_int)
  have k': "?k \<le> 2 ^ 29" using rha_mono [of "rnd (x * 100)" "of_int (2 ^ 29)"] y(2) by (simp only: rha_of_int) simp
  then have "(of_int ?k :: rat) \<le> of_int (2 ^ 29)" by (simp only: of_int_le_iff)
  then have z: "f64_round (of_int ?k / 100) = Fin (rnd (of_int ?k / 100))"
    using Fin_round [of "of_int ?k / 100" 29] k by simp
  have "(of_int 100000 :: rat) \<le> of_int ?k" using k by (simp only: of_int_le_iff)
  then have "rnd (of_int 1000) \<le> rnd (of_int ?k / 100)" by (intro rnd_mono) simp
  then have "1000 \<le> rnd (of_int ?k / 100)" using rnd_of_int [of 1000] by simp
  then have "of_int 100000 \<le> rnd (of_int ?k / 100) * 100" by simp
  then have "100000 \<le> rha (rnd (of_int ?k / 100) * 100)" using rha_mono by (metis rha_of_int)
  moreover have "\<not> slt (time_sub t1 t0) 0" using w by (simp add: slt_def)
  ultimately show ?thesis
    using x y z by (simp add: worked_hours_def)
qed

lemma ClockOut_forgotten:
  assumes ts: "find (timesheet_row org tid) (t_timesheets d) = Some ts" and none: "tm_ShiftID ts = None"
    and late: "\<And>n. tm_ClockIn ts + 3600000000000000 \<le> clock env n"
  shows "wp env (ClockOut org tid actor) (\<lambda>_ _. False) (\<lambda>_ w'. committed w' = d) (start d)"
proof -
  have over: "stored_timesheet (ts\<lparr>tm_ClockOut := Some (clock env n), tm_Status := ''closed'',
      tm_HoursWorked := Some (worked_hours (tm_ClockIn ts) (clock env n) 0)\<rparr>) = None" for n
    using long_hours_overflow [OF late] by (simp add: stored_timesheet_def Let_def)
  have 0: "wp env (shift_break org t) Q E w" if "t = ts" and "Q 0 w" for t Q E and w :: "'a hr_db_scheme world"
    using that none by (simp add: shift_break_def wp_ret)
  show ?thesis
    unfolding ClockOut_def GetTimesheet_def UpdateTimesheet_def Let_def
    apply (intro view_rules view_pool_stmt 0)
    using ts apply (auto simp: start_def same_outside_def over)
    done
qed

lemma ClockIn_refused:
  assumes "find (\<lambda>x. tm_OrganizationID x = org \<and> tm_EmployeeID x = emp \<and> tm_Status x = ''open'') (t_timesheets d) \<noteq> None"
  shows "wp env (ClockIn org emp sid actor) (\<lambda>_ _. False) (\<lambda>_ w'. committed w' = d) (start d)"
  unfolding ClockIn_def GetOpenTimesheet_def Let_def
  apply (intro view_rules view_pool_stmt)
  using assms apply (auto simp: start_def same_outside_def query_def)
  done

lemma evolves_final:
  assumes "evolves key step rs rs'" and "\<And>r r'. step\<^sup>*\<^sup>* r r' \<Longrightarrow> p r \<Longrightarrow> r' = r"
  shows "r \<in> set rs \<and> p r \<longrightarrow> r \<in> set rs'"
  using assms by (metis evolvesE)

lemma wp_case: "wp env m (\<lambda>_ _. False) (\<lambda>_ w. committed w = d) w0 \<Longrightarrow>
    (case m env w0 of (Inl _, w) \<Rightarrow> committed w = d | (Inr _, _) \<Rightarrow> False) = True"
  by (auto simp: wp_def split: prod.splits sum.splits)

lemma filter_eq_singleton: "distinct xs \<Longrightarrow> x \<in> set xs \<Longrightarrow> filter (\<lambda>y. y = x) xs = [x]"
  by (induction xs) (auto simp: filter_empty_conv)

section \<open>Properties\<close>

text \<open>C24: No employee is on two shifts at once: after any requests, whichever of their statements failed,
  of two shifts of an employee one ends no later than the other begins.\<close>

theorem shifts_never_overlap:
  assumes "hr_ok d" and "d' = run serve_hr rs d" and "s \<in> set (t_shifts d')" and "s' \<in> set (t_shifts d')"
    and "sh_OrganizationID s = sh_OrganizationID s'" and "sh_EmployeeID s = sh_EmployeeID s'" and "s \<noteq> s'"
  shows "sh_EndTime s \<le> sh_StartTime s' \<or> sh_EndTime s' \<le> sh_StartTime s"
proof -
  have "shifts_ok (t_shifts d')" using hr_okD(1) [OF hr.run_sound [OF assms(1)]] assms(2) by simp
  then have "\<not> overlap s s'" using assms(3,4,7) by (auto simp: shifts_ok_def)
  then show ?thesis using assms(5,6) by (auto simp: overlap_def)
qed

text \<open>C25: An employee has at most one open timesheet, an open one has neither an end nor hours, and the
  hours of every other are at least 0 and below 1000.\<close>

theorem one_open_timesheet:
  assumes "hr_ok d" and "d' = run serve_hr rs d" and "t \<in> set (t_timesheets d')"
  shows "if tm_Status t = ''open''
    then tm_ClockOut t = None \<and> tm_HoursWorked t = None
      \<and> filter (\<lambda>x. tm_OrganizationID x = tm_OrganizationID t \<and> tm_EmployeeID x = tm_EmployeeID t
          \<and> tm_Status x = ''open'') (t_timesheets d') = [t]
    else (\<exists>x. tm_HoursWorked t = Some (Fin x) \<and> 0 \<le> x \<and> x < 1000)"
proof -
  have ok: "timesheets_ok (t_timesheets d')" using hr_okD(2) [OF hr.run_sound [OF assms(1)]] assms(2) by simp
  then have t: "timesheet_ok t" using assms(3) by (simp add: timesheets_ok_def)
  let ?p = "\<lambda>x. tm_OrganizationID x = tm_OrganizationID t \<and> tm_EmployeeID x = tm_EmployeeID t \<and> tm_Status x = ''open''"
  have "filter ?p (t_timesheets d') = [t]" if "tm_Status t = ''open''"
  proof -
    have "?p x \<longleftrightarrow> x = t" if "x \<in> set (t_timesheets d')" for x
      using ok that assms(3) \<open>tm_Status t = ''open''\<close> by (auto simp: timesheets_ok_def open_for_def)
    then have "filter ?p (t_timesheets d') = filter (\<lambda>x. x = t) (t_timesheets d')" by (rule filter_cong [OF refl])
    moreover have "distinct (t_timesheets d')" using ok by (simp add: timesheets_ok_def distinct_map)
    ultimately show ?thesis using assms(3) by (simp add: filter_eq_singleton)
  qed
  then show ?thesis
    using t by (auto simp: timesheet_ok_def hours_ok_def split: option.splits f64.splits if_splits)
qed

text \<open>C26: What was decided stays: a payroll that is approved, a timesheet that is approved and an absence
  that is approved or rejected are found unchanged after any requests.\<close>

theorem decisions_are_final:
  assumes "hr_ok d" and "d' = run serve_hr rs d"
  shows "(p \<in> set (t_payrolls d) \<and> py_Status p = ''approved'' \<longrightarrow> p \<in> set (t_payrolls d'))
    \<and> (t \<in> set (t_timesheets d) \<and> tm_Status t = ''approved'' \<longrightarrow> t \<in> set (t_timesheets d'))
    \<and> (a \<in> set (t_absences d) \<and> ab_Status a \<noteq> ''pending'' \<longrightarrow> a \<in> set (t_absences d'))"
proof -
  have "hr_moves d d'" using hr.run_moves [OF assms(1)] assms(2) by simp
  then have moves: "evolves tm_ID timesheet_step (t_timesheets d) (t_timesheets d')"
      "evolves py_ID payroll_step (t_payrolls d) (t_payrolls d')" "evolves ab_ID absence_step (t_absences d) (t_absences d')"
    by (simp_all add: hr_moves_def)
  show ?thesis
    by (intro conjI evolves_final [OF moves(1)] evolves_final [OF moves(2)] evolves_final [OF moves(3)]
        timesheet_steps_approved payroll_steps_approved absence_steps_decided)
qed

text \<open>C27: The amounts of every payroll, for a salary and deductions below \<open>2 ^ 45\<close> kopecks: the tax is 13% of
  the salary to the nearest kopeck, up to 1/100, and what is paid is the rest less the deductions,
  never negative.\<close>

theorem payroll_amounts:
  assumes "hr_ok d" and "d' = run serve_hr rs d" and "p \<in> set (t_payrolls d')"
    and "0 < sint (py_GrossSalary p)" and "sint (py_GrossSalary p) < 2 ^ 45"
    and "0 \<le> sint (py_Deductions p)" and "sint (py_Deductions p) < 2 ^ 45"
  shows "\<bar>100 * sint (py_NDFL p) - 13 * sint (py_GrossSalary p)\<bar> \<le> 51
    \<and> sint (py_NetSalary p) = max 0 (sint (py_GrossSalary p) - sint (py_NDFL p) - sint (py_Deductions p))"
proof -
  have "payroll_ok p" using hr_okD(3) [OF hr.run_sound [OF assms(1)]] assms(2,3) by (simp add: payrolls_ok_def)
  then show ?thesis
    using ndfl_near [OF assms(4,5)] net_salary_value [OF assms(4-7)] by (simp add: payroll_ok_def)
qed

text \<open>A timesheet that was forgotten is stuck: a thousand hours after an employee clocked in without a
  shift, clocking out is an error and changes nothing, whatever else happens, and so is every new
  attempt to clock in.\<close>

lemma forgotten_timesheet:
  assumes "find (timesheet_row org tid) (t_timesheets d) = Some ts" and "tm_ShiftID ts = None"
    and "tm_Status ts = ''open''" and "\<And>n. tm_ClockIn ts + 1000 * (60 * 60 * 1000000000) \<le> clock env n"
  shows "(case ClockOut org tid actor env (start d) of (Inl _, w) \<Rightarrow> committed w = d | (Inr _, _) \<Rightarrow> False)
    \<and> (case ClockIn org (tm_EmployeeID ts) sid actor env (start d) of (Inl _, w) \<Rightarrow> committed w = d | (Inr _, _) \<Rightarrow> False)"
proof -
  have "ts \<in> set (t_timesheets d)" "tm_OrganizationID ts = org" using find_timesheetD [OF assms(1)] by simp_all
  then have "find (\<lambda>x. tm_OrganizationID x = org \<and> tm_EmployeeID x = tm_EmployeeID ts \<and> tm_Status x = ''open'')
      (t_timesheets d) \<noteq> None"
    using assms(3) by (auto simp: find_None_iff)
  then have "wp env (ClockIn org (tm_EmployeeID ts) sid actor) (\<lambda>_ _. False) (\<lambda>_ w'. committed w' = d) (start d)"
    by (rule ClockIn_refused)
  moreover have "wp env (ClockOut org tid actor) (\<lambda>_ _. False) (\<lambda>_ w'. committed w' = d) (start d)"
    by (rule ClockOut_forgotten [OF assms(1,2)]) (use assms(4) in simp)
  ultimately show ?thesis by (simp only: wp_case)
qed

text \<open>An absence counts its days, both ends included; the differences are exact up to the 292 years
  of a \<open>time.Duration\<close>.\<close>

lemma absences_count_days:
  assumes "hr_ok d" and "d' = run serve_hr rs d" and "a \<in> set (t_absences d')"
    and "day_number (ab_EndDate a) - day_number (ab_StartDate a) \<le> 106751"
  shows "ab_Days a = day_number (ab_EndDate a) - day_number (ab_StartDate a) + 1 \<and> 1 \<le> ab_Days a"
proof -
  have a: "absence_ok a" using hr_okD(4) [OF hr.run_sound [OF assms(1)]] assms(2,3) by (simp add: absences_ok_def)
  then have "ab_Days a = day_number (ab_EndDate a) - day_number (ab_StartDate a) + 1"
    using absence_days_eq assms(4) by (simp add: absence_ok_def)
  moreover have "day_number (ab_StartDate a) \<le> day_number (ab_EndDate a)" using a by (simp add: absence_ok_def midnight_def)
  ultimately show ?thesis by simp
qed

section \<open>Witnesses\<close>

text \<open>An employee with two shifts of a day, an open timesheet and one that is approved, a payroll and an
  absence, both approved.\<close>

definition sample_shift :: "uuid \<Rightarrow> time \<Rightarrow> time \<Rightarrow> shift" where
  "sample_shift sid t0 t1 = \<lparr>sh_ID = sid, sh_OrganizationID = 1, sh_EmployeeID = 5, sh_LocationID = None,
     sh_StartTime = t0, sh_EndTime = t1, sh_BreakMinutes = 0, sh_Status = ''scheduled'', sh_Notes = '''', sh_CreatedAt = 0\<rparr>"

definition sample_open :: timesheet where
  "sample_open = \<lparr>tm_ID = 20, tm_OrganizationID = 1, tm_EmployeeID = 5, tm_ShiftID = None, tm_ClockIn = 1000,
     tm_ClockOut = None, tm_HoursWorked = None, tm_Status = ''open'', tm_CreatedAt = 0\<rparr>"

definition sample_approved :: timesheet where
  "sample_approved = sample_open\<lparr>tm_ID := 21, tm_ClockOut := Some 2000, tm_HoursWorked := Some (Fin 8),
     tm_Status := ''approved''\<rparr>"

definition sample_payroll :: payroll where
  "sample_payroll = \<lparr>py_ID = 30, py_OrganizationID = 1, py_EmployeeID = 5, py_Year = 2024, py_Month = 5,
     py_GrossSalary = 10000000, py_NDFL = ndfl_of 10000000, py_Deductions = 5000,
     py_NetSalary = net_salary 10000000 5000, py_Status = ''approved'', py_ApprovedAt = Some 7,
     py_ApprovedBy = Some 8, py_CreatedAt = 0\<rparr>"

definition sample_absence :: absence where
  "sample_absence = (let c0 = \<lparr>c_Year = 2024, c_Month = 2, c_Day = 28\<rparr>; c1 = \<lparr>c_Year = 2024, c_Month = 3, c_Day = 1\<rparr> in
     \<lparr>ab_ID = 40, ab_OrganizationID = 1, ab_EmployeeID = 5, ab_Type = ''vacation'', ab_StartDate = c0, ab_EndDate = c1,
      ab_Days = absence_days c0 c1, ab_Status = ''approved'', ab_Notes = '''', ab_ApprovedBy = None, ab_CreatedAt = 0\<rparr>)"

definition sample_hr :: hr_db where
  "sample_hr = \<lparr>t_events = [], t_entities = [], t_components = [],
     t_shifts = [sample_shift 10 1000 5000, sample_shift 11 5000 9000], t_timesheets = [sample_open, sample_approved],
     t_payrolls = [sample_payroll], t_absences = [sample_absence]\<rparr>"

lemma sample_days: "day_number \<lparr>c_Year = 2024, c_Month = 2, c_Day = 28\<rparr> = 738944"
    "day_number \<lparr>c_Year = 2024, c_Month = 3, c_Day = 1\<rparr> = 738946"
  by code_simp+

lemma sample_hr_ok: "hr_ok sample_hr"
proof -
  have "shifts_ok (t_shifts sample_hr)"
    by (simp add: sample_hr_def shifts_ok_def overlap_def sample_shift_def)
  moreover have "timesheets_ok (t_timesheets sample_hr)"
    by (simp add: sample_hr_def timesheets_ok_def open_for_def sample_open_def sample_approved_def timesheet_ok_def hours_ok_def)
  moreover have "payrolls_ok (t_payrolls sample_hr)"
    by (simp add: sample_hr_def payrolls_ok_def payroll_ok_def sample_payroll_def)
  moreover have "absences_ok (t_absences sample_hr)"
    by (simp add: sample_hr_def absences_ok_def absence_ok_def sample_absence_def midnight_def sample_days Let_def)
  ultimately show ?thesis by (simp add: hr_ok_def)
qed

text \<open>The same after a third shift is booked.\<close>

definition booked_shift :: create_shift_input where
  "booked_shift = \<lparr>csh_EmployeeID = 5, csh_LocationID = None, csh_StartTime = 9000, csh_EndTime = 12000,
     csh_BreakMinutes = 30, csh_Notes = ''''\<rparr>"

definition booked_hr :: hr_db where
  "booked_hr = run serve_hr [(env_ok Some, (1, None, HCreateShift booked_shift))] sample_hr"

lemma booked_tables:
  "t_shifts booked_hr = [sample_shift 10 1000 5000, sample_shift 11 5000 9000,
     (sample_shift 1001 9000 12000)\<lparr>sh_BreakMinutes := 30, sh_CreatedAt := 2\<rparr>]"
  "t_timesheets booked_hr = [sample_open, sample_approved]" "t_payrolls booked_hr = [sample_payroll]"
  "t_absences booked_hr = [sample_absence]"
  unfolding booked_hr_def
  by (simp_all add: CreateShift_def HasOverlappingShift_def repo_CreateShift_def hr_publishEvent_def booked_shift_def run_simps
      sample_hr_def sample_shift_def overlapping_def stored_shift_def int4_ok_def pg_time_def uuid_nil_def
      time_zero_def row_insert_def query_def)

theorem shifts_never_overlap_witness:
  "sh_EndTime (sample_shift 10 1000 5000) \<le> sh_StartTime ((sample_shift 1001 9000 12000)\<lparr>sh_BreakMinutes := 30, sh_CreatedAt := 2\<rparr>)
   \<or> 12000 \<le> sh_StartTime (sample_shift 10 1000 5000)"
  using shifts_never_overlap [OF sample_hr_ok booked_hr_def, of "sample_shift 10 1000 5000"
      "(sample_shift 1001 9000 12000)\<lparr>sh_BreakMinutes := 30, sh_CreatedAt := 2\<rparr>"]
  by (simp add: booked_tables sample_shift_def)

theorem one_open_timesheet_witness:
  "filter (\<lambda>x. tm_OrganizationID x = 1 \<and> tm_EmployeeID x = 5 \<and> tm_Status x = ''open'') (t_timesheets booked_hr) = [sample_open]"
  using one_open_timesheet [OF sample_hr_ok booked_hr_def, of sample_open]
  by (simp add: booked_tables sample_open_def)

theorem decisions_are_final_witness:
  "sample_payroll \<in> set (t_payrolls booked_hr) \<and> sample_approved \<in> set (t_timesheets booked_hr)
   \<and> sample_absence \<in> set (t_absences booked_hr)"
  using decisions_are_final [OF sample_hr_ok booked_hr_def, of sample_payroll sample_approved sample_absence]
  by (simp add: sample_hr_def sample_payroll_def sample_approved_def sample_absence_def Let_def)

theorem payroll_amounts_witness:
  "\<bar>100 * sint (ndfl_of 10000000) - 130000000\<bar> \<le> 51"
  using payroll_amounts [OF sample_hr_ok booked_hr_def, of sample_payroll]
  by (simp add: booked_tables sample_payroll_def)

theorem forgotten_timesheet_witness:
  "case ClockOut 1 20 None ((env_ok Some)\<lparr>clock := \<lambda>_. 10000000000000000\<rparr>) (start sample_hr) of
    (Inl _, w) \<Rightarrow> committed w = sample_hr | (Inr _, _) \<Rightarrow> False"
  by (rule forgotten_timesheet [of 1 20 sample_hr sample_open _ None None, THEN conjunct1])
    (simp_all add: sample_hr_def sample_open_def timesheet_row_def)

theorem absences_count_days_witness: "ab_Days sample_absence = 3"
  using absences_count_days [OF sample_hr_ok booked_hr_def, of sample_absence]
  by (simp add: booked_tables sample_absence_def sample_days Let_def)

end
