(* ===== verification/Secrets.thy ===== *)
theory Secrets
  imports Errs
begin

text \<open>
  \<open>internal/core/auth/argon2.go\<close>: how a password is hashed and checked. The hash function itself is
  a third-party package, and the bytes of the salt are random: both are arguments here. What the
  file does with them is modelled, with the parts of the standard library it uses: base64 without
  padding, \<open>strings.Split\<close> and the verb \<open>%d\<close> of \<open>fmt.Sscanf\<close> (of the white space it skips, that of
  ASCII).
\<close>

type_synonym id_key = "string \<Rightarrow> string \<Rightarrow> nat \<Rightarrow> nat \<Rightarrow> nat \<Rightarrow> nat \<Rightarrow> string"

section \<open>base64.RawStdEncoding\<close>

definition byte :: "char \<Rightarrow> nat" where
  "byte c = of_char c"

definition b64_char :: "nat \<Rightarrow> char" where
  "b64_char n = char_of (if n < 26 then 65 + n else if n < 52 then 71 + n else if n < 62 then n - 4
     else if n = 62 then 43 else 47)"

definition b64_val :: "char \<Rightarrow> nat option" where
  "b64_val c = (let n = byte c in
     if 65 \<le> n \<and> n \<le> 90 then Some (n - 65) else if 97 \<le> n \<and> n \<le> 122 then Some (n - 71)
     else if 48 \<le> n \<and> n \<le> 57 then Some (n + 4) else if n = 43 then Some 62 else if n = 47 then Some 63 else None)"

fun EncodeToString :: "string \<Rightarrow> string" where
  "EncodeToString (a # b # c # s) =
     b64_char (byte a div 4) # b64_char (byte a mod 4 * 16 + byte b div 16)
     # b64_char (byte b mod 16 * 4 + byte c div 64) # b64_char (byte c mod 64) # EncodeToString s"
| "EncodeToString [a, b] =
     [b64_char (byte a div 4), b64_char (byte a mod 4 * 16 + byte b div 16), b64_char (byte b mod 16 * 4)]"
| "EncodeToString [a] = [b64_char (byte a div 4), b64_char (byte a mod 4 * 16)]"
| "EncodeToString [] = []"

text \<open>Line breaks are skipped, what the bits of a last short group do not fill is dropped.\<close>

fun sextets :: "nat list \<Rightarrow> string option" where
  "sextets (w # x # y # z # ns) = map_option (\<lambda>s. char_of (w * 4 + x div 16) # char_of (x mod 16 * 16 + y div 4)
     # char_of (y mod 4 * 64 + z) # s) (sextets ns)"
| "sextets [w, x, y] = Some [char_of (w * 4 + x div 16), char_of (x mod 16 * 16 + y div 4)]"
| "sextets [w, x] = Some [char_of (w * 4 + x div 16)]"
| "sextets [w] = None"
| "sextets [] = Some []"

definition line_break :: "char \<Rightarrow> bool" where
  "line_break c \<longleftrightarrow> byte c = 10 \<or> byte c = 13"

definition DecodeString :: "string \<Rightarrow> string option" where
  "DecodeString s = (let vs = map b64_val (filter (\<lambda>c. \<not> line_break c) s) in
     if None \<in> set vs then None else sextets (map the vs))"

lemma byte_less [simp]: "byte c < 256"
  by (simp add: byte_def)

lemma byte_char_of [simp]: "n < 256 \<Longrightarrow> byte (char_of n) = n"
  by (simp add: byte_def)

lemma char_of_byte [simp]: "char_of (byte c) = c"
  by (simp add: byte_def)

lemma b64_val_char [simp]: "n < 64 \<Longrightarrow> b64_val (b64_char n) = Some n"
  by (auto simp: b64_val_def b64_char_def Let_def)

lemma b64_char_plain: "n < 64 \<Longrightarrow> \<not> line_break (b64_char n) \<and> b64_char n \<noteq> CHR ''$''"
proof -
  assume n: "n < 64"
  have "byte (b64_char n) \<noteq> 10 \<and> byte (b64_char n) \<noteq> 13 \<and> byte (b64_char n) \<noteq> 36"
    using n by (auto simp: b64_char_def)
  then show ?thesis by (auto simp: line_break_def byte_def)
qed

lemma byte_div: "byte a div 4 < 64" "byte a div 16 < 16" "byte a div 64 < 4"
  using byte_less [of a] by (auto intro: less_mult_imp_div_less)

lemma byte_parts [simp]:
  "byte a div 16 div 16 = 0" "byte a div 16 mod 16 = byte a div 16" "byte a div 64 div 4 = 0"
  "byte a div 64 mod 4 = byte a div 64"
  using byte_div [of a] by simp_all

lemma sextet_bounds [simp]:
  "byte a div 4 < 64" "byte a mod 4 * 16 + byte b div 16 < 64" "byte b mod 16 * 4 + byte c div 64 < 64"
  "byte c mod 64 < 64" "byte b mod 16 * 4 < 64" "byte a mod 4 * 16 < 64"
proof -
  note byte_div [of a] byte_div [of b] byte_div [of c]
  moreover have "byte a mod 4 < 4" "byte b mod 16 < 16" "byte c mod 64 < 64" by simp_all
  ultimately show "byte a div 4 < 64" "byte a mod 4 * 16 + byte b div 16 < 64" "byte b mod 16 * 4 + byte c div 64 < 64"
    "byte c mod 64 < 64" "byte b mod 16 * 4 < 64" "byte a mod 4 * 16 < 64"
    by linarith+
qed

lemma encoded_plain: "c \<in> set (EncodeToString s) \<Longrightarrow> \<not> line_break c \<and> c \<noteq> CHR ''$''"
  by (induction s rule: EncodeToString.induct) (auto simp: b64_char_plain)

lemma encoded_sextets: "None \<notin> set (map b64_val (EncodeToString s)) \<and>
    sextets (map the (map b64_val (EncodeToString s))) = Some s"
  by (induction s rule: EncodeToString.induct) (auto simp: div_mult_mod_eq)

lemma Decode_Encode [simp]: "DecodeString (EncodeToString s) = Some s"
proof -
  have "filter (\<lambda>c. \<not> line_break c) (EncodeToString s) = EncodeToString s"
    using encoded_plain by (auto simp: filter_id_conv)
  then show ?thesis using encoded_sextets [of s] by (simp add: DecodeString_def Let_def)
qed

section \<open>strings.Split and fmt.Sscanf\<close>

fun split_at :: "char \<Rightarrow> string \<Rightarrow> string list" where
  "split_at c [] = [[]]"
| "split_at c (x # s) = (if x = c then [] # split_at c s
     else (case split_at c s of [] \<Rightarrow> [[x]] | p # ps \<Rightarrow> (x # p) # ps))"

lemma split_at_Cons: "c \<notin> set p \<Longrightarrow> split_at c (p @ c # s) = p # split_at c s"
  by (induction p) auto

lemma split_at_plain: "c \<notin> set p \<Longrightarrow> split_at c p = [p]"
  by (induction p) auto

fun scan_literal :: "string \<Rightarrow> string \<Rightarrow> string option" where
  "scan_literal [] s = Some s"
| "scan_literal (c # l) (x # s) = (if c = x then scan_literal l s else None)"
| "scan_literal (c # l) [] = None"

definition is_space :: "char \<Rightarrow> bool" where
  "is_space c \<longleftrightarrow> byte c \<in> {9, 11, 12, 13, 32}"

definition digit :: "char \<Rightarrow> bool" where
  "digit c \<longleftrightarrow> 48 \<le> byte c \<and> byte c \<le> 57"

definition number :: "string \<Rightarrow> nat" where
  "number s = foldl (\<lambda>n c. 10 * n + (byte c - 48)) 0 s"

text \<open>\<open>%d\<close> into an unsigned integer of some bits.\<close>

definition scan_uint :: "nat \<Rightarrow> string \<Rightarrow> (nat \<times> string) option" where
  "scan_uint bits s = (let s = dropWhile is_space s; ds = takeWhile digit s in
     if ds = [] \<or> 2 ^ bits \<le> number ds then None else Some (number ds, dropWhile digit s))"

text \<open>\<open>fmt.Sscanf(s, "m=%d,t=%d,p=%d", ...)\<close> into two \<open>uint32\<close> and a \<open>uint8\<close>.\<close>

definition scan_parameters :: "string \<Rightarrow> (nat \<times> nat \<times> nat) option" where
  "scan_parameters s =
     Option.bind (scan_literal ''m='' s) (\<lambda>s. Option.bind (scan_uint 32 s) (\<lambda>(m, s).
     Option.bind (scan_literal '',t='' s) (\<lambda>s. Option.bind (scan_uint 32 s) (\<lambda>(t, s).
     Option.bind (scan_literal '',p='' s) (\<lambda>s. Option.bind (scan_uint 8 s) (\<lambda>(p, s). Some (m, t, p)))))))"

section \<open>The file\<close>

text \<open>The version of the format is \<open>argon2.Version\<close>, 0x13.\<close>

definition encoded_secret :: "string \<Rightarrow> string \<Rightarrow> string" where
  "encoded_secret salt hash =
     ''$argon2id$v=19$m=65536,t=1,p=4$'' @ EncodeToString salt @ ''$'' @ EncodeToString hash"

definition HashSecret :: "id_key \<Rightarrow> go_error + string \<Rightarrow> string \<Rightarrow> go_error + string" where
  "HashSecret IDKey rand secret = (case rand of
     Inl e \<Rightarrow> Inl e
   | Inr salt \<Rightarrow> Inr (encoded_secret salt (IDKey secret salt 1 65536 4 32)))"

definition VerifySecret :: "id_key \<Rightarrow> string \<Rightarrow> string \<Rightarrow> go_error + bool" where
  "VerifySecret IDKey secret encoded =
    (let parts = split_at (CHR ''$'') encoded in
     if length parts \<noteq> 6 then Inl (PlainError ''invalid hash format'' None)
     else (case scan_parameters (parts ! 3) of
       None \<Rightarrow> Inl (PlainError ''input does not match format'' None)
     | Some (memory, iterations, parallelism) \<Rightarrow>
         (case DecodeString (parts ! 4) of
           None \<Rightarrow> Inl (PlainError ''illegal base64 data'' None)
         | Some salt \<Rightarrow>
             (case DecodeString (parts ! 5) of
               None \<Rightarrow> Inl (PlainError ''illegal base64 data'' None)
             | Some expectedHash \<Rightarrow>
                 Inr (IDKey secret salt iterations memory parallelism (length expectedHash) = expectedHash)))))"

lemma scan_parameters_written: "scan_parameters ''m=65536,t=1,p=4'' = Some (65536, 1, 4)"
  by (simp add: scan_parameters_def scan_uint_def number_def digit_def is_space_def byte_def Let_def)

lemma encoded_no_sep: "CHR ''$'' \<notin> set (EncodeToString s)"
  using encoded_plain by blast

lemma encoded_parts:
  "split_at (CHR ''$'') (encoded_secret salt hash) =
     [[], ''argon2id'', ''v=19'', ''m=65536,t=1,p=4'', EncodeToString salt, EncodeToString hash]"
proof -
  have "split_at (CHR ''$'') (EncodeToString salt @ ''$'' @ EncodeToString hash) = [EncodeToString salt, EncodeToString hash]"
    using encoded_no_sep by (simp add: split_at_Cons split_at_plain)
  then show ?thesis by (simp add: encoded_secret_def)
qed

lemma VerifySecret_encoded:
  assumes "length hash = 32"
  shows "VerifySecret IDKey p (encoded_secret salt hash) = Inr (IDKey p salt 1 65536 4 32 = hash)"
  using assms by (auto simp: VerifySecret_def encoded_parts scan_parameters_written Let_def)

text \<open>C39: A password that was hashed is recognised: checking some password against the hash of another
  never fails, and the answer is whether the hash function, under the same salt, cannot tell the
  two apart; the password itself is always accepted.\<close>

theorem hashed_secret_verifies:
  assumes "HashSecret IDKey (Inr salt) secret = Inr encoded"
    and "\<And>p. length (IDKey p salt 1 65536 4 32) = 32"
  shows "VerifySecret IDKey other encoded
      = Inr (IDKey other salt 1 65536 4 32 = IDKey secret salt 1 65536 4 32)
    \<and> VerifySecret IDKey secret encoded = Inr True"
  using assms by (auto simp: HashSecret_def VerifySecret_encoded)

text \<open>A hash function of 32 bytes that keeps the first byte only.\<close>

definition first_byte :: id_key where
  "first_byte p salt t m k n = replicate n (case p of [] \<Rightarrow> CHR ''0'' | c # _ \<Rightarrow> c)"

theorem hashed_secret_verifies_witness:
  "VerifySecret first_byte ''open'' (encoded_secret ''salt'' (replicate 32 (CHR ''s''))) = Inr False
    \<and> VerifySecret first_byte ''secret'' (encoded_secret ''salt'' (replicate 32 (CHR ''s''))) = Inr True"
  using hashed_secret_verifies [of first_byte "''salt''" "''secret''"
      "encoded_secret ''salt'' (replicate 32 (CHR ''s''))" "''open''"]
  by (simp add: HashSecret_def first_byte_def)

end
