(* ===== verification/Sessions.thy ===== *)
theory Sessions
  imports Secrets Pooled Rbac
begin

text \<open>
  \<open>internal/core/auth\<close> over \<open>storage/postgres/auth_repo.go\<close> and \<open>storage/redis/session_store.go\<close>, with
  the HTTP handlers of the accounts (\<open>handler_auth.go\<close>, \<open>handler_workspace.go\<close>,
  \<open>handler_pass_temp.go\<close>) behind the middleware the router puts before them.

  A session and a seance are keys of Redis that expire. The three prefixes of their keys keep them
  apart, so each kind is a map of its own from the part after the prefix. A command to Redis reads a
  clock of its own and may fail like a statement; what is written as JSON is read back as it was (an
  empty list of permissions as none). Durations are whole seconds.

  What the code does not decide is an argument: the hash function and its salts, \<open>lower\<close> and the
  order of names of the database, the rounding of the \<open>TTL\<close> command.
\<close>

record user =
  us_ID :: uuid
  us_Email :: string
  us_PasswordHash :: string
  us_FullName :: string
  us_Phone :: "string option"
  us_IsActive :: bool
  us_Name :: "string option"
  us_Secret :: string
  us_CreatedAt :: time
  us_UpdatedAt :: time

record organization =
  og_ID :: uuid
  og_Name :: string
  og_Slug :: string
  og_OwnerID :: uuid
  og_Plan :: string
  og_Settings :: "json option"
  og_INN :: "string option"
  og_CreatedAt :: time
  og_UpdatedAt :: time

record labor =
  lb_ID :: uuid
  lb_OrganizationID :: uuid
  lb_UserID :: uuid
  lb_Role :: string
  lb_Permissions :: "json option"
  lb_Admin :: bool
  lb_JoinedAt :: time

record phone =
  ph_ID :: uuid
  ph_UserID :: uuid
  ph_Unformat :: string
  ph_Format :: string
  ph_Country :: string

record session =
  ss_ID :: string
  ss_UserID :: uuid
  ss_PhoneID :: uuid
  ss_OrganizationID :: uuid
  ss_Role :: string
  ss_Permissions :: "string list"
  ss_Email :: string
  ss_FullName :: string
  ss_CreatedAt :: time

record seance =
  sn_ID :: string
  sn_SessionID :: string
  sn_CreatedAt :: time

type_synonym 'v expiring = "string \<Rightarrow> ('v \<times> time option) option"

record auth_db =
  t_users :: "user list"
  t_phones :: "phone list"
  t_organizations :: "organization list"
  t_labors :: "labor list"
  k_sessions :: "session expiring"
  k_seances :: "seance expiring"
  k_seance_sets :: "string \<Rightarrow> string list"

record platform =
  su_IDKey :: id_key
  su_rand :: "nat \<Rightarrow> go_error + string"
  su_lower :: "string \<Rightarrow> string"
  su_name_le :: "string \<Rightarrow> string \<Rightarrow> bool"
  su_whole_seconds :: "int \<Rightarrow> int"
  su_sessionTTL :: int
  su_seanceTTL :: int

record register_input =
  ri_Email :: string
  ri_Password :: string
  ri_FullName :: string
  ri_PhoneID :: uuid

record login_input =
  li_Email :: string
  li_Password :: string
  li_PhoneID :: uuid

record login_result =
  lr_User :: user
  lr_Organizations :: "organization list"
  lr_Session :: session
  lr_Seance :: seance

section \<open>The repository\<close>

text \<open>\<open>strings.Contains\<close> and the test for a violated unique constraint.\<close>

fun starts_with :: "string \<Rightarrow> string \<Rightarrow> bool" where
  "starts_with [] s = True"
| "starts_with (c # p) (x # s) = (c = x \<and> starts_with p s)"
| "starts_with (c # p) [] = False"

fun contains :: "string \<Rightarrow> string \<Rightarrow> bool" where
  "contains p [] = (p = [])"
| "contains p (c # s) = (starts_with p (c # s) \<or> contains p s)"

definition isDuplicateKey :: "go_error \<Rightarrow> bool" where
  "isDuplicateKey e \<longleftrightarrow> contains ''duplicate key'' (error_string e) \<or> contains ''23505'' (error_string e)"

text \<open>An insert whose violation of a unique constraint is a conflict.\<close>

definition insert_or_conflict :: "('d, unit) stmt \<Rightarrow> string \<Rightarrow> ('d, unit) op" where
  "insert_or_conflict s msg = bnd (try_op (pool_stmt s)) (\<lambda>r. case r of
       Inr _ \<Rightarrow> ret ()
     | Inl e \<Rightarrow> if isDuplicateKey e then fail (NewConflict msg) else fail e)"

text \<open>\<open>users\<close> is keyed by its id, with a unique index on \<open>lower(email)\<close>.\<close>

definition user_insert :: "platform \<Rightarrow> user \<Rightarrow> ('a auth_db_scheme, unit) stmt" where
  "user_insert su u d =
    (if us_ID u \<in> us_ID ` set (t_users d) \<or> su_lower su (us_Email u) \<in> (su_lower su \<circ> us_Email) ` set (t_users d)
     then Inl duplicate_key else Inr ((), d\<lparr>t_users := t_users d @ [u]\<rparr>))"

definition CreateUser :: "platform \<Rightarrow> user \<Rightarrow> ('a auth_db_scheme, user) op" where
  "CreateUser su u =
    bnd (if us_ID u = uuid_nil then new_uuid else ret (us_ID u)) (\<lambda>uid.
    bnd now (\<lambda>t.
    let u = u\<lparr>us_ID := uid, us_CreatedAt := t, us_UpdatedAt := t\<rparr> in
    bnd (insert_or_conflict (user_insert su u) ''email already registered'') (\<lambda>_.
    ret u)))"

text \<open>What the repository reads of a user: not the name and the secret of \<open>/pass/temp\<close>.\<close>

definition read_user :: "user \<Rightarrow> user" where
  "read_user u = u\<lparr>us_Name := None, us_Secret := ''''\<rparr>"

definition GetUserByEmail :: "platform \<Rightarrow> string \<Rightarrow> ('a auth_db_scheme, user) op" where
  "GetUserByEmail su email =
     pool_find (\<lambda>d. map_option read_user (find (\<lambda>u. su_lower su (us_Email u) = su_lower su email) (t_users d)))
       (NewNotFound ''user not found'')"

definition GetUserByID :: "uuid \<Rightarrow> ('a auth_db_scheme, user) op" where
  "GetUserByID uid = pool_find (\<lambda>d. map_option read_user (find (\<lambda>u. us_ID u = uid) (t_users d)))
     (NewNotFound ''user not found'')"

text \<open>\<open>organizations\<close> is keyed by its id, with a unique slug; its owner is a user.\<close>

definition missing_reference :: go_error where
  "missing_reference = PlainError ''violates foreign key constraint'' None"

definition organization_insert :: "organization \<Rightarrow> ('a auth_db_scheme, unit) stmt" where
  "organization_insert g d =
    (if og_OwnerID g \<notin> us_ID ` set (t_users d) then Inl missing_reference
     else if og_ID g \<in> og_ID ` set (t_organizations d) \<or> og_Slug g \<in> og_Slug ` set (t_organizations d)
     then Inl duplicate_key else Inr ((), d\<lparr>t_organizations := t_organizations d @ [g]\<rparr>))"

definition repo_CreateOrganization :: "organization \<Rightarrow> ('a auth_db_scheme, organization) op" where
  "repo_CreateOrganization g =
    bnd (if og_ID g = uuid_nil then new_uuid else ret (og_ID g)) (\<lambda>gid.
    bnd now (\<lambda>t.
    let g = g\<lparr>og_ID := gid, og_CreatedAt := t, og_UpdatedAt := t,
              og_Settings := Some (case og_Settings g of None \<Rightarrow> JObj [] | Some j \<Rightarrow> j)\<rparr> in
    bnd (insert_or_conflict (organization_insert g) ''organization slug already taken'') (\<lambda>_.
    ret g)))"

text \<open>An organization as it is read: without its tax number.\<close>

definition read_organization :: "organization \<Rightarrow> organization" where
  "read_organization g = g\<lparr>og_INN := None\<rparr>"

definition GetOrganization :: "uuid \<Rightarrow> ('a auth_db_scheme, organization) op" where
  "GetOrganization gid =
     pool_find (\<lambda>d. map_option read_organization (find (\<lambda>g. og_ID g = gid) (t_organizations d)))
       (NewNotFound ''organization not found'')"

definition GetOrganizationBySlug :: "string \<Rightarrow> ('a auth_db_scheme, organization) op" where
  "GetOrganizationBySlug slug =
     pool_find (\<lambda>d. map_option read_organization (find (\<lambda>g. og_Slug g = slug) (t_organizations d)))
       (NewNotFound ''organization not found'')"

fun insert_named :: "(string \<Rightarrow> string \<Rightarrow> bool) \<Rightarrow> organization \<Rightarrow> organization list \<Rightarrow> organization list" where
  "insert_named le g [] = [g]"
| "insert_named le g (h # hs) = (if le (og_Name g) (og_Name h) then g # h # hs else h # insert_named le g hs)"

definition memberships :: "uuid \<Rightarrow> 'a auth_db_scheme \<Rightarrow> organization list" where
  "memberships uid d = filter (\<lambda>g. \<exists>m \<in> set (t_labors d). lb_OrganizationID m = og_ID g \<and> lb_UserID m = uid)
     (t_organizations d)"

definition ListUserOrganizations :: "platform \<Rightarrow> uuid \<Rightarrow> ('a auth_db_scheme, organization list) op" where
  "ListUserOrganizations su uid = pool_stmt (query (\<lambda>d.
     foldr (insert_named (su_name_le su)) (map read_organization (memberships uid d)) []))"

definition UpdateOrganization :: "organization \<Rightarrow> ('a auth_db_scheme, unit) op" where
  "UpdateOrganization g =
    bnd now (\<lambda>t.
    bnd (pool_stmt (\<lambda>d. Inr (row_count (\<lambda>h. og_ID h = og_ID g) (t_organizations d),
          d\<lparr>t_organizations := row_update (\<lambda>h. og_ID h = og_ID g)
              (\<lambda>h. h\<lparr>og_Name := og_Name g, og_Settings := og_Settings g, og_UpdatedAt := t\<rparr>) (t_organizations d)\<rparr>))) (\<lambda>n.
    guard (n = 0) (NewNotFound ''organization not found'')))"

definition labor_key :: "labor \<Rightarrow> uuid \<times> uuid" where
  "labor_key m = (lb_OrganizationID m, lb_UserID m)"

definition labor_insert :: "labor \<Rightarrow> ('a auth_db_scheme, unit) stmt" where
  "labor_insert m d =
    (if lb_OrganizationID m \<notin> og_ID ` set (t_organizations d) \<or> lb_UserID m \<notin> us_ID ` set (t_users d)
     then Inl missing_reference else row_insert t_labors (\<lambda>ms d. d\<lparr>t_labors := ms\<rparr>) labor_key m d)"

definition AddMember :: "labor \<Rightarrow> ('a auth_db_scheme, labor) op" where
  "AddMember m =
    (let m = m\<lparr>lb_Permissions := Some (case lb_Permissions m of None \<Rightarrow> JArr [] | Some j \<Rightarrow> j)\<rparr> in
     bnd (if lb_ID m = uuid_nil then new_uuid else ret (lb_ID m)) (\<lambda>mid.
     bnd now (\<lambda>t.
     let m = m\<lparr>lb_ID := mid, lb_JoinedAt := t\<rparr> in
     bnd (insert_or_conflict (labor_insert m) ''user already a member'') (\<lambda>_.
     ret m))))"

definition find_member :: "uuid \<Rightarrow> uuid \<Rightarrow> 'a auth_db_scheme \<Rightarrow> labor option" where
  "find_member gid uid d = find (\<lambda>m. lb_OrganizationID m = gid \<and> lb_UserID m = uid) (t_labors d)"

definition GetMember :: "uuid \<Rightarrow> uuid \<Rightarrow> ('a auth_db_scheme, labor) op" where
  "GetMember gid uid = pool_find (\<lambda>d. map_option (\<lambda>m. m\<lparr>lb_ID := uuid_nil\<rparr>) (find_member gid uid d))
     (NewNotFound ''member not found'')"

definition UpdateMemberRole :: "uuid \<Rightarrow> uuid \<Rightarrow> string \<Rightarrow> ('a auth_db_scheme, unit) op" where
  "UpdateMemberRole gid uid role =
    bnd (pool_stmt (\<lambda>d. let p = (\<lambda>m. lb_OrganizationID m = gid \<and> lb_UserID m = uid) in
          Inr (row_count p (t_labors d), d\<lparr>t_labors := row_update p (\<lambda>m. m\<lparr>lb_Role := role\<rparr>) (t_labors d)\<rparr>))) (\<lambda>n.
    guard (n = 0) (NewNotFound ''member not found''))"

definition repo_RemoveMember :: "uuid \<Rightarrow> uuid \<Rightarrow> ('a auth_db_scheme, unit) op" where
  "repo_RemoveMember gid uid =
    bnd (pool_stmt (\<lambda>d. let p = (\<lambda>m. lb_OrganizationID m = gid \<and> lb_UserID m = uid) in
          Inr (row_count p (t_labors d), d\<lparr>t_labors := filter (\<lambda>m. \<not> p m) (t_labors d)\<rparr>))) (\<lambda>n.
    guard (n = 0) (NewNotFound ''member not found''))"

section \<open>The session store\<close>

text \<open>A positive time to live is a deadline; without one a key does not expire.\<close>

definition deadline :: "time \<Rightarrow> int \<Rightarrow> time option" where
  "deadline t ttl = (if 0 < ttl then Some (t + ttl) else None)"

definition alive :: "time \<Rightarrow> time option \<Rightarrow> bool" where
  "alive t x = (case x of None \<Rightarrow> True | Some e \<Rightarrow> t < e)"

definition value_at :: "time \<Rightarrow> 'v expiring \<Rightarrow> string \<Rightarrow> 'v option" where
  "value_at t m k = (case m k of None \<Rightarrow> None | Some (v, x) \<Rightarrow> if alive t x then Some v else None)"

text \<open>A command sees the clock of the server.\<close>

definition command :: "(time \<Rightarrow> ('d, 'a) stmt) \<Rightarrow> ('d, 'a) op" where
  "command s = bnd now (\<lambda>t. pool_stmt (s t))"

definition put_session :: "session \<Rightarrow> time option \<Rightarrow> 'a auth_db_scheme \<Rightarrow> 'a auth_db_scheme" where
  "put_session s x d = d\<lparr>k_sessions := (k_sessions d)(ss_ID s := Some (s, x))\<rparr>"

definition CreateSession :: "session \<Rightarrow> int \<Rightarrow> ('a auth_db_scheme, unit) op" where
  "CreateSession s ttl = command (\<lambda>t. exec (put_session s (deadline t ttl)))"

definition GetSession :: "string \<Rightarrow> ('a auth_db_scheme, session) op" where
  "GetSession sid = bnd (command (\<lambda>t. query (\<lambda>d. value_at t (k_sessions d) sid))) (\<lambda>r. case r of
       None \<Rightarrow> fail (NewUnauthorized ''session expired'')
     | Some s \<Rightarrow> ret s)"

text \<open>The answer of \<open>TTL\<close>: -2 for no key, -1 for one that does not expire.\<close>

definition time_to_live :: "platform \<Rightarrow> time \<Rightarrow> ('v \<times> time option) option \<Rightarrow> int" where
  "time_to_live su t r = (case r of None \<Rightarrow> - 2 | Some (_, None) \<Rightarrow> - 1
     | Some (_, Some x) \<Rightarrow> if t < x then su_whole_seconds su (x - t) else - 2)"

definition UpdateSession :: "platform \<Rightarrow> session \<Rightarrow> int \<Rightarrow> ('a auth_db_scheme, unit) op" where
  "UpdateSession su s ttl =
    bnd (try_op (command (\<lambda>t. query (\<lambda>d. time_to_live su t (k_sessions d (ss_ID s)))))) (\<lambda>r.
    let remaining = (case r of Inl _ \<Rightarrow> ttl | Inr n \<Rightarrow> if n \<le> 0 then ttl else n) in
    command (\<lambda>t. exec (put_session s (deadline t remaining))))"

definition DeleteSession :: "string \<Rightarrow> ('a auth_db_scheme, unit) op" where
  "DeleteSession sid = command (\<lambda>t. exec (\<lambda>d. d\<lparr>k_sessions := (k_sessions d)(sid := None)\<rparr>))"

text \<open>A pipeline: both commands are sent, the first error is reported.\<close>

definition CreateSeance :: "seance \<Rightarrow> int \<Rightarrow> ('a auth_db_scheme, unit) op" where
  "CreateSeance s ttl =
    bnd (try_op (command (\<lambda>t. exec (\<lambda>d. d\<lparr>k_seances := (k_seances d)(sn_ID s := Some (s, deadline t ttl))\<rparr>)))) (\<lambda>r.
    bnd (try_op (command (\<lambda>t. exec (\<lambda>d. d\<lparr>k_seance_sets := (k_seance_sets d)(sn_SessionID s :=
          List.insert (sn_ID s) (k_seance_sets d (sn_SessionID s)))\<rparr>)))) (\<lambda>r'.
    case r of Inl e \<Rightarrow> fail e | Inr _ \<Rightarrow> (case r' of Inl e \<Rightarrow> fail e | Inr _ \<Rightarrow> ret ())))"

definition GetSeance :: "string \<Rightarrow> ('a auth_db_scheme, seance) op" where
  "GetSeance nid = bnd (command (\<lambda>t. query (\<lambda>d. value_at t (k_seances d) nid))) (\<lambda>r. case r of
       None \<Rightarrow> fail (NewUnauthorized ''seance expired'')
     | Some s \<Rightarrow> ret s)"

definition slide :: "time \<Rightarrow> int \<Rightarrow> string \<Rightarrow> 'v expiring \<Rightarrow> 'v expiring" where
  "slide t ttl k m = (case value_at t m k of None \<Rightarrow> m
     | Some v \<Rightarrow> m(k := if 0 < ttl then Some (v, Some (t + ttl)) else None))"

definition SlideSeance :: "string \<Rightarrow> int \<Rightarrow> ('a auth_db_scheme, unit) op" where
  "SlideSeance nid ttl = command (\<lambda>t. exec (\<lambda>d. d\<lparr>k_seances := slide t ttl nid (k_seances d)\<rparr>))"

definition DeleteSessionSeances :: "string \<Rightarrow> ('a auth_db_scheme, unit) op" where
  "DeleteSessionSeances sid =
    bnd (command (\<lambda>t. query (\<lambda>d. k_seance_sets d sid))) (\<lambda>ids.
    if ids = [] then ret ()
    else command (\<lambda>t. exec (\<lambda>d. d\<lparr>k_seances := (\<lambda>i. if i \<in> set ids then None else k_seances d i),
                                   k_seance_sets := (k_seance_sets d)(sid := [])\<rparr>)))"

section \<open>The service\<close>

definition random_salt :: "platform \<Rightarrow> ('d, go_error + string) op" where
  "random_salt su env w = (Inr (su_rand su (tick w)), w\<lparr>tick := Suc (tick w)\<rparr>)"

definition createSessionAndSeance ::
  "platform \<Rightarrow> user \<Rightarrow> uuid \<Rightarrow> uuid \<Rightarrow> string \<Rightarrow> string list \<Rightarrow> ('a auth_db_scheme, session \<times> seance) op" where
  "createSessionAndSeance su u phoneID gid role perms =
    bnd new_uuid (\<lambda>sid.
    bnd now (\<lambda>t.
    let s = \<lparr>ss_ID = uuid_string sid, ss_UserID = us_ID u, ss_PhoneID = phoneID, ss_OrganizationID = gid,
             ss_Role = role, ss_Permissions = perms, ss_Email = us_Email u, ss_FullName = us_FullName u,
             ss_CreatedAt = t\<rparr> in
    bnd (CreateSession s (su_sessionTTL su)) (\<lambda>_.
    bnd new_uuid (\<lambda>nid.
    bnd now (\<lambda>t'.
    let n = \<lparr>sn_ID = uuid_string nid, sn_SessionID = ss_ID s, sn_CreatedAt = t'\<rparr> in
    bnd (CreateSeance n (su_seanceTTL su)) (\<lambda>_.
    ret (s, n)))))))"

definition given_phone :: "uuid \<Rightarrow> ('d, uuid) op" where
  "given_phone p = (if p = uuid_nil then new_uuid else ret p)"

definition Register :: "platform \<Rightarrow> register_input \<Rightarrow> ('a auth_db_scheme, login_result) op" where
  "Register su inp =
    bnd (guard (ri_Email inp = '''' \<or> ri_Password inp = '''') (NewBadRequest ''email and password are required'')) (\<lambda>_.
    bnd (guard (length (ri_Password inp) < 8) (NewBadRequest ''password must be at least 8 characters'')) (\<lambda>_.
    bnd (random_salt su) (\<lambda>salt.
    case HashSecret (su_IDKey su) salt (ri_Password inp) of
      Inl e \<Rightarrow> fail (Wrap e CodeInternal ''failed to hash password'')
    | Inr hash \<Rightarrow>
      bnd new_uuid (\<lambda>uid.
      bnd (CreateUser su \<lparr>us_ID = uid, us_Email = ri_Email inp, us_PasswordHash = hash, us_FullName = ri_FullName inp,
             us_Phone = None, us_IsActive = True, us_Name = None, us_Secret = '''', us_CreatedAt = time_zero,
             us_UpdatedAt = time_zero\<rparr>) (\<lambda>u.
      bnd (given_phone (ri_PhoneID inp)) (\<lambda>phoneID.
      bnd (createSessionAndSeance su u phoneID uuid_nil '''' []) (\<lambda>(s, n).
      ret \<lparr>lr_User = u, lr_Organizations = [], lr_Session = s, lr_Seance = n\<rparr>)))))))"

text \<open>A JSON array of strings; anything else gives no permission. A null element is the empty string.\<close>

fun as_permission :: "json \<Rightarrow> string option" where
  "as_permission (JStr s) = Some s"
| "as_permission (JUuid u) = Some (uuid_string u)"
| "as_permission JNull = Some ''''"
| "as_permission _ = None"

definition parseLaborPermissions :: "json option \<Rightarrow> string list" where
  "parseLaborPermissions raw = (case raw of
     Some (JArr xs) \<Rightarrow> (let ps = map as_permission xs in if None \<in> set ps then [] else map the ps)
   | _ \<Rightarrow> [])"

definition member_role :: "labor \<Rightarrow> string" where
  "member_role m = (if lb_Admin m then ''owner'' else lb_Role m)"

definition member_rights :: "go_error + labor \<Rightarrow> string \<times> string list" where
  "member_rights r = (case r of Inl _ \<Rightarrow> ('''', [])
     | Inr m \<Rightarrow> (member_role m, parseLaborPermissions (lb_Permissions m)))"

definition wrong_secret :: "platform \<Rightarrow> string \<Rightarrow> user \<Rightarrow> bool" where
  "wrong_secret su password u = (case VerifySecret (su_IDKey su) password (us_PasswordHash u) of
     Inl _ \<Rightarrow> True | Inr match \<Rightarrow> \<not> match)"

text \<open>The organization a login starts in: the first by name, with the rights of its membership.\<close>

definition first_organization ::
  "organization list \<Rightarrow> uuid \<Rightarrow> ('a auth_db_scheme, uuid \<times> string \<times> string list) op" where
  "first_organization gs uid = (case gs of
     [] \<Rightarrow> ret (uuid_nil, '''', [])
   | g # _ \<Rightarrow> bnd (try_op (GetMember (og_ID g) uid)) (\<lambda>r. ret (og_ID g, member_rights r)))"

definition Login :: "platform \<Rightarrow> login_input \<Rightarrow> ('a auth_db_scheme, login_result) op" where
  "Login su inp =
    bnd (try_op (GetUserByEmail su (li_Email inp))) (\<lambda>r.
    case r of Inl _ \<Rightarrow> fail (NewUnauthorized ''invalid credentials'')
    | Inr u \<Rightarrow>
      bnd (guard (\<not> us_IsActive u) (NewUnauthorized ''account is deactivated'')) (\<lambda>_.
      bnd (guard (wrong_secret su (li_Password inp) u) (NewUnauthorized ''invalid credentials'')) (\<lambda>_.
      bnd (ListUserOrganizations su (us_ID u)) (\<lambda>gs.
      bnd (first_organization gs (us_ID u)) (\<lambda>(gid, role, perms).
      bnd (given_phone (li_PhoneID inp)) (\<lambda>phoneID.
      bnd (createSessionAndSeance su u phoneID gid role perms) (\<lambda>(s, n).
      ret \<lparr>lr_User = u, lr_Organizations = gs, lr_Session = s, lr_Seance = n\<rparr>)))))))"

definition Logout :: "string \<Rightarrow> ('a auth_db_scheme, unit) op" where
  "Logout sid = bnd (DeleteSessionSeances sid) (\<lambda>_. DeleteSession sid)"

definition Unlock :: "platform \<Rightarrow> string \<Rightarrow> string \<Rightarrow> ('a auth_db_scheme, seance) op" where
  "Unlock su sid password =
    bnd (GetSession sid) (\<lambda>s.
    bnd (GetUserByID (ss_UserID s)) (\<lambda>u.
    bnd (guard (wrong_secret su password u) (NewUnauthorized ''invalid password'')) (\<lambda>_.
    bnd new_uuid (\<lambda>nid.
    bnd now (\<lambda>t.
    let n = \<lparr>sn_ID = uuid_string nid, sn_SessionID = sid, sn_CreatedAt = t\<rparr> in
    bnd (CreateSeance n (su_seanceTTL su)) (\<lambda>_.
    ret n))))))"

definition SwitchOrganization :: "platform \<Rightarrow> string \<Rightarrow> uuid \<Rightarrow> ('a auth_db_scheme, session) op" where
  "SwitchOrganization su sid gid =
    bnd (GetSession sid) (\<lambda>s.
    bnd (try_op (GetMember gid (ss_UserID s))) (\<lambda>r.
    case r of Inl _ \<Rightarrow> fail (NewForbidden ''not a member of this organization'')
    | Inr m \<Rightarrow>
      (let s = s\<lparr>ss_OrganizationID := gid, ss_Role := member_role m,
                 ss_Permissions := parseLaborPermissions (lb_Permissions m)\<rparr> in
       bnd (UpdateSession su s (su_sessionTTL su)) (\<lambda>_.
       ret s))))"

definition CreateOrganization :: "uuid \<Rightarrow> string \<Rightarrow> string \<Rightarrow> ('a auth_db_scheme, organization) op" where
  "CreateOrganization uid name slug =
    bnd (guard (name = '''' \<or> slug = '''') (NewBadRequest ''name and slug are required'')) (\<lambda>_.
    bnd new_uuid (\<lambda>gid.
    bnd (repo_CreateOrganization \<lparr>og_ID = gid, og_Name = name, og_Slug = slug, og_OwnerID = uid, og_Plan = ''free'',
           og_Settings = Some (JObj []), og_INN = None, og_CreatedAt = time_zero, og_UpdatedAt = time_zero\<rparr>) (\<lambda>g.
    bnd (AddMember \<lparr>lb_ID = uuid_nil, lb_OrganizationID = og_ID g, lb_UserID = uid, lb_Role = ''owner'',
           lb_Permissions = Some (JArr []), lb_Admin = False, lb_JoinedAt = time_zero\<rparr>) (\<lambda>_.
    ret g))))"

section \<open>The middleware\<close>

record auth_context =
  cx_UserID :: uuid
  cx_OrganizationID :: "uuid option"
  cx_Role :: string
  cx_Permissions :: "string list"
  cx_SessionID :: string
  cx_SeanceID :: "string option"

text \<open>The answer 401 with a body, or the request with its context.\<close>

datatype admission = Refused string | Admitted auth_context

definition present :: "string option \<Rightarrow> bool" where
  "present c \<longleftrightarrow> c \<noteq> None \<and> c \<noteq> Some ''''"

definition in_organization :: "session \<Rightarrow> uuid option" where
  "in_organization s = (if ss_OrganizationID s \<noteq> uuid_nil then Some (ss_OrganizationID s) else None)"

definition Middleware :: "platform \<Rightarrow> string option \<Rightarrow> string option \<Rightarrow> ('a auth_db_scheme, admission) op" where
  "Middleware su sessionCookie seanceCookie =
    (if \<not> present sessionCookie then ret (Refused ''SESSION'')
     else bnd (try_op (GetSession (the sessionCookie))) (\<lambda>r. case r of Inl _ \<Rightarrow> ret (Refused ''SESSION'')
     | Inr s \<Rightarrow>
       (if \<not> present seanceCookie then ret (Refused ''SEANCE'')
        else bnd (try_op (GetSeance (the seanceCookie))) (\<lambda>r. case r of Inl _ \<Rightarrow> ret (Refused ''SEANCE'')
        | Inr n \<Rightarrow>
          (if sn_SessionID n \<noteq> the sessionCookie then ret (Refused ''SEANCE'')
           else bnd (try_op (SlideSeance (the seanceCookie) (su_seanceTTL su))) (\<lambda>_.
             ret (Admitted \<lparr>cx_UserID = ss_UserID s, cx_OrganizationID = in_organization s, cx_Role = ss_Role s,
                    cx_Permissions = ss_Permissions s, cx_SessionID = ss_ID s, cx_SeanceID = seanceCookie\<rparr>)))))))"

definition SessionOnlyMiddleware :: "string option \<Rightarrow> ('a auth_db_scheme, admission) op" where
  "SessionOnlyMiddleware sessionCookie =
    (if \<not> present sessionCookie then ret (Refused ''SESSION'')
     else bnd (try_op (GetSession (the sessionCookie))) (\<lambda>r. case r of Inl _ \<Rightarrow> ret (Refused ''SESSION'')
     | Inr s \<Rightarrow> ret (Admitted \<lparr>cx_UserID = ss_UserID s, cx_OrganizationID = in_organization s, cx_Role = ss_Role s,
                  cx_Permissions = [], cx_SessionID = ss_ID s, cx_SeanceID = None\<rparr>)))"

section \<open>The routes\<close>

text \<open>A handler behind a middleware; a refusal is the status 401.\<close>

definition behind :: "('d, admission) op \<Rightarrow> (auth_context \<Rightarrow> ('d, 'a) op) \<Rightarrow> ('d, 'a) op" where
  "behind m h = bnd m (\<lambda>a. case a of Refused b \<Rightarrow> fail (NewUnauthorized b) | Admitted cx \<Rightarrow> h cx)"

definition handle_Logout :: "string option \<Rightarrow> ('a auth_db_scheme, unit) op" where
  "handle_Logout c = behind (SessionOnlyMiddleware c) (\<lambda>cx. Logout (cx_SessionID cx))"

definition handle_Unlock :: "platform \<Rightarrow> string option \<Rightarrow> string \<Rightarrow> ('a auth_db_scheme, seance) op" where
  "handle_Unlock su c password = behind (SessionOnlyMiddleware c) (\<lambda>cx. Unlock su (cx_SessionID cx) password)"

definition handle_SwitchOrganization ::
  "platform \<Rightarrow> string option \<Rightarrow> string option \<Rightarrow> uuid \<Rightarrow> ('a auth_db_scheme, session) op" where
  "handle_SwitchOrganization su c n gid = behind (Middleware su c n) (\<lambda>cx. SwitchOrganization su (cx_SessionID cx) gid)"

text \<open>The seeders of a new organization work on other tables; their errors are only logged.\<close>

definition handle_CreateOrganization ::
  "platform \<Rightarrow> string option \<Rightarrow> string option \<Rightarrow> string \<Rightarrow> string \<Rightarrow> ('a auth_db_scheme, organization) op" where
  "handle_CreateOrganization su c n name slug =
     behind (Middleware su c n) (\<lambda>cx. CreateOrganization (cx_UserID cx) name slug)"

definition handle_UpdateOrganization ::
  "platform \<Rightarrow> string option \<Rightarrow> string option \<Rightarrow> uuid \<Rightarrow> string option \<Rightarrow> json option \<Rightarrow> ('a auth_db_scheme, organization) op" where
  "handle_UpdateOrganization su c n gid name settings = behind (Middleware su c n) (\<lambda>_.
     bnd (GetOrganization gid) (\<lambda>g.
     let g = (case name of None \<Rightarrow> g | Some x \<Rightarrow> g\<lparr>og_Name := x\<rparr>);
         g = (case settings of None \<Rightarrow> g | Some j \<Rightarrow> g\<lparr>og_Settings := Some j\<rparr>) in
     bnd (UpdateOrganization g) (\<lambda>_. ret g)))"

definition handle_AddMember ::
  "platform \<Rightarrow> string option \<Rightarrow> string option \<Rightarrow> uuid \<Rightarrow> string \<Rightarrow> string \<Rightarrow> ('a auth_db_scheme, labor) op" where
  "handle_AddMember su c n gid email role = behind (Middleware su c n) (\<lambda>_.
     bnd (GetUserByEmail su email) (\<lambda>u.
     AddMember \<lparr>lb_ID = uuid_nil, lb_OrganizationID = gid, lb_UserID = us_ID u, lb_Role = role,
       lb_Permissions = None, lb_Admin = False, lb_JoinedAt = time_zero\<rparr>))"

definition handle_UpdateMember ::
  "platform \<Rightarrow> string option \<Rightarrow> string option \<Rightarrow> uuid \<Rightarrow> uuid \<Rightarrow> string \<Rightarrow> ('a auth_db_scheme, labor option) op" where
  "handle_UpdateMember su c n gid uid role = behind (Middleware su c n) (\<lambda>_.
     bnd (UpdateMemberRole gid uid role) (\<lambda>_.
     bnd (try_op (GetMember gid uid)) (\<lambda>r. ret (case r of Inl _ \<Rightarrow> None | Inr m \<Rightarrow> Some m))))"

definition handle_RemoveMember ::
  "platform \<Rightarrow> string option \<Rightarrow> string option \<Rightarrow> uuid \<Rightarrow> uuid \<Rightarrow> ('a auth_db_scheme, unit) op" where
  "handle_RemoveMember su c n gid uid = behind (Middleware su c n) (\<lambda>_. repo_RemoveMember gid uid)"

section \<open>POST /pass/temp\<close>

record pass_temp_input =
  pt_Country :: string
  pt_Phone :: string
  pt_Secret :: string
  pt_Name :: string
  pt_INN :: string

text \<open>\<open>strings.TrimSpace(s) == ""\<close>, for the white space of ASCII.\<close>

definition blank :: "string \<Rightarrow> bool" where
  "blank s \<longleftrightarrow> list_all (\<lambda>c. is_space c \<or> byte c = 10) s"

definition normalizePhone :: "string \<Rightarrow> string \<times> string" where
  "normalizePhone raw =
    (let digits = filter digit raw;
         digits = (case digits of c # ds \<Rightarrow> if c = CHR ''8'' then CHR ''7'' # ds else digits | [] \<Rightarrow> digits)
     in (digits,
         if length digits = 11 \<and> hd digits = CHR ''7''
         then take 1 digits @ '' ('' @ take 3 (drop 1 digits) @ '') '' @ take 3 (drop 4 digits) @ ''-''
              @ take 2 (drop 7 digits) @ ''-'' @ take 2 (drop 9 digits)
         else digits))"

definition phone_insert :: "phone \<Rightarrow> ('a auth_db_scheme, unit) stmt" where
  "phone_insert p d =
    (if ph_UserID p \<notin> us_ID ` set (t_users d) then Inl missing_reference
     else if ph_ID p \<in> ph_ID ` set (t_phones d) \<or> ph_Unformat p \<in> ph_Unformat ` set (t_phones d)
     then Inl duplicate_key else Inr ((), d\<lparr>t_phones := t_phones d @ [p]\<rparr>))"

definition user_of_phone :: "string \<Rightarrow> 'a auth_db_scheme \<Rightarrow> uuid option" where
  "user_of_phone unformat d =
     map_option ph_UserID (find (\<lambda>p. ph_Unformat p = unformat \<and> ph_UserID p \<in> us_ID ` set (t_users d)) (t_phones d))"

text \<open>A row a query of the transaction must find.\<close>

definition tx_one :: "('d \<Rightarrow> 'a option) \<Rightarrow> ('d, 'a) op" where
  "tx_one g = bnd (tx_stmt (query g)) (\<lambda>r. case r of None \<Rightarrow> fail (PlainError ''no rows in result set'' None) | Some x \<Rightarrow> ret x)"

definition new_phone_user ::
  "platform \<Rightarrow> pass_temp_input \<Rightarrow> string \<Rightarrow> time \<Rightarrow> ('a auth_db_scheme, uuid \<times> uuid) op" where
  "new_phone_user su inp hash t =
    (let (unformat, form) = normalizePhone (pt_Phone inp) in
     bnd new_uuid (\<lambda>uid.
     bnd (tx_stmt (user_insert su \<lparr>us_ID = uid, us_Email = ''phone+'' @ unformat @ ''@pass.local'', us_PasswordHash = '''',
            us_FullName = '''', us_Phone = None, us_IsActive = True, us_Name = Some (pt_Name inp), us_Secret = hash,
            us_CreatedAt = t, us_UpdatedAt = t\<rparr>)) (\<lambda>_.
     bnd new_uuid (\<lambda>pid.
     bnd (tx_stmt (phone_insert \<lparr>ph_ID = pid, ph_UserID = uid, ph_Unformat = unformat, ph_Format = form,
            ph_Country = (if pt_Country inp = '''' then ''RU'' else pt_Country inp)\<rparr>)) (\<lambda>_.
     ret (uid, pid))))))"

definition known_phone_user ::
  "pass_temp_input \<Rightarrow> string \<Rightarrow> time \<Rightarrow> uuid \<Rightarrow> ('a auth_db_scheme, uuid \<times> uuid) op" where
  "known_phone_user inp hash t uid =
     bnd (tx_stmt (exec (\<lambda>d. d\<lparr>t_users := row_update (\<lambda>u. us_ID u = uid)
            (\<lambda>u. u\<lparr>us_Secret := hash, us_Name := Some (pt_Name inp), us_UpdatedAt := t\<rparr>) (t_users d)\<rparr>))) (\<lambda>_.
     bnd (tx_one (\<lambda>d. map_option ph_ID (find (\<lambda>p. ph_UserID p = uid \<and> ph_Unformat p = fst (normalizePhone (pt_Phone inp)))
            (t_phones d)))) (\<lambda>pid.
     ret (uid, pid)))"

definition pass_organization :: "pass_temp_input \<Rightarrow> uuid \<Rightarrow> time \<Rightarrow> ('a auth_db_scheme, uuid \<times> bool) op" where
  "pass_organization inp uid t =
    bnd (tx_stmt (query (\<lambda>d. map_option og_ID (find (\<lambda>g. og_INN g = Some (pt_INN inp)) (t_organizations d))))) (\<lambda>r.
    case r of Some gid \<Rightarrow> ret (gid, False)
    | None \<Rightarrow>
      bnd new_uuid (\<lambda>gid.
      bnd (tx_stmt (organization_insert \<lparr>og_ID = gid, og_Name = pt_Name inp, og_Slug = ''org-'' @ take 8 (uuid_string gid),
             og_OwnerID = uid, og_Plan = ''free'', og_Settings = Some (JObj []), og_INN = Some (pt_INN inp),
             og_CreatedAt = t, og_UpdatedAt = t\<rparr>)) (\<lambda>_.
      ret (gid, True))))"

definition pass_labor :: "uuid \<Rightarrow> uuid \<Rightarrow> time \<Rightarrow> ('a auth_db_scheme, unit) op" where
  "pass_labor gid uid t =
    bnd (tx_stmt (query (\<lambda>d. find_member gid uid d))) (\<lambda>r.
    case r of Some _ \<Rightarrow> ret ()
    | None \<Rightarrow>
      bnd new_uuid (\<lambda>mid.
      tx_stmt (labor_insert
        \<lparr>lb_ID = mid, lb_OrganizationID = gid, lb_UserID = uid, lb_Role = ''owner'', lb_Permissions = Some (JArr []),
         lb_Admin = True, lb_JoinedAt = t\<rparr>)))"

definition pass_account ::
  "platform \<Rightarrow> pass_temp_input \<Rightarrow> string \<Rightarrow> ('a auth_db_scheme, uuid \<times> uuid \<times> uuid \<times> bool) op" where
  "pass_account su inp hash = with_tx
    (bnd (try_op (tx_stmt (query (user_of_phone (fst (normalizePhone (pt_Phone inp))))))) (\<lambda>r.
     bnd now (\<lambda>t.
     bnd (case r of Inr (Some uid) \<Rightarrow> known_phone_user inp hash t uid | _ \<Rightarrow> new_phone_user su inp hash t) (\<lambda>(uid, pid).
     bnd (pass_organization inp uid t) (\<lambda>(gid, fresh).
     bnd (pass_labor gid uid t) (\<lambda>_.
     ret (uid, pid, gid, fresh)))))))"

text \<open>What the seeders of a new organization answer is an argument.\<close>

definition handle_PassTemp ::
  "platform \<Rightarrow> go_error option \<Rightarrow> pass_temp_input \<Rightarrow> ('a auth_db_scheme, session \<times> seance) op" where
  "handle_PassTemp su seeded inp =
    bnd (guard (blank (pt_Phone inp)) (NewBadRequest ''phone is required'')) (\<lambda>_.
    bnd (guard (blank (pt_Secret inp)) (NewBadRequest ''secret is required'')) (\<lambda>_.
    bnd (guard (blank (pt_Name inp)) (NewBadRequest ''name is required'')) (\<lambda>_.
    bnd (guard (blank (pt_INN inp)) (NewBadRequest ''inn is required'')) (\<lambda>_.
    bnd (random_salt su) (\<lambda>salt.
    case HashSecret (su_IDKey su) salt (pt_Secret inp) of
      Inl _ \<Rightarrow> fail (NewInternal ''failed to hash secret'')
    | Inr hash \<Rightarrow>
      bnd (try_op (pass_account su inp hash)) (\<lambda>r.
      case r of Inl e \<Rightarrow> fail (Wrap e CodeInternal ''transaction failed'')
      | Inr (uid, pid, gid, fresh) \<Rightarrow>
        bnd (if fresh then (case seeded of None \<Rightarrow> ret ()
               | Some e \<Rightarrow> fail (Wrap e CodeInternal ''failed to initialize organization'')) else ret ()) (\<lambda>_.
        bnd (try_op (createSessionAndSeance su \<lparr>us_ID = uid, us_Email = '''', us_PasswordHash = '''', us_FullName = '''',
               us_Phone = None, us_IsActive = True, us_Name = None, us_Secret = '''', us_CreatedAt = time_zero,
               us_UpdatedAt = time_zero\<rparr> pid gid ''owner'' [])) (\<lambda>r.
        case r of Inl e \<Rightarrow> fail (Wrap e CodeInternal ''failed to create session'') | Inr sn \<Rightarrow> ret sn))))))))"

end
