(* ===== verification/Accounts.thy ===== *)
theory Accounts
  imports Sessions
begin

text \<open>
  What the sessions are worth: a session acts for a user, in an organization only with the rights of
  a membership; a logout is final; a login is admitted. And what the routes let through.
\<close>

section \<open>The invariant\<close>

definition rights_of :: "labor \<Rightarrow> string \<Rightarrow> string list \<Rightarrow> bool" where
  "rights_of m role perms \<longleftrightarrow> (role = '''' \<and> perms = [])
     \<or> (role = member_role m \<and> perms = parseLaborPermissions (lb_Permissions m))"

definition backed :: "'a auth_db_scheme \<Rightarrow> uuid \<Rightarrow> uuid \<Rightarrow> string \<Rightarrow> string list \<Rightarrow> bool" where
  "backed d uid gid role perms \<longleftrightarrow> uid \<in> us_ID ` set (t_users d)
     \<and> ((gid = uuid_nil \<and> role = '''' \<and> perms = [])
        \<or> (\<exists>m \<in> set (t_labors d). lb_UserID m = uid \<and> lb_OrganizationID m = gid \<and> rights_of m role perms))"

definition accounts_ok :: "'a auth_db_scheme \<Rightarrow> bool" where
  "accounts_ok d \<longleftrightarrow> (\<forall>sid s x. k_sessions d sid = Some (s, x) \<longrightarrow> ss_ID s = sid
     \<and> backed d (ss_UserID s) (ss_OrganizationID s) (ss_Role s) (ss_Permissions s))"

definition account_moves :: "'a auth_db_scheme \<Rightarrow> 'a auth_db_scheme \<Rightarrow> bool" where
  "account_moves d d' \<longleftrightarrow> set (t_users d) \<subseteq> set (t_users d') \<and> set (t_labors d) \<subseteq> set (t_labors d')"

lemma account_moves_refl: "account_moves d d"
  by (simp add: account_moves_def)

lemma account_moves_trans: "account_moves d d' \<Longrightarrow> account_moves d' d'' \<Longrightarrow> account_moves d d''"
  by (auto simp: account_moves_def)

text \<open>A session that was not there before has an identifier made on the way.\<close>

definition good_accounts :: "env \<Rightarrow> 'a auth_db_scheme \<Rightarrow> 'a auth_db_scheme \<Rightarrow> bool" where
  "good_accounts env d d' \<longleftrightarrow> accounts_ok d' \<and> account_moves d d'
     \<and> dom (k_sessions d') \<subseteq> dom (k_sessions d) \<union> range (uuid_string \<circ> uuids env)"

lemma good_accounts_refl: "accounts_ok d \<Longrightarrow> good_accounts env d d"
  by (simp add: good_accounts_def account_moves_refl)

lemma good_accounts_seances [simp]:
  "good_accounts env d (d'\<lparr>k_seances := x\<rparr>) = good_accounts env d d'"
  "good_accounts env d (d'\<lparr>k_seance_sets := y\<rparr>) = good_accounts env d d'"
  "good_accounts env d (d'\<lparr>k_seances := x, k_seance_sets := y\<rparr>) = good_accounts env d d'"
  by (simp_all add: good_accounts_def accounts_ok_def account_moves_def backed_def)

lemma backed_mono: "account_moves d d' \<Longrightarrow> backed d uid gid role perms \<Longrightarrow> backed d' uid gid role perms"
  by (auto simp: backed_def account_moves_def)

lemma good_grown: "good_accounts env d d' \<Longrightarrow> account_moves d' d'' \<Longrightarrow> k_sessions d'' = k_sessions d' \<Longrightarrow> good_accounts env d d''"
  unfolding good_accounts_def accounts_ok_def by (auto intro: account_moves_trans backed_mono)

lemma good_user [intro]: "good_accounts env d d' \<Longrightarrow> good_accounts env d (d'\<lparr>t_users := t_users d' @ us\<rparr>)"
  by (erule good_grown) (auto simp: account_moves_def)

lemma good_labor [intro]: "good_accounts env d d' \<Longrightarrow> good_accounts env d (d'\<lparr>t_labors := t_labors d' @ ms\<rparr>)"
  by (erule good_grown) (auto simp: account_moves_def)

lemma good_organizations [simp]: "good_accounts env d (d'\<lparr>t_organizations := gs\<rparr>) = good_accounts env d d'"
  by (simp add: good_accounts_def accounts_ok_def account_moves_def backed_def)

lemma good_put_session:
  assumes "good_accounts env d d'" and "backed d' (ss_UserID s) (ss_OrganizationID s) (ss_Role s) (ss_Permissions s)"
    and "ss_ID s \<in> dom (k_sessions d') \<union> range (uuid_string \<circ> uuids env)"
  shows "good_accounts env d (put_session s x d')"
proof -
  have "accounts_ok (put_session s x d')" "account_moves d (put_session s x d')"
    using assms(1,2) by (auto simp: good_accounts_def accounts_ok_def account_moves_def backed_def put_session_def)
  moreover have "dom (k_sessions (put_session s x d')) = insert (ss_ID s) (dom (k_sessions d'))"
    by (simp add: put_session_def)
  ultimately show ?thesis using assms(1,3) unfolding good_accounts_def by auto
qed

lemma good_delete_session [intro]: "good_accounts env d d' \<Longrightarrow> good_accounts env d (d'\<lparr>k_sessions := (k_sessions d')(sid := None)\<rparr>)"
  by (auto simp: good_accounts_def accounts_ok_def account_moves_def backed_def)

section \<open>The methods\<close>

text \<open>What a method guarantees when it starts from a state that is reached from d.\<close>

abbreviation keeps_good :: "'a auth_db_scheme \<Rightarrow> env \<Rightarrow> ('a auth_db_scheme, 'b) op \<Rightarrow> 'a auth_db_scheme world \<Rightarrow> bool" where
  "keeps_good d env m w \<equiv> wp env m (\<lambda>_ w'. good_accounts env d (committed w')) (\<lambda>_ w'. good_accounts env d (committed w')) w"

lemma view_command:
  assumes "\<And>e w'. same_outside w w' \<Longrightarrow> pending w' = pending w \<Longrightarrow> E e w'"
    and "\<And>t x d w'. s t (committed w) = Inr (x, d) \<Longrightarrow> committed w' = d \<Longrightarrow> published w' = published w \<Longrightarrow>
      pending w' = pending w \<Longrightarrow> Q x w'"
  shows "wp env (command s) Q E w"
  unfolding command_def by (intro wpI_bnd wpI_now view_pool_stmt) (auto intro!: assms)

lemma view_change:
  assumes "\<And>e w'. same_outside w w' \<Longrightarrow> pending w' = pending w \<Longrightarrow> E e w'"
    and "\<And>t w'. committed w' = u t (committed w) \<Longrightarrow> published w' = published w \<Longrightarrow> pending w' = pending w \<Longrightarrow> Q () w'"
  shows "wp env (command (\<lambda>t. exec (u t))) Q E w"
  by (rule view_command) (auto intro: assms)

lemma reads_command [reads_intros]: "reads (command (\<lambda>t. query (g t)))"
  unfolding command_def by (intro reads_intros) (auto simp: reads_def now_def same_outside_def)

lemma CreateSeance_good:
  assumes "good_accounts env d (committed w)"
  shows "keeps_good d env (CreateSeance n ttl) w"
  unfolding CreateSeance_def
  apply (intro view_rules view_change)
             apply (simp_all only: same_outside_def good_accounts_seances assms sum.distinct)
  done

lemma createSession_good:
  assumes "good_accounts env d (committed w)" and "backed (committed w) (us_ID u) gid role perms"
  shows "keeps_good d env (createSessionAndSeance su u pid gid role perms) w"
  unfolding createSessionAndSeance_def CreateSession_def Let_def
  apply (intro view_rules view_change)
    apply (simp add: same_outside_def assms)
   apply (simp add: same_outside_def assms)
  apply (rule wp_conseq [OF CreateSeance_good [where d = d]])
    apply (simp_all add: assms good_put_session wp_ret)
  done

lemma insert_or_conflict_good:
  assumes "good_accounts env d (committed w)"
    and "\<And>d' w'. s (committed w) = Inr ((), d') \<Longrightarrow> committed w' = d' \<Longrightarrow> Q () w'"
    and "\<And>e w'. committed w' = committed w \<Longrightarrow> E e w'"
  shows "wp env (insert_or_conflict s msg) Q E w"
  unfolding insert_or_conflict_def
  apply (intro view_rules view_pool_stmt)
  using assms apply (auto simp: same_outside_def)
  done

lemma Slide_good:
  assumes "good_accounts env d (committed w)"
  shows "keeps_good d env (SlideSeance n ttl) w"
  unfolding SlideSeance_def
  by (intro view_change) (simp_all only: same_outside_def good_accounts_seances assms)

lemma reads_GetSession [reads_intros]: "reads (GetSession sid)"
  unfolding GetSession_def by (intro reads_intros)

lemma reads_GetSeance [reads_intros]: "reads (GetSeance nid)"
  unfolding GetSeance_def by (intro reads_intros)

lemma reads_GetUser [reads_intros]: "reads (GetUserByEmail su email)" "reads (GetUserByID uid)"
  unfolding GetUserByEmail_def GetUserByID_def by (intro reads_intros)+

lemma reads_given_phone: "reads (given_phone p)"
  by (auto simp: given_phone_def reads_def new_uuid_def ret_def same_outside_def)

lemma reads_random_salt: "reads (random_salt su)"
  by (auto simp: random_salt_def reads_def same_outside_def)

text \<open>A session that is read was stored under its name.\<close>

lemma wp_GetSession:
  assumes "\<And>e w'. same_outside w w' \<Longrightarrow> E e w'"
    and "\<And>s x w'. k_sessions (committed w) sid = Some (s, x) \<Longrightarrow> same_outside w w' \<Longrightarrow> Q s w'"
  shows "wp env (GetSession sid) Q E w"
  unfolding GetSession_def command_def
  apply (intro view_rules)
  using assms by (auto simp: value_at_def same_outside_def split: option.splits if_splits)

lemma good_then:
  assumes "keeps_good d env m w"
    and "\<And>x w'. good_accounts env d (committed w') \<Longrightarrow> Q x w'" and "\<And>e w'. good_accounts env d (committed w') \<Longrightarrow> E e w'"
  shows "wp env m Q E w"
  by (rule wp_conseq [OF assms(1)]) (auto intro: assms(2,3))

lemma good_accounts_same: "good_accounts env d (committed w) \<Longrightarrow> same_outside w w' \<Longrightarrow> good_accounts env d (committed w')"
  by (simp add: same_outside_def)

lemma Middleware_good:
  assumes "good_accounts env d (committed w)"
  shows "keeps_good d env (Middleware su c n) w"
  unfolding Middleware_def
  apply (intro view_rules view_reads [OF reads_GetSession] view_reads [OF reads_GetSeance]
      good_then [OF Slide_good [where d = d]])
               apply (simp_all only: sum.distinct)
               apply (assumption | rule assms | erule good_accounts_same [rotated] good_accounts_same [OF good_accounts_same, rotated 2])+
  done

lemma SessionOnly_good: "good_accounts env d (committed w) \<Longrightarrow> keeps_good d env (SessionOnlyMiddleware c) w"
  unfolding SessionOnlyMiddleware_def
  by (intro view_rules view_reads [OF reads_GetSession]) (auto intro: good_accounts_same)

lemma behind_good:
  assumes "keeps_good d env m w" and "\<And>cx w'. good_accounts env d (committed w') \<Longrightarrow> keeps_good d env (h cx) w'"
  shows "keeps_good d env (behind m h) w"
  unfolding behind_def wp_bnd
  by (rule good_then [OF assms(1)]) (auto simp: wp_fail split: admission.splits intro: assms(2))

lemma inserted_good:
  "labor_insert m d0 = Inr (u, d') \<Longrightarrow> good_accounts env d d0 \<Longrightarrow> good_accounts env d d'"
  "user_insert su x d0 = Inr (u, d') \<Longrightarrow> good_accounts env d d0 \<Longrightarrow> good_accounts env d d'"
  "organization_insert g d0 = Inr (u, d') \<Longrightarrow> good_accounts env d d0 \<Longrightarrow> good_accounts env d d'"
  by (auto simp: labor_insert_def user_insert_def organization_insert_def split: if_splits)

lemma AddMember_good:
  assumes "good_accounts env d (committed w)"
  shows "keeps_good d env (AddMember m) w"
  unfolding AddMember_def Let_def
  apply (intro view_rules insert_or_conflict_good [where d = d])
  using assms apply (auto simp: same_outside_def dest: inserted_good)
  done

lemma CreateOrganization_good:
  assumes "good_accounts env d (committed w)"
  shows "keeps_good d env (CreateOrganization uid name slug) w"
  unfolding CreateOrganization_def repo_CreateOrganization_def Let_def
  apply (intro view_rules insert_or_conflict_good [where d = d] good_then [OF AddMember_good [where d = d]])
  using assms apply (auto simp: same_outside_def dest: inserted_good)
  done

lemma good_logged_out:
  "good_accounts env d d' \<Longrightarrow>
    good_accounts env d (d'\<lparr>k_seances := x, k_seance_sets := y, k_sessions := (k_sessions d')(sid := None)\<rparr>)"
  using good_delete_session [of env d d' sid] by (simp add: good_accounts_def accounts_ok_def account_moves_def backed_def)

lemma Logout_good:
  assumes "good_accounts env d (committed w)"
  shows "keeps_good d env (Logout sid) w"
  unfolding Logout_def DeleteSessionSeances_def DeleteSession_def
  apply (intro view_rules view_change view_reads [OF reads_command])
  using assms apply (simp_all add: same_outside_def good_delete_session good_logged_out)
  done

lemma UpdateOrganization_good:
  assumes "good_accounts env d (committed w)"
  shows "keeps_good d env (UpdateOrganization g) w"
  unfolding UpdateOrganization_def
  apply (intro view_rules view_pool_stmt)
  using assms apply (auto simp: same_outside_def)
  done

text \<open>The rights a login and a switch take over are those of a membership.\<close>

lemma find_memberD: "find_member gid uid d = Some m \<Longrightarrow>
    m \<in> set (t_labors d) \<and> lb_OrganizationID m = gid \<and> lb_UserID m = uid"
  by (auto simp: find_member_def find_Some_iff)

lemma member_of_row [simp]: "member_role (m\<lparr>lb_ID := x\<rparr>) = member_role m"
  by (simp add: member_role_def)

lemma insert_named_set: "set (insert_named le g hs) = insert g (set hs)"
  by (induction hs) auto

lemma listed_organizations:
  "set (foldr (insert_named le) gs []) = set gs"
  by (induction gs) (auto simp: insert_named_set)

lemma listed_member:
  assumes "g # gs = foldr (insert_named le) (map read_organization (memberships uid d)) []"
  shows "\<exists>m \<in> set (t_labors d). lb_UserID m = uid \<and> lb_OrganizationID m = og_ID g"
proof -
  have "g \<in> set (foldr (insert_named le) (map read_organization (memberships uid d)) [])"
    by (simp flip: assms)
  then show ?thesis by (auto simp: listed_organizations memberships_def read_organization_def)
qed

lemma backed_member:
  "find_member gid uid d = Some m \<Longrightarrow> uid \<in> us_ID ` set (t_users d) \<Longrightarrow>
    backed d uid gid (member_role m) (parseLaborPermissions (lb_Permissions m))"
  by (auto simp: backed_def rights_of_def dest!: find_memberD)

lemma backed_read:
  "find_member gid uid d = Some m \<Longrightarrow> uid \<in> us_ID ` set (t_users d) \<Longrightarrow>
    backed d uid gid (member_role (m\<lparr>lb_ID := x\<rparr>)) (parseLaborPermissions (lb_Permissions (m\<lparr>lb_ID := x\<rparr>)))"
  using backed_member by simp

lemma backed_blank:
  "\<exists>m \<in> set (t_labors d). lb_UserID m = uid \<and> lb_OrganizationID m = gid \<Longrightarrow> uid \<in> us_ID ` set (t_users d) \<Longrightarrow>
    backed d uid gid '''' []"
  by (auto simp: backed_def rights_of_def)

lemma first_organization_backed:
  assumes "gs = foldr (insert_named le) (map read_organization (memberships uid (committed w))) []"
    and "uid \<in> us_ID ` set (t_users (committed w))"
    and "\<And>e w'. same_outside w w' \<Longrightarrow> E e w'"
    and "\<And>gid role perms w'. backed (committed w) uid gid role perms \<Longrightarrow> same_outside w w' \<Longrightarrow> Q (gid, role, perms) w'"
  shows "wp env (first_organization gs uid) Q E w"
proof (cases gs)
  case Nil
  then show ?thesis using assms(2) by (auto simp: first_organization_def wp_ret backed_def intro!: assms(4))
next
  case (Cons g hs)
  have mem: "\<exists>m \<in> set (t_labors (committed w)). lb_UserID m = uid \<and> lb_OrganizationID m = og_ID g"
    using listed_member [OF assms(1) [unfolded Cons]] .
  show ?thesis
    unfolding first_organization_def GetMember_def Cons list.case
    apply (intro view_rules)
    using assms(2) mem by (auto intro!: assms(4) backed_read backed_blank simp: member_rights_def)
qed

lemma read_user_fields [simp]: "us_ID (read_user u) = us_ID u" "us_Email (read_user u) = us_Email u"
    "us_IsActive (read_user u) = us_IsActive u" "us_PasswordHash (read_user u) = us_PasswordHash u"
  by (simp_all add: read_user_def)

lemma Login_good:
  assumes ok: "good_accounts env d (committed w)"
  shows "keeps_good d env (Login su inp) w"
  unfolding Login_def GetUserByEmail_def ListUserOrganizations_def
  apply (intro view_rules view_reads [OF reads_given_phone] first_organization_backed [where le = "su_name_le su"]
      good_then [OF createSession_good [where d = d]])
                  apply (simp_all add: same_outside_def ok)
  apply (auto simp: find_Some_iff)
  done

lemma Unlock_good:
  assumes ok: "good_accounts env d (committed w)"
  shows "keeps_good d env (Unlock su sid password) w"
  unfolding Unlock_def Let_def
  apply (intro view_rules view_reads [OF reads_GetSession] view_reads [OF reads_GetUser(2)]
      good_then [OF CreateSeance_good [where d = d]])
         apply (simp_all add: same_outside_def ok)
  done

lemma UpdateSession_good:
  assumes ok: "good_accounts env d (committed w)"
    and "backed (committed w) (ss_UserID s) (ss_OrganizationID s) (ss_Role s) (ss_Permissions s)"
    and "ss_ID s \<in> dom (k_sessions (committed w))"
  shows "keeps_good d env (UpdateSession su s ttl) w"
  unfolding UpdateSession_def Let_def
  apply (intro view_rules view_change view_reads [OF reads_command])
  using assms apply (simp_all add: same_outside_def good_put_session)
  done

lemma good_session_user:
  "good_accounts env d d' \<Longrightarrow> k_sessions d' sid = Some (s, x) \<Longrightarrow> ss_UserID s \<in> us_ID ` set (t_users d')"
  by (auto simp: good_accounts_def accounts_ok_def backed_def)

lemma good_session_key: "good_accounts env d d' \<Longrightarrow> k_sessions d' sid = Some (s, x) \<Longrightarrow> ss_ID s = sid"
  by (auto simp: good_accounts_def accounts_ok_def)

lemma Switch_good:
  assumes ok: "good_accounts env d (committed w)"
  shows "keeps_good d env (SwitchOrganization su sid gid) w"
  unfolding SwitchOrganization_def GetMember_def Let_def
  apply (intro view_rules wp_GetSession good_then [OF UpdateSession_good [where d = d]])
          apply (simp_all add: same_outside_def ok)
  apply (auto intro!: backed_read good_session_user [OF ok] dest: good_session_key [OF ok])
  done

lemma inserted_user: "user_insert su x d0 = Inr (u, d') \<Longrightarrow> us_ID x \<in> us_ID ` set (t_users d')"
  by (auto simp: user_insert_def split: if_splits)

lemma Register_good:
  assumes ok: "good_accounts env d (committed w)"
  shows "keeps_good d env (Register su inp) w"
  unfolding Register_def CreateUser_def Let_def
  apply (intro view_rules view_reads [OF reads_given_phone] view_reads [OF reads_random_salt]
      insert_or_conflict_good [where d = d] good_then [OF createSession_good [where d = d]])
                      apply (simp_all add: same_outside_def ok)
  using ok apply (auto dest: inserted_good inserted_user simp: backed_def)
  done

section \<open>Runs of requests\<close>

text \<open>
  The requests that create and use accounts and only add memberships. \<open>/pass/temp\<close> and the two
  routes that change or end a membership stand apart, below: these leave open sessions as they are.
\<close>

datatype account_request =
    ARegister register_input
  | ALogin login_input
  | ALogout "string option"
  | AUnlock "string option" string
  | ASwitch "string option" "string option" uuid
  | ACreateOrganization "string option" "string option" string string
  | AUpdateOrganization "string option" "string option" uuid "string option" "json option"
  | AAddMember "string option" "string option" uuid string string

fun serve_account :: "platform \<Rightarrow> env \<Rightarrow> account_request \<Rightarrow> 'a auth_db_scheme \<Rightarrow> 'a auth_db_scheme" where
  "serve_account su env (ARegister inp) d = committed (snd (Register su inp env (start d)))"
| "serve_account su env (ALogin inp) d = committed (snd (Login su inp env (start d)))"
| "serve_account su env (ALogout c) d = committed (snd (handle_Logout c env (start d)))"
| "serve_account su env (AUnlock c password) d = committed (snd (handle_Unlock su c password env (start d)))"
| "serve_account su env (ASwitch c n gid) d = committed (snd (handle_SwitchOrganization su c n gid env (start d)))"
| "serve_account su env (ACreateOrganization c n name slug) d =
     committed (snd (handle_CreateOrganization su c n name slug env (start d)))"
| "serve_account su env (AUpdateOrganization c n gid name settings) d =
     committed (snd (handle_UpdateOrganization su c n gid name settings env (start d)))"
| "serve_account su env (AAddMember c n gid email role) d =
     committed (snd (handle_AddMember su c n gid email role env (start d)))"

lemma handlers_good:
  assumes "good_accounts env d (committed w)"
  shows "keeps_good d env (handle_Logout c) w" "keeps_good d env (handle_Unlock su c password) w"
    "keeps_good d env (handle_SwitchOrganization su c n gid) w"
    "keeps_good d env (handle_CreateOrganization su c n name slug) w"
  unfolding handle_Logout_def handle_Unlock_def handle_SwitchOrganization_def handle_CreateOrganization_def
  by (intro behind_good SessionOnly_good Middleware_good Logout_good Unlock_good Switch_good CreateOrganization_good
      assms; assumption)+

lemma handle_AddMember_good: "good_accounts env d (committed w) \<Longrightarrow> keeps_good d env (handle_AddMember su c n gid email role) w"
  unfolding handle_AddMember_def
  by (intro behind_good Middleware_good wpI_bnd view_reads [OF reads_GetUser(1)] AddMember_good)
    (simp_all add: same_outside_def)

lemma handle_UpdateOrganization_good:
  "good_accounts env d (committed w) \<Longrightarrow> keeps_good d env (handle_UpdateOrganization su c n gid name settings) w"
  unfolding handle_UpdateOrganization_def GetOrganization_def Let_def
  apply (intro behind_good Middleware_good view_rules good_then [OF UpdateOrganization_good [where d = d]])
       apply (simp_all add: same_outside_def)
  done

lemma start_good: "accounts_ok d \<Longrightarrow> good_accounts env d (committed (start d))"
  by (simp add: start_def good_accounts_refl)

lemma serve_account_good: "accounts_ok d \<Longrightarrow> good_accounts env d (serve_account su env r d)"
  by (cases r; simp only: serve_account.simps; rule wp_left [where P = "good_accounts env d"];
      intro Register_good Login_good handlers_good handle_AddMember_good handle_UpdateOrganization_good start_good;
      assumption)

interpretation accounts: service account_moves "serve_account su" accounts_ok for su
  using serve_account_good [unfolded good_accounts_def]
  by unfold_locales (blast intro: account_moves_refl account_moves_trans)+

section \<open>What the middleware admits\<close>

definition admits :: "session \<Rightarrow> auth_context \<Rightarrow> bool" where
  "admits s cx \<longleftrightarrow> cx_UserID cx = ss_UserID s \<and> cx_OrganizationID cx = in_organization s \<and> cx_Role cx = ss_Role s
     \<and> cx_Permissions cx = ss_Permissions s \<and> cx_SessionID cx = ss_ID s"

lemma Middleware_session:
  "wp env (Middleware su c n) (\<lambda>a _. case a of Refused b \<Rightarrow> True
      | Admitted cx \<Rightarrow> \<exists>s x. k_sessions (committed w) (the c) = Some (s, x) \<and> admits s cx) (\<lambda>_ _. True) w"
  unfolding Middleware_def SlideSeance_def
  apply (intro view_rules wp_GetSession view_reads [OF reads_GetSeance] view_change)
             apply (auto simp: admits_def)
  done

lemma Middleware_no_session:
  assumes "k_sessions (committed w) sid = None" and "sid \<noteq> ''''"
  shows "wp env (Middleware su (Some sid) n) (\<lambda>a _. a = Refused ''SESSION'') (\<lambda>_ _. False) w"
  using assms unfolding Middleware_def GetSession_def command_def
  apply (intro view_rules)
            apply (auto simp: value_at_def present_def)
  done

lemma admits_backed:
  assumes "accounts_ok d" and "k_sessions d sid = Some (s, x)" and "admits s cx"
    and "RequirePermission required (cx_Role cx) (cx_Permissions cx) = Pass"
  shows "\<exists>m \<in> set (t_labors d). lb_UserID m = cx_UserID cx
    \<and> cx_OrganizationID cx = (if lb_OrganizationID m = uuid_nil then None else Some (lb_OrganizationID m))
    \<and> HasPermission (member_role m) (parseLaborPermissions (lb_Permissions m)) required"
proof -
  have "cx_Role cx \<noteq> ''''" and has: "HasPermission (cx_Role cx) (cx_Permissions cx) required"
    using assms(4) by (auto simp: RequirePermission_def split: if_splits)
  moreover have "backed d (ss_UserID s) (ss_OrganizationID s) (ss_Role s) (ss_Permissions s)"
    using assms(1,2) by (auto simp: accounts_ok_def)
  ultimately obtain m where "m \<in> set (t_labors d)" "lb_UserID m = ss_UserID s" "lb_OrganizationID m = ss_OrganizationID s"
      "rights_of m (ss_Role s) (ss_Permissions s)"
    using assms(3) by (auto simp: backed_def admits_def)
  with assms(3) has \<open>cx_Role cx \<noteq> ''''\<close> show ?thesis
    by (auto simp: admits_def rights_of_def in_organization_def intro!: bexI [of _ m])
qed

section \<open>Logout\<close>

lemma Logout_deletes:
  "wp env (Logout sid) (\<lambda>_ w'. k_sessions (committed w') sid = None) (\<lambda>_ _. True) w"
  unfolding Logout_def DeleteSessionSeances_def DeleteSession_def
  by (intro view_rules view_change view_reads [OF reads_command]) simp_all

lemma session_stays_gone:
  assumes "accounts_ok d" and "k_sessions d sid = None"
    and "\<forall>env \<in> fst ` set rs. \<forall>k. uuid_string (uuids env k) \<noteq> sid"
  shows "k_sessions (run (serve_account su) rs d) sid = None"
  using assms
proof (induction rs arbitrary: d)
  case (Cons x rs)
  obtain env r where x: "x = (env, r)" by (cases x)
  have good: "good_accounts env d (serve_account su env r d)" by (rule serve_account_good [OF Cons.prems(1)])
  moreover have "sid \<notin> range (uuid_string \<circ> uuids env)" using Cons.prems(3) by (force simp: x)
  moreover have "sid \<notin> dom (k_sessions d)" using Cons.prems(2) by (simp add: domIff)
  ultimately have "sid \<notin> dom (k_sessions (serve_account su env r d))" unfolding good_accounts_def by blast
  then have "k_sessions (serve_account su env r d) sid = None" by (simp only: domIff not_not)
  then show ?case using good Cons.prems(3) unfolding x by (auto simp: good_accounts_def intro!: Cons.IH)
qed simp

section \<open>Requests whose commands are all executed\<close>

lemma ok_command:
  assumes "reliable env"
  shows "wp env (command (\<lambda>t. exec (u t))) Q E w
      = Q () (w\<lparr>tick := Suc (Suc (tick w)), committed := u (clock env (tick w)) (committed w)\<rparr>)"
  unfolding command_def using assms by (simp add: wp_bnd wp_now wp_pool_stmt)

lemma ok_ask:
  assumes "reliable env"
  shows "wp env (command (\<lambda>t. query (g t))) Q E w
      = Q (g (clock env (tick w)) (committed w)) (w\<lparr>tick := Suc (Suc (tick w))\<rparr>)"
  unfolding command_def using assms by (simp add: wp_bnd wp_now wp_pool_stmt)

lemmas wp_control = wp_bnd wp_try wp_ret wp_fail wp_guard wp_if wp_new_uuid wp_now

text \<open>A session and its seance are both there at every instant of an environment.\<close>

definition signed_in :: "env \<Rightarrow> 'a auth_db_scheme \<Rightarrow> session \<Rightarrow> string \<Rightarrow> bool" where
  "signed_in env d s nid \<longleftrightarrow> ss_ID s \<noteq> '''' \<and> nid \<noteq> ''''
     \<and> (\<exists>x. k_sessions d (ss_ID s) = Some (s, x) \<and> (\<forall>k. alive (clock env k) x))
     \<and> (\<exists>n y. k_seances d nid = Some (n, y) \<and> sn_SessionID n = ss_ID s \<and> (\<forall>k. alive (clock env k) y))"

lemma ok_Middleware:
  assumes "reliable env" and "signed_in env (committed w) s nid"
    and "\<And>k cx w'. admits s cx \<Longrightarrow>
      committed w' = (committed w)\<lparr>k_seances := slide (clock env k) (su_seanceTTL su) nid (k_seances (committed w))\<rparr> \<Longrightarrow>
      pending w' = pending w \<Longrightarrow> Q (Admitted cx) w'"
  shows "wp env (Middleware su (Some (ss_ID s)) (Some nid)) Q E w"
proof -
  obtain x n y where k: "k_sessions (committed w) (ss_ID s) = Some (s, x)" "\<And>k. alive (clock env k) x"
      "k_seances (committed w) nid = Some (n, y)" "sn_SessionID n = ss_ID s" "\<And>k. alive (clock env k) y"
      "ss_ID s \<noteq> ''''" "nid \<noteq> ''''"
    using assms(2) by (auto simp: signed_in_def)
  have "value_at (clock env j) (k_sessions (committed w)) (ss_ID s) = Some s"
    "value_at (clock env j) (k_seances (committed w)) nid = Some n" for j
    using k by (simp_all add: value_at_def)
  moreover have "present (Some (ss_ID s))" "present (Some nid)" using k by (simp_all add: present_def)
  ultimately show ?thesis
    unfolding Middleware_def GetSession_def GetSeance_def SlideSeance_def
    by (simp add: wp_control ok_command [OF assms(1)] ok_ask [OF assms(1)] k(4))
      (rule assms(3), simp_all add: admits_def)
qed

text \<open>What a login leaves in the store.\<close>

definition stored_until :: "'a auth_db_scheme \<Rightarrow> session \<Rightarrow> seance \<Rightarrow> time \<Rightarrow> time \<Rightarrow> bool" where
  "stored_until d s n t t' \<longleftrightarrow> ss_ID s \<noteq> '''' \<and> sn_ID n \<noteq> '''' \<and> sn_SessionID n = ss_ID s
     \<and> (\<exists>x. k_sessions d (ss_ID s) = Some (s, Some x) \<and> t \<le> x) \<and> (\<exists>y. k_seances d (sn_ID n) = Some (n, Some y) \<and> t' \<le> y)"

lemma stored_signed_in:
  "stored_until d s n t t' \<Longrightarrow> (\<And>k. clock env k < t) \<Longrightarrow> (\<And>k. clock env k < t') \<Longrightarrow> signed_in env d s (sn_ID n)"
  unfolding stored_until_def signed_in_def alive_def by (force intro: order_less_le_trans)

lemma uuid_string_nonempty [simp]: "uuid_string u \<noteq> ''''"
  by (simp add: uuid_string_def Let_def)

lemma ok_createSession:
  assumes "reliable env" and "0 < su_sessionTTL su" and "0 < su_seanceTTL su" and "\<And>k. t0 \<le> clock env k"
    and "\<And>s n w'. stored_until (committed w') s n (t0 + su_sessionTTL su) (t0 + su_seanceTTL su) \<Longrightarrow>
      ss_UserID s = us_ID u \<Longrightarrow> ss_OrganizationID s = gid \<Longrightarrow> ss_Role s = role \<Longrightarrow> ss_Permissions s = perms \<Longrightarrow> Q (s, n) w'"
  shows "wp env (createSessionAndSeance su u pid gid role perms) Q E w"
  unfolding createSessionAndSeance_def CreateSession_def CreateSeance_def Let_def
  by (simp add: wp_control ok_command [OF assms(1)] ok_ask [OF assms(1)])
    (rule assms(5), simp_all add: stored_until_def put_session_def deadline_def assms(2-4))

text \<open>The rights a member starts with.\<close>

definition starts_as :: "'a auth_db_scheme \<Rightarrow> uuid \<Rightarrow> organization list \<Rightarrow> auth_context \<Rightarrow> bool" where
  "starts_as d uid gs cx \<longleftrightarrow> (case gs of
     [] \<Rightarrow> cx_Role cx = '''' \<and> cx_Permissions cx = [] \<and> cx_OrganizationID cx = None
   | g # _ \<Rightarrow> (\<exists>m. find_member (og_ID g) uid d = Some m \<and> cx_Role cx = member_role m
       \<and> cx_Permissions cx = parseLaborPermissions (lb_Permissions m)))"

lemma find_member_exists:
  "\<exists>m \<in> set (t_labors d). lb_UserID m = uid \<and> lb_OrganizationID m = gid \<Longrightarrow> \<exists>m. find_member gid uid d = Some m"
proof -
  assume "\<exists>m \<in> set (t_labors d). lb_UserID m = uid \<and> lb_OrganizationID m = gid"
  then have "find_member gid uid d \<noteq> None" by (auto simp: find_member_def find_None_iff)
  then show ?thesis by blast
qed

lemma wrong_secret_read [simp]: "wrong_secret su p (read_user u) = wrong_secret su p u"
  by (simp add: wrong_secret_def)

lemma ok_first_organization:
  assumes "reliable env" and "gs = foldr (insert_named le) (map read_organization (memberships uid (committed w))) []"
    and "\<And>gid role perms w'. same_outside w w' \<Longrightarrow>
      (case gs of [] \<Rightarrow> gid = uuid_nil \<and> role = '''' \<and> perms = [] | g # _ \<Rightarrow> \<exists>m. find_member (og_ID g) uid (committed w) = Some m \<and> gid = og_ID g
        \<and> role = member_role m \<and> perms = parseLaborPermissions (lb_Permissions m)) \<Longrightarrow> Q (gid, role, perms) w'"
  shows "wp env (first_organization gs uid) Q E w"
proof (cases gs)
  case Nil
  then show ?thesis by (auto simp: first_organization_def wp_ret intro!: assms(3))
next
  case (Cons g hs)
  obtain m where m: "find_member (og_ID g) uid (committed w) = Some m"
    using find_member_exists [OF listed_member [OF assms(2) [unfolded Cons]]] by blast
  show ?thesis
    unfolding first_organization_def GetMember_def Cons list.case
    using assms(1) m by (simp add: wp_control wp_pool_find member_rights_def) (rule assms(3), simp_all add: Cons m)
qed

lemma ok_Login:
  assumes rel: "reliable env" and ttl: "0 < su_sessionTTL su" "0 < su_seanceTTL su" and t0: "\<And>k. t0 \<le> clock env k"
    and u: "find (\<lambda>u. su_lower su (us_Email u) = su_lower su (li_Email inp)) (t_users (committed w)) = Some u"
    and "us_IsActive u" and "\<not> wrong_secret su (li_Password inp) u"
  shows "wp env (Login su inp) (\<lambda>lr w'.
      stored_until (committed w') (lr_Session lr) (lr_Seance lr) (t0 + su_sessionTTL su) (t0 + su_seanceTTL su)
      \<and> ss_UserID (lr_Session lr) = us_ID u
      \<and> (\<forall>cx. admits (lr_Session lr) cx \<longrightarrow> starts_as (committed w) (us_ID u) (lr_Organizations lr) cx)) (\<lambda>_ _. False) w"
proof -
  have phone: "wp env (given_phone p) Q E w" if "\<And>x n. Q x (w\<lparr>tick := n\<rparr>)" for p Q E and w :: "'a auth_db_scheme world"
    using that [of _ "tick w"] that by (auto simp: given_phone_def wp_control)
  show ?thesis
    unfolding Login_def GetUserByEmail_def ListUserOrganizations_def
    using rel u assms(6,7)
    apply (simp add: wp_control wp_pool_find wp_pool_stmt)
    apply (rule ok_first_organization [OF rel, where le = "su_name_le su"])
     apply (simp add: memberships_def)
    apply (simp add: wp_control)
    apply (rule phone)
    apply (simp only: wp_bnd)
    apply (rule ok_createSession [OF rel ttl t0])
    apply (auto simp: wp_ret admits_def starts_as_def in_organization_def split: list.splits)
    done
qed

section \<open>What the routes let through\<close>

lemma slide_alive:
  assumes "value_at t m nid = Some n" and "0 < ttl"
  shows "slide t ttl nid m = m(nid \<mapsto> (n, Some (t + ttl)))"
  using assms by (simp add: slide_def)

lemma ok_handle_AddMember:
  assumes rel: "reliable env" and signed: "signed_in env (committed w) s nid"
    and u: "find (\<lambda>u. su_lower su (us_Email u) = su_lower su email) (t_users (committed w)) = Some u"
    and gid: "gid \<in> og_ID ` set (t_organizations (committed w))"
    and new: "find_member gid (us_ID u) (committed w) = None"
    and Q: "\<And>m k w'. labor_key m = (gid, us_ID u) \<Longrightarrow> lb_Role m = role \<Longrightarrow> \<not> lb_Admin m \<Longrightarrow>
      lb_Permissions m = Some (JArr []) \<Longrightarrow>
      committed w' = (committed w)\<lparr>k_seances := slide (clock env k) (su_seanceTTL su) nid (k_seances (committed w)),
        t_labors := t_labors (committed w) @ [m]\<rparr> \<Longrightarrow> Q m w'"
  shows "wp env (handle_AddMember su (Some (ss_ID s)) (Some nid) gid email role) Q E w"
proof -
  have "us_ID u \<in> us_ID ` set (t_users (committed w))" using u by (auto dest: find_Some_iff [THEN iffD1])
  moreover have "(gid, us_ID u) \<notin> labor_key ` set (t_labors (committed w))"
    using new by (auto simp: find_member_def find_None_iff labor_key_def)
  ultimately show ?thesis
    unfolding handle_AddMember_def behind_def GetUserByEmail_def AddMember_def insert_or_conflict_def Let_def
    apply (simp only: wp_bnd)
    apply (rule ok_Middleware [OF rel signed])
    using rel u gid
    apply (simp add: wp_control wp_pool_find wp_pool_stmt labor_insert_def row_insert_def labor_key_def)
    apply (rule Q)
        apply (simp_all add: labor_key_def)
    done
qed

lemma ok_handle_Switch:
  assumes rel: "reliable env" and signed: "signed_in env (committed w) s nid"
    and m: "find_member gid (ss_UserID s) (committed w) = Some m"
    and Q: "\<And>w'. Q (s\<lparr>ss_OrganizationID := gid, ss_Role := member_role m,
      ss_Permissions := parseLaborPermissions (lb_Permissions m)\<rparr>) w'"
  shows "wp env (handle_SwitchOrganization su (Some (ss_ID s)) (Some nid) gid) Q E w"
proof -
  have "value_at (clock env j) (k_sessions (committed w)) (ss_ID s) = Some s" for j
    using signed by (auto simp: signed_in_def value_at_def)
  moreover have "find_member gid (ss_UserID s) ((committed w)\<lparr>k_seances := z\<rparr>) = Some m" for z
    using m by (simp add: find_member_def)
  ultimately show ?thesis
    unfolding handle_SwitchOrganization_def behind_def SwitchOrganization_def GetSession_def GetMember_def UpdateSession_def
    apply (simp only: wp_bnd)
    apply (rule ok_Middleware [OF rel signed])
    using rel apply (simp add: wp_control wp_pool_find ok_command ok_ask admits_def Q Let_def)
    done
qed

lemma signed_in_slid:
  assumes "signed_in env d s nid" and "0 < ttl" and "\<And>k. alive (clock env' k) (snd (the (k_sessions d (ss_ID s))))"
    and "\<And>k. clock env' k < clock env j + ttl"
  shows "signed_in env' (d\<lparr>k_seances := slide (clock env j) ttl nid (k_seances d), t_labors := ms\<rparr>) s nid"
  using assms by (auto simp: signed_in_def slide_def value_at_def alive_def)

lemma owner_passes: "p \<in> set perms_owner \<Longrightarrow> RequirePermission p ''owner'' perms = Pass"
  by (simp add: RequirePermission_def HasPermission_def rolePermissions_def)

text \<open>A phone nobody has and the tax number of an organization.\<close>

lemma ok_tx_query:
  assumes "reliable env" and "\<And>w'. view w' = view w \<Longrightarrow> Q (g (view w)) w'"
  shows "wp env (tx_stmt (query g)) Q E w"
  by (rule ok_tx_stmt [OF assms(1)]) (auto intro: assms(2))

lemma ok_tx_put:
  assumes "reliable env" and "s (view w) = Inr (x, d)" and "\<And>w'. view w' = d \<Longrightarrow> Q x w'"
  shows "wp env (tx_stmt s) Q E w"
  by (rule ok_tx_stmt [OF assms(1)]) (auto simp: assms(2) intro: assms(3))

lemma user_insert_ok:
  "us_ID u \<notin> us_ID ` set (t_users d) \<Longrightarrow> su_lower su (us_Email u) \<notin> (su_lower su \<circ> us_Email) ` set (t_users d) \<Longrightarrow>
    user_insert su u d = Inr ((), d\<lparr>t_users := t_users d @ [u]\<rparr>)"
  by (simp add: user_insert_def)

lemma phone_insert_ok:
  "ph_UserID p \<in> us_ID ` set (t_users d) \<Longrightarrow> ph_ID p \<notin> ph_ID ` set (t_phones d) \<Longrightarrow>
    ph_Unformat p \<notin> ph_Unformat ` set (t_phones d) \<Longrightarrow> phone_insert p d = Inr ((), d\<lparr>t_phones := t_phones d @ [p]\<rparr>)"
  by (simp add: phone_insert_def)

lemma ok_new_phone_user:
  assumes rel: "reliable env"
    and free: "fst (normalizePhone (pt_Phone inp)) \<notin> ph_Unformat ` set (t_phones (view w))"
      "su_lower su (''phone+'' @ fst (normalizePhone (pt_Phone inp)) @ ''@pass.local'')
        \<notin> (su_lower su \<circ> us_Email) ` set (t_users (view w))"
    and fresh: "\<And>k. uuids env k \<notin> us_ID ` set (t_users (view w))" "\<And>k. uuids env k \<notin> ph_ID ` set (t_phones (view w))"
    and Q: "\<And>k pid w'. uuids env k \<in> us_ID ` set (t_users (view w')) \<Longrightarrow>
      t_organizations (view w') = t_organizations (view w) \<Longrightarrow> t_labors (view w') = t_labors (view w) \<Longrightarrow>
      Q (uuids env k, pid) w'"
  shows "wp env (new_phone_user su inp hash t) Q E w"
proof -
  obtain unformat form where n: "normalizePhone (pt_Phone inp) = (unformat, form)" by fastforce
  show ?thesis
    unfolding new_phone_user_def n Let_def prod.case
    apply (intro wpI_bnd wpI_new_uuid)
    apply (rule ok_tx_put [OF rel user_insert_ok])
    using fresh free apply (simp_all add: n split del: if_split)
    apply (intro wpI_bnd wpI_new_uuid)
    apply (rule ok_tx_put [OF rel phone_insert_ok])
       apply simp_all
    apply (simp only: wp_ret)
    apply (rule Q)
      apply simp_all
    done
qed

lemma ok_pass_organization:
  assumes rel: "reliable env" and "find (\<lambda>g. og_INN g = Some (pt_INN inp)) (t_organizations (view w)) = Some g"
    and Q: "\<And>w'. view w' = view w \<Longrightarrow> Q (og_ID g, False) w'"
  shows "wp env (pass_organization inp uid t) Q E w"
  unfolding pass_organization_def wp_bnd
  by (rule ok_tx_query [OF rel]) (simp add: assms(2) wp_ret Q)

lemma ok_pass_labor:
  assumes rel: "reliable env" and "gid \<in> og_ID ` set (t_organizations (view w))" and "uid \<in> us_ID ` set (t_users (view w))"
    and none: "find_member gid uid (view w) = None" and Q: "\<And>w'. Q () w'"
  shows "wp env (pass_labor gid uid t) Q E w"
proof -
  have "(gid, uid) \<notin> labor_key ` set (t_labors (view w))"
    using none by (auto simp: find_member_def find_None_iff labor_key_def)
  then show ?thesis
    unfolding pass_labor_def wp_bnd
    apply (intro ok_tx_query [OF rel])
    apply (simp add: none wp_bnd)
    apply (intro wpI_new_uuid ok_tx_stmt [OF rel])
    using assms(2,3) apply (auto simp: labor_insert_def row_insert_def labor_key_def Q split: if_splits)
    done
qed

lemma ok_pass_account:
  assumes rel: "reliable env" and phone: "fst (normalizePhone (pt_Phone inp)) \<notin> ph_Unformat ` set (t_phones (committed w))"
    and email: "su_lower su (''phone+'' @ fst (normalizePhone (pt_Phone inp)) @ ''@pass.local'')
        \<notin> (su_lower su \<circ> us_Email) ` set (t_users (committed w))"
    and fresh: "\<And>k. uuids env k \<notin> us_ID ` set (t_users (committed w))" "\<And>k. uuids env k \<notin> ph_ID ` set (t_phones (committed w))"
    and org: "find (\<lambda>g. og_INN g = Some (pt_INN inp)) (t_organizations (committed w)) = Some g"
    and stranger: "\<And>k. find_member (og_ID g) (uuids env k) (committed w) = None"
  shows "wp env (pass_account su inp hash) (\<lambda>(uid, pid, gid, fresh) _. gid = og_ID g \<and> \<not> fresh) (\<lambda>_ _. False) w"
proof -
  have "og_ID g \<in> og_ID ` set (t_organizations (committed w))" using org by (auto dest: find_Some_iff [THEN iffD1])
  moreover have "user_of_phone (fst (normalizePhone (pt_Phone inp))) (committed w) = None"
    using phone by (auto simp: user_of_phone_def find_None_iff image_iff)
  ultimately show ?thesis
    unfolding pass_account_def
    apply (intro ok_with_tx [OF rel] wpI_bnd wpI_try ok_tx_query [OF rel] wpI_now)
    apply simp
    apply (rule ok_new_phone_user [OF rel])
    using phone email fresh org stranger
        apply (simp_all add: wp_bnd)
    apply (rule ok_pass_organization [OF rel])
     apply simp
    apply (simp add: wp_bnd)
    apply (rule ok_pass_labor [OF rel])
       apply (simp_all add: find_member_def wp_ret)
    done
qed

lemma wp_random_salt: "wp env (random_salt su) Q E w = Q (su_rand su (tick w)) (w\<lparr>tick := Suc (tick w)\<rparr>)"
  by (simp add: wp_def random_salt_def)

lemma ok_PassTemp:
  assumes rel: "reliable env" and ttl: "0 < su_sessionTTL su" "0 < su_seanceTTL su"
    and rand: "\<And>k. su_rand su k = Inr (salt k)"
    and filled: "\<not> blank (pt_Phone inp)" "\<not> blank (pt_Secret inp)" "\<not> blank (pt_Name inp)" "\<not> blank (pt_INN inp)"
    and account: "\<And>hash w'. committed w' = committed w \<Longrightarrow>
      wp env (pass_account su inp hash) (\<lambda>(uid, pid, gid', fresh) _. gid' = gid \<and> \<not> fresh) (\<lambda>_ _. False) w'"
    and t0: "\<And>k. t0 \<le> clock env k"
  shows "wp env (handle_PassTemp su seeded inp) (\<lambda>(s, n) w'.
      stored_until (committed w') s n (t0 + su_sessionTTL su) (t0 + su_seanceTTL su)
      \<and> ss_OrganizationID s = gid \<and> ss_Role s = ''owner'') (\<lambda>_ _. False) w"
  unfolding handle_PassTemp_def
  using filled rand
  apply (simp add: wp_control wp_random_salt HashSecret_def)
  apply (rule wp_conseq [OF account])
    apply simp
   apply (clarsimp simp: wp_control)
   apply (rule ok_createSession [OF rel ttl t0])
   apply (simp_all add: wp_control)
  done

text \<open>Ending a membership does not reach the sessions that were opened with it.\<close>

lemma removed_member_keeps_session:
  assumes "signed_in env' d s nid"
  shows "signed_in env' (committed (snd (repo_RemoveMember gid uid env (start d)))) s nid"
proof (rule wp_left [where P = "\<lambda>d'. signed_in env' d' s nid"])
  have same: "\<And>ls. signed_in env' (d\<lparr>t_labors := ls\<rparr>) s nid" using assms by (simp add: signed_in_def)
  show "wp env (repo_RemoveMember gid uid) (\<lambda>_ w. signed_in env' (committed w) s nid)
      (\<lambda>_ w. signed_in env' (committed w) s nid) (start d)"
    using same assms unfolding repo_RemoveMember_def
    by (auto intro!: view_rules view_pool_stmt view_guards simp: start_def same_outside_def dest!: sym [of _ "committed _"])
qed

section \<open>Properties\<close>

text \<open>C28: A permission comes from a membership: after any requests that create and use accounts, whichever
  of their statements and commands failed, a request that the middleware admits and that passes the
  check of a permission is made by a member of the organization the session works in, and the
  member's role or own permissions hold the permission.\<close>

theorem permission_needs_membership:
  assumes "accounts_ok d" and "d' = run (serve_account su) rs d"
    and "Middleware su c n env (start d') = (Inr (Admitted cx), w)"
    and "RequirePermission required (cx_Role cx) (cx_Permissions cx) = Pass"
  shows "\<exists>m \<in> set (t_labors d'). lb_UserID m = cx_UserID cx
    \<and> cx_OrganizationID cx = (if lb_OrganizationID m = uuid_nil then None else Some (lb_OrganizationID m))
    \<and> HasPermission (member_role m) (parseLaborPermissions (lb_Permissions m)) required"
proof -
  obtain s x where "k_sessions d' (the c) = Some (s, x)" "admits s cx"
    using wp_resultD(1) [OF Middleware_session assms(3)] by (auto simp: start_def)
  moreover have "accounts_ok d'" using accounts.run_sound [OF assms(1)] assms(2) by simp
  ultimately show ?thesis using admits_backed assms(4) by blast
qed

text \<open>C29: A logout is final: once it has returned, and as long as no new session gets the same identifier,
  no later requests make the middleware admit the session again.\<close>

theorem logout_is_final:
  assumes "accounts_ok d" and "Logout sid env (start d) = (Inr u, w)" and "sid \<noteq> ''''"
    and "\<And>env'. env' \<in> fst ` set rs \<Longrightarrow> \<forall>k. uuid_string (uuids env' k) \<noteq> sid"
  shows "case Middleware su (Some sid) n env' (start (run (serve_account su) rs (committed w))) of
      (Inr a, _) \<Rightarrow> a = Refused ''SESSION'' | (Inl _, _) \<Rightarrow> False"
proof -
  have "k_sessions (committed w) sid = None" by (rule wp_resultD(1) [OF Logout_deletes assms(2)])
  moreover have "accounts_ok (committed w)"
    using wp_resultD(1) [OF Logout_good [OF start_good [OF assms(1)]] assms(2)] by (simp add: good_accounts_def)
  ultimately have "k_sessions (run (serve_account su) rs (committed w)) sid = None"
    using assms(4) by (intro session_stays_gone) auto
  then show ?thesis
    using Middleware_no_session [of "start (run (serve_account su) rs (committed w))" sid env' su n] assms(3)
    by (auto simp: wp_def start_def split: prod.splits sum.splits)
qed

text \<open>C30: A user who logs in is let in: with every statement and command executed, the right password of
  an active user gives cookies that the middleware admits until the shorter of the two times to live
  has passed, in the name of that user and with the rights of the first membership, if there is one.\<close>

theorem login_is_admitted:
  assumes "reliable env" and "reliable env'" and "0 < su_sessionTTL su" and "0 < su_seanceTTL su"
    and "\<And>k. t0 \<le> clock env k" and "\<And>k. clock env' k < t0 + min (su_sessionTTL su) (su_seanceTTL su)"
    and "find (\<lambda>u. su_lower su (us_Email u) = su_lower su (li_Email inp)) (t_users d) = Some u"
    and "us_IsActive u" and "VerifySecret (su_IDKey su) (li_Password inp) (us_PasswordHash u) = Inr True"
  shows "case Login su inp env (start d) of (Inl _, _) \<Rightarrow> False
    | (Inr lr, w) \<Rightarrow> (case Middleware su (Some (ss_ID (lr_Session lr))) (Some (sn_ID (lr_Seance lr))) env' (start (committed w)) of
        (Inr (Admitted cx), _) \<Rightarrow> cx_UserID cx = us_ID u \<and> starts_as d (us_ID u) (lr_Organizations lr) cx
      | _ \<Rightarrow> False)"
proof -
  have "\<not> wrong_secret su (li_Password inp) u" using assms(9) by (simp add: wrong_secret_def)
  from ok_Login [where w = "start d", OF assms(1,3,4,5) _ assms(8) this] assms(7)
  obtain lr w where l: "Login su inp env (start d) = (Inr lr, w)"
    and st: "stored_until (committed w) (lr_Session lr) (lr_Seance lr) (t0 + su_sessionTTL su) (t0 + su_seanceTTL su)"
    and who: "ss_UserID (lr_Session lr) = us_ID u"
      "\<And>cx. admits (lr_Session lr) cx \<Longrightarrow> starts_as d (us_ID u) (lr_Organizations lr) cx"
    by (fastforce simp: wp_def start_def split: prod.splits sum.splits)
  have "signed_in env' (committed (start (committed w))) (lr_Session lr) (sn_ID (lr_Seance lr))"
  proof -
    have "clock env' k < t0 + su_sessionTTL su" "clock env' k < t0 + su_seanceTTL su" for k
      using assms(6) [of k] by simp_all
    then show ?thesis using stored_signed_in [OF st] by (simp add: start_def)
  qed
  from ok_Middleware [OF assms(2) this, where su = su and Q = "\<lambda>a _. \<exists>cx. a = Admitted cx \<and> admits (lr_Session lr) cx"
      and E = "\<lambda>_ _. False"]
  have "wp env' (Middleware su (Some (ss_ID (lr_Session lr))) (Some (sn_ID (lr_Seance lr))))
      (\<lambda>a _. \<exists>cx. a = Admitted cx \<and> admits (lr_Session lr) cx) (\<lambda>_ _. False) (start (committed w))" by blast
  then show ?thesis
    unfolding l using who by (auto simp: wp_def admits_def split: prod.splits sum.splits)
qed

text \<open>The routes do not ask whose organization it is: any signed-in user adds himself to any
  organization he is not a member of, as an owner, and after switching to it passes every check of
  a permission there.\<close>

lemma stranger_becomes_owner:
  assumes "reliable env" and "reliable env'" and "signed_in env d s nid" and "0 < su_seanceTTL su"
    and "\<And>k. alive (clock env' k) (snd (the (k_sessions d (ss_ID s))))" and "\<And>j k. clock env' k < clock env j + su_seanceTTL su"
    and "find (\<lambda>u. su_lower su (us_Email u) = su_lower su email) (t_users d) = Some u" and "us_ID u = ss_UserID s"
    and "gid \<in> og_ID ` set (t_organizations d)" and "find_member gid (us_ID u) d = None"
  shows "case handle_AddMember su (Some (ss_ID s)) (Some nid) gid email ''owner'' env (start d) of (Inl _, _) \<Rightarrow> False
    | (Inr _, w) \<Rightarrow> (case handle_SwitchOrganization su (Some (ss_ID s)) (Some nid) gid env' (start (committed w)) of
        (Inl _, _) \<Rightarrow> False
      | (Inr s', _) \<Rightarrow> ss_OrganizationID s' = gid
          \<and> list_all (\<lambda>p. RequirePermission p (ss_Role s') (ss_Permissions s') = Pass) perms_owner)"
proof -
  have "wp env (handle_AddMember su (Some (ss_ID s)) (Some nid) gid email ''owner'')
      (\<lambda>_ w. signed_in env' (committed w) s nid
        \<and> (\<exists>m. find_member gid (ss_UserID s) (committed w) = Some m \<and> member_role m = ''owner'')) (\<lambda>_ _. False) (start d)"
  proof (rule ok_handle_AddMember [OF assms(1)])
    fix m :: labor and k w'
    assume m: "labor_key m = (gid, us_ID u)" "lb_Role m = ''owner''" "\<not> lb_Admin m"
      and w': "committed w' = (committed (start d))\<lparr>k_seances := slide (clock env k) (su_seanceTTL su) nid
        (k_seances (committed (start d))), t_labors := t_labors (committed (start d)) @ [m]\<rparr>"
    have "find_member gid (ss_UserID s) (committed w') = Some m"
      using assms(8,10) m(1) by (simp add: w' start_def find_member_def find_append labor_key_def)
    moreover have "signed_in env' (committed w') s nid"
      using signed_in_slid [OF assms(3,4,5,6)] by (simp add: w' start_def)
    ultimately show "signed_in env' (committed w') s nid
        \<and> (\<exists>m. find_member gid (ss_UserID s) (committed w') = Some m \<and> member_role m = ''owner'')"
      using m(2,3) by (simp add: member_role_def)
  qed (use assms in \<open>simp_all add: start_def\<close>)
  then obtain m x w where a: "handle_AddMember su (Some (ss_ID s)) (Some nid) gid email ''owner'' env (start d) = (Inr x, w)"
      "signed_in env' (committed w) s nid" "find_member gid (ss_UserID s) (committed w) = Some m" "member_role m = ''owner''"
    by (auto simp: wp_def split: prod.splits sum.splits)
  have "wp env' (handle_SwitchOrganization su (Some (ss_ID s)) (Some nid) gid)
      (\<lambda>s' _. ss_OrganizationID s' = gid \<and> ss_Role s' = ''owner'') (\<lambda>_ _. False) (start (committed w))"
    using a(2-4) by (intro ok_handle_Switch [OF assms(2)]) (simp_all add: start_def)
  then show ?thesis
    unfolding a(1) by (auto simp: wp_def list_all_iff owner_passes split: prod.splits sum.splits)
qed

text \<open>Nor does \<open>/pass/temp\<close>: whoever knows the tax number of an organization and sends a phone nobody
  has gets a session that is its owner.\<close>

lemma pass_temp_takes_over:
  assumes "reliable env" and "0 < su_sessionTTL su" and "0 < su_seanceTTL su" and "\<And>k. su_rand su k = Inr (salt k)"
    and "\<not> blank (pt_Phone inp)" and "\<not> blank (pt_Secret inp)" and "\<not> blank (pt_Name inp)" and "\<not> blank (pt_INN inp)"
    and "fst (normalizePhone (pt_Phone inp)) \<notin> ph_Unformat ` set (t_phones d)"
    and "su_lower su (''phone+'' @ fst (normalizePhone (pt_Phone inp)) @ ''@pass.local'')
        \<notin> (su_lower su \<circ> us_Email) ` set (t_users d)"
    and "\<And>k. uuids env k \<notin> us_ID ` set (t_users d)" and "\<And>k. uuids env k \<notin> ph_ID ` set (t_phones d)"
    and "find (\<lambda>g. og_INN g = Some (pt_INN inp)) (t_organizations d) = Some g"
    and "\<And>k. find_member (og_ID g) (uuids env k) d = None"
    and "\<And>k. t0 \<le> clock env k"
  shows "case handle_PassTemp su seeded inp env (start d) of (Inl _, _) \<Rightarrow> False
    | (Inr (s, n), w) \<Rightarrow> stored_until (committed w) s n (t0 + su_sessionTTL su) (t0 + su_seanceTTL su)
        \<and> ss_OrganizationID s = og_ID g \<and> ss_Role s = ''owner''"
proof -
  have "wp env (handle_PassTemp su seeded inp) (\<lambda>(s, n) w'.
      stored_until (committed w') s n (t0 + su_sessionTTL su) (t0 + su_seanceTTL su)
      \<and> ss_OrganizationID s = og_ID g \<and> ss_Role s = ''owner'') (\<lambda>_ _. False) (start d)"
    by (rule ok_PassTemp [OF assms(1-8) _ assms(15)])
      (rule ok_pass_account [OF assms(1)], use assms(9-14) in \<open>simp_all add: start_def\<close>)
  then show ?thesis by (auto simp: wp_def split: prod.splits sum.splits)
qed

section \<open>Witnesses\<close>

text \<open>A user who manages an organization and has a session in it, and one who belongs to none.\<close>

definition sample_platform :: platform where
  "sample_platform = \<lparr>su_IDKey = first_byte, su_rand = (\<lambda>_. Inr ''salt''), su_lower = id, su_name_le = (\<lambda>_ _. True),
     su_whole_seconds = id, su_sessionTTL = 3600, su_seanceTTL = 600\<rparr>"

definition sample_user :: "uuid \<Rightarrow> string \<Rightarrow> user" where
  "sample_user uid email = \<lparr>us_ID = uid, us_Email = email,
     us_PasswordHash = encoded_secret ''salt'' (replicate 32 (CHR ''s'')), us_FullName = '''', us_Phone = None,
     us_IsActive = True, us_Name = None, us_Secret = '''', us_CreatedAt = 0, us_UpdatedAt = 0\<rparr>"

definition sample_organization :: organization where
  "sample_organization = \<lparr>og_ID = 7, og_Name = ''Bakery'', og_Slug = ''bakery'', og_OwnerID = 5, og_Plan = ''free'',
     og_Settings = None, og_INN = Some ''7701'', og_CreatedAt = 0, og_UpdatedAt = 0\<rparr>"

definition sample_labor :: labor where
  "sample_labor = \<lparr>lb_ID = 3, lb_OrganizationID = 7, lb_UserID = 5, lb_Role = ''manager'',
     lb_Permissions = Some (JArr []), lb_Admin = False, lb_JoinedAt = 0\<rparr>"

definition sample_session :: "string \<Rightarrow> uuid \<Rightarrow> uuid \<Rightarrow> string \<Rightarrow> session" where
  "sample_session sid uid gid role = \<lparr>ss_ID = sid, ss_UserID = uid, ss_PhoneID = 1, ss_OrganizationID = gid, ss_Role = role,
     ss_Permissions = [], ss_Email = '''', ss_FullName = '''', ss_CreatedAt = 0\<rparr>"

definition sample_auth :: auth_db where
  "sample_auth = \<lparr>t_users = [sample_user 5 ''ann'', sample_user 6 ''bob''], t_phones = [],
     t_organizations = [sample_organization], t_labors = [sample_labor],
     k_sessions = [''A'' \<mapsto> (sample_session ''A'' 5 7 ''manager'', None), ''B'' \<mapsto> (sample_session ''B'' 6 0 '''', None)],
     k_seances = [''a'' \<mapsto> (\<lparr>sn_ID = ''a'', sn_SessionID = ''A'', sn_CreatedAt = 0\<rparr>, None),
                  ''b'' \<mapsto> (\<lparr>sn_ID = ''b'', sn_SessionID = ''B'', sn_CreatedAt = 0\<rparr>, None)],
     k_seance_sets = (\<lambda>_. [])(''A'' := [''a''], ''B'' := [''b''])\<rparr>"

lemma sample_auth_ok: "accounts_ok sample_auth"
  by (auto simp: accounts_ok_def sample_auth_def sample_session_def backed_def rights_of_def sample_labor_def sample_user_def
      member_role_def parseLaborPermissions_def uuid_nil_def split: if_splits)

definition noon :: env where
  "noon = (env_ok Some)\<lparr>clock := \<lambda>_. 5\<rparr>"

lemma noon_simps [simp]: "reliable noon" "clock noon k = 5" "uuids noon k = 1000 + k" "fault noon k = None"
  by (simp_all add: noon_def reliable_def env_ok_def)

lemmas auth_eval = run_simps command_def query_def exec_def GetSession_def GetSeance_def SlideSeance_def
  DeleteSessionSeances_def DeleteSession_def value_at_def alive_def slide_def present_def in_organization_def

text \<open>The other user logs out; the manager's request may then cancel an order.\<close>

definition after_logout :: auth_db where
  "after_logout = run (serve_account sample_platform) [(noon, ALogout (Some ''B''))] sample_auth"

lemma after_logout_sessions: "k_sessions after_logout ''A'' = Some (sample_session ''A'' 5 7 ''manager'', None)"
    "k_seances after_logout ''a'' = Some (\<lparr>sn_ID = ''a'', sn_SessionID = ''A'', sn_CreatedAt = 0\<rparr>, None)"
    "t_labors after_logout = [sample_labor]"
  by (simp_all add: after_logout_def handle_Logout_def SessionOnlyMiddleware_def behind_def Logout_def auth_eval sample_auth_def
      sample_session_def)

theorem permission_needs_membership_witness:
  "HasPermission (member_role sample_labor) (parseLaborPermissions (lb_Permissions sample_labor)) ''order.cancel''"
proof -
  obtain cx w where m: "Middleware sample_platform (Some ''A'') (Some ''a'') noon (start after_logout) = (Inr (Admitted cx), w)"
      and cx: "cx_Role cx = ''manager''" "cx_Permissions cx = []"
    by (simp add: Middleware_def auth_eval after_logout_sessions) (simp add: sample_session_def)
  have "RequirePermission ''order.cancel'' (cx_Role cx) (cx_Permissions cx) = Pass"
    unfolding cx by (simp add: RequirePermission_def HasPermission_def rolePermissions_def perms_manager_def)
  from permission_needs_membership [OF sample_auth_ok after_logout_def m this] show ?thesis
    unfolding after_logout_sessions by auto
qed

lemma uuid_string_long: "uuid_string u \<noteq> [c]"
  by (simp add: uuid_string_def Let_def append_eq_Cons_conv)

theorem logout_is_final_witness:
  "case Logout ''B'' noon (start sample_auth) of (Inl _, _) \<Rightarrow> False
    | (Inr _, w) \<Rightarrow> (case Middleware sample_platform (Some ''B'') (Some ''b'') noon
          (start (run (serve_account sample_platform) [(noon, AUnlock (Some ''B'') ''secret'')] (committed w))) of
        (Inr a, _) \<Rightarrow> a = Refused ''SESSION'' | (Inl _, _) \<Rightarrow> False)"
proof -
  obtain u w where l: "Logout ''B'' noon (start sample_auth) = (Inr u, w)"
    by (simp add: Logout_def auth_eval sample_auth_def)
  show ?thesis
    unfolding l prod.case sum.case by (rule logout_is_final [OF sample_auth_ok l]) (simp_all add: uuid_string_long)
qed

lemma sample_secret: "VerifySecret first_byte ''secret'' (encoded_secret ''salt'' (replicate 32 (CHR ''s''))) = Inr True"
  by (simp add: VerifySecret_encoded first_byte_def)

lemma sample_fields: "t_users sample_auth = [sample_user 5 ''ann'', sample_user 6 ''bob'']" "t_phones sample_auth = []"
    "t_organizations sample_auth = [sample_organization]" "t_labors sample_auth = [sample_labor]"
    "us_ID (sample_user uid email) = uid" "us_Email (sample_user uid email) = email" "us_IsActive (sample_user uid email)"
    "us_PasswordHash (sample_user uid email) = encoded_secret ''salt'' (replicate 32 (CHR ''s''))"
    "su_IDKey sample_platform = first_byte" "su_rand sample_platform = (\<lambda>_. Inr ''salt'')" "su_lower sample_platform = id"
    "su_sessionTTL sample_platform = 3600" "su_seanceTTL sample_platform = 600"
  by (simp_all add: sample_auth_def sample_user_def sample_platform_def)

definition ann_login :: login_input where
  "ann_login = \<lparr>li_Email = ''ann'', li_Password = ''secret'', li_PhoneID = 0\<rparr>"

lemma ann_login_fields: "li_Email ann_login = ''ann''" "li_Password ann_login = ''secret''"
  by (simp_all add: ann_login_def)

theorem login_is_admitted_witness:
  "case Login sample_platform ann_login noon (start sample_auth) of (Inl _, _) \<Rightarrow> False
    | (Inr lr, w) \<Rightarrow> (case Middleware sample_platform (Some (ss_ID (lr_Session lr))) (Some (sn_ID (lr_Seance lr))) noon
          (start (committed w)) of
        (Inr (Admitted cx), _) \<Rightarrow> cx_UserID cx = 5 \<and> starts_as sample_auth 5 (lr_Organizations lr) cx
      | _ \<Rightarrow> False)"
  using login_is_admitted [of noon noon sample_platform 5 ann_login sample_auth "sample_user 5 ''ann''"] sample_secret
  unfolding sample_fields by (simp add: sample_fields ann_login_fields)

theorem stranger_becomes_owner_witness:
  "case handle_AddMember sample_platform (Some ''B'') (Some ''b'') 7 ''bob'' ''owner'' noon (start sample_auth) of
      (Inl _, _) \<Rightarrow> False
    | (Inr _, w) \<Rightarrow> (case handle_SwitchOrganization sample_platform (Some ''B'') (Some ''b'') 7 noon (start (committed w)) of
        (Inl _, _) \<Rightarrow> False
      | (Inr s', _) \<Rightarrow> ss_OrganizationID s' = 7
          \<and> list_all (\<lambda>p. RequirePermission p (ss_Role s') (ss_Permissions s') = Pass) perms_owner)"
proof -
  have s: "ss_ID (sample_session ''B'' 6 0 '''') = ''B''" "ss_UserID (sample_session ''B'' 6 0 '''') = 6"
    by (simp_all add: sample_session_def)
  have "signed_in noon sample_auth (sample_session ''B'' 6 0 '''') ''b''"
    by (simp add: signed_in_def sample_auth_def sample_session_def alive_def)
  moreover have "k_sessions sample_auth ''B'' = Some (sample_session ''B'' 6 0 '''', None)"
    by (simp add: sample_auth_def)
  ultimately show ?thesis
    using stranger_becomes_owner [of noon noon sample_auth "sample_session ''B'' 6 0 ''''" "''b''" sample_platform "''bob''"
        "sample_user 6 ''bob''" 7]
    unfolding s
    by (simp add: sample_fields find_member_def sample_labor_def sample_organization_def alive_def)
qed

definition sample_pass :: pass_temp_input where
  "sample_pass = \<lparr>pt_Country = '''', pt_Phone = ''8 900 1234567'', pt_Secret = ''x'', pt_Name = ''Eve'', pt_INN = ''7701''\<rparr>"

lemma sample_pass_fields: "pt_Country sample_pass = ''''" "pt_Phone sample_pass = ''8 900 1234567''"
    "pt_Secret sample_pass = ''x''" "pt_Name sample_pass = ''Eve''" "pt_INN sample_pass = ''7701''"
  by (simp_all add: sample_pass_def)

theorem pass_temp_takes_over_witness:
  "case handle_PassTemp sample_platform None sample_pass noon (start sample_auth) of (Inl _, _) \<Rightarrow> False
    | (Inr (s, n), w) \<Rightarrow> stored_until (committed w) s n (5 + 3600) (5 + 600)
      \<and> ss_OrganizationID s = og_ID sample_organization \<and> ss_Role s = ''owner''"
  using pass_temp_takes_over [of noon sample_platform "\<lambda>_. ''salt''" sample_pass sample_auth sample_organization 5 None]
  unfolding sample_fields by (simp add: sample_fields sample_pass_fields sample_organization_def sample_labor_def find_member_def blank_def is_space_def byte_def)

end
