(* ===== verification/RateLimits.thy ===== *)
theory RateLimits
  imports Errs
begin

text \<open>
  \<open>internal/api/rest/ratelimit.go\<close>: one counter per client and window, and the goroutine that
  removes counters whose window is over. A trace is what happens to one limiter in the order the
  mutex lets it happen, each event with the reading of the clock it makes under the mutex.
\<close>

record visitor =
  vs_count :: int64
  vs_resetAt :: time

type_synonym visitors = "string \<Rightarrow> visitor option"

definition allow :: "int64 \<Rightarrow> int \<Rightarrow> time \<Rightarrow> string \<Rightarrow> visitors \<Rightarrow> bool \<times> visitors" where
  "allow rate window t key vs = (case vs key of
     None \<Rightarrow> (True, vs(key := Some \<lparr>vs_count = 1, vs_resetAt = t + window\<rparr>))
   | Some v \<Rightarrow>
       (if vs_resetAt v < t then (True, vs(key := Some \<lparr>vs_count = 1, vs_resetAt = t + window\<rparr>))
        else (let v = v\<lparr>vs_count := vs_count v + 1\<rparr> in (sle (vs_count v) rate, vs(key := Some v)))))"

text \<open>One round of the cleanup.\<close>

definition cleanup :: "time \<Rightarrow> visitors \<Rightarrow> visitors" where
  "cleanup t vs = (\<lambda>key. case vs key of None \<Rightarrow> None | Some v \<Rightarrow> if vs_resetAt v < t then None else Some v)"

text \<open>The name a request is counted under: the header the client sends, or else the address.\<close>

definition client_key :: "string \<Rightarrow> string \<Rightarrow> string" where
  "client_key remoteAddr forwarded = (if forwarded \<noteq> '''' then forwarded else remoteAddr)"

definition RateLimit ::
  "int64 \<Rightarrow> time \<Rightarrow> string \<Rightarrow> string \<Rightarrow> (go_error + 'a) \<Rightarrow> visitors \<Rightarrow> (go_error + 'a) \<times> visitors" where
  "RateLimit requestsPerMinute t remoteAddr forwarded answer vs =
    (let (ok, vs) = allow requestsPerMinute (60 * 1000000000) t (client_key remoteAddr forwarded) vs in
     (if ok then answer else Inl (NewRateLimited ''rate limit exceeded''), vs))"

section \<open>Traces\<close>

datatype limit_event = Ask string | Cleanup

fun answers :: "int64 \<Rightarrow> int \<Rightarrow> visitors \<Rightarrow> (time \<times> limit_event) list \<Rightarrow> (string \<times> bool) list" where
  "answers rate window vs [] = []"
| "answers rate window vs ((t, Cleanup) # es) = answers rate window (cleanup t vs) es"
| "answers rate window vs ((t, Ask key) # es) =
    (let (ok, vs') = allow rate window t key vs in (key, ok) # answers rate window vs' es)"

text \<open>The requests of a client that were let through.\<close>

definition admitted :: "string \<Rightarrow> (string \<times> bool) list \<Rightarrow> nat" where
  "admitted key as = length (filter (\<lambda>a. a = (key, True)) as)"

lemma admitted_simps [simp]:
  "admitted key [] = 0"
  "admitted key (a # as) = (if a = (key, True) then Suc (admitted key as) else admitted key as)"
  by (simp_all add: admitted_def)

lemma allow_cases [consumes 0, case_names opens counts]:
  assumes "\<lbrakk>\<And>v. vs key = Some v \<Longrightarrow> vs_resetAt v < t;
      allow rate window t key vs = (True, vs(key := Some \<lparr>vs_count = 1, vs_resetAt = t + window\<rparr>))\<rbrakk> \<Longrightarrow> P"
    and "\<And>v. \<lbrakk>vs key = Some v; t \<le> vs_resetAt v;
      allow rate window t key vs
        = (sle (vs_count v + 1) rate, vs(key := Some (v\<lparr>vs_count := vs_count v + 1\<rparr>)))\<rbrakk> \<Longrightarrow> P"
  shows P
proof (cases "vs key")
  case None
  then show ?thesis by (intro assms(1)) (simp_all add: allow_def)
next
  case (Some v)
  then show ?thesis
  proof (cases "vs_resetAt v < t")
    case True
    with Some show ?thesis by (intro assms(1)) (simp_all add: allow_def)
  next
    case False
    with Some show ?thesis by (intro assms(2) [of v]) (simp_all add: allow_def Let_def)
  qed
qed

section \<open>The cleanup is invisible\<close>

text \<open>Two tables that differ in counters whose window is over.\<close>

definition stale_only :: "time \<Rightarrow> visitors \<Rightarrow> visitors \<Rightarrow> bool" where
  "stale_only t vs vs' \<longleftrightarrow> (\<forall>key. vs' key = vs key \<or> (vs' key = None \<and> (\<exists>v. vs key = Some v \<and> vs_resetAt v < t)))"

lemma stale_only_refl: "stale_only t vs vs"
  by (simp add: stale_only_def)

lemma stale_only_later: "stale_only t vs vs' \<Longrightarrow> t \<le> t' \<Longrightarrow> stale_only t' vs vs'"
  unfolding stale_only_def by (meson order.strict_trans2)

lemma stale_only_cleanup:
  assumes "stale_only t vs vs'"
  shows "stale_only t vs (cleanup t vs')"
  unfolding stale_only_def
proof
  fix key
  from assms have "vs' key = vs key \<or> (vs' key = None \<and> (\<exists>v. vs key = Some v \<and> vs_resetAt v < t))"
    by (simp add: stale_only_def)
  then show "cleanup t vs' key = vs key \<or> (cleanup t vs' key = None \<and> (\<exists>v. vs key = Some v \<and> vs_resetAt v < t))"
    by (cases "vs key") (auto simp: cleanup_def split: if_splits)
qed

lemma stale_only_allow:
  assumes "stale_only t vs vs'"
  shows "fst (allow rate window t key vs') = fst (allow rate window t key vs)
    \<and> stale_only t (snd (allow rate window t key vs)) (snd (allow rate window t key vs'))"
proof -
  have "vs' key = vs key \<or> (vs' key = None \<and> (\<exists>v. vs key = Some v \<and> vs_resetAt v < t))"
    using assms by (simp add: stale_only_def)
  then have same: "fst (allow rate window t key vs') = fst (allow rate window t key vs)"
    and at: "snd (allow rate window t key vs') key = snd (allow rate window t key vs) key"
    by (auto simp: allow_def Let_def split: option.splits)
  have "snd (allow rate window t key us) k = us k" if "k \<noteq> key" for us k
    using that by (auto simp: allow_def Let_def split: option.splits)
  then show ?thesis
    using same at assms unfolding stale_only_def by metis
qed

lemma cleanup_invisible:
  assumes "stale_only t vs vs'" and "sorted (t # map fst es)"
  shows "answers rate window vs' es = answers rate window vs (filter (\<lambda>(_, e). e \<noteq> Cleanup) es)"
  using assms
proof (induction es arbitrary: t vs vs')
  case (Cons x es)
  obtain t' e where x: "x = (t', e)" by (cases x)
  have now: "stale_only t' vs vs'" and rest: "sorted (t' # map fst es)"
    using Cons.prems x stale_only_later by auto
  show ?case
  proof (cases e)
    case Cleanup
    then show ?thesis
      using Cons.IH [OF stale_only_cleanup [OF now] rest] x by simp
  next
    case (Ask key)
    have eq: "fst (allow rate window t' key vs') = fst (allow rate window t' key vs)"
      and st: "stale_only t' (snd (allow rate window t' key vs)) (snd (allow rate window t' key vs'))"
      using stale_only_allow [OF now] by blast+
    show ?thesis
      using Cons.IH [OF st rest] eq x Ask by (simp add: case_prod_unfold Let_def)
  qed
qed simp

section \<open>How much gets through\<close>

text \<open>
  What a client may still be let through before time \<open>until\<close>: the rest of an open window and, when
  that closes before, one more.
\<close>

definition budget :: "int64 \<Rightarrow> time \<Rightarrow> visitor option \<Rightarrow> int" where
  "budget rate until x = (let R = max 1 (sint rate) in
     (case x of None \<Rightarrow> R
      | Some v \<Rightarrow> (R - min R (sint (vs_count v))) + (if until \<le> vs_resetAt v then 0 else R)))"

lemma budget_nonneg: "0 \<le> budget rate until x"
  by (auto simp: budget_def Let_def split: option.splits)

definition counted :: "int \<Rightarrow> visitor option \<Rightarrow> bool" where
  "counted n x \<longleftrightarrow> (case x of None \<Rightarrow> True | Some v \<Rightarrow> 1 \<le> sint (vs_count v) \<and> sint (vs_count v) + n < 2 ^ 63)"

lemma budget_counted: "counted n x \<Longrightarrow> budget rate until x \<le> 2 * max 1 (sint rate) - 1"
  by (auto simp: budget_def counted_def Let_def split: option.splits)

lemma counted_later: "counted n x \<Longrightarrow> m \<le> n \<Longrightarrow> counted m x"
  by (auto simp: counted_def split: option.splits)

lemma count_up:
  assumes "counted (int (Suc n)) (Some v)"
  shows "sint (vs_count v + 1) = sint (vs_count v) + 1"
  using assms sint64_plus [of "vs_count v" 1] by (simp add: counted_def)

lemma allow_counted:
  assumes "counted (int (Suc n)) (vs k)" and "int n < 2 ^ 62"
  shows "counted (int n) (snd (allow rate window t key vs) k)"
proof (cases "k = key")
  case True
  show ?thesis
  proof (cases rule: allow_cases [where vs = vs and key = key and t = t and rate = rate and window = window])
    case opens
    then show ?thesis using True assms(2) by (simp add: counted_def)
  next
    case (counts v)
    then show ?thesis
      using True assms(1) count_up [of n v] by (simp add: counted_def)
  qed
next
  case False
  then have "snd (allow rate window t key vs) k = vs k"
    by (auto simp: allow_def Let_def split: option.splits)
  then show ?thesis using assms(1) counted_later by auto
qed

lemma cleanup_counted: "counted n (vs k) \<Longrightarrow> counted n (cleanup t vs k)"
  by (auto simp: cleanup_def counted_def split: option.splits)

lemma budget_cleanup:
  assumes "t \<le> until"
  shows "budget rate until (cleanup t vs key) \<le> budget rate until (vs key)"
  using assms by (auto simp: budget_def cleanup_def Let_def split: option.splits)

lemma budget_allow:
  assumes "t \<le> until" and "until \<le> t + window" and "counted (int (Suc n)) (vs key)"
  shows "(if fst (allow rate window t key vs) then 1 else 0) + budget rate until (snd (allow rate window t key vs) key)
    \<le> budget rate until (vs key)"
proof (cases rule: allow_cases [where vs = vs and key = key and t = t and rate = rate and window = window])
  case opens
  then show ?thesis
    using assms(1,2) by (cases "vs key") (auto simp: budget_def Let_def)
next
  case (counts v)
  then show ?thesis
    using assms(3) count_up [of n v] by (auto simp: budget_def Let_def sle_def)
qed

lemma admitted_budget:
  assumes "\<And>t. t \<in> fst ` set es \<Longrightarrow> t \<le> until \<and> until \<le> t + window"
    and "counted (int (length es)) (vs key)" and "length es < 2 ^ 62"
  shows "int (admitted key (answers rate window vs es)) \<le> budget rate until (vs key)"
  using assms
proof (induction es arbitrary: vs)
  case Nil
  then show ?case by (simp add: budget_nonneg)
next
  case (Cons x es)
  obtain t e where x: "x = (t, e)" by (cases x)
  have t: "t \<le> until" "until \<le> t + window" using Cons.prems(1) [of t] x by simp_all
  have len: "length es < 2 ^ 62" "int (length es) < 2 ^ 62" using Cons.prems(3) by simp_all
  have IH: "int (admitted key (answers rate window us es)) \<le> budget rate until (us key)"
    if "counted (int (length es)) (us key)" for us
    using Cons.prems(1) that len(1) by (intro Cons.IH) auto
  have now: "counted (int (Suc (length es))) (vs key)" using Cons.prems(2) by simp
  show ?case
  proof (cases e)
    case Cleanup
    have "counted (int (length es)) (cleanup t vs key)"
      using cleanup_counted counted_later [OF now] by simp
    from IH [of "cleanup t vs", OF this] show ?thesis
      using budget_cleanup [OF t(1), of rate vs key] x Cleanup by simp
  next
    case (Ask k)
    have le: "int (admitted key (answers rate window (snd (allow rate window t k vs)) es))
        \<le> budget rate until (snd (allow rate window t k vs) key)"
      by (rule IH, rule allow_counted [where vs = vs, OF now len(2)])
    show ?thesis
    proof (cases "k = key")
      case True
      then show ?thesis
        using le budget_allow [where vs = vs and key = key, OF t now, of rate] x Ask by (auto simp: case_prod_unfold Let_def split: if_splits)
    next
      case False
      then have "snd (allow rate window t k vs) key = vs key"
        by (auto simp: allow_def Let_def split: option.splits)
      then show ?thesis using le False x Ask by (simp add: case_prod_unfold Let_def)
    qed
  qed
qed

text \<open>The table a trace leaves.\<close>

fun table_after :: "int64 \<Rightarrow> int \<Rightarrow> visitors \<Rightarrow> (time \<times> limit_event) list \<Rightarrow> visitors" where
  "table_after rate window vs [] = vs"
| "table_after rate window vs ((t, Cleanup) # es) = table_after rate window (cleanup t vs) es"
| "table_after rate window vs ((t, Ask key) # es) = table_after rate window (snd (allow rate window t key vs)) es"

lemma table_counted:
  assumes "counted (int (length es + n)) (vs key)" and "length es + n < 2 ^ 62"
  shows "counted (int n) (table_after rate window vs es key)"
  using assms
proof (induction rate window vs es rule: table_after.induct)
  case (2 rate window vs t es)
  have "counted (int (length es + n)) (cleanup t vs key)"
    by (rule cleanup_counted, rule counted_later [OF "2.prems"(1)]) simp
  from "2.IH" [OF this] show ?case using "2.prems"(2) by simp
next
  case (3 rate window vs t k es)
  have "counted (int (length es + n)) (snd (allow rate window t k vs) key)"
    using "3.prems" by (intro allow_counted) simp_all
  from "3.IH" [OF this] show ?case using "3.prems"(2) by simp
qed simp

text \<open>The header a client sends names the counter it is counted under: with a new value each time, no
  request is refused.\<close>

lemma forged_header_escapes:
  assumes "distinct names" and "'''' \<notin> set names" and "\<And>n. n \<in> set names \<Longrightarrow> vs n = None"
  shows "answers rate window vs (map (\<lambda>n. (t, Ask (client_key remoteAddr n))) names) = map (\<lambda>n. (n, True)) names"
  using assms
proof (induction names arbitrary: vs)
  case (Cons n ns)
  have "answers rate window (snd (allow rate window t n vs)) (map (\<lambda>n. (t, Ask (client_key remoteAddr n))) ns)
      = map (\<lambda>n. (n, True)) ns"
    using Cons.prems by (intro Cons.IH) (auto simp: allow_def)
  moreover have "fst (allow rate window t n vs)" using Cons.prems(3) [of n] by (simp add: allow_def)
  moreover have "client_key remoteAddr n = n" using Cons.prems(2) by (auto simp: client_key_def)
  ultimately show ?case by (simp add: case_prod_unfold Let_def)
qed simp

section \<open>Properties\<close>

text \<open>C34: The goroutine that removes old counters changes no answer: whenever it runs, the requests of a
  trace are answered as if it never did.\<close>

theorem cleanup_changes_no_answer:
  assumes "sorted (map fst es)"
  shows "answers rate window vs es = answers rate window vs (filter (\<lambda>(_, e). e \<noteq> Cleanup) es)"
proof (cases es)
  case (Cons x xs)
  then show ?thesis using assms cleanup_invisible [OF stale_only_refl, of "fst x" es] by simp
qed simp

text \<open>C33: In any span of time as long as the window, whatever came before, a limiter that started empty lets
  at most one request less than twice its rate through for a client, whatever others ask and
  whenever old counters are removed (as long as fewer than \<open>2 ^ 62\<close> things happen to it).\<close>

theorem rate_limit_bound:
  assumes "length before + length es < 2 ^ 62"
    and "\<And>t. t \<in> fst ` set es \<Longrightarrow> from_t \<le> t \<and> t \<le> from_t + window"
  shows "int (admitted key (answers rate window (table_after rate window (\<lambda>_. None) before) es))
    \<le> 2 * max 1 (sint rate) - 1"
proof -
  let ?vs = "table_after rate window (\<lambda>_. None) before"
  have c: "counted (int (length es)) (?vs key)"
    by (rule table_counted) (use assms(1) in \<open>simp_all add: counted_def\<close>)
  have "int (admitted key (answers rate window ?vs es)) \<le> budget rate (from_t + window) (?vs key)"
    using assms by (intro admitted_budget [where vs = ?vs and key = key, OF _ c]) fastforce+
  with budget_counted [OF c, of rate "from_t + window"] show ?thesis by linarith
qed

section \<open>Witnesses\<close>

theorem cleanup_changes_no_answer_witness:
  "answers 1 10 (\<lambda>_. None) [(0, Ask ''a''), (5, Ask ''a''), (11, Cleanup), (12, Ask ''a'')]
    = answers 1 10 (\<lambda>_. None) [(0, Ask ''a''), (5, Ask ''a''), (12, Ask ''a'')]"
  using cleanup_changes_no_answer [of "[(0, Ask ''a''), (5, Ask ''a''), (11, Cleanup), (12, Ask ''a'')]" 1 10 "\<lambda>_. None"]
  by simp

text \<open>The bound is reached: one request opens the window, two more come at its end and three after it.\<close>

theorem rate_limit_bound_witness:
  "int (admitted ''a'' (answers 3 10 (table_after 3 10 (\<lambda>_. None) [(0, Ask ''a'')])
      [(9, Ask ''a''), (10, Ask ''a''), (11, Ask ''a''), (12, Ask ''a''), (13, Ask ''a''), (14, Ask ''a'')])) \<le> 5"
  using rate_limit_bound [of "[(0, Ask ''a'')]"
      "[(9, Ask ''a''), (10, Ask ''a''), (11, Ask ''a''), (12, Ask ''a''), (13, Ask ''a''), (14, Ask ''a'')]" 9 10 "''a''" 3]
  by force

lemma rate_limit_bound_reached:
  "admitted ''a'' (answers 3 10 (table_after 3 10 (\<lambda>_. None) [(0, Ask ''a'')])
      [(9, Ask ''a''), (10, Ask ''a''), (11, Ask ''a''), (12, Ask ''a''), (13, Ask ''a''), (14, Ask ''a'')]) = 5"
  by (simp add: allow_def Let_def sle_def)

end
