(* ===== verification/Idempotency.thy ===== *)
theory Idempotency
  imports Sessions
begin

text \<open>
  \<open>internal/api/rest/idempotency.go\<close>: requests that carry a key are answered once. The requests of
  all connections run at the same time, each through its commands to Redis; the step relation
  interleaves them and lets any command fail.
\<close>

definition idempTTL :: int where
  "idempTTL = 5 * 1000000000"

definition IdempotencyKey :: "uuid \<Rightarrow> string \<Rightarrow> string" where
  "IdempotencyKey gid idemp = ''idemp:'' @ uuid_string gid @ '':'' @ idemp"

text \<open>
  What the client gets: the response of the handler with its status, the answer 429 with the second
  until which it may wait, or the body of an earlier response with the status 200.
\<close>

datatype idem_reply = Own nat string | InProgress int | Replayed string

text \<open>
  Where a request is: before \<open>GET\<close>, because its key was there; in the handler since some time, with
  the key it has set, if any; or answered.
\<close>

datatype phase = Asking string | Working "string option" time | Answered "string option" time idem_reply

definition setnx :: "bool \<Rightarrow> time \<Rightarrow> string \<Rightarrow> string expiring \<Rightarrow> phase \<times> string expiring" where
  "setnx up t key m =
    (if \<not> up then (Working None t, m)
     else case value_at t m key of
       None \<Rightarrow> (Working (Some key) t, m(key := Some (''processing'', deadline t idempTTL)))
     | Some _ \<Rightarrow> (Asking key, m))"

definition arrive :: "bool \<Rightarrow> time \<Rightarrow> uuid option \<Rightarrow> string \<Rightarrow> string expiring \<Rightarrow> phase \<times> string expiring" where
  "arrive up t org idemp m =
    (if idemp = '''' then (Working None t, m)
     else setnx up t (IdempotencyKey (case org of None \<Rightarrow> uuid_nil | Some gid \<Rightarrow> gid) idemp) m)"

definition look :: "bool \<Rightarrow> time \<Rightarrow> string \<Rightarrow> string expiring \<Rightarrow> idem_reply" where
  "look up t key m = (case (if up then value_at t m key else None) of
     None \<Rightarrow> InProgress ((t + idempTTL) div 1000000000)
   | Some v \<Rightarrow> if v = ''processing'' then InProgress ((t + idempTTL) div 1000000000) else Replayed v)"

definition finish :: "bool \<Rightarrow> time \<Rightarrow> string option \<Rightarrow> nat \<Rightarrow> string \<Rightarrow> string expiring \<Rightarrow> string expiring" where
  "finish up t key status body m = (case key of
     None \<Rightarrow> m
   | Some k \<Rightarrow>
       (if \<not> up then m
        else if 200 \<le> status \<and> status < 300 then m(k := Some (body, deadline t idempTTL))
        else m(k := None)))"

section \<open>Interleavings\<close>

record idem_state =
  cache :: "string expiring"
  phases :: "nat \<Rightarrow> phase option"
  wall :: time

text \<open>
  With \<open>quick\<close> set, time passes only so far that no handler that has set a key works for the
  whole time to live of the key.
\<close>

inductive idem_step :: "bool \<Rightarrow> idem_state \<Rightarrow> idem_state \<Rightarrow> bool" for quick where
  arrives: "phases s i = None \<Longrightarrow> arrive up (wall s) org idemp (cache s) = (p, m) \<Longrightarrow>
    idem_step quick s (s\<lparr>cache := m, phases := (phases s)(i \<mapsto> p)\<rparr>)"
| looks: "phases s i = Some (Asking k) \<Longrightarrow>
    idem_step quick s (s\<lparr>phases := (phases s)(i \<mapsto> Answered (Some k) (wall s) (look up (wall s) k (cache s)))\<rparr>)"
| finishes: "phases s i = Some (Working key t) \<Longrightarrow>
    idem_step quick s (s\<lparr>cache := finish up (wall s) key status body (cache s),
      phases := (phases s)(i \<mapsto> Answered key (wall s) (Own status body))\<rparr>)"
| passes: "wall s \<le> t \<Longrightarrow> (\<And>i k t0. quick \<Longrightarrow> phases s i = Some (Working (Some k) t0) \<Longrightarrow> t < t0 + idempTTL) \<Longrightarrow>
    idem_step quick s (s\<lparr>wall := t\<rparr>)"

inductive idem_reachable :: "bool \<Rightarrow> idem_state \<Rightarrow> bool" for quick where
  idem_init: "idem_reachable quick \<lparr>cache = (\<lambda>_. None), phases = (\<lambda>_. None), wall = t\<rparr>"
| idem_more: "idem_reachable quick s \<Longrightarrow> idem_step quick s s' \<Longrightarrow> idem_reachable quick s'"

lemma idempTTL_pos: "0 < idempTTL"
  by (simp add: idempTTL_def)

lemma deadline_idempTTL [simp]: "deadline t idempTTL = Some (t + idempTTL)"
  by (simp add: deadline_def idempTTL_pos)

lemma arrive_cases [consumes 1, case_names free new taken]:
  assumes "arrive up t org idemp m = (p, m')"
  obtains "p = Working None t" "m' = m"
  | k where "p = Working (Some k) t" "value_at t m k = None" "m' = m(k := Some (''processing'', Some (t + idempTTL)))"
  | k where "p = Asking k" "m' = m"
proof -
  let ?k = "IdempotencyKey (case org of None \<Rightarrow> uuid_nil | Some gid \<Rightarrow> gid) idemp"
  consider "idemp = '''' \<or> \<not> up" | "idemp \<noteq> ''''" up "value_at t m ?k = None" | v where "idemp \<noteq> ''''" up "value_at t m ?k = Some v"
    by blast
  then show thesis
  proof cases
    case 1
    then have "(p, m') = (Working None t, m)" using assms by (auto simp: arrive_def setnx_def split: if_splits)
    then show ?thesis by (intro that(1)) simp_all
  next
    case 2
    then show ?thesis using assms by (intro that(2) [of ?k]) (simp_all add: arrive_def setnx_def)
  next
    case 3
    then show ?thesis using assms by (intro that(3) [of ?k]) (simp_all add: arrive_def setnx_def)
  qed
qed

lemma phase_after:
  assumes "(f(i \<mapsto> p)) j = Some q"
  shows "(j = i \<and> p = q) \<or> (j \<noteq> i \<and> f j = Some q)"
  using assms by (auto split: if_splits)

section \<open>One handler per key\<close>

definition keys_held :: "idem_state \<Rightarrow> bool" where
  "keys_held s \<longleftrightarrow> (\<forall>i k t0. phases s i = Some (Working (Some k) t0) \<longrightarrow>
     t0 \<le> wall s \<and> wall s < t0 + idempTTL \<and> cache s k = Some (''processing'', Some (t0 + idempTTL))
     \<and> (\<forall>j t1. phases s j = Some (Working (Some k) t1) \<longrightarrow> j = i))"

lemma keys_heldD:
  assumes "keys_held s" and "phases s i = Some (Working (Some k) t0)"
  shows "t0 \<le> wall s" "wall s < t0 + idempTTL" "cache s k = Some (''processing'', Some (t0 + idempTTL))"
    "value_at (wall s) (cache s) k = Some ''processing''" "phases s j = Some (Working (Some k) t1) \<Longrightarrow> j = i"
  using assms by (auto simp: keys_held_def value_at_def alive_def)

lemma keys_held_step:
  assumes "idem_step True s s'" and "keys_held s"
  shows "keys_held s'"
  using assms(1)
proof cases
  case (arrives i up org idemp p m)
  from arrives(3) show ?thesis
  proof (cases rule: arrive_cases)
    case (new k)
    have no: "phases s j \<noteq> Some (Working (Some k) t1)" for j t1
      using keys_heldD(4) [OF assms(2), of j k t1] new(2) by auto
    show ?thesis
      using no keys_heldD [OF assms(2)] arrives(2) new idempTTL_pos unfolding keys_held_def arrives(1)
      by (auto split: if_splits)
  qed (use assms(2) arrives(1,2) in \<open>auto simp: keys_held_def split: if_splits\<close>)
next
  case (looks i k up)
  then show ?thesis using assms(2) by (auto simp: keys_held_def split: if_splits)
next
  case (finishes i key t status body up)
  have "cache s' k = cache s k" if "phases s j = Some (Working (Some k) t0)" "j \<noteq> i" for j k t0
    using keys_heldD(5) [OF assms(2) that(1)] that(2) finishes by (auto simp: finish_def split: option.splits)
  then show ?thesis
    using keys_heldD [OF assms(2)] unfolding keys_held_def finishes(1)
    by (auto split: if_splits)
next
  case (passes t)
  then show ?thesis using assms(2) by (fastforce simp: keys_held_def)
qed

lemma reachable_keys_held: "idem_reachable True s \<Longrightarrow> keys_held s"
  by (induction rule: idem_reachable.induct) (simp add: keys_held_def, rule keys_held_step)

section \<open>What is replayed\<close>

definition answered_ok :: "idem_state \<Rightarrow> string \<Rightarrow> time \<Rightarrow> string \<Rightarrow> bool" where
  "answered_ok s k t v \<longleftrightarrow> (\<exists>i status. phases s i = Some (Answered (Some k) t (Own status v)) \<and> 200 \<le> status \<and> status < 300)"

definition replays_ok :: "idem_state \<Rightarrow> bool" where
  "replays_ok s \<longleftrightarrow>
     (\<forall>k v x. cache s k = Some (v, x) \<longrightarrow> v = ''processing'' \<or> (\<exists>t \<le> wall s. x = Some (t + idempTTL) \<and> answered_ok s k t v))
     \<and> (\<forall>i k t v. phases s i = Some (Answered (Some k) t (Replayed v)) \<longrightarrow>
          (\<exists>t0 \<le> t. t < t0 + idempTTL \<and> answered_ok s k t0 v))"

lemma answered_keeps:
  assumes "answered_ok s k t v" and "\<And>j key t' r. phases s j = Some (Answered key t' r) \<Longrightarrow> phases s' j = phases s j"
  shows "answered_ok s' k t v"
  using assms unfolding answered_ok_def by fastforce

lemma step_keeps_answers:
  assumes "idem_step quick s s'" and "phases s j = Some (Answered key t r)"
  shows "phases s' j = phases s j"
  using assms by (cases rule: idem_step.cases) auto

lemma look_replays: "look up t k m = Replayed v \<Longrightarrow> \<exists>x. m k = Some (v, x) \<and> alive t x \<and> v \<noteq> ''processing''"
  by (auto simp: look_def value_at_def split: option.splits if_splits prod.splits)

lemma replays_okI:
  assumes "\<And>k v x. cache s k = Some (v, x) \<Longrightarrow> v = ''processing'' \<or> (\<exists>t \<le> wall s. x = Some (t + idempTTL) \<and> answered_ok s k t v)"
    and "\<And>i k t v. phases s i = Some (Answered (Some k) t (Replayed v)) \<Longrightarrow> \<exists>t0 \<le> t. t < t0 + idempTTL \<and> answered_ok s k t0 v"
  shows "replays_ok s"
  using assms unfolding replays_ok_def by blast

lemma replays_step:
  assumes "idem_step quick s s'" and "replays_ok s"
  shows "replays_ok s'"
proof -
  have keep: "answered_ok s k t v \<Longrightarrow> answered_ok s' k t v" for k t v
    using answered_keeps step_keeps_answers [OF assms(1)] by blast
  have cached: "cache s k = Some (v, x) \<Longrightarrow> v = ''processing'' \<or> (\<exists>t \<le> wall s. x = Some (t + idempTTL) \<and> answered_ok s' k t v)"
    for k v x using assms(2) keep unfolding replays_ok_def by blast
  have replayed: "phases s i = Some (Answered (Some k) t (Replayed v)) \<Longrightarrow> \<exists>t0 \<le> t. t < t0 + idempTTL \<and> answered_ok s' k t0 v"
    for i k t v using assms(2) keep unfolding replays_ok_def by blast
  from assms(1) show ?thesis
  proof cases
    case (arrives i up org idemp p m)
    have p: "p \<noteq> Answered key t r" for key t r
      using arrives(3) by (cases rule: arrive_cases) simp_all
    have old: "cache s' k = Some (v, x) \<Longrightarrow> v = ''processing'' \<or> cache s k = Some (v, x)" for k v x
      using arrives(3) by (cases rule: arrive_cases) (auto simp: arrives(1) split: if_splits)
    show ?thesis
    proof (rule replays_okI)
      show "v = ''processing'' \<or> (\<exists>t \<le> wall s'. x = Some (t + idempTTL) \<and> answered_ok s' k t v)"
        if "cache s' k = Some (v, x)" for k v x
        using old [OF that] cached [of k v x] by (auto simp: arrives(1))
      show "\<exists>t0 \<le> t. t < t0 + idempTTL \<and> answered_ok s' k t0 v"
        if "phases s' j = Some (Answered (Some k) t (Replayed v))" for j k t v
        using that p replayed [of j k t v] by (simp add: arrives(1) split: if_splits)
    qed
  next
    case (looks i k up)
    have "\<exists>t0 \<le> wall s. wall s < t0 + idempTTL \<and> answered_ok s' k t0 v" if "look up (wall s) k (cache s) = Replayed v" for v
      using look_replays [OF that] cached by (fastforce simp: alive_def)
    note seen = this
    show ?thesis
    proof (rule replays_okI)
      show "v = ''processing'' \<or> (\<exists>t \<le> wall s'. x = Some (t + idempTTL) \<and> answered_ok s' k t v)"
        if "cache s' k = Some (v, x)" for k v x
        using that cached [of k v x] by (simp add: looks(1))
      show "\<exists>t0 \<le> t. t < t0 + idempTTL \<and> answered_ok s' k' t0 v"
        if "phases s' j = Some (Answered (Some k') t (Replayed v))" for j k' t v
        using that seen [of v] replayed [of j k' t v] by (auto simp: looks(1) split: if_splits)
    qed
  next
    case (finishes i key t status body up)
    have "v = ''processing'' \<or> (\<exists>t \<le> wall s. x = Some (t + idempTTL) \<and> answered_ok s' k t v)"
      if "cache s' k = Some (v, x)" for k v x
    proof (cases "cache s' k = cache s k")
      case False
      then have "key = Some k" "200 \<le> status" "status < 300" "v = body" "x = Some (wall s + idempTTL)"
        using that finishes(1) by (auto simp: finish_def split: option.splits if_splits)
      moreover from this have "answered_ok s' k (wall s) v"
        unfolding answered_ok_def finishes(1) by (intro exI [of _ i] exI [of _ status]) simp
      ultimately show ?thesis by blast
    qed (use that cached in auto)
    then show ?thesis
    proof (intro replays_okI)
      show "\<exists>t0 \<le> t'. t' < t0 + idempTTL \<and> answered_ok s' k t0 v"
        if "phases s' j = Some (Answered (Some k) t' (Replayed v))" for j k t' v
        using that replayed [of j k t' v] by (simp add: finishes(1) split: if_splits)
    qed (simp add: finishes(1))
  next
    case (passes t)
    show ?thesis
    proof (rule replays_okI)
      show "v = ''processing'' \<or> (\<exists>t \<le> wall s'. x = Some (t + idempTTL) \<and> answered_ok s' k t v)"
        if "cache s' k = Some (v, x)" for k v x
        using that cached [of k v x] passes(2) by (auto simp: passes(1) intro: order_trans)
      show "\<exists>t0 \<le> t'. t' < t0 + idempTTL \<and> answered_ok s' k t0 v"
        if "phases s' j = Some (Answered (Some k) t' (Replayed v))" for j k t' v
        using that replayed [of j k t' v] by (simp add: passes(1))
    qed
  qed
qed

lemma reachable_replays_ok: "idem_reachable quick s \<Longrightarrow> replays_ok s"
  by (induction rule: idem_reachable.induct) (simp add: replays_ok_def, rule replays_step)

section \<open>Properties\<close>

text \<open>C31: While the handler of a request with a key works, no other does: with no handler working as long
  as the time to live of its key, a second request with the key finds it set and is told to wait
  (unless the command fails: then it is let through without a key), and no other request that has
  set the key is in its handler.\<close>

theorem one_handler_per_key:
  assumes "idem_reachable True s" and "phases s i = Some (Working (Some k) t)"
  shows "setnx up (wall s) k (cache s) = (if up then Asking k else Working None (wall s), cache s)
    \<and> look up' (wall s) k (cache s) = InProgress ((wall s + idempTTL) div 1000000000)
    \<and> (\<forall>j t'. j \<noteq> i \<longrightarrow> phases s j \<noteq> Some (Working (Some k) t'))"
  using keys_heldD(4,5) [OF reachable_keys_held [OF assms(1)] assms(2)] by (auto simp: setnx_def look_def)

text \<open>C32: A response that is replayed is one the handler gave: whatever the handlers take and whichever commands
  fail, it is the body of a successful response to a request of the same organization with the same
  key, given less than the time to live before.\<close>

theorem replay_is_a_response:
  assumes "idem_reachable quick s" and "phases s i = Some (Answered (Some k) t (Replayed v))"
  shows "\<exists>j t0 status. phases s j = Some (Answered (Some k) t0 (Own status v)) \<and> 200 \<le> status \<and> status < 300
    \<and> t0 \<le> t \<and> t < t0 + idempTTL"
  using reachable_replays_ok [OF assms(1)] assms(2) unfolding replays_ok_def answered_ok_def by blast

section \<open>Witnesses\<close>

text \<open>A request comes with a key at time 7.\<close>

definition at_work :: idem_state where
  "at_work = \<lparr>cache = [IdempotencyKey 3 ''k'' \<mapsto> (''processing'', Some (7 + idempTTL))],
     phases = [2 \<mapsto> Working (Some (IdempotencyKey 3 ''k'')) 7], wall = 7\<rparr>"

lemma at_work_reachable: "idem_reachable quick at_work"
proof -
  let ?s = "\<lparr>cache = (\<lambda>_. None), phases = (\<lambda>_. None), wall = 7\<rparr> :: idem_state"
  have "arrive True 7 (Some 3) ''k'' (\<lambda>_. None)
      = (Working (Some (IdempotencyKey 3 ''k'')) 7, [IdempotencyKey 3 ''k'' \<mapsto> (''processing'', Some (7 + idempTTL))])"
    by (simp add: arrive_def setnx_def value_at_def)
  from arrives [where s = ?s and i = 2 and up = True and org = "Some 3" and idemp = "''k''" and quick = quick, simplified, OF this]
  show ?thesis
    using idem_more [OF idem_init [of quick 7]] by (simp add: at_work_def)
qed

theorem one_handler_per_key_witness:
  "setnx True 7 (IdempotencyKey 3 ''k'') (cache at_work) = (Asking (IdempotencyKey 3 ''k''), cache at_work)
    \<and> phases at_work 3 \<noteq> Some (Working (Some (IdempotencyKey 3 ''k'')) 7)"
proof -
  have "phases at_work 2 = Some (Working (Some (IdempotencyKey 3 ''k'')) 7)" "wall at_work = 7"
    by (simp_all add: at_work_def)
  from one_handler_per_key [OF at_work_reachable this(1), of True] this(2) show ?thesis by simp
qed

text \<open>It is answered at once, and the same request comes again.\<close>

definition replayed_state :: idem_state where
  "replayed_state = \<lparr>cache = [IdempotencyKey 3 ''k'' \<mapsto> (''{}'', Some (7 + idempTTL))],
     phases = [2 \<mapsto> Answered (Some (IdempotencyKey 3 ''k'')) 7 (Own 201 ''{}''),
               3 \<mapsto> Answered (Some (IdempotencyKey 3 ''k'')) 7 (Replayed ''{}'')], wall = 7\<rparr>"

lemma replayed_state_reachable: "idem_reachable quick replayed_state"
proof -
  let ?k = "IdempotencyKey 3 ''k''"
  let ?m = "[?k \<mapsto> (''{}'', Some (7 + idempTTL))]"
  have m: "finish True 7 (Some ?k) 201 ''{}'' (cache at_work) = ?m" by (simp add: finish_def at_work_def)
  have "phases at_work 2 = Some (Working (Some ?k) 7)" by (simp add: at_work_def)
  from idem_more [OF at_work_reachable finishes [OF this, where quick = quick and up = True and status = 201 and body = "''{}''"]]
  have one: "idem_reachable quick \<lparr>cache = ?m, phases = [2 \<mapsto> Answered (Some ?k) 7 (Own 201 ''{}'')], wall = 7\<rparr>" (is "idem_reachable _ ?s")
    using m by (simp add: at_work_def)
  have "arrive True 7 (Some 3) ''k'' ?m = (Asking ?k, ?m)"
    by (simp add: arrive_def setnx_def value_at_def alive_def idempTTL_pos)
  from idem_more [OF one arrives [where s = ?s and i = 3 and up = True and org = "Some 3" and idemp = "''k''", simplified, OF this]]
  have two: "idem_reachable quick
      \<lparr>cache = ?m, phases = [2 \<mapsto> Answered (Some ?k) 7 (Own 201 ''{}''), 3 \<mapsto> Asking ?k], wall = 7\<rparr>" (is "idem_reachable _ ?s'")
    by simp
  have "look True 7 ?k ?m = Replayed ''{}''"
    by (simp add: look_def value_at_def alive_def idempTTL_pos)
  with idem_more [OF two looks [where s = ?s' and i = 3 and k = ?k and up = True, simplified]] show ?thesis
    by (simp add: replayed_state_def)
qed

theorem replay_is_a_response_witness:
  "\<exists>j t0 status. phases replayed_state j = Some (Answered (Some (IdempotencyKey 3 ''k'')) t0 (Own status ''{}''))
    \<and> 200 \<le> status \<and> status < 300 \<and> t0 \<le> 7 \<and> 7 < t0 + idempTTL"
  by (rule replay_is_a_response [OF replayed_state_reachable [of False], of 3]) (simp add: replayed_state_def)

text \<open>A handler that takes longer than its key lives lets a second one with the same key begin.\<close>

lemma slow_handlers_overlap:
  "\<exists>s t. idem_reachable False s \<and> phases s 2 = Some (Working (Some (IdempotencyKey 3 ''k'')) 7)
    \<and> phases s 3 = Some (Working (Some (IdempotencyKey 3 ''k'')) t)"
proof -
  let ?k = "IdempotencyKey 3 ''k''"
  let ?t = "7 + idempTTL"
  have "idem_step False at_work (at_work\<lparr>wall := ?t\<rparr>)"
    by (rule passes) (simp_all add: at_work_def idempTTL_def)
  from idem_more [OF at_work_reachable this] have late: "idem_reachable False (at_work\<lparr>wall := ?t\<rparr>)" .
  have a: "arrive True ?t (Some 3) ''k'' (cache at_work)
      = (Working (Some ?k) ?t, (cache at_work)(?k := Some (''processing'', Some (?t + idempTTL))))"
    by (simp add: arrive_def setnx_def value_at_def alive_def at_work_def)
  have "phases (at_work\<lparr>wall := ?t\<rparr>) 3 = None" by (simp add: at_work_def)
  from idem_more [OF late arrives [OF this, where up = True and org = "Some 3" and idemp = "''k''", simplified, OF a]]
  have "idem_reachable False (at_work\<lparr>wall := ?t, cache := (cache at_work)(?k := Some (''processing'', Some (?t + idempTTL))),
      phases := (phases at_work)(3 \<mapsto> Working (Some ?k) ?t)\<rparr>)" (is "idem_reachable _ ?s") by simp
  moreover have "phases ?s 2 = Some (Working (Some ?k) 7)" "phases ?s 3 = Some (Working (Some ?k) ?t)"
    by (simp_all add: at_work_def)
  ultimately show ?thesis by blast
qed

end
