(* ===== verification/Listing.thy ===== *)
theory Listing
  imports Pooled "HOL-Library.Multiset"
begin

text \<open>
  What the modules above the entities share: decoding of JSON documents into Go structs, and the
  paged listing of entities (\<open>List\<close> of \<open>internal/core/entity/service.go\<close> and
  \<open>internal/storage/postgres/entity_repo.go\<close>).
\<close>

section \<open>Decoding\<close>

text \<open>
  \<open>json.Unmarshal\<close> into a value that is there: whether it succeeds, and what the value is
  afterwards, also when it fails (a caller that drops the error goes on with it). A null leaves the
  value as it is; a number an \<open>int64\<close> cannot hold, or one written with a fraction or an exponent,
  is an error there.
\<close>

type_synonym 's decoder = "json \<Rightarrow> 's \<Rightarrow> bool \<times> 's"

definition decode_float :: "f64 decoder" where
  "decode_float j x = (case j of JNull \<Rightarrow> (True, x)
     | JInt n \<Rightarrow> (case f64_of_int n of Fin r \<Rightarrow> (True, Fin r) | _ \<Rightarrow> (False, x))
     | JFloat y \<Rightarrow> (case y of Fin r \<Rightarrow> (True, Fin r) | _ \<Rightarrow> (False, x))
     | _ \<Rightarrow> (False, x))"

definition decode_int64 :: "int64 decoder" where
  "decode_int64 j x = (case j of JNull \<Rightarrow> (True, x)
     | JInt n \<Rightarrow> if - (2 ^ 63) \<le> n \<and> n < 2 ^ 63 then (True, word_of_int n) else (False, x)
     | _ \<Rightarrow> (False, x))"

definition decode_string :: "string decoder" where
  "decode_string j x = (case j of JNull \<Rightarrow> (True, x) | JStr s \<Rightarrow> (True, s) | JUuid u \<Rightarrow> (True, uuid_string u)
     | _ \<Rightarrow> (False, x))"

definition decode_bool :: "bool decoder" where
  "decode_bool j x = (case j of JNull \<Rightarrow> (True, x) | JBool b \<Rightarrow> (True, b) | _ \<Rightarrow> (False, x))"

text \<open>The elements of a slice start from the zero value; one that fails keeps what it got.\<close>

definition decode_list :: "'s decoder \<Rightarrow> 's \<Rightarrow> 's list decoder" where
  "decode_list dec zero j xs = (case j of JNull \<Rightarrow> (True, [])
     | JArr js \<Rightarrow> (list_all (\<lambda>j. fst (dec j zero)) js, map (\<lambda>j. snd (dec j zero)) js)
     | _ \<Rightarrow> (False, xs))"

text \<open>A member is matched with the field of its name, or else with one of that name in another case.\<close>

definition lower_byte :: "char \<Rightarrow> char" where
  "lower_byte c = (let n = of_char c :: nat in if 65 \<le> n \<and> n \<le> 90 then char_of (n + 32) else c)"

definition find_field :: "(string \<times> 's decoder) list \<Rightarrow> string \<Rightarrow> 's decoder option" where
  "find_field fs k = (case map_of fs k of Some dec \<Rightarrow> Some dec
     | None \<Rightarrow> map_option snd (find (\<lambda>(n, _). map lower_byte n = map lower_byte k) fs))"

fun decode_members :: "(string \<times> 's decoder) list \<Rightarrow> (string \<times> json) list \<Rightarrow> 's \<Rightarrow> bool \<times> 's" where
  "decode_members fs [] s = (True, s)"
| "decode_members fs ((k, j) # kvs) s = (case find_field fs k of
     None \<Rightarrow> decode_members fs kvs s
   | Some dec \<Rightarrow> (let (ok, s) = dec j s; (ok', s) = decode_members fs kvs s in (ok \<and> ok', s)))"

definition decode_struct :: "(string \<times> 's decoder) list \<Rightarrow> 's decoder" where
  "decode_struct fs j s = (case j of JNull \<Rightarrow> (True, s) | JObj kvs \<Rightarrow> decode_members fs kvs s | _ \<Rightarrow> (False, s))"

definition field :: "'v decoder \<Rightarrow> ('s \<Rightarrow> 'v) \<Rightarrow> ('v \<Rightarrow> 's \<Rightarrow> 's) \<Rightarrow> 's decoder" where
  "field dec get put j s = (let (ok, v) = dec j (get s) in (ok, put v s))"

section \<open>Listing entities\<close>

record list_filter =
  lf_Kind :: "string option"
  lf_Status :: "string option"
  lf_ParentID :: "uuid option"
  lf_Search :: "string option"
  lf_Page :: page_request

record 'a page_response =
  pg_Items :: "'a list"
  pg_Total :: nat
  pg_Limit :: int
  pg_Offset :: int

text \<open>
  What the database decides: whether a name is matched by a search, and the order of the rows for a
  column and a direction, which is any order among rows that are equal in the column.
\<close>

record database =
  db_like :: "string \<Rightarrow> string \<Rightarrow> bool"
  db_order :: "string \<Rightarrow> string \<Rightarrow> entity list \<Rightarrow> entity list"

definition permutes_rows :: "database \<Rightarrow> bool" where
  "permutes_rows db \<longleftrightarrow> (\<forall>col dir es. mset (db_order db col dir es) = mset es)"

definition zero_page :: page_request where
  "zero_page = \<lparr>pr_Limit = 0, pr_Offset = 0, pr_Sort = '''', pr_Order = ''''\<rparr>"

definition given_as :: "'a option \<Rightarrow> ('a \<Rightarrow> bool) \<Rightarrow> bool" where
  "given_as x p = (case x of None \<Rightarrow> True | Some v \<Rightarrow> p v)"

definition listed :: "database \<Rightarrow> uuid \<Rightarrow> list_filter \<Rightarrow> entity \<Rightarrow> bool" where
  "listed db org f e \<longleftrightarrow> e_OrganizationID e = org \<and> e_DeletedAt e = None
     \<and> given_as (lf_Kind f) (\<lambda>k. e_Kind e = k)
     \<and> given_as (lf_Status f) (\<lambda>s. e_Status e = s)
     \<and> given_as (lf_ParentID f) (\<lambda>p. e_ParentID e = Some p)
     \<and> given_as (lf_Search f) (\<lambda>q. q \<noteq> '''' \<longrightarrow> db_like db (e_Name e) q)"

definition sort_column :: "string \<Rightarrow> string" where
  "sort_column s = (if s \<in> {''name'', ''kind'', ''status'', ''sort_order'', ''created_at'', ''updated_at''}
     then s else ''created_at'')"

definition repo_List :: "database \<Rightarrow> uuid \<Rightarrow> list_filter \<Rightarrow> ('a entity_db_scheme, entity list \<times> nat) op" where
  "repo_List db org f =
    (let p = Normalize (lf_Page f) in
     bnd (pool_stmt (query (\<lambda>d. length (filter (listed db org f) (t_entities d))))) (\<lambda>total.
     bnd (pool_stmt (query (\<lambda>d. take (nat (pr_Limit p)) (drop (nat (pr_Offset p))
            (db_order db (sort_column (pr_Sort p)) (if pr_Order p = ''asc'' then ''ASC'' else ''DESC'')
              (filter (listed db org f) (t_entities d))))))) (\<lambda>es.
     ret (es, total))))"

definition entity_List :: "database \<Rightarrow> uuid \<Rightarrow> list_filter \<Rightarrow> bool \<Rightarrow> ('a entity_db_scheme, entity page_response) op" where
  "entity_List db org f includeComponents =
    (let p = Normalize (lf_Page f) in
     bnd (repo_List db org (f\<lparr>lf_Page := p\<rparr>)) (\<lambda>(es, total).
     bnd (if includeComponents
          then map_op (\<lambda>e. bnd (ListComponents org (e_ID e)) (\<lambda>cs. ret (e\<lparr>e_Components := cs\<rparr>))) es
          else ret es) (\<lambda>es.
     ret \<lparr>pg_Items = es, pg_Total = total, pg_Limit = pr_Limit p, pg_Offset = pr_Offset p\<rparr>)))"

lemma reads_entity_List [reads_intros]: "reads (entity_List db org f False)"
  unfolding entity_List_def repo_List_def Let_def if_False case_prod_unfold by (intro reads_intros)

lemma reads_Get_bare [reads_intros]: "reads (Get org eid c)"
  unfolding Get_def GetByID_def ListComponents_def by (intro reads_intros)

lemma reads_GetComponent [reads_intros]: "reads (GetComponent org eid ty)"
  unfolding GetComponent_def by (intro reads_intros)

text \<open>What a listing without components gives when every statement is executed.\<close>

lemma ok_entity_List:
  assumes "reliable env"
    and "\<And>w'. same_outside w w' \<Longrightarrow> pending w' = pending w \<Longrightarrow>
      Q \<lparr>pg_Items = take (nat (pr_Limit (Normalize (lf_Page f)))) (drop (nat (pr_Offset (Normalize (lf_Page f))))
            (db_order db (sort_column (pr_Sort (Normalize (lf_Page f))))
              (if pr_Order (Normalize (lf_Page f)) = ''asc'' then ''ASC'' else ''DESC'')
              (filter (listed db org f) (t_entities (committed w))))),
         pg_Total = length (filter (listed db org f) (t_entities (committed w))),
         pg_Limit = pr_Limit (Normalize (lf_Page f)), pg_Offset = pr_Offset (Normalize (lf_Page f))\<rparr> w'"
  shows "wp env (entity_List db org f False) Q E w"
proof -
  have f: "listed db org (f\<lparr>lf_Page := p\<rparr>) = listed db org f" for p by (simp add: listed_def fun_eq_iff)
  show ?thesis
    using assms(1) assms(2) [of "w\<lparr>tick := Suc (Suc (tick w))\<rparr>"]
    by (simp add: entity_List_def repo_List_def Let_def f Normalize_idem wp_bnd wp_ret wp_pool_stmt same_outside_def
        split del: if_split)
qed

lemma all_rows_listed:
  assumes "permutes_rows db" and "length (filter (listed db org f) es) \<le> 50"
  shows "set (take (nat (pr_Limit (Normalize zero_page))) (drop (nat (pr_Offset (Normalize zero_page)))
      (db_order db col dir (filter (listed db org f) es)))) = {e \<in> set es. listed db org f e}"
proof -
  have m: "mset (db_order db col dir (filter (listed db org f) es)) = mset (filter (listed db org f) es)"
    using assms(1) by (simp add: permutes_rows_def)
  then have "length (db_order db col dir (filter (listed db org f) es)) \<le> 50"
    using assms(2) by (metis size_mset)
  then show ?thesis
    using mset_eq_setD [OF m] by (simp add: Normalize_eq zero_page_def)
qed

end
