(* ===== verification/Space.thy ===== *)
theory Space
  imports Listing
begin

text \<open>
  \<open>internal/module/space\<close>: boxes in space over doubles, the test of a placement and the search for
  collisions; and the route of \<open>internal/api/rest/handler_entity.go\<close> that sets the bounds of an
  entity after testing them against its parent and its siblings.
\<close>

record vec3 =
  v_X :: f64
  v_Y :: f64
  v_Z :: f64

record aabb =
  bx_Min :: vec3
  bx_Max :: vec3

definition Width :: "aabb \<Rightarrow> f64" where
  "Width a = fsub (v_X (bx_Max a)) (v_X (bx_Min a))"

definition Height :: "aabb \<Rightarrow> f64" where
  "Height a = fsub (v_Y (bx_Max a)) (v_Y (bx_Min a))"

definition Depth :: "aabb \<Rightarrow> f64" where
  "Depth a = fsub (v_Z (bx_Max a)) (v_Z (bx_Min a))"

definition Volume :: "aabb \<Rightarrow> f64" where
  "Volume a = fmul (fmul (Width a) (Height a)) (Depth a)"

definition Center :: "aabb \<Rightarrow> vec3" where
  "Center a = \<lparr>v_X = fdiv (fadd (v_X (bx_Min a)) (v_X (bx_Max a))) (Fin 2),
     v_Y = fdiv (fadd (v_Y (bx_Min a)) (v_Y (bx_Max a))) (Fin 2),
     v_Z = fdiv (fadd (v_Z (bx_Min a)) (v_Z (bx_Max a))) (Fin 2)\<rparr>"

definition Valid :: "aabb \<Rightarrow> bool" where
  "Valid a \<longleftrightarrow> fless (v_X (bx_Min a)) (v_X (bx_Max a)) \<and> fless (v_Y (bx_Min a)) (v_Y (bx_Max a))
     \<and> fless (v_Z (bx_Min a)) (v_Z (bx_Max a))"

text \<open>A test \<open>x > y\<close> is \<open>y < x\<close>.\<close>

definition Intersects :: "aabb \<Rightarrow> aabb \<Rightarrow> bool" where
  "Intersects a b \<longleftrightarrow>
     fless (v_X (bx_Min a)) (v_X (bx_Max b)) \<and> fless (v_X (bx_Min b)) (v_X (bx_Max a)) \<and>
     fless (v_Y (bx_Min a)) (v_Y (bx_Max b)) \<and> fless (v_Y (bx_Min b)) (v_Y (bx_Max a)) \<and>
     fless (v_Z (bx_Min a)) (v_Z (bx_Max b)) \<and> fless (v_Z (bx_Min b)) (v_Z (bx_Max a))"

definition Contains :: "aabb \<Rightarrow> aabb \<Rightarrow> bool" where
  "Contains a b \<longleftrightarrow>
     fle (v_X (bx_Min a)) (v_X (bx_Min b)) \<and> fle (v_X (bx_Max b)) (v_X (bx_Max a)) \<and>
     fle (v_Y (bx_Min a)) (v_Y (bx_Min b)) \<and> fle (v_Y (bx_Max b)) (v_Y (bx_Max a)) \<and>
     fle (v_Z (bx_Min a)) (v_Z (bx_Min b)) \<and> fle (v_Z (bx_Max b)) (v_Z (bx_Max a))"

definition ContainsPoint :: "aabb \<Rightarrow> vec3 \<Rightarrow> bool" where
  "ContainsPoint a p \<longleftrightarrow>
     fle (v_X (bx_Min a)) (v_X p) \<and> fle (v_X p) (v_X (bx_Max a)) \<and>
     fle (v_Y (bx_Min a)) (v_Y p) \<and> fle (v_Y p) (v_Y (bx_Max a)) \<and>
     fle (v_Z (bx_Min a)) (v_Z p) \<and> fle (v_Z p) (v_Z (bx_Max a))"

definition NewAABB :: "vec3 \<Rightarrow> f64 \<Rightarrow> f64 \<Rightarrow> f64 \<Rightarrow> aabb" where
  "NewAABB pos width height depth = \<lparr>bx_Min = pos,
     bx_Max = \<lparr>v_X = fadd (v_X pos) width, v_Y = fadd (v_Y pos) height, v_Z = fadd (v_Z pos) depth\<rparr>\<rparr>"

record placement =
  pl_ID :: string
  pl_Box :: aabb

datatype placement_error =
    BadBounds string
  | OutOfBoundsError string aabb aabb
  | CollisionError string string aabb aabb

fun first_collision :: "placement \<Rightarrow> placement list \<Rightarrow> placement_error option" where
  "first_collision newObj [] = None"
| "first_collision newObj (sib # sibs) =
    (if pl_ID sib = pl_ID newObj then first_collision newObj sibs
     else if Intersects (pl_Box newObj) (pl_Box sib)
     then Some (CollisionError (pl_ID newObj) (pl_ID sib) (pl_Box newObj) (pl_Box sib))
     else first_collision newObj sibs)"

definition ValidatePlacement :: "placement \<Rightarrow> aabb option \<Rightarrow> placement list \<Rightarrow> placement_error option" where
  "ValidatePlacement newObj parentBounds siblings =
    (if \<not> Valid (pl_Box newObj)
     then Some (BadBounds (''invalid bounds for object '' @ pl_ID newObj @ '': min must be less than max on all axes''))
     else case parentBounds of
       Some pb \<Rightarrow> if \<not> Contains pb (pl_Box newObj) then Some (OutOfBoundsError (pl_ID newObj) (pl_Box newObj) pb)
                  else first_collision newObj siblings
     | None \<Rightarrow> first_collision newObj siblings)"

text \<open>The two nested loops over the indices.\<close>

definition FindCollisions :: "placement list \<Rightarrow> (placement \<times> placement) list" where
  "FindCollisions objects =
    concat (map (\<lambda>i. concat (map (\<lambda>j.
      if Intersects (pl_Box (objects ! i)) (pl_Box (objects ! j)) then [(objects ! i, objects ! j)] else [])
      [Suc i..<length objects])) [0..<length objects])"

section \<open>The route\<close>

definition zero_vec :: vec3 where
  "zero_vec = \<lparr>v_X = Fin 0, v_Y = Fin 0, v_Z = Fin 0\<rparr>"

definition zero_box :: aabb where
  "zero_box = \<lparr>bx_Min = zero_vec, bx_Max = zero_vec\<rparr>"

definition decode_vec :: "vec3 decoder" where
  "decode_vec = decode_struct
    [(''x'', field decode_float v_X (\<lambda>x v. v\<lparr>v_X := x\<rparr>)),
     (''y'', field decode_float v_Y (\<lambda>y v. v\<lparr>v_Y := y\<rparr>)),
     (''z'', field decode_float v_Z (\<lambda>z v. v\<lparr>v_Z := z\<rparr>))]"

definition decode_box :: "aabb decoder" where
  "decode_box = decode_struct
    [(''min'', field decode_vec bx_Min (\<lambda>m b. b\<lparr>bx_Min := m\<rparr>)),
     (''max'', field decode_vec bx_Max (\<lambda>m b. b\<lparr>bx_Max := m\<rparr>))]"

text \<open>The box of a stored component, when it decodes to a valid one.\<close>

definition box_of :: "json \<Rightarrow> aabb option" where
  "box_of j = (let (ok, b) = decode_box j zero_box in if ok \<and> Valid b then Some b else None)"

fun sibling_boxes :: "uuid \<Rightarrow> uuid \<Rightarrow> entity list \<Rightarrow> ('a entity_db_scheme, placement list) op" where
  "sibling_boxes org eid [] = ret []"
| "sibling_boxes org eid (sib # sibs) =
    (if e_ID sib = eid then sibling_boxes org eid sibs
     else bnd (try_op (GetComponent org (e_ID sib) ''bounds'')) (\<lambda>r.
       bnd (sibling_boxes org eid sibs) (\<lambda>ps.
       ret (case r of Inl _ \<Rightarrow> ps
         | Inr c \<Rightarrow> (case box_of (c_Data c) of None \<Rightarrow> ps
             | Some b \<Rightarrow> \<lparr>pl_ID = uuid_string (e_ID sib), pl_Box = b\<rparr> # ps)))))"

definition parent_box :: "uuid \<Rightarrow> uuid option \<Rightarrow> ('a entity_db_scheme, aabb option) op" where
  "parent_box org parent = (case parent of None \<Rightarrow> ret None
     | Some p \<Rightarrow> bnd (try_op (GetComponent org p ''bounds'')) (\<lambda>r.
         ret (case r of Inl _ \<Rightarrow> None | Inr c \<Rightarrow> box_of (c_Data c))))"

text \<open>The text of the decoder's error is left out of the message.\<close>

definition validateBounds :: "database \<Rightarrow> uuid \<Rightarrow> uuid \<Rightarrow> json \<Rightarrow> ('a entity_db_scheme, placement_error option) op" where
  "validateBounds db org eid data =
    (let (ok, b) = decode_box data zero_box in
     bnd (guard (\<not> ok) (NewBadRequest ''invalid bounds data'')) (\<lambda>_.
     bnd (guard (\<not> Valid b) (NewBadRequest ''invalid bounds: min must be less than max on all axes'')) (\<lambda>_.
     bnd (Get org eid False) (\<lambda>e.
     bnd (parent_box org (e_ParentID e)) (\<lambda>parentBounds.
     bnd (entity_List db org \<lparr>lf_Kind = None, lf_Status = None, lf_ParentID = e_ParentID e, lf_Search = None,
            lf_Page = zero_page\<rparr> False) (\<lambda>siblings.
     bnd (sibling_boxes org eid (pg_Items siblings)) (\<lambda>sibPlacements.
     ret (ValidatePlacement \<lparr>pl_ID = uuid_string eid, pl_Box = b\<rparr> parentBounds sibPlacements))))))))"

text \<open>The answer 422 with the errors of the fields, or the component.\<close>

definition handle_SetComponent ::
  "database \<Rightarrow> uuid \<Rightarrow> uuid \<Rightarrow> string \<Rightarrow> json \<Rightarrow> uuid option \<Rightarrow> ('a entity_db_scheme, (string \<times> string) list + component) op" where
  "handle_SetComponent db org eid compType data actor =
    bnd (if compType = ''bounds'' then validateBounds db org eid data else ret None) (\<lambda>r.
    case r of
      Some (OutOfBoundsError _ _ _) \<Rightarrow> ret (Inl [(''bounds'', ''OUTSIDE_PARENT'')])
    | Some (CollisionError _ _ _ _) \<Rightarrow> ret (Inl [(''bounds'', ''COLLISION'')])
    | Some (BadBounds m) \<Rightarrow> fail (PlainError m None)
    | None \<Rightarrow> bnd (SetComponent org eid compType data actor) (\<lambda>c. ret (Inr c)))"

section \<open>Boxes\<close>

lemma Intersects_sym: "Intersects a b = Intersects b a"
  by (auto simp: Intersects_def)

lemma first_collision_None:
  "first_collision p ps = None \<longleftrightarrow> (\<forall>q \<in> set ps. pl_ID q \<noteq> pl_ID p \<longrightarrow> \<not> Intersects (pl_Box p) (pl_Box q))"
  by (induction ps) auto

lemma FindCollisions_set:
  "(p, q) \<in> set (FindCollisions ps) \<longleftrightarrow>
    (\<exists>i j. i < j \<and> j < length ps \<and> p = ps ! i \<and> q = ps ! j \<and> Intersects (pl_Box p) (pl_Box q))"
  unfolding FindCollisions_def set_concat set_map
  by (force simp: Suc_le_eq split: if_splits)

lemma FindCollisions_Nil:
  "FindCollisions ps = [] \<longleftrightarrow> sorted_wrt (\<lambda>p q. \<not> Intersects (pl_Box p) (pl_Box q)) ps"
proof -
  have "FindCollisions ps = [] \<longleftrightarrow> (\<forall>p q. (p, q) \<notin> set (FindCollisions ps))"
    by (metis list.set_intros(1) neq_Nil_conv prod.exhaust empty_iff empty_set)
  also have "\<dots> \<longleftrightarrow> sorted_wrt (\<lambda>p q. \<not> Intersects (pl_Box p) (pl_Box q)) ps"
    unfolding FindCollisions_set sorted_wrt_iff_nth_less by blast
  finally show ?thesis .
qed

text \<open>The points of space, and those strictly inside a box with finite corners.\<close>

definition corner :: "rat \<Rightarrow> rat \<Rightarrow> rat \<Rightarrow> vec3" where
  "corner x y z = \<lparr>v_X = Fin x, v_Y = Fin y, v_Z = Fin z\<rparr>"

definition inside :: "rat \<times> rat \<times> rat \<Rightarrow> aabb \<Rightarrow> bool" where
  "inside = (\<lambda>(x, y, z) b. fless (v_X (bx_Min b)) (Fin x) \<and> fless (Fin x) (v_X (bx_Max b))
     \<and> fless (v_Y (bx_Min b)) (Fin y) \<and> fless (Fin y) (v_Y (bx_Max b))
     \<and> fless (v_Z (bx_Min b)) (Fin z) \<and> fless (Fin z) (v_Z (bx_Max b)))"

lemma fless_NaN [simp]: "\<not> fless a NaN"
  by (cases a) simp_all

lemma fless_between: "fless a b \<Longrightarrow> \<exists>x. fless a (Fin x) \<and> fless (Fin x) b"
proof (cases "(a, b)" rule: fless.cases)
  case (1 a' b')
  assume "fless a b"
  then show ?thesis using 1 dense [of a' b'] by auto
qed (auto intro: lt_ex gt_ex split: if_splits)

lemma fless_trans: "fless a b \<Longrightarrow> fless b c \<Longrightarrow> fless a c"
  by (cases a; cases b; cases c) auto

lemma fless_total: "a \<noteq> NaN \<Longrightarrow> b \<noteq> NaN \<Longrightarrow> \<not> fless a b \<Longrightarrow> a = b \<or> fless b a"
  by (cases a; cases b) (auto split: if_splits)

text \<open>The overlap of two intervals, each of them not empty.\<close>

lemma intervals_overlap:
  assumes "fless a b" and "fless c d"
  shows "(fless a d \<and> fless c b) \<longleftrightarrow> (\<exists>x. fless a (Fin x) \<and> fless (Fin x) b \<and> fless c (Fin x) \<and> fless (Fin x) d)"
proof
  assume o: "fless a d \<and> fless c b"
  have nn: "a \<noteq> NaN" "b \<noteq> NaN" "c \<noteq> NaN" "d \<noteq> NaN" using assms by auto
  define lo where "lo = (if fless a c then c else a)"
  define hi where "hi = (if fless b d then b else d)"
  have "fless lo hi" using assms o by (auto simp: lo_def hi_def)
  then obtain x where x: "fless lo (Fin x)" "fless (Fin x) hi" using fless_between by blast
  have "fless a (Fin x)" "fless c (Fin x)"
    using x(1) fless_trans [of a c] fless_total [of a c] nn fless_trans [of c a] by (auto simp: lo_def split: if_splits)
  moreover have "fless (Fin x) b" "fless (Fin x) d"
    using x(2) fless_trans [of _ b d] fless_total [of b d] nn fless_trans [of _ d b] by (auto simp: hi_def split: if_splits)
  ultimately show "\<exists>x. fless a (Fin x) \<and> fless (Fin x) b \<and> fless c (Fin x) \<and> fless (Fin x) d" by blast
qed (blast intro: fless_trans)

section \<open>Layouts\<close>

definition stored_box :: "uuid \<Rightarrow> uuid \<Rightarrow> 'a entity_db_scheme \<Rightarrow> aabb option" where
  "stored_box org eid d = (case find_component org eid ''bounds'' d of None \<Rightarrow> None | Some c \<Rightarrow> box_of (c_Data c))"

definition place_of :: "uuid \<Rightarrow> 'a entity_db_scheme \<Rightarrow> entity \<Rightarrow> placement option" where
  "place_of org d e = map_option (\<lambda>b. \<lparr>pl_ID = uuid_string (e_ID e), pl_Box = b\<rparr>) (stored_box org (e_ID e) d)"

definition children :: "uuid \<Rightarrow> uuid \<Rightarrow> 'a entity_db_scheme \<Rightarrow> entity list" where
  "children org p d =
     filter (\<lambda>e. e_OrganizationID e = org \<and> e_DeletedAt e = None \<and> e_ParentID e = Some p) (t_entities d)"

text \<open>The boxes of the children of an entity.\<close>

definition layout :: "uuid \<Rightarrow> uuid \<Rightarrow> 'a entity_db_scheme \<Rightarrow> placement list" where
  "layout org p d = List.map_filter (place_of org d) (children org p d)"

definition apart :: "uuid \<Rightarrow> 'a entity_db_scheme \<Rightarrow> entity \<Rightarrow> entity \<Rightarrow> bool" where
  "apart org d e e' \<longleftrightarrow> (\<forall>b b'. stored_box org (e_ID e) d = Some b \<longrightarrow> stored_box org (e_ID e') d = Some b'
     \<longrightarrow> \<not> Intersects b b')"

lemma apart_sym: "apart org d e e' = apart org d e' e"
  by (auto simp: apart_def Intersects_sym)

lemma in_map_filter: "y \<in> set (List.map_filter f xs) \<longleftrightarrow> (\<exists>x \<in> set xs. f x = Some y)"
  by (induction xs) (auto simp: List.map_filter_simps split: option.splits)

lemma sorted_wrt_map_filter:
  "sorted_wrt R (List.map_filter f xs) \<longleftrightarrow> sorted_wrt (\<lambda>x y. \<forall>a b. f x = Some a \<longrightarrow> f y = Some b \<longrightarrow> R a b) xs"
  by (induction xs) (auto simp: List.map_filter_simps in_map_filter split: option.splits)

lemma layout_free: "FindCollisions (layout org p d) = [] \<longleftrightarrow> sorted_wrt (apart org d) (children org p d)"
  unfolding layout_def FindCollisions_Nil sorted_wrt_map_filter place_of_def apart_def
  by (rule arg_cong [where f = "\<lambda>R. sorted_wrt R _"]) (auto simp: fun_eq_iff)

lemma sorted_wrt_symmetric:
  assumes "\<And>x y. R x y = R y x" and "distinct xs"
  shows "sorted_wrt R xs \<longleftrightarrow> (\<forall>x \<in> set xs. \<forall>y \<in> set xs. x \<noteq> y \<longrightarrow> R x y)"
  using assms(2) by (induction xs) (auto intro: assms(1) [THEN iffD1])

lemma ok_sibling_boxes:
  assumes "reliable env"
    and "\<And>w'. same_outside w w' \<Longrightarrow> pending w' = pending w \<Longrightarrow>
      Q (List.map_filter (place_of org (committed w)) (filter (\<lambda>e. e_ID e \<noteq> eid) es)) w'"
  shows "wp env (sibling_boxes org eid es) Q E w"
  using assms(2)
proof (induction es arbitrary: Q w)
  case Nil
  then show ?case by (simp add: wp_ret List.map_filter_simps)
next
  case (Cons e es)
  show ?case
  proof (cases "e_ID e = eid")
    case True
    then show ?thesis using Cons.prems by (simp add: Cons.IH)
  next
    case False
    have step: "wp env (bnd (sibling_boxes org eid es) (\<lambda>ps. ret (case r of Inl _ \<Rightarrow> ps
         | Inr c \<Rightarrow> (case box_of (c_Data c) of None \<Rightarrow> ps
             | Some b \<Rightarrow> \<lparr>pl_ID = uuid_string (e_ID e), pl_Box = b\<rparr> # ps)))) Q E (w\<lparr>tick := Suc (tick w)\<rparr>)"
      if "place_of org (committed w) e = (case r of Inl _ \<Rightarrow> None | Inr c \<Rightarrow>
        map_option (\<lambda>b. \<lparr>pl_ID = uuid_string (e_ID e), pl_Box = b\<rparr>) (box_of (c_Data c)))" for r
      unfolding wp_bnd
    proof (rule Cons.IH)
      fix w' assume "same_outside (w\<lparr>tick := Suc (tick w)\<rparr>) w'" "pending w' = pending (w\<lparr>tick := Suc (tick w)\<rparr>)"
      then have "Q (List.map_filter (place_of org (committed w)) (filter (\<lambda>e. e_ID e \<noteq> eid) (e # es))) w'"
        by (intro Cons.prems) simp_all
      then show "wp env (ret (case r of Inl _ \<Rightarrow> List.map_filter (place_of org (committed (w\<lparr>tick := Suc (tick w)\<rparr>)))
              (filter (\<lambda>e. e_ID e \<noteq> eid) es)
         | Inr c \<Rightarrow> (case box_of (c_Data c) of None \<Rightarrow> List.map_filter (place_of org (committed (w\<lparr>tick := Suc (tick w)\<rparr>)))
              (filter (\<lambda>e. e_ID e \<noteq> eid) es)
             | Some b \<Rightarrow> \<lparr>pl_ID = uuid_string (e_ID e), pl_Box = b\<rparr> # List.map_filter
              (place_of org (committed (w\<lparr>tick := Suc (tick w)\<rparr>))) (filter (\<lambda>e. e_ID e \<noteq> eid) es)))) Q E w'"
        using that False by (auto simp: wp_ret List.map_filter_simps split: sum.splits option.splits)
    qed
    show ?thesis
    proof (cases "find_component org (e_ID e) ''bounds'' (committed w)")
      case None
      with step [of "Inl (NewNotFound ''component not found'')"] False assms(1) show ?thesis
        by (simp add: wp_bnd wp_try GetComponent_def wp_pool_find place_of_def stored_box_def)
    next
      case (Some c)
      with step [of "Inr c"] False assms(1) show ?thesis
        by (simp add: wp_bnd wp_try GetComponent_def wp_pool_find place_of_def stored_box_def)
    qed
  qed
qed

text \<open>What a successful test says about the siblings, as long as one page holds them.\<close>

definition fits :: "uuid \<Rightarrow> uuid \<Rightarrow> json \<Rightarrow> 'a entity_db_scheme \<Rightarrow> bool" where
  "fits org eid data d \<longleftrightarrow> (\<exists>b. box_of data = Some b \<and> (\<forall>e p. find_entity org eid d = Some e \<longrightarrow> e_ParentID e = Some p \<longrightarrow>
     length (children org p d) \<le> 50 \<longrightarrow>
     (\<forall>c \<in> set (children org p d). \<forall>b'. uuid_string (e_ID c) \<noteq> uuid_string eid \<longrightarrow>
        stored_box org (e_ID c) d = Some b' \<longrightarrow> \<not> Intersects b b')))"

lemma children_listed:
  "filter (listed db org \<lparr>lf_Kind = None, lf_Status = None, lf_ParentID = Some p, lf_Search = None, lf_Page = zero_page\<rparr>)
     (t_entities d) = children org p d"
  unfolding children_def by (rule filter_cong) (simp_all add: listed_def given_as_def)

lemma ValidatePlacement_None:
  "ValidatePlacement p parent sibs = None \<Longrightarrow>
    Valid (pl_Box p) \<and> (\<forall>q \<in> set sibs. pl_ID q \<noteq> pl_ID p \<longrightarrow> \<not> Intersects (pl_Box p) (pl_Box q))"
  by (auto simp: ValidatePlacement_def first_collision_None split: if_splits option.splits)

lemma ok_validateBounds:
  assumes "reliable env" and "permutes_rows db"
  shows "wp env (validateBounds db org eid data)
    (\<lambda>r w'. same_outside w w' \<and> pending w' = pending w \<and> (r = None \<longrightarrow> fits org eid data (committed w)))
    (\<lambda>_ w'. same_outside w w' \<and> pending w' = pending w) w"
proof -
  obtain ok b where dec: "decode_box data zero_box = (ok, b)" by force
  have fits: "fits org eid data (committed w)"
    if "ValidatePlacement \<lparr>pl_ID = uuid_string eid, pl_Box = b\<rparr> parent (List.map_filter (place_of org (committed w))
          (filter (\<lambda>e. e_ID e \<noteq> eid) items)) = None"
      and ok "find_entity org eid (committed w) = Some e"
      and page: "items = take (nat (pr_Limit (Normalize zero_page))) (drop (nat (pr_Offset (Normalize zero_page)))
        (db_order db col dir (filter (listed db org \<lparr>lf_Kind = None, lf_Status = None, lf_ParentID = e_ParentID e,
          lf_Search = None, lf_Page = zero_page\<rparr>) (t_entities (committed w)))))" for parent items e col dir
  proof -
    have v: "Valid b" and apart: "\<And>q. q \<in> set (List.map_filter (place_of org (committed w))
        (filter (\<lambda>e. e_ID e \<noteq> eid) items)) \<Longrightarrow> pl_ID q \<noteq> uuid_string eid \<Longrightarrow> \<not> Intersects b (pl_Box q)"
      using ValidatePlacement_None [OF that(1)] by auto
    have "\<not> Intersects b b'" if "e_ParentID e = Some p" "length (children org p (committed w)) \<le> 50"
      "c \<in> set (children org p (committed w))" "uuid_string (e_ID c) \<noteq> uuid_string eid"
      "stored_box org (e_ID c) (committed w) = Some b'" for p c b'
    proof -
      have "set items = set (children org p (committed w))"
        using all_rows_listed [OF assms(2), of org "\<lparr>lf_Kind = None, lf_Status = None, lf_ParentID = Some p,
          lf_Search = None, lf_Page = zero_page\<rparr>" "t_entities (committed w)" col dir] that(2)
        unfolding page \<open>e_ParentID e = Some p\<close> set_filter [symmetric] children_listed by simp
      with that(3-5) have "\<lparr>pl_ID = uuid_string (e_ID c), pl_Box = b'\<rparr> \<in> set (List.map_filter (place_of org (committed w))
        (filter (\<lambda>e. e_ID e \<noteq> eid) items))"
        by (force simp: in_map_filter place_of_def)
      from apart [OF this] that(4) show ?thesis by simp
    qed
    then show ?thesis
      using v \<open>ok\<close> \<open>find_entity org eid (committed w) = Some e\<close> dec unfolding fits_def box_of_def by auto
  qed
  show ?thesis
    unfolding validateBounds_def dec prod.case Let_def Get_def if_False
    apply (intro wpI_bnd wpI_guard wpI_ret)
      apply (simp_all add: GetByID_def)
    apply (intro view_find)
     apply simp
    apply (intro wpI_ret wpI_bnd)
    apply (rule view_reads)
      subgoal by (simp add: parent_box_def, intro reads_intros)
     subgoal by (auto simp: same_outside_def)
    apply (rule wpI_bnd, rule ok_entity_List [OF assms(1)])
    apply (rule wpI_bnd, rule ok_sibling_boxes [OF assms(1)])
    apply (intro wpI_ret conjI impI)
      apply (simp_all add: same_outside_def)
    apply (rule fits [OF _ _ _ refl], assumption+)
    done
qed

lemma find_component_get:
  assumes "distinct (map comp_key (t_components d))"
  shows "find_component org eid ty d = (case row_get comp_key (eid, ty) (t_components d) of None \<Rightarrow> None
    | Some c \<Rightarrow> if c_OrganizationID c = org then Some c else None)"
proof -
  have "find (\<lambda>c. c_OrganizationID c = org \<and> c_EntityID c = eid \<and> c_Type c = ty) cs
      = (case row_get comp_key (eid, ty) cs of None \<Rightarrow> None | Some c \<Rightarrow> if c_OrganizationID c = org then Some c else None)"
    if "distinct (map comp_key cs)" for cs
    using that
  proof (induction cs)
    case (Cons c cs)
    have "find (\<lambda>c. c_OrganizationID c = org \<and> c_EntityID c = eid \<and> c_Type c = ty) cs = None"
      if "c_EntityID c = eid" "c_Type c = ty"
      using that Cons.prems by (auto simp: find_None_iff comp_key_def image_iff)
    then show ?case using Cons by (auto simp: row_get_def comp_key_def)
  qed (simp add: row_get_def)
  then show ?thesis using assms by (simp add: find_component_def)
qed

text \<open>The invariant of the tables: identifiers and keys are unique.\<close>

definition rows_ok :: "'a entity_db_scheme \<Rightarrow> bool" where
  "rows_ok d \<longleftrightarrow> distinct (map e_ID (t_entities d)) \<and> distinct (map comp_key (t_components d))
     \<and> (\<forall>e \<in> set (t_entities d). e_ID e < 16 ^ 32)"

definition box_set :: "uuid \<Rightarrow> string \<Rightarrow> json \<Rightarrow> 'a entity_db_scheme \<Rightarrow> 'a entity_db_scheme \<Rightarrow> bool" where
  "box_set eid ty data d d' \<longleftrightarrow> t_entities d' = t_entities d \<and> rows_ok d'
     \<and> (\<forall>org eid'. stored_box org eid' d' = stored_box org eid' d
          \<or> (ty = ''bounds'' \<and> eid' = eid \<and> stored_box org eid' d' = box_of data))"

lemma box_set_refl: "rows_ok d \<Longrightarrow> box_set eid ty data d d"
  by (simp add: box_set_def)

lemma box_set_events [simp]: "box_set eid ty data d (d'\<lparr>t_events := es\<rparr>) = box_set eid ty data d d'"
  by (simp add: box_set_def rows_ok_def stored_box_def find_component_def)

lemma box_set_put:
  assumes "rows_ok d" and "c_EntityID c = eid" and "c_Type c = ty" and "c_Data c = data"
  shows "box_set eid ty data d (d\<lparr>t_components := row_put comp_key (upsert_component c d) (t_components d)\<rparr>)"
proof -
  let ?d = "d\<lparr>t_components := row_put comp_key (upsert_component c d) (t_components d)\<rparr>"
  have ok: "rows_ok ?d" using assms(1) by (simp add: rows_ok_def row_put_keys)
  let ?c = "upsert_component c d"
  have "comp_key c = (eid, ty)" using assms by (simp add: comp_key_def)
  then have k: "comp_key ?c = (eid, ty)" and data: "c_Data ?c = data"
    using assms by (simp_all add: upsert_simps)
  have old: "c_OrganizationID ?c = c_OrganizationID r" if "row_get comp_key (eid, ty) (t_components d) = Some r" for r
    using that assms by (simp add: upsert_component_def comp_key_def)
  have keys: "distinct (map comp_key (t_components d))" "distinct (map comp_key (t_components ?d))"
    using assms(1) ok by (simp_all add: rows_ok_def)
  have "stored_box org eid' ?d = stored_box org eid' d
      \<or> (ty = ''bounds'' \<and> eid' = eid \<and> stored_box org eid' ?d = box_of data)" for org eid'
  proof (cases "ty = ''bounds'' \<and> eid' = eid")
    case True
    then show ?thesis
      using old unfolding stored_box_def find_component_get [OF keys(1)] find_component_get [OF keys(2)]
      by (cases "row_get comp_key (eid, ty) (t_components d)") (auto simp: row_get_put k data)
  next
    case False
    then have "(eid', ''bounds'') \<noteq> (eid, ty)" by auto
    then show ?thesis
      unfolding stored_box_def find_component_get [OF keys(1)] find_component_get [OF keys(2)]
      using False by (auto simp: row_get_put k)
  qed
  with ok show ?thesis by (simp add: box_set_def)
qed

lemma box_set_put':
  assumes "d\<lparr>t_components := row_put comp_key (upsert_component c d) (t_components d), t_events := es\<rparr> = d'"
    and "rows_ok d" and "c_EntityID c = eid" and "c_Type c = ty" and "c_Data c = data"
  shows "box_set eid ty data d d'"
  using box_set_put [OF assms(2-5)] by (simp flip: assms(1))

lemma SetComponent_boxes:
  assumes "rows_ok (committed w)" and "pending w = id"
  shows "wp env (SetComponent org eid ty data actor)
    (\<lambda>_ w'. box_set eid ty data (committed w) (committed w') \<and> find_entity org eid (committed w) \<noteq> None)
    (\<lambda>_ w'. box_set eid ty data (committed w) (committed w')) w"
  unfolding SetComponent_def SetComponentTx_def GetByID_def AppendTx_def Let_def
  apply (intro view_rules allI impI conjI)
  using assms
  apply (simp_all add: same_outside_def box_set_refl)
  apply (auto split: if_splits)
        apply (erule box_set_put', simp_all)+
  done

lemma hex_digits_length: "length (hex_digits k u) = k"
  by (induction k u rule: hex_digits.induct) simp_all

lemma hex_digit_inj:
  assumes "i < 16" and "j < 16"
    and "(char_of (if i < 10 then 48 + i else 87 + i :: nat) :: char) = char_of (if j < 10 then 48 + j else 87 + j)"
  shows "i = j"
proof -
  have "(if i < 10 then 48 + i else 87 + i) mod 256 = (if j < 10 then 48 + j else 87 + j) mod (256 :: nat)"
    using arg_cong [OF assms(3), of "of_char :: char \<Rightarrow> nat"] by (simp only: of_char_of)
  then show ?thesis using assms(1,2) by (auto split: if_splits)
qed

lemma hex_digits_inj: "u < 16 ^ k \<Longrightarrow> v < 16 ^ k \<Longrightarrow> hex_digits k u = hex_digits k v \<Longrightarrow> u = v"
proof (induction k arbitrary: u v)
  case (Suc k)
  have "hex_digits k (u div 16) = hex_digits k (v div 16)" "u mod 16 = v mod 16"
    using Suc.prems(3) hex_digit_inj [of "u mod 16" "v mod 16"] by (simp_all add: hex_digits_length)
  moreover have "u div 16 < 16 ^ k" "v div 16 < 16 ^ k" using Suc.prems(1,2) by (simp_all add: less_mult_imp_div_less mult.commute)
  ultimately have "u div 16 = v div 16" "u mod 16 = v mod 16" using Suc.IH by blast+
  then show ?case by (metis div_mult_mod_eq)
qed simp

lemma grouped_inj:
  assumes "length a = 32" and "length b = 32"
    and "take 8 a @ ''-'' @ take 4 (drop 8 a) @ ''-'' @ take 4 (drop 12 a) @ ''-'' @ take 4 (drop 16 a) @ ''-'' @ drop 20 a
      = take 8 b @ ''-'' @ take 4 (drop 8 b) @ ''-'' @ take 4 (drop 12 b) @ ''-'' @ take 4 (drop 16 b) @ ''-'' @ drop 20 b"
  shows "a = b"
proof -
  have eq: "take 8 a = take 8 b" "take 4 (drop 8 a) = take 4 (drop 8 b)" "take 4 (drop 12 a) = take 4 (drop 12 b)"
      "take 4 (drop 16 a) = take 4 (drop 16 b)" "drop 20 a = drop 20 b"
    using assms(3) by (simp_all add: assms(1,2))
  have "drop 16 a = drop 16 b"
    using append_take_drop_id [of 4 "drop 16 a"] append_take_drop_id [of 4 "drop 16 b"] eq(4,5) by (simp add: drop_drop)
  then have "drop 12 a = drop 12 b"
    using append_take_drop_id [of 4 "drop 12 a"] append_take_drop_id [of 4 "drop 12 b"] eq(3) by (simp add: drop_drop)
  then have "drop 8 a = drop 8 b"
    using append_take_drop_id [of 4 "drop 8 a"] append_take_drop_id [of 4 "drop 8 b"] eq(2) by (simp add: drop_drop)
  then show ?thesis
    using eq(1) by (metis append_take_drop_id)
qed

lemma uuid_string_inj:
  assumes "u < 16 ^ 32" and "v < 16 ^ 32" and "uuid_string u = uuid_string v"
  shows "u = v"
proof -
  have "hex_digits 32 u = hex_digits 32 v"
    using assms(3) unfolding uuid_string_def Let_def by (rule grouped_inj [OF hex_digits_length hex_digits_length])
  with assms(1,2) show ?thesis by (rule hex_digits_inj [where k = 32])
qed

section \<open>Runs of requests\<close>

text \<open>A request to set a component of an entity.\<close>

record placing =
  rq_Entity :: uuid
  rq_Type :: string
  rq_Data :: json
  rq_Actor :: "uuid option"

definition serve_space :: "database \<Rightarrow> uuid \<Rightarrow> env \<Rightarrow> placing \<Rightarrow> 'a entity_db_scheme \<Rightarrow> 'a entity_db_scheme" where
  "serve_space db org env r d =
     committed (snd (handle_SetComponent db org (rq_Entity r) (rq_Type r) (rq_Data r) (rq_Actor r) env (start d)))"

lemma handle_SetComponent_boxes:
  assumes "reliable env" and "permutes_rows db" and "rows_ok d"
  shows "wp env (handle_SetComponent db org eid ty data actor)
    (\<lambda>_ w'. box_set eid ty data d (committed w') \<and> (committed w' = d \<or> ty \<noteq> ''bounds'' \<or> fits org eid data d))
    (\<lambda>_ w'. box_set eid ty data d (committed w') \<and> (committed w' = d \<or> ty \<noteq> ''bounds'' \<or> fits org eid data d)) (start d)"
proof -
  let ?T = "\<lambda>w'. box_set eid ty data d (committed w') \<and> (committed w' = d \<or> ty \<noteq> ''bounds'' \<or> fits org eid data d)"
  have put: "wp env (SetComponent org eid ty data actor) (\<lambda>_. ?T) (\<lambda>_. ?T) w"
    if "committed w = d" "pending w = id" "ty \<noteq> ''bounds'' \<or> fits org eid data d" for w
    by (rule wp_conseq [OF SetComponent_boxes]) (use that assms(3) in auto)
  have first: "wp env (if ty = ''bounds'' then validateBounds db org eid data else ret None)
      (\<lambda>r w'. committed w' = d \<and> pending w' = id \<and> (r = None \<longrightarrow> ty \<noteq> ''bounds'' \<or> fits org eid data d))
      (\<lambda>_ w'. committed w' = d) (start d)"
  proof (cases "ty = ''bounds''")
    case True
    then show ?thesis
      by (simp, intro wp_conseq [OF ok_validateBounds [OF assms(1,2)]]) (auto simp: same_outside_def start_def)
  qed (simp add: wp_ret start_def)
  show ?thesis
    unfolding handle_SetComponent_def
  proof (rule wpI_bnd, rule wp_conseq [OF first], goal_cases)
    case (1 r w')
    then show ?case
      using put [of w'] assms(3)
      by (auto simp: wp_ret wp_ret_fun wp_fail wp_bnd box_set_refl split: option.split placement_error.split)
  next
    case 2
    then show ?case using assms(3) by (simp add: box_set_refl)
  qed
qed

lemma children_same: "t_entities d' = t_entities d \<Longrightarrow> children org p d' = children org p d"
  by (simp add: children_def)

lemma children_distinct: "rows_ok d \<Longrightarrow> distinct (children org p d)"
  by (simp add: rows_ok_def children_def distinct_map)

lemma find_unique:
  assumes "x \<in> set xs" and "P x" and "\<And>y. P y \<Longrightarrow> y \<in> set xs \<Longrightarrow> y = x"
  shows "find P xs = Some x"
proof (cases "find P xs")
  case None
  then show ?thesis using assms(1,2) by (simp add: find_None_iff)
next
  case (Some y)
  then have "P y" "y \<in> set xs" by (auto simp: find_Some_iff)
  then show ?thesis using Some assms(3) by simp
qed

lemma layout_apart:
  assumes "rows_ok d"
  shows "FindCollisions (layout org p d) = []
    \<longleftrightarrow> (\<forall>x \<in> set (children org p d). \<forall>y \<in> set (children org p d). x \<noteq> y \<longrightarrow> apart org d x y)"
  unfolding layout_free
  by (rule sorted_wrt_symmetric [where R = "apart org d", OF apart_sym children_distinct [OF assms]])

lemma child_found:
  assumes "rows_ok d" and "c \<in> set (children org p d)"
  shows "find_entity org (e_ID c) d = Some c" "e_ParentID c = Some p" "e_ID c < 16 ^ 32"
proof -
  have "e_ID x = e_ID c \<Longrightarrow> x \<in> set (t_entities d) \<Longrightarrow> x = c" for x
    using assms by (auto simp: rows_ok_def children_def distinct_map inj_on_def)
  then show "find_entity org (e_ID c) d = Some c"
    unfolding find_entity_def using assms(2)
    by (intro find_unique) (auto simp: children_def entity_row_def)
qed (use assms in \<open>auto simp: rows_ok_def children_def\<close>)

lemma placed_apart:
  assumes "rows_ok d" and "length (children org p d) \<le> 50" and "box_set eid ''bounds'' data d d'" and "fits org eid data d"
    and "\<And>c c'. c \<in> set (children org p d) \<Longrightarrow> c' \<in> set (children org p d) \<Longrightarrow> c \<noteq> c' \<Longrightarrow> apart org d c c'"
    and "c \<in> set (children org p d)" and "c' \<in> set (children org p d)" and "c \<noteq> c'"
  shows "apart org d' c c'"
proof -
  obtain b where b: "box_of data = Some b"
    and free: "\<And>e p c b'. find_entity org eid d = Some e \<Longrightarrow> e_ParentID e = Some p \<Longrightarrow> length (children org p d) \<le> 50 \<Longrightarrow>
      c \<in> set (children org p d) \<Longrightarrow> uuid_string (e_ID c) \<noteq> uuid_string eid \<Longrightarrow>
      stored_box org (e_ID c) d = Some b' \<Longrightarrow> \<not> Intersects b b'"
    using assms(4) unfolding fits_def by blast
  have new: "stored_box org (e_ID x) d' = stored_box org (e_ID x) d \<or> (e_ID x = eid \<and> stored_box org (e_ID x) d' = Some b)" for x
  proof -
    have "stored_box org (e_ID x) d' = stored_box org (e_ID x) d \<or> (e_ID x = eid \<and> stored_box org (e_ID x) d' = box_of data)"
      using assms(3) by (simp add: box_set_def)
    then show ?thesis using b by simp
  qed
  have ids: "e_ID x \<noteq> e_ID y" "uuid_string (e_ID x) \<noteq> uuid_string (e_ID y)"
    if "x \<in> set (children org p d)" "y \<in> set (children org p d)" "x \<noteq> y" for x y
    using child_found [OF assms(1) that(1)] child_found [OF assms(1) that(2)] that(3) uuid_string_inj [of "e_ID x" "e_ID y"]
    by auto
  have moved: "\<not> Intersects b b'"
    if "x \<in> set (children org p d)" "y \<in> set (children org p d)" "x \<noteq> y" "e_ID x = eid" "stored_box org (e_ID y) d = Some b'"
    for x y b'
    using free [of x p y b'] child_found [OF assms(1) that(1)] ids(2) [OF that(2,1)] that assms(2) by auto
  show ?thesis
    unfolding apart_def
  proof (intro allI impI)
    fix b1 b2 assume st: "stored_box org (e_ID c) d' = Some b1" "stored_box org (e_ID c') d' = Some b2"
    have old: "stored_box org (e_ID c) d = Some b1 \<Longrightarrow> stored_box org (e_ID c') d = Some b2 \<Longrightarrow> \<not> Intersects b1 b2"
      using assms(5) [OF assms(6-8)] by (simp add: apart_def)
    show "\<not> Intersects b1 b2"
      using new [of c] new [of c'] st old moved [OF assms(6-8)] moved [OF assms(7,6) assms(8) [symmetric]]
        ids(1) [OF assms(6-8)] Intersects_sym [of b1 b2] by (auto simp: eq_commute)
  qed
qed

lemma serve_space_free:
  assumes "reliable env" and "permutes_rows db" and "rows_ok d" and "length (children org p d) \<le> 50"
    and "FindCollisions (layout org p d) = []"
  shows "rows_ok (serve_space db org env r d) \<and> children org p (serve_space db org env r d) = children org p d
    \<and> FindCollisions (layout org p (serve_space db org env r d)) = []"
proof -
  let ?d = "serve_space db org env r d"
  let ?R = "\<lambda>d'. box_set (rq_Entity r) (rq_Type r) (rq_Data r) d d'
      \<and> (d' = d \<or> rq_Type r \<noteq> ''bounds'' \<or> fits org (rq_Entity r) (rq_Data r) d)"
  have step: "?R ?d" unfolding serve_space_def by (rule wp_left [where P = ?R, OF handle_SetComponent_boxes [OF assms(1-3)]])
  then have "t_entities ?d = t_entities d" and ok: "rows_ok ?d" by (simp_all only: box_set_def)
  then have same: "children org p ?d = children org p d" by (intro children_same)
  have free: "\<And>c c'. c \<in> set (children org p d) \<Longrightarrow> c' \<in> set (children org p d) \<Longrightarrow> c \<noteq> c' \<Longrightarrow> apart org d c c'"
    using assms(5) by (simp add: layout_apart [OF assms(3)])
  have "apart org ?d c c'" if "c \<in> set (children org p d)" "c' \<in> set (children org p d)" "c \<noteq> c'" for c c'
  proof (cases "rq_Type r = ''bounds'' \<and> ?d \<noteq> d")
    case True
    then show ?thesis using placed_apart [OF assms(3,4) _ _ free that] step by auto
  next
    case False
    then have "stored_box org (e_ID x) ?d = stored_box org (e_ID x) d" for x :: entity
      using step unfolding box_set_def by metis
    then show ?thesis using free [OF that] by (simp add: apart_def)
  qed
  then have "FindCollisions (layout org p ?d) = []"
    by (simp add: layout_apart [OF ok] same)
  then show ?thesis using ok same by simp
qed

section \<open>Properties\<close>

text \<open>The test for intersection is the geometric one: two valid boxes, with whatever doubles for corners,
  intersect exactly when there is a point strictly inside both.\<close>

lemma Intersects_is_overlap:
  assumes "Valid a" and "Valid b"
  shows "Intersects a b \<longleftrightarrow> (\<exists>p. inside p a \<and> inside p b)"
proof -
  note ax = intervals_overlap [of "v_X (bx_Min a)" "v_X (bx_Max a)" "v_X (bx_Min b)" "v_X (bx_Max b)"]
  note ay = intervals_overlap [of "v_Y (bx_Min a)" "v_Y (bx_Max a)" "v_Y (bx_Min b)" "v_Y (bx_Max b)"]
  note az = intervals_overlap [of "v_Z (bx_Min a)" "v_Z (bx_Max a)" "v_Z (bx_Min b)" "v_Z (bx_Max b)"]
  show ?thesis
    using ax ay az assms by (auto simp: Intersects_def Valid_def inside_def)
qed

text \<open>C35: Setting bounds through the route keeps a layout free of collisions: with every statement executed,
  and as long as one page of the listing holds the children of an entity, after any requests to set
  components the search for collisions among the children's boxes finds none, if it found none before.\<close>

theorem layouts_stay_free:
  assumes "permutes_rows db" and "rows_ok d" and "length (children org p d) \<le> 50"
    and "FindCollisions (layout org p d) = []" and "\<And>x. x \<in> set rs \<Longrightarrow> reliable (fst x)"
  shows "FindCollisions (layout org p (run (serve_space db org) rs d)) = []"
  using assms(2-5)
proof (induction rs arbitrary: d)
  case (Cons x rs)
  obtain env r where x: "x = (env, r)" by (cases x)
  have "reliable env" using Cons.prems(4) [of x] x by simp
  from serve_space_free [OF this assms(1) Cons.prems(1-3), of r] Cons.prems(2,4) show ?case
    unfolding x by (simp, intro Cons.IH) auto
qed simp

section \<open>Witnesses\<close>

definition cube :: "rat \<Rightarrow> aabb" where
  "cube n = \<lparr>bx_Min = corner n n n, bx_Max = corner (n + 2) (n + 2) (n + 2)\<rparr>"

lemma cube_Valid: "Valid (cube n)"
  by (simp add: cube_def Valid_def corner_def)

theorem Intersects_is_overlap_witness:
  "Intersects (cube 0) (cube 1) \<longleftrightarrow> (\<exists>p. inside p (cube 0) \<and> inside p (cube 1))"
  by (rule Intersects_is_overlap [OF cube_Valid cube_Valid])

text \<open>A hall with two tables, and the requests to put the second where the first is.\<close>

definition plain_database :: database where
  "plain_database = \<lparr>db_like = (\<lambda>_ _. True), db_order = (\<lambda>_ _ es. es)\<rparr>"

definition sample_row :: "uuid \<Rightarrow> string \<Rightarrow> uuid option \<Rightarrow> entity" where
  "sample_row eid kind parent = \<lparr>e_ID = eid, e_OrganizationID = 7, e_Kind = kind, e_Name = kind, e_Status = ''active'',
     e_ParentID = parent, e_Meta = None, e_SortOrder = 0, e_CreatedAt = 0, e_UpdatedAt = 0, e_DeletedAt = None,
     e_Components = []\<rparr>"

definition hall :: entity_db where
  "hall = \<lparr>t_events = [], t_entities = [sample_row 1 ''hall'' None, sample_row 2 ''table'' (Some 1),
     sample_row 3 ''table'' (Some 1)], t_components = []\<rparr>"

definition cube_json :: "int \<Rightarrow> json" where
  "cube_json n = JObj [(''min'', JObj [(''x'', JInt n), (''y'', JInt n), (''z'', JInt n)]),
     (''max'', JObj [(''x'', JInt (n + 2)), (''y'', JInt (n + 2)), (''z'', JInt (n + 2))])]"

definition put_cube :: "uuid \<Rightarrow> int \<Rightarrow> placing" where
  "put_cube eid n = \<lparr>rq_Entity = eid, rq_Type = ''bounds'', rq_Data = cube_json n, rq_Actor = None\<rparr>"

theorem layouts_stay_free_witness:
  "FindCollisions (layout 7 1 (run (serve_space plain_database 7)
      [(env_ok Some, put_cube 2 0), (env_ok Some, put_cube 3 1)] hall)) = []"
proof (rule layouts_stay_free)
  show "permutes_rows plain_database" by (simp add: permutes_rows_def plain_database_def)
  show "rows_ok hall" by (simp add: rows_ok_def hall_def sample_row_def)
  show "length (children 7 1 hall) \<le> 50" by (simp add: children_def hall_def sample_row_def)
  have "layout 7 1 hall = []"
    by (simp add: layout_def children_def hall_def sample_row_def place_of_def stored_box_def find_component_def
        List.map_filter_simps)
  then show "FindCollisions (layout 7 1 hall) = []" by (simp add: FindCollisions_def)
qed auto

end
