(* ===== verification/Catalog.thy ===== *)
theory Catalog
  imports Listing Hr
begin

text \<open>
  \<open>internal/module/catalog\<close> and \<open>internal/storage/postgres/catalog_repo.go\<close>: products and categories,
  which are entities, and the prices of products under the rules stored with them.
\<close>

record product =
  pc_Entity :: entity
  pc_Price :: "json option"
  pc_Barcode :: "json option"
  pc_Media :: "json option"
  pc_Attributes :: "json option"
  pc_PricingRules :: "json option"

record create_product_input =
  cpd_Name :: string
  cpd_SKU :: string
  cpd_CategoryID :: "uuid option"
  cpd_Price :: "json option"
  cpd_Barcode :: "json option"
  cpd_Attributes :: "json option"
  cpd_Media :: "json option"
  cpd_PricingRules :: "json option"

record update_product_input =
  upd_Name :: "string option"
  upd_CategoryID :: "uuid option"
  upd_Price :: "json option"
  upd_Barcode :: "json option"
  upd_Attributes :: "json option"
  upd_Media :: "json option"
  upd_PricingRules :: "json option"

text \<open>The filters on the stock and the price are there and are never read.\<close>

record product_filter =
  pf_CategoryID :: "uuid option"
  pf_Search :: "string option"
  pf_InStock :: "bool option"
  pf_MinPrice :: "int64 option"
  pf_MaxPrice :: "int64 option"
  pf_Status :: "string option"
  pf_Page :: page_request

section \<open>The repository\<close>

text \<open>
  \<open>data->>'internal'\<close>: the text of a member. How the database writes numbers, arrays and objects is
  an argument.
\<close>

definition member_text :: "(json \<Rightarrow> string) \<Rightarrow> string \<Rightarrow> json \<Rightarrow> string option" where
  "member_text shown k j = (case jget k j of None \<Rightarrow> None
     | Some v \<Rightarrow> (case v of JNull \<Rightarrow> None | JStr s \<Rightarrow> Some s | JUuid u \<Rightarrow> Some (uuid_string u)
        | JBool b \<Rightarrow> Some (if b then ''true'' else ''false'') | _ \<Rightarrow> Some (shown v)))"

text \<open>The join does not ask for the organization of the component.\<close>

definition has_sku :: "(json \<Rightarrow> string) \<Rightarrow> uuid \<Rightarrow> string \<Rightarrow> 'a entity_db_scheme \<Rightarrow> entity \<Rightarrow> bool" where
  "has_sku shown org sku d e \<longleftrightarrow> e_OrganizationID e = org \<and> e_Kind e = ''product'' \<and> e_DeletedAt e = None
     \<and> (\<exists>c \<in> set (t_components d). c_EntityID c = e_ID e \<and> c_Type c = ''barcode''
          \<and> member_text shown ''internal'' (c_Data c) = Some sku)"

definition FindBySKU :: "(json \<Rightarrow> string) \<Rightarrow> uuid \<Rightarrow> string \<Rightarrow> ('a entity_db_scheme, entity) op" where
  "FindBySKU shown org sku =
    pool_find (\<lambda>d. find (has_sku shown org sku d) (t_entities d)) (NewNotFound ''product not found by SKU'')"

definition product_listed :: "database \<Rightarrow> uuid \<Rightarrow> product_filter \<Rightarrow> entity \<Rightarrow> bool" where
  "product_listed db org f e \<longleftrightarrow> e_OrganizationID e = org \<and> e_Kind e = ''product'' \<and> e_DeletedAt e = None
     \<and> (case pf_Status f of Some s \<Rightarrow> e_Status e = s | None \<Rightarrow> e_Status e \<noteq> ''archived'')
     \<and> given_as (pf_CategoryID f) (\<lambda>p. e_ParentID e = Some p)
     \<and> given_as (pf_Search f) (\<lambda>q. q \<noteq> '''' \<longrightarrow> db_like db (e_Name e) q)"

definition bare_product :: "entity \<Rightarrow> product" where
  "bare_product e = \<lparr>pc_Entity = e, pc_Price = None, pc_Barcode = None, pc_Media = None, pc_Attributes = None,
     pc_PricingRules = None\<rparr>"

text \<open>\<open>compMap[id][type]\<close> after the loop over the rows: the last one of the type.\<close>

definition comp_data :: "component list \<Rightarrow> uuid \<Rightarrow> string \<Rightarrow> json option" where
  "comp_data cs eid ty = map_of (rev (map (\<lambda>c. ((c_EntityID c, c_Type c), c_Data c)) cs)) (eid, ty)"

definition with_components :: "component list \<Rightarrow> entity \<Rightarrow> product" where
  "with_components cs e = (let get = comp_data cs (e_ID e) in
     (bare_product e)\<lparr>pc_Price := get ''price'', pc_Barcode := get ''barcode'', pc_Media := get ''media'',
        pc_Attributes := get ''attributes''\<rparr>)"

definition ListProductsWithComponents ::
  "database \<Rightarrow> uuid \<Rightarrow> product_filter \<Rightarrow> ('a entity_db_scheme, product list \<times> nat) op" where
  "ListProductsWithComponents db org f =
    (let p = Normalize (pf_Page f) in
     bnd (pool_stmt (query (\<lambda>d. length (filter (product_listed db org f) (t_entities d))))) (\<lambda>total.
     bnd (pool_stmt (query (\<lambda>d. take (nat (pr_Limit p)) (drop (nat (pr_Offset p))
            (db_order db ''created_at'' ''DESC'' (filter (product_listed db org f) (t_entities d))))))) (\<lambda>es.
     if es = [] then ret ([], total)
     else bnd (pool_stmt (query (\<lambda>d. filter (\<lambda>c. c_OrganizationID c = org \<and> c_EntityID c \<in> e_ID ` set es)
            (t_components d)))) (\<lambda>cs.
          ret (map (with_components cs) es, total)))))"

section \<open>Products\<close>

definition product_component :: "product \<Rightarrow> component \<Rightarrow> product" where
  "product_component p c =
    (if c_Type c = ''price'' then p\<lparr>pc_Price := Some (c_Data c)\<rparr>
     else if c_Type c = ''barcode'' then p\<lparr>pc_Barcode := Some (c_Data c)\<rparr>
     else if c_Type c = ''media'' then p\<lparr>pc_Media := Some (c_Data c)\<rparr>
     else if c_Type c = ''attributes'' then p\<lparr>pc_Attributes := Some (c_Data c)\<rparr>
     else if c_Type c = ''pricing_rules'' then p\<lparr>pc_PricingRules := Some (c_Data c)\<rparr>
     else p)"

definition entityToProduct :: "entity \<Rightarrow> product" where
  "entityToProduct e = foldl product_component (bare_product e) (e_Components e)"

definition catalog_event :: "uuid \<Rightarrow> uuid \<Rightarrow> string \<Rightarrow> json \<Rightarrow> uuid option \<Rightarrow> ('a entity_db_scheme, unit) op" where
  "catalog_event org eid ty data actor =
    bnd new_uuid (\<lambda>evid. bnd now (\<lambda>t. publish (entity_event evid org eid ty actor t data)))"

definition given_component :: "string \<Rightarrow> json option \<Rightarrow> (string \<times> json) list" where
  "given_component ty x = (case x of None \<Rightarrow> [] | Some j \<Rightarrow> [(ty, j)])"

definition sku_barcode :: "create_product_input \<Rightarrow> json option" where
  "sku_barcode inp = (case cpd_Barcode inp of
     None \<Rightarrow> if cpd_SKU inp \<noteq> '''' then Some (JObj [(''internal'', JStr (cpd_SKU inp))]) else None
   | Some j \<Rightarrow> Some j)"

definition product_components :: "create_product_input \<Rightarrow> (string \<times> json) list" where
  "product_components inp = given_component ''price'' (cpd_Price inp) @ given_component ''barcode'' (sku_barcode inp)
     @ given_component ''attributes'' (cpd_Attributes inp) @ given_component ''media'' (cpd_Media inp)
     @ given_component ''pricing_rules'' (cpd_PricingRules inp)"

text \<open>The components go into a Go map, which is iterated in any order: \<open>ranged\<close> is the order it takes.\<close>

definition CreateProduct ::
  "(json \<Rightarrow> string) \<Rightarrow> ((string \<times> json) list \<Rightarrow> (string \<times> json) list) \<Rightarrow> uuid \<Rightarrow> create_product_input \<Rightarrow> uuid option
     \<Rightarrow> ('a entity_db_scheme, product) op" where
  "CreateProduct shown ranged org inp actor =
    bnd (guard (cpd_Name inp = '''') (NewBadRequest ''name is required'')) (\<lambda>_.
    bnd (guard (cpd_Price inp = None) (NewBadRequest ''price is required'')) (\<lambda>_.
    bnd (if cpd_SKU inp \<noteq> ''''
         then bnd (try_op (FindBySKU shown org (cpd_SKU inp))) (\<lambda>r.
           guard (case r of Inl _ \<Rightarrow> False | Inr _ \<Rightarrow> True) (NewConflict (''SKU already exists: '' @ cpd_SKU inp)))
         else ret ()) (\<lambda>_.
    bnd (CreateWithComponents org
           \<lparr>ci_Kind = ''product'', ci_Name = cpd_Name inp, ci_ParentID = cpd_CategoryID inp, ci_Meta = None\<rparr>
           (ranged (product_components inp)) actor) (\<lambda>e.
    bnd (catalog_event org (e_ID e) ''catalog.product.created''
           (JObj [(''id'', JUuid (e_ID e)), (''name'', JStr (cpd_Name inp)), (''sku'', JStr (cpd_SKU inp)),
                  (''category_id'', jnull_or JUuid (cpd_CategoryID inp))]) actor) (\<lambda>_.
    ret (entityToProduct e))))))"

definition GetProduct :: "uuid \<Rightarrow> uuid \<Rightarrow> ('a entity_db_scheme, product) op" where
  "GetProduct org eid =
    bnd (Get org eid True) (\<lambda>e.
    bnd (guard (e_Kind e \<noteq> ''product'') (NewNotFound ''product not found'')) (\<lambda>_.
    ret (entityToProduct e)))"

definition ListProducts :: "database \<Rightarrow> uuid \<Rightarrow> product_filter \<Rightarrow> ('a entity_db_scheme, product page_response) op" where
  "ListProducts db org f =
    (let p = Normalize (pf_Page f) in
     bnd (ListProductsWithComponents db org (f\<lparr>pf_Page := p\<rparr>)) (\<lambda>(ps, total).
     ret \<lparr>pg_Items = ps, pg_Total = total, pg_Limit = pr_Limit p, pg_Offset = pr_Offset p\<rparr>))"

definition set_given :: "uuid \<Rightarrow> uuid \<Rightarrow> uuid option \<Rightarrow> string \<times> json option \<Rightarrow> ('a entity_db_scheme, unit) op" where
  "set_given org eid actor = (\<lambda>(ty, x). case x of None \<Rightarrow> ret ()
     | Some j \<Rightarrow> bnd (SetComponent org eid ty j actor) (\<lambda>_. ret ()))"

definition UpdateProduct ::
  "uuid \<Rightarrow> uuid \<Rightarrow> update_product_input \<Rightarrow> uuid option \<Rightarrow> ('a entity_db_scheme, product) op" where
  "UpdateProduct org eid inp actor =
    bnd (Get org eid False) (\<lambda>e.
    bnd (guard (e_Kind e \<noteq> ''product'') (NewNotFound ''product not found'')) (\<lambda>_.
    bnd (if upd_Name inp \<noteq> None \<or> upd_CategoryID inp \<noteq> None
         then bnd (Update org eid (no_change\<lparr>ui_Name := upd_Name inp, ui_ParentID := upd_CategoryID inp\<rparr>) actor)
                (\<lambda>_. ret ())
         else ret ()) (\<lambda>_.
    bnd (for_each [(''price'', upd_Price inp), (''barcode'', upd_Barcode inp), (''attributes'', upd_Attributes inp),
           (''media'', upd_Media inp), (''pricing_rules'', upd_PricingRules inp)] (set_given org eid actor)) (\<lambda>_.
    bnd (catalog_event org eid ''catalog.product.updated'' (JObj [(''id'', JUuid eid)]) actor) (\<lambda>_.
    GetProduct org eid)))))"

definition ArchiveProduct :: "uuid \<Rightarrow> uuid \<Rightarrow> uuid option \<Rightarrow> ('a entity_db_scheme, unit) op" where
  "ArchiveProduct org eid actor =
    bnd (Update org eid (no_change\<lparr>ui_Status := Some ''archived''\<rparr>) actor) (\<lambda>_.
    catalog_event org eid ''catalog.product.archived'' (JObj [(''id'', JUuid eid)]) actor)"

section \<open>Categories\<close>

definition CreateCategory ::
  "uuid \<Rightarrow> string \<Rightarrow> uuid option \<Rightarrow> uuid option \<Rightarrow> ('a entity_db_scheme, entity) op" where
  "CreateCategory org name parent actor =
    bnd (guard (name = '''') (NewBadRequest ''name is required'')) (\<lambda>_.
    Create org \<lparr>ci_Kind = ''category'', ci_Name = name, ci_ParentID = parent, ci_Meta = None\<rparr> actor)"

definition ListCategories :: "database \<Rightarrow> uuid \<Rightarrow> uuid option \<Rightarrow> ('a entity_db_scheme, entity list) op" where
  "ListCategories db org parent =
    bnd (entity_List db org \<lparr>lf_Kind = Some ''category'', lf_Status = None, lf_ParentID = parent, lf_Search = None,
           lf_Page = \<lparr>pr_Limit = 200, pr_Offset = 0, pr_Sort = ''sort_order'', pr_Order = ''asc''\<rparr>\<rparr> False) (\<lambda>r.
    ret (pg_Items r))"

definition UpdateCategory ::
  "uuid \<Rightarrow> uuid \<Rightarrow> string option \<Rightarrow> uuid option \<Rightarrow> uuid option \<Rightarrow> ('a entity_db_scheme, entity) op" where
  "UpdateCategory org eid name parent actor =
    Update org eid (no_change\<lparr>ui_Name := name, ui_ParentID := parent\<rparr>) actor"

definition products_of :: "uuid \<Rightarrow> list_filter" where
  "products_of eid = \<lparr>lf_Kind = Some ''product'', lf_Status = None, lf_ParentID = Some eid, lf_Search = None,
     lf_Page = zero_page\<lparr>pr_Limit := 1\<rparr>\<rparr>"

definition DeleteCategory :: "database \<Rightarrow> uuid \<Rightarrow> uuid \<Rightarrow> uuid option \<Rightarrow> ('a entity_db_scheme, unit) op" where
  "DeleteCategory db org eid actor =
    bnd (entity_List db org (products_of eid) False) (\<lambda>r.
    bnd (guard (pg_Total r > 0) (NewConflict ''category has products, cannot delete'')) (\<lambda>_.
    Delete org eid actor))"

section \<open>Properties\<close>

definition live_product_in :: "uuid \<Rightarrow> uuid \<Rightarrow> entity \<Rightarrow> bool" where
  "live_product_in org eid e \<longleftrightarrow> e_OrganizationID e = org \<and> e_Kind e = ''product'' \<and> e_DeletedAt e = None
     \<and> e_ParentID e = Some eid"

lemma listed_products: "listed db org (products_of eid) e \<longleftrightarrow> live_product_in org eid e"
  by (auto simp: listed_def products_of_def given_as_def live_product_in_def)

text \<open>What \<open>Delete\<close> leaves when it succeeds, and what the total of a listing is, whatever fails.\<close>

lemma soft_delete_live:
  "e \<in> set (row_update p (\<lambda>r. r\<lparr>e_DeletedAt := Some t, e_UpdatedAt := t'\<rparr>) es) \<Longrightarrow> e_DeletedAt e = None \<Longrightarrow> e \<in> set es"
  by (auto simp: row_update_def split: if_splits)

lemma Delete_deletes:
  assumes "committed w = d" and "pending w = id"
  shows "wp env (Delete org eid actor) (\<lambda>_ w'. find_entity org eid (committed w') = None
      \<and> (\<forall>e \<in> set (t_entities (committed w')). e_DeletedAt e = None \<longrightarrow> e \<in> set (t_entities d))) (\<lambda>_ _. True) w"
  unfolding Delete_def SoftDelete_def GetByID_def AppendTx_def Let_def
  using assms
  by (intro wp_intros, auto simp: stmt_effect_def find_entity_def soft_delete_find intro!: wp_intros)
    (erule (1) soft_delete_live)

lemma view_entity_List:
  "wp env (entity_List db org f False)
     (\<lambda>r w'. same_outside w w' \<and> pending w' = pending w
        \<and> pg_Total r = length (filter (listed db org f) (t_entities (committed w))))
     (\<lambda>_ w'. same_outside w w' \<and> pending w' = pending w) w"
proof -
  have f: "listed db org (f\<lparr>lf_Page := p\<rparr>) = listed db org f" for p by (simp add: listed_def fun_eq_iff)
  show ?thesis
    by (simp add: entity_List_def repo_List_def Let_def f Normalize_idem wp_bnd wp_ret wp_pool_stmt same_outside_def
        split del: if_split split: option.split)
qed

text \<open>C38: A category that still has a product is kept: then the deletion answers with an error and changes
  nothing, whatever fails. A deletion that succeeds leaves neither the category nor a live product
  in it.\<close>

theorem DeleteCategory_guards:
  assumes "DeleteCategory db org eid actor env (start d) = (r, w)"
  shows "(if \<exists>e \<in> set (t_entities d). live_product_in org eid e then r \<noteq> Inr () \<and> committed w = d
    else r = Inr () \<longrightarrow> find_entity org eid (committed w) = None
      \<and> \<not> (\<exists>e \<in> set (t_entities (committed w)). live_product_in org eid e))"
proof -
  let ?some = "\<exists>e \<in> set (t_entities d). live_product_in org eid e"
  let ?Q = "\<lambda>_ w. \<not> ?some \<and> find_entity org eid (committed w) = None
      \<and> \<not> (\<exists>e \<in> set (t_entities (committed w)). live_product_in org eid e)"
  let ?E = "\<lambda>_ w. ?some \<longrightarrow> committed w = d"
  have "wp env (DeleteCategory db org eid actor) ?Q ?E (start d)"
    unfolding DeleteCategory_def
  proof (rule wpI_bnd, rule wp_conseq [OF view_entity_List], goal_cases)
    case (1 r w')
    have some: "pg_Total r > 0 \<longleftrightarrow> ?some"
      using 1 by (auto simp: listed_products start_def filter_empty_conv)
    have w': "committed w' = d" "pending w' = id" using 1 by (simp_all add: same_outside_def start_def)
    have "wp env (Delete org eid actor) ?Q ?E w'" if "\<not> ?some"
      using that by (intro wp_conseq [OF Delete_deletes [OF w']]) (auto simp: live_product_in_def)
    then show ?case
      by (auto intro!: wpI_bnd wpI_guard simp: some w')
  next
    case (2 e w')
    then show ?case by (simp add: same_outside_def start_def)
  qed
  then show ?thesis using assms by (auto simp: wp_def split: sum.splits)
qed

section \<open>Witnesses\<close>

text \<open>A category and a product in it.\<close>

definition shelf_row :: "uuid \<Rightarrow> string \<Rightarrow> uuid option \<Rightarrow> entity" where
  "shelf_row eid kind parent = \<lparr>e_ID = eid, e_OrganizationID = 7, e_Kind = kind, e_Name = kind, e_Status = ''active'',
     e_ParentID = parent, e_Meta = None, e_SortOrder = 0, e_CreatedAt = 0, e_UpdatedAt = 0, e_DeletedAt = None,
     e_Components = []\<rparr>"

definition shelf :: entity_db where
  "shelf = \<lparr>t_events = [], t_entities = [shelf_row 9 ''category'' None, shelf_row 3 ''product'' (Some 9)], t_components = []\<rparr>"

definition any_database :: database where
  "any_database = \<lparr>db_like = (\<lambda>_ _. True), db_order = (\<lambda>_ _ es. es)\<rparr>"

theorem DeleteCategory_guards_witness:
  "fst (DeleteCategory any_database 7 9 None (env_ok Some) (start shelf)) \<noteq> Inr ()
    \<and> committed (snd (DeleteCategory any_database 7 9 None (env_ok Some) (start shelf))) = shelf"
proof -
  have "\<exists>e \<in> set (t_entities shelf). live_product_in 7 9 e"
    by (simp add: shelf_def shelf_row_def live_product_in_def)
  then show ?thesis
    using DeleteCategory_guards [of any_database 7 9 None "env_ok Some" shelf, OF surjective_pairing] by simp
qed

end
