(* ===== verification/Prices.thy ===== *)
theory Prices
  imports Catalog
begin

text \<open>
  The price of a product in \<open>internal/module/catalog/service.go\<close>: the rules stored in the component
  \<open>pricing_rules\<close>, the conditions they apply under and what they do to the price.
\<close>

record rule_conditions =
  rc_DaysOfWeek :: "int64 list"
  rc_TimeFrom :: string
  rc_TimeTo :: string
  rc_ValidFrom :: string
  rc_ValidTo :: string
  rc_CustomerTags :: "string list"

record pricing_rule =
  ru_ID :: string
  ru_Name :: string
  ru_Type :: string
  ru_DiscountType :: string
  ru_DiscountValue :: int64
  ru_BuyQuantity :: f64
  ru_BonusQuantity :: f64
  ru_Conditions :: rule_conditions
  ru_Active :: bool

record price_input =
  pin_Quantity :: f64
  pin_CustomerTags :: "string list"
  pin_Now :: time

record price_result =
  prs_BasePrice :: int64
  prs_EffectivePrice :: int64
  prs_TotalQuantity :: f64
  prs_AppliedRules :: "string list"

definition zero_conditions :: rule_conditions where
  "zero_conditions = \<lparr>rc_DaysOfWeek = [], rc_TimeFrom = '''', rc_TimeTo = '''', rc_ValidFrom = '''', rc_ValidTo = '''',
     rc_CustomerTags = []\<rparr>"

definition zero_rule :: pricing_rule where
  "zero_rule = \<lparr>ru_ID = '''', ru_Name = '''', ru_Type = '''', ru_DiscountType = '''', ru_DiscountValue = 0,
     ru_BuyQuantity = Fin 0, ru_BonusQuantity = Fin 0, ru_Conditions = zero_conditions, ru_Active = False\<rparr>"

definition decode_conditions :: "rule_conditions decoder" where
  "decode_conditions = decode_struct
    [(''days_of_week'', field (decode_list decode_int64 0) rc_DaysOfWeek (\<lambda>x c. c\<lparr>rc_DaysOfWeek := x\<rparr>)),
     (''time_from'', field decode_string rc_TimeFrom (\<lambda>x c. c\<lparr>rc_TimeFrom := x\<rparr>)),
     (''time_to'', field decode_string rc_TimeTo (\<lambda>x c. c\<lparr>rc_TimeTo := x\<rparr>)),
     (''valid_from'', field decode_string rc_ValidFrom (\<lambda>x c. c\<lparr>rc_ValidFrom := x\<rparr>)),
     (''valid_to'', field decode_string rc_ValidTo (\<lambda>x c. c\<lparr>rc_ValidTo := x\<rparr>)),
     (''customer_tags'', field (decode_list decode_string '''') rc_CustomerTags (\<lambda>x c. c\<lparr>rc_CustomerTags := x\<rparr>))]"

definition decode_rule :: "pricing_rule decoder" where
  "decode_rule = decode_struct
    [(''id'', field decode_string ru_ID (\<lambda>x r. r\<lparr>ru_ID := x\<rparr>)),
     (''name'', field decode_string ru_Name (\<lambda>x r. r\<lparr>ru_Name := x\<rparr>)),
     (''type'', field decode_string ru_Type (\<lambda>x r. r\<lparr>ru_Type := x\<rparr>)),
     (''discount_type'', field decode_string ru_DiscountType (\<lambda>x r. r\<lparr>ru_DiscountType := x\<rparr>)),
     (''discount_value'', field decode_int64 ru_DiscountValue (\<lambda>x r. r\<lparr>ru_DiscountValue := x\<rparr>)),
     (''buy_quantity'', field decode_float ru_BuyQuantity (\<lambda>x r. r\<lparr>ru_BuyQuantity := x\<rparr>)),
     (''bonus_quantity'', field decode_float ru_BonusQuantity (\<lambda>x r. r\<lparr>ru_BonusQuantity := x\<rparr>)),
     (''conditions'', field decode_conditions ru_Conditions (\<lambda>x r. r\<lparr>ru_Conditions := x\<rparr>)),
     (''active'', field decode_bool ru_Active (\<lambda>x r. r\<lparr>ru_Active := x\<rparr>))]"

text \<open>What is left in \<open>rulesData.Rules\<close>, the error of the decoder dropped.\<close>

definition rules_of :: "json \<Rightarrow> pricing_rule list" where
  "rules_of j = snd (decode_struct
     [(''rules'', field (decode_list decode_rule zero_rule) (\<lambda>rs. rs) (\<lambda>x _. x))] j [])"

text \<open>
  \<open>json.Unmarshal\<close> into a map fails when a number in the document is out of the range of a double;
  then the price stays as it is.
\<close>

fun in_range :: "json \<Rightarrow> bool" where
  "in_range (JInt n) = (case f64_of_int n of Fin _ \<Rightarrow> True | _ \<Rightarrow> False)"
| "in_range (JFloat x) = (case x of Fin _ \<Rightarrow> True | _ \<Rightarrow> False)"
| "in_range (JArr js) = (\<forall>j \<in> set js. in_range j)"
| "in_range (JObj kvs) = (\<forall>kv \<in> set kvs. in_range (snd kv))"
| "in_range _ = True"

definition selling_price :: "json \<Rightarrow> int64 option" where
  "selling_price j = (if in_range j then map_option int64_of_f64 (Option.bind (jget ''selling_price'' j) as_float) else None)"

definition price_component :: "int64 \<times> pricing_rule list \<Rightarrow> component \<Rightarrow> int64 \<times> pricing_rule list" where
  "price_component = (\<lambda>(base, rules) c.
     if c_Type c = ''price'' then ((case selling_price (c_Data c) of None \<Rightarrow> base | Some b \<Rightarrow> b), rules)
     else if c_Type c = ''pricing_rules'' then (base, rules_of (c_Data c))
     else (base, rules))"

text \<open>\<open>Time.Weekday\<close> with Sunday as 7; the epoch was a Thursday.\<close>

definition weekday :: "time \<Rightarrow> int" where
  "weekday t = (let w = (t div (24 * 60 * 60 * 1000000000) + 4) mod 7 in if w = 0 then 7 else w)"

definition clock :: "time \<Rightarrow> string" where
  "clock t = (let s = t div 1000000000 mod 86400 in padded 2 (s div 3600) @ '':'' @ padded 2 (s div 60 mod 60))"

definition matchesSchedule :: "rule_conditions \<Rightarrow> time \<Rightarrow> bool" where
  "matchesSchedule cond t \<longleftrightarrow>
     (rc_DaysOfWeek cond \<noteq> [] \<longrightarrow> word_of_int (weekday t) \<in> set (rc_DaysOfWeek cond)) \<and>
     (case parse_date (rc_ValidFrom cond) of None \<Rightarrow> True | Some vf \<Rightarrow> \<not> t < midnight vf) \<and>
     (case parse_date (rc_ValidTo cond) of None \<Rightarrow> True
        | Some vt \<Rightarrow> \<not> midnight vt + 24 * 60 * 60 * 1000000000 < t) \<and>
     (rc_TimeFrom cond \<noteq> '''' \<and> rc_TimeTo cond \<noteq> '''' \<longrightarrow>
        \<not> (\<not> str_le (rc_TimeFrom cond) (clock t) \<or> \<not> str_le (clock t) (rc_TimeTo cond)))"

definition matchesCustomerTags :: "string list \<Rightarrow> string list \<Rightarrow> bool" where
  "matchesCustomerTags requiredTags customerTags \<longleftrightarrow>
     requiredTags \<noteq> [] \<and> (\<exists>req \<in> set requiredTags. req \<in> set customerTags)"

definition applyDiscount :: "int64 \<Rightarrow> string \<Rightarrow> int64 \<Rightarrow> int64" where
  "applyDiscount price discountType value =
    (if discountType = ''percent'' then (let discount = word_of_int (sint (price * value) sdiv 100) in price - discount)
     else if discountType = ''fixed'' then (let result = price - value in if sint result < 0 then 0 else result)
     else price)"

definition discounted :: "pricing_rule \<Rightarrow> price_result \<Rightarrow> price_result" where
  "discounted rule r = r\<lparr>prs_EffectivePrice := applyDiscount (prs_EffectivePrice r) (ru_DiscountType rule) (ru_DiscountValue rule),
     prs_AppliedRules := prs_AppliedRules r @ [ru_Name rule]\<rparr>"

text \<open>One round of the loop over the rules.\<close>

definition apply_rule :: "price_input \<Rightarrow> pricing_rule \<Rightarrow> price_result \<Rightarrow> price_result" where
  "apply_rule inp rule r =
    (if \<not> ru_Active rule then r
     else if ru_Type rule = ''schedule_discount'' then
       (if matchesSchedule (ru_Conditions rule) (pin_Now inp) then discounted rule r else r)
     else if ru_Type rule = ''quantity_bonus'' then
       (if fless f64_zero (ru_BuyQuantity rule) \<and> fle (ru_BuyQuantity rule) (pin_Quantity inp)
        then (let sets = int64_of_f64 (fdiv (pin_Quantity inp) (ru_BuyQuantity rule)) in
          r\<lparr>prs_TotalQuantity := fadd (pin_Quantity inp) (fmul (f64_of_int64 sets) (ru_BonusQuantity rule)),
            prs_AppliedRules := prs_AppliedRules r @ [ru_Name rule]\<rparr>)
        else r)
     else if ru_Type rule = ''customer_discount'' then
       (if matchesCustomerTags (rc_CustomerTags (ru_Conditions rule)) (pin_CustomerTags inp) then discounted rule r else r)
     else r)"

definition CalculatePrice :: "uuid \<Rightarrow> uuid \<Rightarrow> price_input \<Rightarrow> ('a entity_db_scheme, price_result) op" where
  "CalculatePrice org eid inp =
    bnd (Get org eid True) (\<lambda>e.
    bnd (guard (e_Kind e \<noteq> ''product'') (NewNotFound ''product not found'')) (\<lambda>_.
    let (basePrice, rules) = foldl price_component (0, []) (e_Components e) in
    bnd (guard (basePrice = 0) (NewBadRequest ''product has no selling_price'')) (\<lambda>_.
    ret (fold (apply_rule inp) rules \<lparr>prs_BasePrice = basePrice, prs_EffectivePrice = basePrice,
      prs_TotalQuantity = pin_Quantity inp, prs_AppliedRules = []\<rparr>))))"

section \<open>Discounts\<close>

text \<open>Percentages from 0 to 100 and amounts that are not negative.\<close>

definition fair_rule :: "pricing_rule \<Rightarrow> bool" where
  "fair_rule r \<longleftrightarrow> (ru_DiscountType r = ''percent'' \<longrightarrow> 0 \<le> sint (ru_DiscountValue r) \<and> sint (ru_DiscountValue r) \<le> 100)
     \<and> (ru_DiscountType r = ''fixed'' \<longrightarrow> 0 \<le> sint (ru_DiscountValue r))"

lemma sdiv_100: "0 \<le> n \<Longrightarrow> n sdiv 100 = n div (100 :: int)"
  by (cases "n = 0") (simp_all add: signed_divide_int_def)

lemma applyDiscount_between:
  assumes "0 \<le> sint p" and "sint p * 100 < 2 ^ 63"
    and "ty = ''percent'' \<Longrightarrow> 0 \<le> sint v \<and> sint v \<le> 100" and "ty = ''fixed'' \<Longrightarrow> 0 \<le> sint v"
  shows "0 \<le> sint (applyDiscount p ty v) \<and> sint (applyDiscount p ty v) \<le> sint p"
proof -
  consider "ty = ''percent''" | "ty = ''fixed''" | "ty \<noteq> ''percent''" "ty \<noteq> ''fixed''" by blast
  then show ?thesis
  proof cases
    case 1
    let ?d = "sint p * sint v div 100"
    have v: "0 \<le> sint v" "sint v \<le> 100" using assms(3) [OF 1] by simp_all
    have m: "sint p * sint v \<le> sint p * 100" and m0: "0 \<le> sint p * sint v"
      using v assms(1) by (simp_all add: mult_left_mono)
    have "sint (p * v) = sint p * sint v"
      using m m0 assms(2) by (intro sint64_mult) linarith+
    then have "sint (p * v) sdiv 100 = ?d" by (simp add: sdiv_100 [OF m0])
    moreover have d: "0 \<le> ?d" "?d \<le> sint p" using m m0 by linarith+
    then have e: "sint (word_of_int ?d :: int64) = ?d" using sint64_range [of p] by (intro sint64_of_int) linarith+
    then have "sint (p - word_of_int ?d) = sint p - ?d"
      using d sint64_range [of p] by (subst sint64_minus) linarith+
    ultimately show ?thesis
      using 1 d by (simp add: applyDiscount_def)
  next
    case 2
    then have v: "0 \<le> sint v" using assms(4) by simp
    have "sint (p - v) = sint p - sint v"
      using v assms(1) sint64_range [of p] sint64_range [of v] by (intro sint64_minus) linarith+
    then show ?thesis using 2 v assms(1) by (simp add: applyDiscount_def)
  next
    case 3
    then show ?thesis using assms(1) by (simp add: applyDiscount_def)
  qed
qed

lemma apply_rules_base: "prs_BasePrice (fold (apply_rule inp) rules a) = prs_BasePrice a"
proof (induction rules arbitrary: a)
  case (Cons r rules)
  then show ?case by (simp add: apply_rule_def discounted_def Let_def)
qed simp

lemma apply_rules_between:
  assumes "\<forall>r \<in> set rules. fair_rule r" and "0 \<le> sint (prs_EffectivePrice a)"
    and "sint (prs_EffectivePrice a) \<le> sint (prs_BasePrice a)" and "sint (prs_BasePrice a) * 100 < 2 ^ 63"
  shows "0 \<le> sint (prs_EffectivePrice (fold (apply_rule inp) rules a))
    \<and> sint (prs_EffectivePrice (fold (apply_rule inp) rules a)) \<le> sint (prs_BasePrice a)"
  using assms
proof (induction rules arbitrary: a)
  case (Cons r rules)
  have "0 \<le> sint (prs_EffectivePrice (apply_rule inp r a))
      \<and> sint (prs_EffectivePrice (apply_rule inp r a)) \<le> sint (prs_EffectivePrice a)
      \<and> prs_BasePrice (apply_rule inp r a) = prs_BasePrice a"
    using applyDiscount_between [of "prs_EffectivePrice a" "ru_DiscountType r" "ru_DiscountValue r"] Cons.prems
    by (auto simp: apply_rule_def discounted_def fair_rule_def Let_def)
  then show ?case using Cons.IH [of "apply_rule inp r a"] Cons.prems by auto
qed simp

section \<open>The clock\<close>

definition hhmm :: "int \<Rightarrow> string" where
  "hhmm n = padded 2 (n div 60) @ '':'' @ padded 2 (n mod 60)"

definition minute_of_day :: "time \<Rightarrow> int" where
  "minute_of_day t = t div (60 * 1000000000) mod 1440"

lemma clock_hhmm: "clock t = hhmm (minute_of_day t)"
proof -
  let ?s = "t div 1000000000 mod 86400"
  have "t div 60000000000 = t div 1000000000 div 60" using zdiv_zmult2_eq [of 60 t 1000000000] by simp
  moreover have "n div 60 mod 1440 = n mod 86400 div 60" for n :: int
  proof -
    have "n mod (60 * 1440) = 60 * (n div 60 mod 1440) + n mod 60" by (rule zmod_zmult2_eq) simp
    then have "n mod 86400 div 60 = (60 * (n div 60 mod 1440) + n mod 60) div 60" by simp
    also have "\<dots> = n div 60 mod 1440" by (subst div_mult_self4) simp_all
    finally show ?thesis by simp
  qed
  ultimately have "minute_of_day t = ?s div 60" by (simp add: minute_of_day_def)
  moreover have "?s div 3600 = ?s div 60 div 60" by (simp add: zdiv_zmult2_eq)
  ultimately show ?thesis by (simp add: clock_def hhmm_def Let_def)
qed

lemma padded_2:
  assumes "0 \<le> n" and "n < 100"
  shows "padded 2 n = [char_of (48 + nat n div 10), char_of (48 + nat n mod 10)]"
proof (cases "n < 10")
  case True
  then have "nat n < 10" using assms by simp
  then have "dec_nat (nat n) = [char_of (48 + nat n)]" by (subst dec_nat.simps) simp
  moreover have "CHR ''0'' = char_of (48 :: nat)" by code_simp
  ultimately show ?thesis using assms \<open>nat n < 10\<close> by (simp add: padded_def Let_def numeral_2_eq_2)
next
  case False
  then have "\<not> nat n < 10" "nat n div 10 < 10" using assms by (simp_all add: nat_less_iff div_less_iff_less_mult)
  then have "dec_nat (nat n) = [char_of (48 + nat n div 10), char_of (48 + nat n mod 10)]"
    by (subst dec_nat.simps, subst dec_nat.simps) simp
  then show ?thesis using assms by (simp add: padded_def Let_def)
qed

lemma str_le_pair:
  "str_le [char_of a, char_of b, x, char_of c, char_of d] [char_of a', char_of b', x, char_of c', char_of d']
    \<longleftrightarrow> 10 * a + b < 10 * a' + b' \<or> 10 * a + b = 10 * a' + b' \<and> 10 * c + d \<le> 10 * c' + d'"
  if "\<And>n. n \<in> {a, b, c, d, a', b', c', d'} \<Longrightarrow> 48 \<le> n \<and> n \<le> 57" for a b c d a' b' c' d' :: nat
proof -
  have m: "n mod 256 = n" if "n \<in> {a, b, c, d, a', b', c', d'}" for n
    using that \<open>\<And>n. n \<in> {a, b, c, d, a', b', c', d'} \<Longrightarrow> 48 \<le> n \<and> n \<le> 57\<close> [of n] by simp
  have c: "char_of n = (char_of n' :: char) \<longleftrightarrow> n = n'" if "n \<in> {a, b, c, d, a', b', c', d'}" "n' \<in> {a, b, c, d, a', b', c', d'}" for n n'
    using m [OF that(1)] m [OF that(2)] by (metis of_char_of)
  have bounds: "48 \<le> a" "a \<le> 57" "48 \<le> b" "b \<le> 57" "48 \<le> c" "c \<le> 57" "48 \<le> d" "d \<le> 57"
    "48 \<le> a'" "a' \<le> 57" "48 \<le> b'" "b' \<le> 57" "48 \<le> c'" "c' \<le> 57" "48 \<le> d'" "d' \<le> 57"
    using that by blast+
  show ?thesis
    using bounds by (simp add: c m) linarith
qed

lemma hhmm_order:
  assumes "0 \<le> a" "a < 1440" "0 \<le> b" "b < 1440"
  shows "str_le (hhmm a) (hhmm b) \<longleftrightarrow> a \<le> b"
proof -
  have "a div 60 < 24" "b div 60 < 24" "0 \<le> a div 60" "0 \<le> b div 60" using assms by simp_all
  moreover have "0 \<le> a mod 60" "0 \<le> b mod 60" "a mod 60 < 60" "b mod 60 < 60" by simp_all
  ultimately have h: "hhmm a = [char_of (48 + nat (a div 60) div 10), char_of (48 + nat (a div 60) mod 10), CHR '':'',
        char_of (48 + nat (a mod 60) div 10), char_of (48 + nat (a mod 60) mod 10)]"
      "hhmm b = [char_of (48 + nat (b div 60) div 10), char_of (48 + nat (b div 60) mod 10), CHR '':'',
        char_of (48 + nat (b mod 60) div 10), char_of (48 + nat (b mod 60) mod 10)]"
    by (simp_all add: hhmm_def padded_2)
  have n: "nat (a div 60) = nat a div 60" "nat (b div 60) = nat b div 60" "nat (a mod 60) = nat a mod 60" "nat (b mod 60) = nat b mod 60"
    using assms by (simp_all add: nat_div_distrib nat_mod_distrib)
  have "nat a < 1440" "nat b < 1440" using assms by simp_all
  have "a \<le> b \<longleftrightarrow> nat a \<le> nat b" using assms by linarith
  also have "\<dots> \<longleftrightarrow> nat a div 60 < nat b div 60 \<or> nat a div 60 = nat b div 60 \<and> nat a mod 60 \<le> nat b mod 60"
    using mult_div_mod_eq [of 60 "nat a"] mult_div_mod_eq [of 60 "nat b"] mod_less_divisor [of 60 "nat a"]
      mod_less_divisor [of 60 "nat b"] by linarith
  also have "\<dots> \<longleftrightarrow> str_le (hhmm a) (hhmm b)"
    unfolding h n
    by (subst str_le_pair) (use \<open>nat a < 1440\<close> \<open>nat b < 1440\<close> in \<open>auto simp: div_less_iff_less_mult\<close>)
  finally show ?thesis by simp
qed

lemma minute_of_day_in: "0 \<le> minute_of_day t" "minute_of_day t < 1440"
  by (simp_all add: minute_of_day_def)

section \<open>Properties\<close>

text \<open>
  The day of the week by the ISO count, Monday 1 to Sunday 7, from the calendar: January 1, 2024 was a
  Monday.
\<close>

definition iso_weekday :: "time \<Rightarrow> int" where
  "iso_weekday t = (t - midnight \<lparr>c_Year = 2024, c_Month = 1, c_Day = 1\<rparr>) div (24 * 60 * 60 * 1000000000) mod 7 + 1"

lemma iso_weekday_day: "iso_weekday t = (t div 86400000000000 - 19723) mod 7 + 1"
proof -
  have "midnight \<lparr>c_Year = 2024, c_Month = 1, c_Day = 1\<rparr> = 19723 * 86400000000000"
    by (simp add: midnight_def day_number_def)
  moreover have "(t + - 19723 * 86400000000000) div 86400000000000 = - 19723 + t div 86400000000000"
    by (rule div_mult_self1) simp
  ultimately show ?thesis by (simp add: iso_weekday_def)
qed

lemma weekday_iso: "weekday t = iso_weekday t"
proof -
  have "(let w = (n + 4) mod 7 in if w = 0 then 7 else w) = (n - 19723) mod 7 + 1" for n :: int
  proof -
    let ?m = "(n + 3) mod 7"
    have "(n + 3 + - 2818 * 7) mod 7 = ?m" by (rule mod_mult_self1)
    then have 1: "(n - 19723) mod 7 = ?m" by simp
    have "(?m + 1) mod 7 = (n + 3 + 1) mod 7" by (rule mod_add_left_eq)
    then have 2: "(n + 4) mod 7 = (?m + 1) mod 7" by (simp add: add.commute)
    have m: "0 \<le> ?m" "?m < 7" by simp_all
    show ?thesis
    proof (cases "?m = 6")
      case True
      then show ?thesis unfolding 1 2 by simp
    next
      case False
      with m have "(?m + 1) mod 7 = ?m + 1" by (intro mod_pos_pos_trivial) linarith+
      then show ?thesis using m unfolding 1 2 by (simp add: Let_def)
    qed
  qed
  then show ?thesis by (simp add: weekday_def iso_weekday_day)
qed

text \<open>A value that may be absent, as the empty string stands for it.\<close>

definition or_empty :: "('a \<Rightarrow> string) \<Rightarrow> 'a option \<Rightarrow> string" where
  "or_empty f x = (case x of None \<Rightarrow> [] | Some v \<Rightarrow> f v)"

text \<open>C37: A schedule is compared as strings and means what it says: for times of day written as two digits of
  hours and two of minutes and dates written as year, month and day, each of which may be absent, it
  matches exactly on the given days of the week (any, if none are given; Sunday is 7), from the
  midnight that begins the first date to the midnight that ends the last one (that instant
  included), and, when both times are given, from the first minute of the day to the last.\<close>

theorem matchesSchedule_meaning:
  assumes "rc_TimeFrom cond = or_empty hhmm f" and "\<forall>m \<in> set_option f. 0 \<le> m \<and> m < 1440"
    and "rc_TimeTo cond = or_empty hhmm u" and "\<forall>m \<in> set_option u. 0 \<le> m \<and> m < 1440"
    and "rc_ValidFrom cond = or_empty format_date vf"
    and "\<forall>c \<in> set_option vf. civil_ok c \<and> 0 \<le> c_Year c \<and> c_Year c \<le> 9999"
    and "rc_ValidTo cond = or_empty format_date vt"
    and "\<forall>c \<in> set_option vt. civil_ok c \<and> 0 \<le> c_Year c \<and> c_Year c \<le> 9999"
  shows "matchesSchedule cond t \<longleftrightarrow>
    (rc_DaysOfWeek cond = [] \<or> iso_weekday t \<in> sint ` set (rc_DaysOfWeek cond)) \<and>
    (\<forall>c \<in> set_option vf. midnight c \<le> t) \<and>
    (\<forall>c \<in> set_option vt. t \<le> midnight c + 24 * 60 * 60 * 1000000000) \<and>
    (\<forall>m \<in> set_option f. \<forall>n \<in> set_option u. m \<le> minute_of_day t \<and> minute_of_day t \<le> n)"
proof -
  have dates: "parse_date (rc_ValidFrom cond) = vf" "parse_date (rc_ValidTo cond) = vt"
    using assms(5-8) by (auto simp: or_empty_def parse_format_date split: option.splits)
  have times: "rc_TimeFrom cond \<noteq> [] \<longleftrightarrow> f \<noteq> None" "rc_TimeTo cond \<noteq> [] \<longleftrightarrow> u \<noteq> None"
    using assms(1,3) by (auto simp: or_empty_def hhmm_def split: option.splits)
  have days: "word_of_int (weekday t) \<in> set ds \<longleftrightarrow> iso_weekday t \<in> sint ` set ds" for ds :: "int64 list"
  proof -
    have "0 \<le> iso_weekday t" "iso_weekday t \<le> 7" by (simp_all add: iso_weekday_def)
    then have "sint (word_of_int (iso_weekday t) :: int64) = iso_weekday t" by (intro sint64_of_int) simp_all
    then have "word_of_int (iso_weekday t) \<in> A \<longleftrightarrow> iso_weekday t \<in> sint ` A" for A :: "int64 set"
      by (auto simp: image_iff intro: bexI [of _ "word_of_int (iso_weekday t)"])
    then show ?thesis unfolding weekday_iso .
  qed
  show ?thesis
    unfolding matchesSchedule_def dates times days
    using assms(1-4) minute_of_day_in [of t]
    by (cases f; cases u; cases vf; cases vt) (auto simp: or_empty_def clock_hhmm hhmm_order not_less)
qed

text \<open>A window over midnight never matches.\<close>

lemma overnight_never_matches:
  assumes "rc_TimeFrom cond = hhmm f" "0 \<le> f" "f < 1440" "rc_TimeTo cond = hhmm u" "0 \<le> u" "u < 1440" "u < f"
  shows "\<not> matchesSchedule cond t"
proof -
  have "hhmm f \<noteq> []" "hhmm u \<noteq> []" by (simp_all add: hhmm_def)
  then show ?thesis
    using assms minute_of_day_in [of t] by (auto simp: matchesSchedule_def clock_hhmm hhmm_order)
qed

text \<open>The rules of a product, as the tables have them.\<close>

definition rules_in :: "uuid \<Rightarrow> uuid \<Rightarrow> 'a entity_db_scheme \<Rightarrow> pricing_rule list" where
  "rules_in org eid d = concat (map (\<lambda>c. rules_of (c_Data c)) (filter (\<lambda>c. c_OrganizationID c = org \<and> c_EntityID c = eid
     \<and> c_Type c = ''pricing_rules'') (t_components d)))"

lemma set_insert_by_type: "set (foldr insert_by_type cs []) = set cs"
proof (induction cs)
  case (Cons c cs)
  have "set (insert_by_type c xs) = insert c (set xs)" for xs by (induction xs) auto
  then show ?case using Cons by simp
qed simp

lemma price_components_rules:
  assumes "\<forall>c \<in> set cs. c_Type c = ''pricing_rules'' \<longrightarrow> set (rules_of (c_Data c)) \<subseteq> R" and "set (snd a) \<subseteq> R"
  shows "set (snd (foldl price_component a cs)) \<subseteq> R"
  using assms
proof (induction cs arbitrary: a)
  case (Cons c cs)
  have "set (snd (price_component a c)) \<subseteq> R"
    using Cons.prems by (cases a) (simp add: price_component_def)
  then show ?case using Cons by simp
qed simp

text \<open>C36: Whatever fails, a price that is calculated from a base price that is not negative and below
  \<open>2 ^ 63 / 100\<close> kopecks is between 0 and the base price, when the rules stored with the product have
  percentages from 0 to 100 and no negative amounts.\<close>

theorem price_within_base:
  assumes "fst (CalculatePrice org eid inp env (start d)) = Inr r"
    and "\<forall>rule \<in> set (rules_in org eid d). fair_rule rule"
    and "0 \<le> sint (prs_BasePrice r)" and "sint (prs_BasePrice r) * 100 < 2 ^ 63"
  shows "0 \<le> sint (prs_EffectivePrice r) \<and> sint (prs_EffectivePrice r) \<le> sint (prs_BasePrice r)"
proof -
  let ?ok = "\<lambda>r. 0 \<le> sint (prs_BasePrice r) \<longrightarrow> sint (prs_BasePrice r) * 100 < 2 ^ 63 \<longrightarrow>
      0 \<le> sint (prs_EffectivePrice r) \<and> sint (prs_EffectivePrice r) \<le> sint (prs_BasePrice r)"
  have "wp env (CalculatePrice org eid inp) (\<lambda>r _. ?ok r) (\<lambda>_ _. True) (start d)"
    unfolding CalculatePrice_def Get_def GetByID_def ListComponents_def
  proof (simp add: wp_simps query_simps start_def split: option.split, intro impI, goal_cases)
    case 1
    let ?cs = "filter (\<lambda>c. c_OrganizationID c = org \<and> c_EntityID c = eid) (t_components d)"
    obtain base rules where f: "foldl price_component (0, []) (foldr insert_by_type ?cs []) = (base, rules)" by fastforce
    have "set (snd (foldl price_component (0, []) (foldr insert_by_type ?cs []))) \<subseteq> set (rules_in org eid d)"
      by (rule price_components_rules) (auto simp: set_insert_by_type rules_in_def)
    then have "\<forall>rule \<in> set rules. fair_rule rule" using assms(2) f by auto
    then show ?case
      using apply_rules_between [of rules "\<lparr>prs_BasePrice = base, prs_EffectivePrice = base,
          prs_TotalQuantity = pin_Quantity inp, prs_AppliedRules = []\<rparr>" inp]
      by (simp add: f wp_simps apply_rules_base)
  qed
  then show ?thesis using assms by (auto simp: wp_def split: prod.splits sum.splits)
qed

section \<open>Witnesses\<close>

text \<open>The first four days of 1970, Thursdays and Sundays only, from nine to six.\<close>

definition new_year :: "int \<Rightarrow> civil" where
  "new_year day = \<lparr>c_Year = 1970, c_Month = 1, c_Day = day\<rparr>"

definition sample_schedule :: rule_conditions where
  "sample_schedule = zero_conditions\<lparr>rc_TimeFrom := hhmm 540, rc_TimeTo := hhmm 1080, rc_DaysOfWeek := [4, 7],
     rc_ValidFrom := format_date (new_year 1), rc_ValidTo := format_date (new_year 4)\<rparr>"

text \<open>The instant of an hour of a day of January 1970.\<close>

definition at_hour :: "int \<Rightarrow> int \<Rightarrow> time" where
  "at_hour day hour = ((day - 1) * 24 + hour) * 3600000000000"

theorem matchesSchedule_meaning_witness:
  "matchesSchedule sample_schedule (at_hour 1 10) \<and> matchesSchedule sample_schedule (at_hour 4 10)
    \<and> \<not> matchesSchedule sample_schedule (at_hour 3 10) \<and> \<not> matchesSchedule sample_schedule (at_hour 1 20)
    \<and> \<not> matchesSchedule sample_schedule (at_hour 8 10)"
proof -
  have d: "civil_ok (new_year 1)" "civil_ok (new_year 4)" "c_Year (new_year n) = 1970"
    "midnight (new_year 1) = 0" "midnight (new_year 4) = 3 * 86400000000000" for n
    by (simp_all add: new_year_def civil_ok_def days_in_def midnight_def day_number_def)
  have "matchesSchedule sample_schedule t \<longleftrightarrow> (rc_DaysOfWeek sample_schedule = []
      \<or> iso_weekday t \<in> sint ` set (rc_DaysOfWeek sample_schedule)) \<and>
    (\<forall>c \<in> set_option (Some (new_year 1)). midnight c \<le> t) \<and>
    (\<forall>c \<in> set_option (Some (new_year 4)). t \<le> midnight c + 24 * 60 * 60 * 1000000000) \<and>
    (\<forall>m \<in> set_option (Some 540). \<forall>n \<in> set_option (Some 1080). m \<le> minute_of_day t \<and> minute_of_day t \<le> n)" for t
    by (rule matchesSchedule_meaning) (simp_all add: sample_schedule_def or_empty_def d)
  then show ?thesis
    by (simp add: d sample_schedule_def minute_of_day_def at_hour_def iso_weekday_day)
qed

text \<open>A product for a hundred roubles, with ten percent off for regular customers.\<close>

definition sample_component :: "string \<Rightarrow> json \<Rightarrow> component" where
  "sample_component ty j = \<lparr>c_ID = 2, c_EntityID = 3, c_OrganizationID = 7, c_Type = ty, c_Data = j, c_Version = 1,
     c_CreatedAt = 0, c_UpdatedAt = 0\<rparr>"

lemma sample_component_fields [simp]:
  "c_EntityID (sample_component ty j) = 3" "c_OrganizationID (sample_component ty j) = 7"
  "c_Type (sample_component ty j) = ty" "c_Data (sample_component ty j) = j"
  by (simp_all add: sample_component_def)

definition regulars :: json where
  "regulars = JObj [(''rules'', JArr [JObj [(''name'', JStr ''regulars''), (''type'', JStr ''customer_discount''),
     (''discount_type'', JStr ''percent''), (''discount_value'', JInt 10), (''active'', JBool True),
     (''conditions'', JObj [(''customer_tags'', JArr [JStr ''regular''])])]])]"

definition sample_shop :: entity_db where
  "sample_shop = \<lparr>t_events = [], t_entities = [\<lparr>e_ID = 3, e_OrganizationID = 7, e_Kind = ''product'', e_Name = ''tea'',
       e_Status = ''active'', e_ParentID = None, e_Meta = None, e_SortOrder = 0, e_CreatedAt = 0, e_UpdatedAt = 0,
       e_DeletedAt = None, e_Components = []\<rparr>],
     t_components = [sample_component ''price'' (JObj [(''selling_price'', JInt 10000)]),
       sample_component ''pricing_rules'' regulars]\<rparr>"

definition sample_price :: price_result where
  "sample_price = \<lparr>prs_BasePrice = 10000, prs_EffectivePrice = 9000, prs_TotalQuantity = Fin 1,
     prs_AppliedRules = [''regulars'']\<rparr>"

lemma regulars_rules:
  "rules_of regulars = [zero_rule\<lparr>ru_Name := ''regulars'', ru_Type := ''customer_discount'', ru_DiscountType := ''percent'',
     ru_DiscountValue := 10, ru_Active := True, ru_Conditions := zero_conditions\<lparr>rc_CustomerTags := [''regular'']\<rparr>\<rparr>]"
  by (simp add: rules_of_def regulars_def decode_struct_def field_def decode_list_def decode_rule_def decode_conditions_def
      decode_string_def decode_int64_def decode_bool_def find_field_def zero_rule_def)

lemma sample_price_calculated:
  "fst (CalculatePrice 7 3 \<lparr>pin_Quantity = Fin 1, pin_CustomerTags = [''regular''], pin_Now = 0\<rparr> (env_ok Some) (start sample_shop))
    = Inr sample_price"
proof -
  have p: "selling_price (JObj [(''selling_price'', JInt 10000)]) = Some 10000"
    using int64_of_f64_of_int [of 10000] by (simp add: selling_price_def f64_of_int_small jget_def del: int64_of_f64.simps)
  have c: "foldl price_component (0, []) (foldr insert_by_type
      [sample_component ''price'' (JObj [(''selling_price'', JInt 10000)]), sample_component ''pricing_rules'' regulars] [])
    = (10000, rules_of regulars)"
    by (simp add: price_component_def p)
  have r: "fold (apply_rule \<lparr>pin_Quantity = Fin 1, pin_CustomerTags = [''regular''], pin_Now = 0\<rparr>) (rules_of regulars)
      \<lparr>prs_BasePrice = 10000, prs_EffectivePrice = 10000, prs_TotalQuantity = Fin 1, prs_AppliedRules = []\<rparr> = sample_price"
    by (simp add: regulars_rules zero_rule_def zero_conditions_def apply_rule_def discounted_def matchesCustomerTags_def
        applyDiscount_def sample_price_def Let_def signed_divide_int_def)
  show ?thesis
    using c r
    by (simp add: CalculatePrice_def Get_def GetByID_def ListComponents_def run_simps find_entity_def entity_row_def
        sample_shop_def)
qed

theorem price_within_base_witness:
  "0 \<le> sint (prs_EffectivePrice sample_price) \<and> sint (prs_EffectivePrice sample_price) \<le> sint (prs_BasePrice sample_price)"
proof (rule price_within_base [OF sample_price_calculated])
  show "\<forall>rule \<in> set (rules_in 7 3 sample_shop). fair_rule rule"
    by (simp add: rules_in_def sample_shop_def regulars_rules fair_rule_def zero_rule_def)
qed (simp_all add: sample_price_def)

end
