(* ===== verification/Spec2Isabelle.thy ===== *)
theory Spec2Isabelle
  imports Rbac EventBus Money Stocktaking OrderBook Books Reactions Deliveries HrRuns Accounts RateLimits Idempotency Space Prices
begin

text \<open>
  BizEngine is a multi-tenant business server: a Go process over PostgreSQL and Redis. Everything a
  company has is an \<^emph>\<open>entity\<close> (a row with a kind, a name, a status and a parent) with JSON
  \<^emph>\<open>components\<close>; modules (warehouse, orders, finance, logistics, human resources, catalog, space) keep
  their own tables beside it, publish events on an in-process bus, and react to each other's
  events; a process engine runs state machines over the same events; the REST layer in front
  authenticates, checks permissions, limits rates and makes requests idempotent. This development
  models those parts from the sources under \<open>src/\<close> and proves what they keep.

  \<^bold>\<open>Foundations.\<close> \<open>Prelude\<close>: names of the basic types, theorem collections, facts on \<open>int64\<close> words.
  \<open>Float64\<close>: IEEE doubles as exact rationals rounded to nearest even, infinities and NaN; Go's
  conversions. \<open>Column\<close>: a double written to a \<open>NUMERIC(15,4)\<close> column and read back (locale
  \<open>numeric_column\<close>). \<open>Money\<close> (\<open>pkg/money\<close>), \<open>Dates\<close> (calendar dates and the layouts used), \<open>Errs\<close>
  (\<open>pkg/errs\<close>), \<open>Types\<close> (\<open>pkg/types\<close>, JSON values).
  \<open>Tx\<close>: a service method is an \<open>op\<close>, a function of an environment and a world. The world has the
  committed tables, the writes of the open transaction, the published events and a counter of
  steps; the environment decides for every step whether the statement fails, what identifier is
  fresh and what the clock shows. \<open>with_tx\<close> is \<open>WithTx\<close> of \<open>storage/postgres\<close>, \<open>pool_stmt\<close> a statement
  outside it, \<open>publish\<close> the bus. \<open>wp\<close> is the weakest precondition of an \<open>op\<close> for its result and its
  error; \<open>quiet\<close>, \<open>atomic\<close>, \<open>frame\<close>, \<open>reads\<close>, \<open>moves\<close> are properties of operations that compose.
  \<open>Store\<close>: tables as lists of rows, upserts and updates (locale \<open>keyed_store\<close>). \<open>Views\<close>: the state a
  transaction sees, and the locale \<open>transition\<close> for relations every statement keeps. \<open>Pooled\<close>:
  services without transactions, runs of requests (locale \<open>service\<close>). A run serves one request after
  the other, each in an environment of its own, so a theorem over runs holds whatever fails.

  \<^bold>\<open>Entities.\<close> \<open>Entities\<close>: \<open>core/entity/service.go\<close> over \<open>entity_repo.go\<close>: creation with components is
  atomic, and an organization's writes leave the rows of others alone. \<open>Listing\<close>: the filtered, paged
  listing, and the decoding of JSON into structs the modules share.

  \<^bold>\<open>Events.\<close> \<open>EventBus\<close>: \<open>core/event\<close>: in any interleaving of subscriptions, publications and handler
  goroutines a publication owes one delivery to every request made before it that wants its type. \<open>Wiring\<close>: the subscriptions of
  \<open>cmd/server/main.go\<close>; \<open>Reactions\<close>: what orders, finance and stock do to each other through them.

  \<^bold>\<open>Warehouse.\<close> \<open>Warehouse\<close>: \<open>module/warehouse\<close>; \<open>Stock\<close>: the invariant of the levels, exact effects of
  reservation, release and transfer; \<open>Stocktaking\<close>: atomicity of every operation, counts, average cost.

  \<^bold>\<open>Orders.\<close> \<open>Orders\<close>: \<open>module/order\<close>; \<open>OrderLife\<close>: the abstract machine of an order; \<open>OrderRuns\<close>: every
  method refines it and keeps the totals; \<open>OrderBook\<close>: numbers, success of \<open>Create\<close>, refunds.

  \<^bold>\<open>Finance.\<close> \<open>Finance\<close>: \<open>module/finance\<close> with the double-entry trigger of migration 011; \<open>Journal\<close>: the
  abstract journal and the refinement; \<open>Books\<close>: posted entries balance and stay, closed periods
  refuse, automatic entries, the trial balance.

  \<^bold>\<open>Processes.\<close> \<open>Dsl\<close>: \<open>pkg/dsl\<close> and what its validator accepts; \<open>Process\<close>: \<open>core/process/engine.go\<close>;
  \<open>ProcessRuns\<close>: histories are walks in the definition's graph and are never rewritten (locale
  \<open>instance_relation\<close>); \<open>Fulfillment\<close>: the shipped order process beside the order service.

  \<^bold>\<open>Logistics, HR, catalog, space.\<close> \<open>Logistics\<close>, \<open>Deliveries\<close>: routes and the order of their stops. \<open>Hr\<close>,
  \<open>HrRuns\<close>: shifts, timesheets, payrolls, absences. \<open>Catalog\<close>: products and categories; \<open>Prices\<close>: pricing
  rules. \<open>Space\<close>: boxes, placements and the route that sets an entity's bounds.

  \<^bold>\<open>Accounts and the REST layer.\<close> \<open>Rbac\<close>: \<open>core/auth/rbac.go\<close>. \<open>Secrets\<close>: \<open>argon2.go\<close>, with the hash
  function an argument. \<open>Sessions\<close>: registration, login, logout, switching, the middlewares, and the
  account routes, over the account tables and the session store in Redis; \<open>Accounts\<close>: what a session
  is worth after any run of these requests. \<open>RateLimits\<close>: \<open>ratelimit.go\<close> over traces with clock
  readings. \<open>Idempotency\<close>: \<open>idempotency.go\<close> as a step relation that interleaves the Redis commands of
  concurrent requests.

  \<^bold>\<open>Numbers and bounds.\<close> \<open>int64\<close> is a 64-bit word that wraps, \<open>float64\<close> rounds; bounds in theorems (such
  as a salary below \<open>2 ^ 45\<close> kopecks or a price below \<open>2 ^ 63 / 100\<close>) keep the arithmetic they are
  about from wrapping. Every model function is total without fuel; loops that are not structural
  have a measure. Times are nanoseconds on a UTC clock, cut to microseconds by the columns.

  \<^bold>\<open>Assumptions.\<close> What PostgreSQL, Redis and packages decide is an argument: the order and \<open>ILIKE\<close> of a
  listing, \<open>lower\<close>, the text of a JSON value, \<open>argon2\<close>, the order of a map's iteration. JSON objects
  have distinct member names. A violated foreign key shows as a failing statement of the
  environment. Requests are served one at a time, except in \<open>EventBus\<close>, \<open>RateLimits\<close> and \<open>Idempotency\<close>.
  \<open>reliable env\<close> marks the theorems that ask for every statement to be executed.

  \<^bold>\<open>Not modelled.\<close> The modules messenger, banking, CRM, settings and files; webhooks, notifications,
  data import, documents, exports and analytics; the clients of banks, tax and labelling services
  under \<open>internal/integration\<close> and of Centrifugo and S3 (network protocols of services whose code is
  not here); the read-only graphs under \<open>internal/graphs\<close>; configuration, seeding, code generation
  and the construction of the server; REST handlers that only decode a request, call a modelled
  method and encode its answer. Paged listings of the modules that only read are left out where no
  property needs them.
\<close>

end
